(* ===== verification/Prelude.thy ===== *)
theory Prelude
  imports
    Complex_Main
    "HOL-Library.AList"
    "HOL-Library.Char_ord"
    "HOL-Library.List_Lexorder"
begin

text \<open>
  Shared notions of the development: Python dictionaries as insertion-ordered association
  lists, bounded deques, the result monad that stands for \<open>raise\<close>, decimal rendering of
  integers, and the generic lemmas the component theories rely on.
\<close>

section \<open>Fact collections\<close>

named_theorems frame_simps \<open>fields of the state that an operation leaves alone\<close>
named_theorems inv_intros \<open>an operation keeps an invariant\<close>
named_theorems str_simps \<open>concrete renderings of enumerations\<close>

section \<open>Dictionaries\<close>

text \<open>
  A Python dictionary remembers the order in which its keys were first inserted; overwriting
  a key keeps its place.  \<open>AList.update\<close> and \<open>AList.delete\<close> do just that.
  Mutating the object stored under a key through a reference is \<open>dmod\<close>.
\<close>

type_synonym 'v dict = "(string \<times> 'v) list"

abbreviation keys :: "('k \<times> 'v) list \<Rightarrow> 'k list" where
  "keys d \<equiv> map fst d"

abbreviation vals :: "('k \<times> 'v) list \<Rightarrow> 'v list" where
  "vals d \<equiv> map snd d"

definition dmod :: "'k \<Rightarrow> ('v \<Rightarrow> 'v) \<Rightarrow> ('k \<times> 'v) list \<Rightarrow> ('k \<times> 'v) list" where
  "dmod k f d = map (\<lambda>(k', v). (k', if k' = k then f v else v)) d"

lemma keys_dmod [simp]: "keys (dmod k f d) = keys d"
  by (auto simp: dmod_def)

lemma length_dmod [simp]: "length (dmod k f d) = length d"
  by (simp add: dmod_def)

lemma map_of_dmod: "map_of (dmod k f d) k' = (if k' = k then map_option f (map_of d k) else map_of d k')"
  by (induction d) (auto simp: dmod_def)

lemma map_of_dmod_same [simp]: "map_of (dmod k f d) k = map_option f (map_of d k)"
  by (simp add: map_of_dmod)

lemma map_of_dmod_other [simp]: "k' \<noteq> k \<Longrightarrow> map_of (dmod k f d) k' = map_of d k'"
  by (simp add: map_of_dmod)

lemma dmod_eq_dom: "dom (map_of (dmod k f d)) = dom (map_of d)"
  by (simp add: dom_map_of_conv_image_fst del: set_map flip: set_map)

lemma distinct_keys_update: "distinct (keys d) \<Longrightarrow> distinct (keys (AList.update k v d))"
  by (rule distinct_update)

lemma distinct_keys_delete: "distinct (keys d) \<Longrightarrow> distinct (keys (AList.delete k d))"
  by (rule distinct_delete)

lemma update_fresh: "k \<notin> set (keys d) \<Longrightarrow> AList.update k v d = d @ [(k, v)]"
  by (induction d) auto

lemma length_update_le: "length (AList.update k v d) \<le> Suc (length d)"
  by (induction d) auto

lemma length_delete_le: "length (AList.delete k d) \<le> length d"
  by (induction d) (auto simp: le_SucI)

lemma length_delete_less: "map_of d k = Some v \<Longrightarrow> length (AList.delete k d) < length d"
proof (induction d)
  case (Cons p d)
  then show ?case
    using length_delete_le [of k d] by (cases p) (auto simp: less_Suc_eq_le split: if_splits)
qed simp

lemma length_delete_present:
  "distinct (keys d) \<Longrightarrow> map_of d k = Some v \<Longrightarrow> Suc (length (AList.delete k d)) = length d"
proof (induction d)
  case (Cons p d)
  obtain a b where p: "p = (a, b)" by (cases p)
  show ?case
  proof (cases "a = k")
    case True
    with Cons.prems p have "k \<notin> set (keys d)" by auto
    then have "AList.delete k d = d"
      by (simp add: delete_idem)
    with True p show ?thesis by simp
  next
    case False
    with Cons p show ?thesis by simp
  qed
qed simp

lemma map_of_delete_iff:
  "map_of (AList.delete k d) k' = Some v \<longleftrightarrow> k' \<noteq> k \<and> map_of d k' = Some v"
  by (auto simp: delete_conv')

lemma set_delete_subset: "set (AList.delete k d) \<subseteq> set d"
  by (induction d) auto

lemma map_of_in_vals: "map_of d k = Some v \<Longrightarrow> v \<in> set (vals d)"
  by (force dest: map_of_SomeD)

section \<open>Bounded deques\<close>

text \<open>\<open>deque(maxlen=n).append(x)\<close>: the oldest entries fall off at the left.\<close>

definition deque_append :: "nat \<Rightarrow> 'a \<Rightarrow> 'a list \<Rightarrow> 'a list" where
  "deque_append n x xs = drop (Suc (length xs) - n) (xs @ [x])"

lemma length_deque_append: "length (deque_append n x xs) = min n (Suc (length xs))"
  by (auto simp: deque_append_def)

lemma length_deque_append_le: "length (deque_append n x xs) \<le> n"
  by (simp add: length_deque_append)

lemma last_deque_append: "0 < n \<Longrightarrow> last (deque_append n x xs) = x"
  by (simp add: deque_append_def)

lemma set_deque_append: "set (deque_append n x xs) \<subseteq> insert x (set xs)"
proof -
  have "set (deque_append n x xs) \<subseteq> set (xs @ [x])"
    unfolding deque_append_def by (rule set_drop_subset)
  then show ?thesis by simp
qed

lemma deque_append_in: "0 < n \<Longrightarrow> x \<in> set (deque_append n x xs)"
  by (simp add: deque_append_def)

section \<open>Results\<close>

text \<open>
  A function that may \<open>raise\<close> returns \<open>'e + 'a\<close>: \<open>Inl\<close> carries the exception.
  \<open>rbind\<close> stops at the first exception, as statement sequencing does.
\<close>

fun rbind :: "'e + 'a \<Rightarrow> ('a \<Rightarrow> 'e + 'b) \<Rightarrow> 'e + 'b" where
  "rbind (Inl e) f = Inl e"
| "rbind (Inr x) f = f x"

lemma rbind_eq_Inr: "rbind m f = Inr y \<longleftrightarrow> (\<exists>x. m = Inr x \<and> f x = Inr y)"
  by (cases m) auto

lemma rbind_eq_Inl: "rbind m f = Inl e \<longleftrightarrow> m = Inl e \<or> (\<exists>x. m = Inr x \<and> f x = Inl e)"
  by (cases m) auto

text \<open>\<open>except E as error: raise F(error) from error\<close>\<close>

fun map_error :: "('e \<Rightarrow> 'f) \<Rightarrow> 'e + 'a \<Rightarrow> 'f + 'a" where
  "map_error h (Inl e) = Inl (h e)"
| "map_error h (Inr x) = Inr x"

lemma map_error_eq_Inr [simp]: "map_error h m = Inr y \<longleftrightarrow> m = Inr y"
  by (cases m) auto

lemma map_error_eq_Inl: "map_error h m = Inl e \<longleftrightarrow> (\<exists>e'. m = Inl e' \<and> e = h e')"
  by (cases m) auto

section \<open>Validators\<close>

text \<open>
  The interface of every input validator: an accepted value, rendered again, is accepted
  unchanged.  A value checked by one party and forwarded is then accepted by every further party
  that runs the same check, and all of them read the same value.
\<close>

locale validator =
  fixes validate :: "'j \<Rightarrow> 'e + 'a"
    and render :: "'a \<Rightarrow> 'j"
  assumes revalidate: "validate j = Inr x \<Longrightarrow> validate (render x) = Inr x"
begin

fun relay :: "nat \<Rightarrow> 'j \<Rightarrow> 'e + 'a" where
  "relay 0 j = validate j"
| "relay (Suc n) j = rbind (relay n j) (\<lambda>x. validate (render x))"

lemma relay_accepts: "validate j = Inr x \<Longrightarrow> relay n j = Inr x"
  by (induction n) (auto intro: revalidate)

lemma relay_rejects: "validate j = Inl e \<Longrightarrow> relay n j = Inl e"
  by (induction n) auto

lemma relay_eq: "relay n j = validate j"
  by (cases "validate j") (auto simp: relay_accepts relay_rejects)

lemma accepted_iff: "(\<exists>j. validate j = Inr x) \<longleftrightarrow> validate (render x) = Inr x"
  using revalidate by blast

lemma render_inj: "validate j = Inr x \<Longrightarrow> validate k = Inr y \<Longrightarrow> render x = render y \<Longrightarrow> x = y"
  by (metis Inr_inject revalidate)

end

section \<open>Decimal rendering\<close>

definition digit_char :: "nat \<Rightarrow> char" where
  "digit_char n = char_of (48 + n)"

fun nat_str :: "nat \<Rightarrow> string" where
  "nat_str n = (if n < 10 then [digit_char n] else nat_str (n div 10) @ [digit_char (n mod 10)])"

declare nat_str.simps [simp del]

definition int_str :: "int \<Rightarrow> string" where
  "int_str i = (if i < 0 then CHR 0x2D # nat_str (nat (- i)) else nat_str (nat i))"

text \<open>\<open>f"{n:0wd}"\<close> for a non-negative integer.\<close>

definition pad_nat :: "nat \<Rightarrow> nat \<Rightarrow> string" where
  "pad_nat w n = replicate (w - length (nat_str n)) (CHR 0x30) @ nat_str n"

text \<open>\<open>sep.join(parts)\<close>\<close>

fun join :: "string \<Rightarrow> string list \<Rightarrow> string" where
  "join sep [] = []"
| "join sep [x] = x"
| "join sep (x # y # zs) = x @ sep @ join sep (y # zs)"

section \<open>Orderings used by the source\<close>

text \<open>
  \<open>sorted(xs, key=f, reverse=True)\<close> is stable: entries with equal keys keep their order.
\<close>

definition sorted_desc :: "('a \<Rightarrow> 'b::linorder) \<Rightarrow> 'a list \<Rightarrow> 'a list" where
  "sorted_desc f xs = rev (sort_key f (rev xs))"

lemma set_sorted_desc [simp]: "set (sorted_desc f xs) = set xs"
  by (simp add: sorted_desc_def)

lemma length_sorted_desc [simp]: "length (sorted_desc f xs) = length xs"
  by (simp add: sorted_desc_def)

lemma sorted_desc_sorted: "sorted (rev (map f (sorted_desc f xs)))"
  by (simp add: sorted_desc_def rev_map)

text \<open>\<open>next((x for x in xs if p(x)), None)\<close> is \<open>find p xs\<close>.\<close>

lemma find_SomeD: "find p xs = Some x \<Longrightarrow> x \<in> set xs \<and> p x"
  by (auto simp: find_Some_iff)

text \<open>\<open>sum(p(x) for x in xs)\<close>\<close>

definition count_if :: "('a \<Rightarrow> bool) \<Rightarrow> 'a list \<Rightarrow> nat" where
  "count_if p xs = length (filter p xs)"

lemma count_if_Nil [simp]: "count_if p [] = 0"
  by (simp add: count_if_def)

lemma count_if_Cons [simp]: "count_if p (x # xs) = (if p x then Suc (count_if p xs) else count_if p xs)"
  by (simp add: count_if_def)

lemma count_if_append [simp]: "count_if p (xs @ ys) = count_if p xs + count_if p ys"
  by (simp add: count_if_def)

lemma count_if_mono: "(\<And>x. x \<in> set xs \<Longrightarrow> p x \<Longrightarrow> q x) \<Longrightarrow> count_if p xs \<le> count_if q xs"
  by (induction xs) (auto simp: le_SucI)

section \<open>Loops over a collection\<close>

text \<open>A loop that treats every element, and whose later turns do not undo the earlier ones.\<close>

lemma fold_each:
  assumes inv: "\<And>k s. I s \<Longrightarrow> I (f k s)" and est: "\<And>k s. I s \<Longrightarrow> R k (f k s)"
    and keep: "\<And>k j s. I s \<Longrightarrow> R k s \<Longrightarrow> R k (f j s)"
    and "I s" and "k \<in> set ks"
  shows "R k (fold f ks s)"
proof -
  have stay: "I s \<Longrightarrow> R k s \<Longrightarrow> R k (fold f ks s)" for ks s
    by (induction ks arbitrary: s) (simp_all add: inv keep)
  show ?thesis
    using assms(4,5)
  proof (induction ks arbitrary: s)
    case (Cons j ks)
    show ?case
    proof (cases "k = j")
      case True
      have "R k (f j s)" unfolding True by (rule est [OF Cons.prems(1)])
      from stay [OF inv [OF Cons.prems(1)] this] show ?thesis by simp
    next
      case False
      with Cons show ?thesis by (simp add: inv)
    qed
  qed simp
qed

end
