(* ===== verification/Py_Values.thy ===== *)
theory Py_Values
  imports Prelude
begin

text \<open>
  The Python values the program handles as \<open>Any\<close>: decoded JSON.  Strings are lists of
  characters, one character per code point; the model covers the code points U+0000 to U+00FF
  (Latin-1), on which \<open>str.strip\<close>, \<open>str.isprintable\<close>, \<open>str.isascii\<close> and UTF-8 encoding are
  spelled out below.  A float is represented by the text \<open>float.__repr__\<close> gives it.
\<close>

section \<open>JSON values\<close>

datatype pyfloat = FNaN | FInf bool | FRepr string

datatype json =
    JNull
  | JBool bool
  | JInt int
  | JFloat pyfloat
  | JStr string
  | JList "json list"
  | JObj "(string \<times> json) list"

text \<open>\<open>json.loads\<close> and dictionary displays give objects with distinct keys.\<close>

fun wf_json :: "json \<Rightarrow> bool" where
  "wf_json (JList xs) = list_all wf_json xs"
| "wf_json (JObj kvs) = (distinct (keys kvs) \<and> list_all (\<lambda>(k, v). wf_json v) kvs)"
| "wf_json _ = True"

text \<open>Float equality: \<open>nan != nan\<close> and \<open>-0.0 == 0.0\<close>; two other floats are equal when their
  representations are.\<close>

fun float_eq :: "pyfloat \<Rightarrow> pyfloat \<Rightarrow> bool" where
  "float_eq (FInf a) (FInf b) = (a = b)"
| "float_eq (FRepr a) (FRepr b) =
     (a = b \<or> a \<in> {''0.0'', ''-0.0''} \<and> b \<in> {''0.0'', ''-0.0''})"
| "float_eq _ _ = False"

text \<open>
  \<open>_same_json_value(actual, expected)\<close> of \<open>protocol.py\<close> (and its copy in
  \<open>lab_runtime.py\<close>): the types must agree, so \<open>True\<close> is not \<open>1\<close>.
\<close>

function same_json_value :: "json \<Rightarrow> json \<Rightarrow> bool" where
  "same_json_value actual (JObj expected) =
     (case actual of
        JObj av \<Rightarrow>
          set (keys av) = set (keys expected) \<and>
          list_all (\<lambda>(k, e). case map_of av k of Some a \<Rightarrow> same_json_value a e | None \<Rightarrow> False) expected
      | _ \<Rightarrow> False)"
| "same_json_value actual (JList expected) =
     (case actual of
        JList al \<Rightarrow>
          length al = length expected \<and>
          list_all (\<lambda>(a, e). same_json_value a e) (zip al expected)
      | _ \<Rightarrow> False)"
| "same_json_value actual JNull = (actual = JNull)"
| "same_json_value actual (JBool b) = (actual = JBool b)"
| "same_json_value actual (JInt i) = (actual = JInt i)"
| "same_json_value actual (JFloat f) = (case actual of JFloat g \<Rightarrow> float_eq g f | _ \<Rightarrow> False)"
| "same_json_value actual (JStr s) = (actual = JStr s)"
  by pat_completeness auto

lemma size_json_member: "(k, v) \<in> set kvs \<Longrightarrow> size v < size (JObj kvs)"
  by (induction kvs) (auto simp: less_Suc_eq_le trans_le_add2)

lemma size_json_item: "v \<in> set xs \<Longrightarrow> size v < Suc (size_list size xs)" for v :: json
  by (induction xs) auto

termination same_json_value
  by (relation "measure (\<lambda>(a, e). size e)")
    (auto dest: set_zip_rightD size_json_item size_json_member)

text \<open>
  \<open>_type_strict_equal(left, right)\<close> of \<open>core.py\<close>: the same comparison, with the dictionary
  keys compared by length and membership and the recursion following the left value.
\<close>

function type_strict_equal :: "json \<Rightarrow> json \<Rightarrow> bool" where
  "type_strict_equal (JObj left) right =
     (case right of
        JObj rv \<Rightarrow>
          length left = length rv \<and>
          list_all (\<lambda>(k, v). case map_of rv k of Some r \<Rightarrow> type_strict_equal v r | None \<Rightarrow> False) left
      | _ \<Rightarrow> False)"
| "type_strict_equal (JList left) right =
     (case right of
        JList rl \<Rightarrow>
          length left = length rl \<and>
          list_all (\<lambda>(l, r). type_strict_equal l r) (zip left rl)
      | _ \<Rightarrow> False)"
| "type_strict_equal JNull right = (right = JNull)"
| "type_strict_equal (JBool b) right = (right = JBool b)"
| "type_strict_equal (JInt i) right = (right = JInt i)"
| "type_strict_equal (JFloat f) right = (case right of JFloat g \<Rightarrow> float_eq f g | _ \<Rightarrow> False)"
| "type_strict_equal (JStr s) right = (right = JStr s)"
  by pat_completeness auto

termination type_strict_equal
  by (relation "measure (\<lambda>(l, r). size l)")
    (auto dest: set_zip_leftD size_json_item size_json_member)

section \<open>Text\<close>

abbreviation code :: "char \<Rightarrow> nat" where
  "code c \<equiv> of_char c"

text \<open>\<open>str.isspace\<close> of one character, as \<open>str.strip\<close> uses it.\<close>

definition py_isspace :: "char \<Rightarrow> bool" where
  "py_isspace c \<longleftrightarrow> 9 \<le> code c \<and> code c \<le> 13 \<or> 28 \<le> code c \<and> code c \<le> 32 \<or> code c = 133 \<or> code c = 160"

text \<open>\<open>str.isprintable\<close> of one character: not a control, separator (other than space) or the
  soft hyphen.\<close>

definition py_isprintable :: "char \<Rightarrow> bool" where
  "py_isprintable c \<longleftrightarrow> 32 \<le> code c \<and> code c \<le> 126 \<or> 161 \<le> code c \<and> code c \<noteq> 173"

definition py_isascii :: "string \<Rightarrow> bool" where
  "py_isascii s \<longleftrightarrow> list_all (\<lambda>c. code c < 128) s"

definition py_strip :: "string \<Rightarrow> string" where
  "py_strip s = rev (dropWhile py_isspace (rev (dropWhile py_isspace s)))"

text \<open>\<open>str.encode("utf-8")\<close>, one character per byte.\<close>

definition utf8_char :: "char \<Rightarrow> string" where
  "utf8_char c = (if code c < 128 then [c]
     else [char_of (192 + code c div 64), char_of (128 + code c mod 64)])"

definition utf8_encode :: "string \<Rightarrow> string" where
  "utf8_encode s = concat (map utf8_char s)"

definition starts_with :: "string \<Rightarrow> string \<Rightarrow> bool" where
  "starts_with p s \<longleftrightarrow> take (length p) s = p"

text \<open>\<open>s.split(sep)\<close> for a one-character separator: never empty.\<close>

fun py_split :: "char \<Rightarrow> string \<Rightarrow> string list" where
  "py_split sep [] = [[]]"
| "py_split sep (c # cs) =
     (if c = sep then [] # py_split sep cs
      else (case py_split sep cs of [] \<Rightarrow> [[c]] | p # ps \<Rightarrow> (c # p) # ps))"

text \<open>\<open>s.strip(ch)\<close> for one character.\<close>

definition strip_char :: "char \<Rightarrow> string \<Rightarrow> string" where
  "strip_char ch s = rev (dropWhile (\<lambda>c. c = ch) (rev (dropWhile (\<lambda>c. c = ch) s)))"

section \<open>Compact JSON text\<close>

text \<open>
  \<open>json.dumps(v, ensure_ascii=False, separators=(",", ":"), allow_nan=False)\<close>.  \<open>None\<close>
  stands for the \<open>ValueError\<close> it raises: a float that is not finite, or an integer of more than
  4300 digits.
\<close>

definition quote :: char where
  "quote = CHR 0x22"

definition escape_char :: "char \<Rightarrow> string" where
  "escape_char c =
     (if c = quote then [CHR 0x5C, quote]
      else if c = CHR 0x5C then [CHR 0x5C, CHR 0x5C]
      else if code c = 10 then [CHR 0x5C, CHR ''n'']
      else if code c = 13 then [CHR 0x5C, CHR ''r'']
      else if code c = 9 then [CHR 0x5C, CHR ''t'']
      else if code c = 12 then [CHR 0x5C, CHR ''f'']
      else if code c = 8 then [CHR 0x5C, CHR ''b'']
      else if code c < 32 then
        [CHR 0x5C, CHR ''u'', CHR ''0'', CHR ''0'', digit_char (code c div 16),
         (if code c mod 16 < 10 then digit_char (code c mod 16) else char_of (87 + code c mod 16))]
      else [c])"

definition dump_string :: "string \<Rightarrow> string" where
  "dump_string s = [quote] @ concat (map escape_char s) @ [quote]"

definition MAX_INT_DIGITS :: nat where
  "MAX_INT_DIGITS = 4300"

fun dumps :: "json \<Rightarrow> string option"
  and dump_items :: "json list \<Rightarrow> string list option"
  and dump_members :: "(string \<times> json) list \<Rightarrow> string list option"
where
  "dumps JNull = Some ''null''"
| "dumps (JBool b) = Some (if b then ''true'' else ''false'')"
| "dumps (JInt i) =
     (if length (nat_str (nat \<bar>i\<bar>)) > MAX_INT_DIGITS then None else Some (int_str i))"
| "dumps (JFloat f) = (case f of FRepr r \<Rightarrow> Some r | _ \<Rightarrow> None)"
| "dumps (JStr s) = Some (dump_string s)"
| "dumps (JList xs) = map_option (\<lambda>ps. ''['' @ join '','' ps @ '']'') (dump_items xs)"
| "dumps (JObj kvs) = map_option (\<lambda>ps. ''{'' @ join '','' ps @ ''}'') (dump_members kvs)"
| "dump_items [] = Some []"
| "dump_items (x # xs) =
     (case dumps x of None \<Rightarrow> None | Some p \<Rightarrow> map_option ((#) p) (dump_items xs))"
| "dump_members [] = Some []"
| "dump_members ((k, v) # kvs) =
     (case dumps v of None \<Rightarrow> None
      | Some p \<Rightarrow> map_option ((#) (dump_string k @ '':'' @ p)) (dump_members kvs))"

text \<open>The number of bytes of the encoded text, or \<open>None\<close> where \<open>json.dumps\<close> raises.\<close>

definition encoded_size :: "json \<Rightarrow> nat option" where
  "encoded_size j = map_option (\<lambda>t. length (utf8_encode t)) (dumps j)"

section \<open>Comparison lemmas\<close>

lemma float_eq_sym: "float_eq a b = float_eq b a"
  by (cases a; cases b) auto

text \<open>A value without NaN, on which the comparison is reflexive.\<close>

fun nan_free :: "json \<Rightarrow> bool" where
  "nan_free (JFloat f) = (f \<noteq> FNaN)"
| "nan_free (JList xs) = list_all nan_free xs"
| "nan_free (JObj kvs) = list_all (\<lambda>(k, v). nan_free v) kvs"
| "nan_free _ = True"

lemma float_eq_refl: "f \<noteq> FNaN \<Longrightarrow> float_eq f f"
  by (cases f) auto

lemma same_json_value_refl: "wf_json j \<Longrightarrow> nan_free j \<Longrightarrow> same_json_value j j"
proof (induction j)
  case (JList xs)
  then show ?case by (auto simp: list_all_iff zip_same_conv_map)
next
  case (JObj kvs)
  have "same_json_value v v" if "(k, v) \<in> set kvs" for k v
    using JObj that by (fastforce simp: list_all_iff)
  moreover have "map_of kvs k = Some v" if "(k, v) \<in> set kvs" for k v
    using JObj.prems that by simp
  ultimately show ?case
    by (force simp: list_all_iff)
qed (auto simp: float_eq_refl)

lemma distinct_keys_cover:
  assumes "distinct (keys xs)" "distinct (keys ys)" "length xs = length ys"
    "\<And>k. k \<in> set (keys xs) \<Longrightarrow> k \<in> set (keys ys)"
  shows "set (keys xs) = set (keys ys)"
proof -
  have "card (set (keys xs)) = card (set (keys ys))"
    using assms(1-3) by (metis distinct_card length_map)
  with assms(4) show ?thesis by (meson List.finite_set card_subset_eq subsetI)
qed

lemma type_strict_equal_objD:
  assumes "distinct (keys l)" "distinct (keys r)" "type_strict_equal (JObj l) (JObj r)"
  shows "set (keys l) = set (keys r)"
  by (rule distinct_keys_cover)
    (use assms in \<open>auto simp: list_all_iff map_of_eq_None_iff split: option.splits dest: map_of_SomeD
      intro: rev_image_eqI\<close>)

lemma same_keys_length:
  "distinct (keys l) \<Longrightarrow> distinct (keys r) \<Longrightarrow> set (keys l) = set (keys r) \<Longrightarrow> length l = length r"
  by (metis distinct_card length_map)

text \<open>
  The two comparison routines agree on decoded JSON: the left-driven one of \<open>core.py\<close> and the
  right-driven one of \<open>protocol.py\<close>.
\<close>

lemma type_strict_equal_same:
  "wf_json l \<Longrightarrow> wf_json r \<Longrightarrow> type_strict_equal l r = same_json_value l r"
proof (induction l r rule: type_strict_equal.induct)
  case (1 left right)
  show ?case
  proof (cases right)
    case (JObj rv)
    have wf: "distinct (keys left)" "distinct (keys rv)"
      "\<And>k v. (k, v) \<in> set left \<Longrightarrow> wf_json v" "\<And>k v. (k, v) \<in> set rv \<Longrightarrow> wf_json v"
      using "1.prems" JObj by (auto simp: list_all_iff)
    have sub: "type_strict_equal v w = same_json_value v w"
      if "(k, v) \<in> set left" "map_of rv k = Some w" for k v w
      using that "1.IH" [OF JObj that(1) refl that(2)] wf(3,4) by (blast dest: map_of_SomeD)
    show ?thesis
    proof
      assume t: "type_strict_equal (JObj left) right"
      then have ks: "set (keys left) = set (keys rv)"
        using type_strict_equal_objD wf(1,2) JObj by blast
      have "\<exists>a. map_of left k = Some a \<and> same_json_value a e" if "(k, e) \<in> set rv" for k e
      proof -
        from that ks obtain a where a: "(k, a) \<in> set left" by force
        have re: "map_of rv k = Some e" using that wf(2) by simp
        from t JObj a re have "type_strict_equal a e" by (force simp: list_all_iff)
        then show ?thesis using a re sub wf(1) by force
      qed
      with ks show "same_json_value (JObj left) right"
        by (fastforce simp: JObj list_all_iff)
    next
      assume m: "same_json_value (JObj left) right"
      then have ks: "set (keys left) = set (keys rv)" by (simp add: JObj)
      have "\<exists>e. map_of rv k = Some e \<and> type_strict_equal a e" if "(k, a) \<in> set left" for k a
      proof -
        from that ks obtain e where e: "map_of rv k = Some e"
          by (metis (no_types, lifting) fst_conv image_eqI list.set_map map_of_eq_None_iff option.exhaust)
        have la: "map_of left k = Some a" using that wf(1) by simp
        from m JObj la e have "same_json_value a e"
          by (force simp: list_all_iff dest: map_of_SomeD)
        then show ?thesis using that e sub by blast
      qed
      then show "type_strict_equal (JObj left) right"
        using ks wf(1,2) by (fastforce simp: JObj list_all_iff intro: same_keys_length)
    qed
  qed auto
next
  case (2 left right)
  show ?case
  proof (cases right)
    case (JList rl)
    have "type_strict_equal a b = same_json_value a b" if "(a, b) \<in> set (zip left rl)" for a b
      using "2.IH" [OF JList that refl] "2.prems" that JList
      by (auto simp: list_all_iff dest: set_zip_leftD set_zip_rightD)
    then show ?thesis by (auto simp: JList list_all_iff)
  qed auto
next
  case (6 f right)
  then show ?case by (cases right) (auto simp: float_eq_sym)
next
  case (3 right)
  then show ?case by (cases right) auto
next
  case (4 b right)
  then show ?case by (cases right) auto
next
  case (5 i right)
  then show ?case by (cases right) auto
next
  case (7 s right)
  then show ?case by (cases right) auto
qed

end
