(* ===== verification/Exercises.thy ===== *)
theory Exercises
  imports Py_Values
begin

text \<open>
  \<open>c2lab/exercises.py\<close>: the fixed catalog of scenarios, techniques and detection rules.
  Playbook identifiers and containment actions, strings from fixed tuples in the source, are
  enumerations here, with their spelling given by \<open>playbook_str\<close> and \<open>action_str\<close>.
\<close>

section \<open>Identifiers\<close>

datatype playbook = DISCOVERY_FIXTURES | COLLECT_AND_STAGE | CREATE_CANARY | CLEANUP

fun playbook_str :: "playbook \<Rightarrow> string" where
  "playbook_str DISCOVERY_FIXTURES = ''DISCOVERY_FIXTURES''"
| "playbook_str COLLECT_AND_STAGE = ''COLLECT_AND_STAGE''"
| "playbook_str CREATE_CANARY = ''CREATE_CANARY''"
| "playbook_str CLEANUP = ''CLEANUP''"

definition PLAYBOOK_NAMES :: "playbook list" where
  "PLAYBOOK_NAMES = [DISCOVERY_FIXTURES, COLLECT_AND_STAGE, CREATE_CANARY, CLEANUP]"

definition playbook_of_str :: "string \<Rightarrow> playbook option" where
  "playbook_of_str s = map_of (map (\<lambda>p. (playbook_str p, p)) PLAYBOOK_NAMES) s"

datatype containment_action = CANCEL_REMAINING | PAUSE_NODE_TASKING

fun action_str :: "containment_action \<Rightarrow> string" where
  "action_str CANCEL_REMAINING = ''CANCEL_REMAINING''"
| "action_str PAUSE_NODE_TASKING = ''PAUSE_NODE_TASKING''"

definition CONTAINMENT_ACTIONS :: "containment_action list" where
  "CONTAINMENT_ACTIONS = [CANCEL_REMAINING, PAUSE_NODE_TASKING]"

definition action_of_str :: "string \<Rightarrow> containment_action option" where
  "action_of_str s = map_of (map (\<lambda>a. (action_str a, a)) CONTAINMENT_ACTIONS) s"

definition MAX_EXERCISES :: nat where
  "MAX_EXERCISES = 50"

definition MAX_EXERCISE_TIMELINE :: nat where
  "MAX_EXERCISE_TIMELINE = 16"

lemma playbook_of_str_str [simp]: "playbook_of_str (playbook_str p) = Some p"
  by (cases p) (simp_all add: playbook_of_str_def PLAYBOOK_NAMES_def)

lemma playbook_of_str_SomeD: "playbook_of_str s = Some p \<Longrightarrow> s = playbook_str p"
  by (auto simp: playbook_of_str_def PLAYBOOK_NAMES_def split: if_splits)

lemma playbook_str_inject [simp]: "playbook_str p = playbook_str q \<longleftrightarrow> p = q"
  by (metis option.inject playbook_of_str_str)

lemma action_of_str_str [simp]: "action_of_str (action_str a) = Some a"
  by (cases a) (simp_all add: action_of_str_def CONTAINMENT_ACTIONS_def)

lemma action_of_str_SomeD: "action_of_str s = Some a \<Longrightarrow> s = action_str a"
  by (auto simp: action_of_str_def CONTAINMENT_ACTIONS_def split: if_splits)

section \<open>Techniques\<close>

record technique =
  tq_id :: string
  tq_name :: string
  tq_url :: string

definition TECHNIQUE_METADATA :: "technique dict" where
  "TECHNIQUE_METADATA =
    [(''T1083'', \<lparr>tq_id = ''T1083'', tq_name = ''File and Directory Discovery'',
        tq_url = ''https://attack.mitre.org/techniques/T1083/''\<rparr>),
     (''T1005'', \<lparr>tq_id = ''T1005'', tq_name = ''Data from Local System'',
        tq_url = ''https://attack.mitre.org/techniques/T1005/''\<rparr>),
     (''T1074.001'', \<lparr>tq_id = ''T1074.001'', tq_name = ''Local Data Staging'',
        tq_url = ''https://attack.mitre.org/techniques/T1074/001/''\<rparr>),
     (''T1070.004'', \<lparr>tq_id = ''T1070.004'', tq_name = ''File Deletion'',
        tq_url = ''https://attack.mitre.org/techniques/T1070/004/''\<rparr>)]"

text \<open>\<open>_technique\<close> and \<open>technique_identity\<close> index the table; \<open>None\<close> is the \<open>KeyError\<close>.\<close>

definition technique_for :: "string \<Rightarrow> technique option" where
  "technique_for technique_id = map_of TECHNIQUE_METADATA technique_id"

definition technique_identity :: "string \<Rightarrow> (string \<times> json) list option" where
  "technique_identity technique_id =
     map_option (\<lambda>t. [(''id'', JStr (tq_id t)), (''name'', JStr (tq_name t))])
       (map_of TECHNIQUE_METADATA technique_id)"

section \<open>Scenarios\<close>

record detection_rule =
  dr_id :: string
  dr_source_id :: string
  dr_name :: string
  dr_playbook :: playbook
  dr_technique_id :: string
  dr_signal :: string
  dr_severity :: string

record scenario =
  sc_id :: string
  sc_title :: string
  sc_description :: string
  sc_scope :: json
  sc_playbooks :: "playbook list"
  sc_techniques :: "technique list"
  sc_detections :: "detection_rule list"
  sc_containment_actions :: "containment_action list"

definition SCENARIO_SCOPE :: json where
  "SCENARIO_SCOPE = JObj
    [(''workspace'', JStr ''ephemeral-node-private''),
     (''data'', JStr ''synthetic-fixtures-only''),
     (''host_access'', JBool False),
     (''network_access'', JBool False),
     (''command_execution'', JBool False),
     (''attack_mapping'', JStr ''educational-only'')]"

definition techniques_for :: "string list \<Rightarrow> technique list" where
  "techniques_for ids = List.map_filter technique_for ids"

definition DISCOVERY_COLLECTION :: scenario where
  "DISCOVERY_COLLECTION =
    \<lparr>sc_id = ''DISCOVERY_COLLECTION'',
     sc_title = ''Synthetic discovery and collection'',
     sc_description = ''Enumerate the fixed fixture registry, read only synthetic fixtures, '' @
       ''and create a bounded digest manifest in the private workspace.'',
     sc_scope = SCENARIO_SCOPE,
     sc_playbooks = [DISCOVERY_FIXTURES, COLLECT_AND_STAGE],
     sc_techniques = techniques_for [''T1083'', ''T1005'', ''T1074.001''],
     sc_detections =
       [\<lparr>dr_id = ''C2LAB-DET-001'', dr_source_id = ''DET0370'',
         dr_name = ''Synthetic fixture enumeration'', dr_playbook = DISCOVERY_FIXTURES,
         dr_technique_id = ''T1083'', dr_signal = ''fixture-registry-enumerated'',
         dr_severity = ''medium''\<rparr>,
        \<lparr>dr_id = ''C2LAB-DET-002'', dr_source_id = ''DET0380'',
         dr_name = ''Synthetic fixture collection'', dr_playbook = COLLECT_AND_STAGE,
         dr_technique_id = ''T1005'', dr_signal = ''synthetic-fixtures-read'',
         dr_severity = ''high''\<rparr>,
        \<lparr>dr_id = ''C2LAB-DET-003'', dr_source_id = ''DET0261'',
         dr_name = ''Synthetic manifest staging'', dr_playbook = COLLECT_AND_STAGE,
         dr_technique_id = ''T1074.001'', dr_signal = ''staging-manifest-created'',
         dr_severity = ''high''\<rparr>],
     sc_containment_actions = CONTAINMENT_ACTIONS\<rparr>"

definition CANARY_REMOVAL :: scenario where
  "CANARY_REMOVAL =
    \<lparr>sc_id = ''CANARY_REMOVAL'',
     sc_title = ''Synthetic canary removal'',
     sc_description = ''Create and remove only the fixed canary and bounded staging artifact '' @
       ''inside the private workspace.'',
     sc_scope = SCENARIO_SCOPE,
     sc_playbooks = [CREATE_CANARY, CLEANUP],
     sc_techniques = techniques_for [''T1070.004''],
     sc_detections =
       [\<lparr>dr_id = ''C2LAB-DET-004'', dr_source_id = ''DET0140'',
         dr_name = ''Synthetic canary removal'', dr_playbook = CLEANUP,
         dr_technique_id = ''T1070.004'', dr_signal = ''workspace-artifacts-cleaned'',
         dr_severity = ''high''\<rparr>],
     sc_containment_actions = CONTAINMENT_ACTIONS\<rparr>"

definition SCENARIOS :: "scenario dict" where
  "SCENARIOS =
    [(''DISCOVERY_COLLECTION'', DISCOVERY_COLLECTION), (''CANARY_REMOVAL'', CANARY_REMOVAL)]"

definition SCENARIO_IDS :: "string list" where
  "SCENARIO_IDS = keys SCENARIOS"

definition scenario_catalog :: "scenario list" where
  "scenario_catalog = map (\<lambda>scenario_id. the (map_of SCENARIOS scenario_id)) (keys SCENARIOS)"

text \<open>\<open>scenario_definition\<close> raises \<open>KeyError\<close> on an unknown identifier: \<open>None\<close>.\<close>

definition scenario_definition :: "string \<Rightarrow> scenario option" where
  "scenario_definition scenario_id = map_of SCENARIOS scenario_id"

definition detections_for_playbook :: "string \<Rightarrow> playbook \<Rightarrow> detection_rule list option" where
  "detections_for_playbook scenario_id playbook =
     map_option (\<lambda>s. filter (\<lambda>rule. dr_playbook rule = playbook) (sc_detections s))
       (map_of SCENARIOS scenario_id)"

section \<open>The catalog is consistent\<close>

lemmas catalog_defs =
  SCENARIOS_def DISCOVERY_COLLECTION_def CANARY_REMOVAL_def techniques_for_def technique_for_def
  TECHNIQUE_METADATA_def List.map_filter_def

lemma scenario_definition_cases:
  "scenario_definition sid = Some s \<Longrightarrow>
     sid = ''DISCOVERY_COLLECTION'' \<and> s = DISCOVERY_COLLECTION \<or>
     sid = ''CANARY_REMOVAL'' \<and> s = CANARY_REMOVAL"
  by (auto simp: scenario_definition_def SCENARIOS_def split: if_splits)

lemma scenario_definition_total: "sid \<in> set SCENARIO_IDS \<longleftrightarrow> scenario_definition sid \<noteq> None"
  by (auto simp: SCENARIO_IDS_def scenario_definition_def SCENARIOS_def)

lemma scenario_id_agrees: "scenario_definition sid = Some s \<Longrightarrow> sc_id s = sid"
  by (auto dest!: scenario_definition_cases simp: DISCOVERY_COLLECTION_def CANARY_REMOVAL_def)

lemma detections_for_playbook_defined:
  "scenario_definition sid = Some s \<Longrightarrow>
   detections_for_playbook sid p = Some (filter (\<lambda>r. dr_playbook r = p) (sc_detections s))"
  by (simp add: detections_for_playbook_def scenario_definition_def)

text \<open>Every rule watches a playbook of its own scenario and names a technique the scenario lists.\<close>

definition rule_in_scope :: "scenario \<Rightarrow> detection_rule \<Rightarrow> bool" where
  "rule_in_scope s r \<longleftrightarrow>
     dr_playbook r \<in> set (sc_playbooks s) \<and> dr_technique_id r \<in> tq_id ` set (sc_techniques s)"

lemma catalog_rules_in_scope:
  "scenario_definition sid = Some s \<Longrightarrow> r \<in> set (sc_detections s) \<Longrightarrow> rule_in_scope s r"
  by (auto dest!: scenario_definition_cases simp: rule_in_scope_def catalog_defs)

lemma catalog_rule_ids_distinct:
  "distinct (concat (map (\<lambda>s. map dr_id (sc_detections s)) scenario_catalog))"
  by (simp add: scenario_catalog_def catalog_defs)

end
