(* ===== verification/Playbook_Result.thy ===== *)
theory Playbook_Result
  imports Exercises Sha256
begin

text \<open>
  The data and the result validator of \<open>c2lab/lab_runtime.py\<close>: the fixtures, the fixed
  technique and step tables, and \<open>validate_playbook_result\<close>, which both the Node (before it
  reports) and the Teamserver (before it accepts) run on a playbook result.
\<close>

section \<open>Exceptions\<close>

text \<open>
  \<open>PyTypeError\<close> is the interpreter's own exception for hashing a list or a dictionary; it is not
  a \<open>ValueError\<close>, so no handler of the program catches it.
\<close>

datatype runtime_error =
    LabRuntimeError string string
  | UnknownPlaybookError
  | WorkspaceSafetyError
  | PyTypeError

fun error_message :: "runtime_error \<Rightarrow> string" where
  "error_message (LabRuntimeError m c) = m"
| "error_message UnknownPlaybookError = ''unsupported lab playbook''"
| "error_message WorkspaceSafetyError = ''ephemeral workspace boundary check failed''"
| "error_message PyTypeError = ''unhashable type''"

fun error_code :: "runtime_error \<Rightarrow> string option" where
  "error_code (LabRuntimeError m c) = Some c"
| "error_code UnknownPlaybookError = Some ''unknown_playbook''"
| "error_code WorkspaceSafetyError = Some ''workspace_violation''"
| "error_code PyTypeError = None"

fun is_value_error :: "runtime_error \<Rightarrow> bool" where
  "is_value_error PyTypeError = False"
| "is_value_error _ = True"

definition schema_error :: runtime_error where
  "schema_error = LabRuntimeError ''invalid playbook result schema'' ''result_schema''"

section \<open>Fixed data\<close>

definition MAX_WORKSPACE_FILES :: nat where "MAX_WORKSPACE_FILES = 5"
definition MAX_ARTIFACT_BYTES :: nat where "MAX_ARTIFACT_BYTES = 2048"
definition MAX_WORKSPACE_BYTES :: nat where "MAX_WORKSPACE_BYTES = 4096"
definition MAX_PLAYBOOK_RESULT_BYTES :: nat where "MAX_PLAYBOOK_RESULT_BYTES = 4096"

record fixture =
  fx_artifact :: string
  fx_prefix :: string
  fx_suffix :: string
  fx_contents :: string

definition FIXTURE_DEFINITIONS :: "fixture list" where
  \<open>FIXTURE_DEFINITIONS =
    [\<lparr>fx_artifact = ''fixtures/accounts.json'', fx_prefix = ''fixture-accounts-'', fx_suffix = ''.json'',
      fx_contents = ''{"synthetic":true,"records":[{"alias":"analyst-a","role":"training"}]}''\<rparr>,
     \<lparr>fx_artifact = ''fixtures/planning.txt'', fx_prefix = ''fixture-planning-'', fx_suffix = ''.txt'',
      fx_contents = ''Synthetic exercise plan: validate fixture-only collection controls.'' @ [CHR 0x0A]\<rparr>,
     \<lparr>fx_artifact = ''fixtures/telemetry.csv'', fx_prefix = ''fixture-telemetry-'', fx_suffix = ''.csv'',
      fx_contents = ''event_id,severity,synthetic'' @ [CHR 0x0A] @ ''LAB-001,info,true'' @ [CHR 0x0A]\<rparr>]\<close>

definition MANIFEST_ARTIFACT :: string where
  "MANIFEST_ARTIFACT = ''staging/manifest.json''"

definition CANARY_ARTIFACT :: string where
  "CANARY_ARTIFACT = ''markers/canary.json''"

definition CANARY_BYTES :: string where
  \<open>CANARY_BYTES = ''{"marker":"C2LAB-CANARY","synthetic":true}'' @ [CHR 0x0A]\<close>

definition RUNTIME_SCOPE :: json where
  "RUNTIME_SCOPE = JObj
    [(''workspace'', JStr ''ephemeral-node-private''),
     (''data'', JStr ''synthetic-fixtures-only''),
     (''host_access'', JBool False),
     (''network_access'', JBool False)]"

definition emulated :: "string \<Rightarrow> string \<Rightarrow> json" where
  "emulated technique_id emulation =
     JObj (the (technique_identity technique_id) @ [(''emulation'', JStr emulation)])"

fun TECHNIQUES :: "playbook \<Rightarrow> json" where
  "TECHNIQUES DISCOVERY_FIXTURES = JList [emulated ''T1083'' ''fixture-only'']"
| "TECHNIQUES COLLECT_AND_STAGE =
     JList [emulated ''T1005'' ''synthetic-only'', emulated ''T1074.001'' ''ephemeral-only'']"
| "TECHNIQUES CREATE_CANARY = JList []"
| "TECHNIQUES CLEANUP = JList [emulated ''T1070.004'' ''lab-artifacts-only'']"

definition completed_step :: "string \<Rightarrow> string \<Rightarrow> json" where
  "completed_step name observation = JObj
     [(''name'', JStr name), (''status'', JStr ''completed''), (''observation'', JStr observation)]"

fun STEPS :: "playbook \<Rightarrow> json" where
  "STEPS DISCOVERY_FIXTURES =
     JList [completed_step ''enumerate-fixtures'' ''fixture-registry-enumerated'']"
| "STEPS COLLECT_AND_STAGE = JList
     [completed_step ''read-synthetic-fixtures'' ''synthetic-fixtures-read'',
      completed_step ''hash-fixture-content'' ''fixture-digests-computed'',
      completed_step ''write-staging-manifest'' ''staging-manifest-created'']"
| "STEPS CREATE_CANARY = JList [completed_step ''create-canary-marker'' ''canary-marker-ready'']"
| "STEPS CLEANUP =
     JList [completed_step ''remove-bounded-artifacts'' ''workspace-artifacts-cleaned'']"

section \<open>Absolute paths\<close>

text \<open>\<open>os.path.isabs\<close> (POSIX) or \<open>ntpath.isabs\<close>: a leading separator, or a drive and a root.\<close>

definition is_sep :: "char \<Rightarrow> bool" where
  "is_sep c \<longleftrightarrow> c = CHR ''/'' \<or> c = CHR 0x5C"

definition is_absolute_path_string :: "string \<Rightarrow> bool" where
  "is_absolute_path_string s = (case s of
       [] \<Rightarrow> False
     | c # rest \<Rightarrow> is_sep c \<or>
         (case rest of d # e # _ \<Rightarrow> d = CHR '':'' \<and> is_sep e | _ \<Rightarrow> False))"

fun contains_absolute_path :: "json \<Rightarrow> bool" where
  "contains_absolute_path (JStr s) = is_absolute_path_string s"
| "contains_absolute_path (JList xs) = list_ex contains_absolute_path xs"
| "contains_absolute_path (JObj kvs) =
     list_ex (\<lambda>(k, v). is_absolute_path_string k \<or> contains_absolute_path v) kvs"
| "contains_absolute_path _ = False"

section \<open>The validator\<close>

definition require_exact_keys :: "json \<Rightarrow> string list \<Rightarrow> runtime_error + (string \<times> json) list" where
  "require_exact_keys value expected = (case value of
       JObj kvs \<Rightarrow> if set (keys kvs) = set expected then Inr kvs else Inl schema_error
     | _ \<Rightarrow> Inl schema_error)"

definition get_key :: "(string \<times> json) list \<Rightarrow> string \<Rightarrow> json" where
  "get_key kvs k = (case map_of kvs k of Some v \<Rightarrow> v | None \<Rightarrow> JNull)"

text \<open>\<open>value in {"a", "b"}\<close> for a set of strings: an unhashable value raises \<open>TypeError\<close>.\<close>

fun in_string_set :: "json \<Rightarrow> string list \<Rightarrow> runtime_error + bool" where
  "in_string_set (JStr s) S = Inr (s \<in> set S)"
| "in_string_set (JList xs) S = Inl PyTypeError"
| "in_string_set (JObj kvs) S = Inl PyTypeError"
| "in_string_set _ S = Inr False"

definition discovery_entry :: "fixture \<Rightarrow> json" where
  "discovery_entry d = JObj
    [(''artifact'', JStr (fx_artifact d)),
     (''observation'', JStr ''fixture-enumerated''),
     (''bytes'', JInt (int (length (fx_contents d))))]"

definition collection_entry :: "fixture \<Rightarrow> json" where
  "collection_entry d = JObj
    [(''artifact'', JStr (fx_artifact d)),
     (''observation'', JStr ''content-hashed''),
     (''bytes'', JInt (int (length (fx_contents d)))),
     (''sha256'', JStr (sha256_hex (fx_contents d)))]"

definition manifest_entry :: json where
  "manifest_entry = JObj
    [(''artifact'', JStr MANIFEST_ARTIFACT),
     (''observation'', JStr ''manifest-written''),
     (''entries'', JInt (int (length FIXTURE_DEFINITIONS)))]"

text \<open>The loops over \<open>zip(evidence, FIXTURE_DEFINITIONS, strict=True)\<close>: each entry must have
  exactly the expected keys and values.\<close>

fun check_entries :: "string list \<Rightarrow> (fixture \<Rightarrow> json) \<Rightarrow> json list \<Rightarrow> fixture list \<Rightarrow> runtime_error + unit" where
  "check_entries ks expected (item # items) (d # ds) =
     rbind (require_exact_keys item ks) (\<lambda>entry.
       if \<not> same_json_value (JObj entry) (expected d) then Inl schema_error
       else check_entries ks expected items ds)"
| "check_entries ks expected _ _ = Inr ()"

fun check_removed :: "json list \<Rightarrow> string list \<Rightarrow> runtime_error + unit" where
  "check_removed (item # items) (artifact # artifacts) =
     rbind (require_exact_keys item [''artifact'', ''observation'']) (\<lambda>entry.
       if get_key entry ''artifact'' \<noteq> JStr artifact then Inl schema_error
       else rbind (in_string_set (get_key entry ''observation'') [''artifact-removed'', ''artifact-absent'']) (\<lambda>ok.
         if \<not> ok then Inl schema_error else check_removed items artifacts))"
| "check_removed _ _ = Inr ()"

fun check_evidence :: "playbook \<Rightarrow> json list \<Rightarrow> runtime_error + unit" where
  "check_evidence DISCOVERY_FIXTURES evidence =
     (if length evidence \<noteq> length FIXTURE_DEFINITIONS then Inl schema_error
      else check_entries [''artifact'', ''observation'', ''bytes''] discovery_entry evidence FIXTURE_DEFINITIONS)"
| "check_evidence COLLECT_AND_STAGE evidence =
     (if length evidence \<noteq> length FIXTURE_DEFINITIONS + 1 then Inl schema_error
      else rbind (check_entries [''artifact'', ''observation'', ''bytes'', ''sha256''] collection_entry
                   (butlast evidence) FIXTURE_DEFINITIONS) (\<lambda>_.
           rbind (require_exact_keys (last evidence) [''artifact'', ''observation'', ''entries'']) (\<lambda>manifest.
             if \<not> same_json_value (JObj manifest) manifest_entry then Inl schema_error else Inr ())))"
| "check_evidence CREATE_CANARY evidence =
     (if length evidence \<noteq> 1 then Inl schema_error
      else rbind (require_exact_keys (hd evidence) [''artifact'', ''observation'', ''bytes'']) (\<lambda>marker.
        if get_key marker ''artifact'' \<noteq> JStr CANARY_ARTIFACT then Inl schema_error
        else rbind (in_string_set (get_key marker ''observation'') [''canary-created'', ''canary-already-present'']) (\<lambda>ok.
          if \<not> ok \<or> \<not> same_json_value (get_key marker ''bytes'') (JInt (int (length CANARY_BYTES)))
          then Inl schema_error else Inr ())))"
| "check_evidence CLEANUP evidence =
     (if length evidence \<noteq> 2 then Inl schema_error
      else check_removed evidence [MANIFEST_ARTIFACT, CANARY_ARTIFACT])"

definition parse_playbook :: "json \<Rightarrow> playbook option" where
  "parse_playbook v = (case v of JStr s \<Rightarrow> playbook_of_str s | _ \<Rightarrow> None)"

definition RESULT_FIELDS :: "string list" where
  "RESULT_FIELDS = [''playbook'', ''scope'', ''attack_techniques'', ''steps'', ''evidence'']"

definition validate_playbook_result :: "json \<Rightarrow> json \<Rightarrow> runtime_error + json" where
  "validate_playbook_result playbook result =
    (case parse_playbook playbook of
      None \<Rightarrow> Inl UnknownPlaybookError
    | Some p \<Rightarrow>
        rbind (require_exact_keys result RESULT_FIELDS) (\<lambda>clean.
        if get_key clean ''playbook'' \<noteq> playbook then Inl schema_error
        else if \<not> same_json_value (get_key clean ''scope'') RUNTIME_SCOPE then Inl schema_error
        else if \<not> same_json_value (get_key clean ''attack_techniques'') (TECHNIQUES p) then Inl schema_error
        else if \<not> same_json_value (get_key clean ''steps'') (STEPS p) then Inl schema_error
        else (case get_key clean ''evidence'' of
            JList evidence \<Rightarrow>
              rbind (check_evidence p evidence) (\<lambda>_.
              if contains_absolute_path (JObj clean) then Inl schema_error
              else (case encoded_size (JObj clean) of
                  None \<Rightarrow> Inl schema_error
                | Some n \<Rightarrow>
                    if n > MAX_PLAYBOOK_RESULT_BYTES
                    then Inl (LabRuntimeError ''playbook result exceeded its size limit'' ''result_schema'')
                    else Inr (JObj clean)))
          | _ \<Rightarrow> Inl schema_error)))"

section \<open>What the validator accepts\<close>

text \<open>The result a playbook reports, and the evidence lists it may carry.\<close>

definition playbook_result :: "playbook \<Rightarrow> json list \<Rightarrow> json" where
  "playbook_result p evidence = JObj
    [(''playbook'', JStr (playbook_str p)), (''scope'', RUNTIME_SCOPE),
     (''attack_techniques'', TECHNIQUES p), (''steps'', STEPS p), (''evidence'', JList evidence)]"

definition canary_entry :: "string \<Rightarrow> json" where
  "canary_entry observation = JObj
    [(''artifact'', JStr CANARY_ARTIFACT), (''observation'', JStr observation),
     (''bytes'', JInt (int (length CANARY_BYTES)))]"

definition removal_entry :: "string \<Rightarrow> bool \<Rightarrow> json" where
  "removal_entry artifact removed = JObj
    [(''artifact'', JStr artifact),
     (''observation'', JStr (if removed then ''artifact-removed'' else ''artifact-absent''))]"

fun allowed_evidence :: "playbook \<Rightarrow> json list list" where
  "allowed_evidence DISCOVERY_FIXTURES = [map discovery_entry FIXTURE_DEFINITIONS]"
| "allowed_evidence COLLECT_AND_STAGE = [map collection_entry FIXTURE_DEFINITIONS @ [manifest_entry]]"
| "allowed_evidence CREATE_CANARY =
     [[canary_entry ''canary-created''], [canary_entry ''canary-already-present'']]"
| "allowed_evidence CLEANUP =
     [[removal_entry MANIFEST_ARTIFACT m, removal_entry CANARY_ARTIFACT c]. m \<leftarrow> [True, False], c \<leftarrow> [True, False]]"

lemma require_exact_keys_Inr:
  "require_exact_keys v ks = Inr kvs \<longleftrightarrow> v = JObj kvs \<and> set (keys kvs) = set ks"
  by (auto simp: require_exact_keys_def split: json.splits)

lemma in_string_set_True: "in_string_set v S = Inr True \<longleftrightarrow> (\<exists>s\<in>set S. v = JStr s)"
  by (cases v) auto

lemma check_entries_Inr:
  "length items = length ds \<Longrightarrow> check_entries ks expected items ds = Inr () \<Longrightarrow>
   list_all2 same_json_value items (map expected ds)"
proof (induction ks expected items ds rule: check_entries.induct)
  case (1 ks expected item items d ds)
  then show ?case
    by (auto simp: rbind_eq_Inr require_exact_keys_Inr split: if_splits)
qed auto

lemma get_key_present: "set (keys kvs) = set ks \<Longrightarrow> k \<in> set ks \<Longrightarrow> map_of kvs k = Some (get_key kvs k)"
  by (metis (mono_tags, lifting) get_key_def list.set_map map_of_eq_None_iff option.case_eq_if
      option.collapse)

lemma same_object:
  assumes "set (keys kvs) = set (keys es)"
    and "list_all (\<lambda>(k, e). same_json_value (get_key kvs k) e) es"
  shows "same_json_value (JObj kvs) (JObj es)"
proof -
  have "map_of kvs k = Some (get_key kvs k)" if "(k, e) \<in> set es" for k e
    using get_key_present [OF assms(1), of k] that by force
  with assms show ?thesis by (fastforce simp: list_all_iff)
qed

lemma check_removed_step:
  assumes "check_removed (item # items) (a # as) = Inr ()"
  shows "\<exists>removed. same_json_value item (removal_entry a removed) \<and> check_removed items as = Inr ()"
proof -
  from assms obtain kvs where kvs: "item = JObj kvs" "set (keys kvs) = {''artifact'', ''observation''}"
    "get_key kvs ''artifact'' = JStr a" "check_removed items as = Inr ()"
    and "get_key kvs ''observation'' = JStr ''artifact-removed'' \<or> get_key kvs ''observation'' = JStr ''artifact-absent''"
    by (auto simp: rbind_eq_Inr require_exact_keys_Inr in_string_set_True split: if_splits)
  then obtain removed where "get_key kvs ''observation'' = JStr (if removed then ''artifact-removed'' else ''artifact-absent'')"
    by (elim disjE) (rule that [of True], simp, rule that [of False], simp)
  with kvs have "same_json_value item (removal_entry a removed)"
    unfolding kvs(1) removal_entry_def by (intro same_object) auto
  with kvs(4) show ?thesis by blast
qed

lemma check_evidence_allowed:
  assumes "check_evidence p evidence = Inr ()"
  shows "\<exists>ev\<in>set (allowed_evidence p). list_all2 same_json_value evidence ev"
proof (cases p)
  case DISCOVERY_FIXTURES
  with assms show ?thesis by (auto dest!: check_entries_Inr split: if_splits)
next
  case COLLECT_AND_STAGE
  with assms have len: "length evidence = Suc (length FIXTURE_DEFINITIONS)"
    by (auto split: if_splits)
  then have ev: "evidence = butlast evidence @ [last evidence]"
    by (metis append_butlast_last_id length_0_conv nat.distinct(1))
  from assms COLLECT_AND_STAGE len obtain kvs where
    entries: "check_entries [''artifact'', ''observation'', ''bytes'', ''sha256''] collection_entry
       (butlast evidence) FIXTURE_DEFINITIONS = Inr ()"
    and "last evidence = JObj kvs" "same_json_value (JObj kvs) manifest_entry"
    by (simp add: rbind_eq_Inr require_exact_keys_Inr split: if_splits)
  moreover have "list_all2 same_json_value (butlast evidence) (map collection_entry FIXTURE_DEFINITIONS)"
    by (rule check_entries_Inr [OF _ entries]) (simp add: len)
  ultimately show ?thesis
    using COLLECT_AND_STAGE by (subst ev) (simp add: list_all2_appendI)
next
  case CREATE_CANARY
  with assms obtain item where e: "evidence = [item]"
    by (auto split: if_splits simp: length_Suc_conv)
  with assms CREATE_CANARY obtain kvs where kvs: "item = JObj kvs"
    "set (keys kvs) = {''artifact'', ''observation'', ''bytes''}"
    "get_key kvs ''artifact'' = JStr CANARY_ARTIFACT"
    "same_json_value (get_key kvs ''bytes'') (JInt (int (length CANARY_BYTES)))"
    and obs: "get_key kvs ''observation'' = JStr ''canary-created'' \<or>
      get_key kvs ''observation'' = JStr ''canary-already-present''"
    by (auto simp: rbind_eq_Inr require_exact_keys_Inr in_string_set_True split: if_splits)
  from obs obtain o' where "o' \<in> {''canary-created'', ''canary-already-present''}"
    "get_key kvs ''observation'' = JStr o'" by blast
  with kvs have "same_json_value item (canary_entry o')"
    unfolding kvs(1) canary_entry_def by (intro same_object) auto
  with \<open>o' \<in> _\<close> e CREATE_CANARY show ?thesis by auto
next
  case CLEANUP
  with assms obtain i j where e: "evidence = [i, j]"
    by (auto split: if_splits simp: length_Suc_conv numeral_2_eq_2)
  with assms CLEANUP have "check_removed [i, j] [MANIFEST_ARTIFACT, CANARY_ARTIFACT] = Inr ()" by simp
  then obtain m c where "same_json_value i (removal_entry MANIFEST_ARTIFACT m)"
    "same_json_value j (removal_entry CANARY_ARTIFACT c)"
    using check_removed_step by metis
  with e CLEANUP show ?thesis by (cases m; cases c) auto
qed

lemma parse_playbook_SomeD: "parse_playbook v = Some p \<Longrightarrow> v = JStr (playbook_str p)"
  by (auto simp: parse_playbook_def split: json.splits dest: playbook_of_str_SomeD)

lemma parse_playbook_str [simp]: "parse_playbook (JStr (playbook_str p)) = Some p"
  by (simp add: parse_playbook_def)

lemma same_json_list:
  "list_all2 same_json_value xs ys \<Longrightarrow> same_json_value (JList xs) (JList ys)"
  by (auto simp: list_all2_iff list_all_iff)

lemma validate_playbook_result_Inr:
  assumes "validate_playbook_result (JStr (playbook_str p)) r = Inr r'"
  shows "r' = r \<and> (\<exists>ev\<in>set (allowed_evidence p). same_json_value r (playbook_result p ev))"
proof -
  from assms obtain kvs evidence where r: "r = JObj kvs" "r' = r"
    and ks: "set (keys kvs) = set RESULT_FIELDS"
    and f: "get_key kvs ''playbook'' = JStr (playbook_str p)"
      "same_json_value (get_key kvs ''scope'') RUNTIME_SCOPE"
      "same_json_value (get_key kvs ''attack_techniques'') (TECHNIQUES p)"
      "same_json_value (get_key kvs ''steps'') (STEPS p)"
      "get_key kvs ''evidence'' = JList evidence"
    and ev: "check_evidence p evidence = Inr ()"
    by (auto simp: validate_playbook_result_def rbind_eq_Inr require_exact_keys_Inr
        split: if_splits json.splits option.splits)
  from check_evidence_allowed [OF ev] obtain a
    where a: "a \<in> set (allowed_evidence p)" "list_all2 same_json_value evidence a" by blast
  have "same_json_value (JObj kvs) (playbook_result p a)"
    unfolding playbook_result_def
  proof (rule same_object)
    show "list_all (\<lambda>(k, e). same_json_value (get_key kvs k) e)
      [(''playbook'', JStr (playbook_str p)), (''scope'', RUNTIME_SCOPE),
       (''attack_techniques'', TECHNIQUES p), (''steps'', STEPS p), (''evidence'', JList a)]"
      by (simp add: f same_json_list [OF a(2)] del: same_json_value.simps(1,2))
  qed (use ks in \<open>simp add: RESULT_FIELDS_def\<close>)
  with r a(1) show ?thesis by blast
qed

lemma validate_playbook_result_playbook:
  "validate_playbook_result v r = Inr r' \<Longrightarrow> \<exists>p. v = JStr (playbook_str p)"
  by (auto simp: validate_playbook_result_def split: option.splits dest: parse_playbook_SomeD)

text \<open>
  A Node that reports a list where the observation string belongs makes the set membership test
  raise \<open>TypeError\<close>, which is not the \<open>ValueError\<close> the callers turn into a rejection.
\<close>

definition unhashable_result :: json where
  "unhashable_result = playbook_result CREATE_CANARY
     [JObj [(''artifact'', JStr CANARY_ARTIFACT), (''observation'', JList []),
            (''bytes'', JInt (int (length CANARY_BYTES)))]]"

lemma validate_unhashable:
  "validate_playbook_result (JStr (playbook_str CREATE_CANARY)) unhashable_result = Inl PyTypeError"
  by (simp add: validate_playbook_result_def unhashable_result_def playbook_result_def
      require_exact_keys_def RESULT_FIELDS_def get_key_def RUNTIME_SCOPE_def completed_step_def
      del: playbook_str.simps)

end
