(* ===== verification/Protocol.thy ===== *)
theory Protocol
  imports Playbook_Result
begin

text \<open>
  \<open>c2lab/protocol.py\<close>: the allow-listed task protocol shared by the Teamserver and the Node.
  Task types, profiles and task states are enumerations with their spelling; a validated
  payload is one of six shapes, with its JSON object given by \<open>payload_json\<close>.
  A \<open>ProtocolError\<close> carries its message; \<open>PyException\<close> is an exception no caller expects.
\<close>

section \<open>Constants and enumerations\<close>

definition MAX_TEXT_LENGTH :: nat where "MAX_TEXT_LENGTH = 240"
definition MAX_WAIT_MS :: int where "MAX_WAIT_MS = 2000"
definition MIN_POLL_INTERVAL_MS :: int where "MIN_POLL_INTERVAL_MS = 250"
definition MAX_POLL_INTERVAL_MS :: int where "MAX_POLL_INTERVAL_MS = 3000"
definition MAX_JITTER_PERCENT :: int where "MAX_JITTER_PERCENT = 50"
definition MAX_RESULT_BYTES :: nat where "MAX_RESULT_BYTES = 4096"

definition NODE_FAILURE_CODES :: "string list" where
  "NODE_FAILURE_CODES = [''INVALID_TASK'', ''HANDLER_FAILED'']"

lemmas protocol_bounds =
  MAX_TEXT_LENGTH_def MAX_WAIT_MS_def MIN_POLL_INTERVAL_MS_def MAX_POLL_INTERVAL_MS_def
  MAX_JITTER_PERCENT_def MAX_RESULT_BYTES_def

datatype task_type =
    PING | RUNTIME_STATUS | ECHO_TEXT | HASH_TEXT | WAIT | GENERATE_EVENT | SLEEP | EXIT
  | RUN_PLAYBOOK

fun task_type_str :: "task_type \<Rightarrow> string" where
  "task_type_str PING = ''PING''"
| "task_type_str RUNTIME_STATUS = ''RUNTIME_STATUS''"
| "task_type_str ECHO_TEXT = ''ECHO_TEXT''"
| "task_type_str HASH_TEXT = ''HASH_TEXT''"
| "task_type_str WAIT = ''WAIT''"
| "task_type_str GENERATE_EVENT = ''GENERATE_EVENT''"
| "task_type_str SLEEP = ''SLEEP''"
| "task_type_str EXIT = ''EXIT''"
| "task_type_str RUN_PLAYBOOK = ''RUN_PLAYBOOK''"

definition TRAINING_TASK_TYPES :: "task_type list" where
  "TRAINING_TASK_TYPES =
     [PING, RUNTIME_STATUS, ECHO_TEXT, HASH_TEXT, WAIT, GENERATE_EVENT, SLEEP, EXIT]"

definition TASK_TYPES :: "task_type list" where
  "TASK_TYPES = TRAINING_TASK_TYPES @ [RUN_PLAYBOOK]"

definition task_type_of_str :: "string \<Rightarrow> task_type option" where
  "task_type_of_str s = map_of (map (\<lambda>t. (task_type_str t, t)) TASK_TYPES) s"

datatype profile = Basic | Training | Purple_lab

fun profile_str :: "profile \<Rightarrow> string" where
  "profile_str Basic = ''basic''"
| "profile_str Training = ''training''"
| "profile_str Purple_lab = ''purple_lab''"

fun NODE_PROFILES :: "profile \<Rightarrow> task_type list" where
  "NODE_PROFILES Basic = [PING, RUNTIME_STATUS, ECHO_TEXT, HASH_TEXT]"
| "NODE_PROFILES Training = TRAINING_TASK_TYPES"
| "NODE_PROFILES Purple_lab = TASK_TYPES"

definition PROFILE_NAMES :: "profile list" where
  "PROFILE_NAMES = [Basic, Training, Purple_lab]"

definition profile_of_str :: "string \<Rightarrow> profile option" where
  "profile_of_str s = map_of (map (\<lambda>p. (profile_str p, p)) PROFILE_NAMES) s"

datatype task_status =
    Queued | Dispatched | Completed | Failed | Timeout | Cancelled | Expired

fun status_str :: "task_status \<Rightarrow> string" where
  "status_str Queued = ''queued''"
| "status_str Dispatched = ''dispatched''"
| "status_str Completed = ''completed''"
| "status_str Failed = ''failed''"
| "status_str Timeout = ''timeout''"
| "status_str Cancelled = ''cancelled''"
| "status_str Expired = ''expired''"

datatype payload =
    NoFields
  | TextField string
  | WaitFields int
  | SleepFields int int
  | PlaybookField playbook
  | EventFields string string string

fun payload_json :: "payload \<Rightarrow> (string \<times> json) list" where
  "payload_json NoFields = []"
| "payload_json (TextField t) = [(''text'', JStr t)]"
| "payload_json (WaitFields ms) = [(''milliseconds'', JInt ms)]"
| "payload_json (SleepFields i j) = [(''interval_ms'', JInt i), (''jitter_percent'', JInt j)]"
| "payload_json (PlaybookField p) = [(''playbook'', JStr (playbook_str p))]"
| "payload_json (EventFields c s m) =
     [(''category'', JStr c), (''severity'', JStr s), (''message'', JStr m)]"

datatype protocol_error = ProtocolError string | PyException string

section \<open>Field validators\<close>

text \<open>\<open>is_int\<close>: \<open>bool\<close> is a subclass of \<open>int\<close> and is excluded.\<close>

fun as_int :: "json \<Rightarrow> int option" where
  "as_int (JInt i) = Some i"
| "as_int _ = None"

definition clean_text :: "json \<Rightarrow> string \<Rightarrow> nat \<Rightarrow> nat \<Rightarrow> protocol_error + string" where
  "clean_text value field minimum maximum = (case value of
      JStr s \<Rightarrow>
        (let cleaned = py_strip s in
         if \<not> (minimum \<le> length cleaned \<and> length cleaned \<le> maximum) then
           Inl (ProtocolError (field @ '' must be '' @ nat_str minimum @ '' to '' @ nat_str maximum
             @ '' characters''))
         else if \<not> list_all (\<lambda>c. py_isprintable c \<or> code c = 10 \<or> code c = 9) cleaned then
           Inl (ProtocolError (field @ '' contains unsupported control characters''))
         else Inr cleaned)
    | _ \<Rightarrow> Inl (ProtocolError (field @ '' must be a string'')))"

definition exact_keys :: "(string \<times> json) list \<Rightarrow> string list \<Rightarrow> protocol_error + unit" where
  "exact_keys payload expected =
    (let actual = set (keys payload) in
     if actual = set expected then Inr ()
     else
       let missing = sort (filter (\<lambda>k. k \<notin> actual) (remdups expected));
           extra = sort (filter (\<lambda>k. k \<notin> set expected) (remdups (keys payload)));
           details = (if missing = [] then [] else [''missing: '' @ join '', '' missing])
             @ (if extra = [] then [] else [''unexpected: '' @ join '', '' extra])
       in Inl (ProtocolError (''invalid payload fields ('' @ join ''; '' details @ '')'')))"

definition validate_profile :: "json \<Rightarrow> protocol_error + profile" where
  "validate_profile value = (case value of
      JStr s \<Rightarrow> (case profile_of_str s of Some p \<Rightarrow> Inr p
        | None \<Rightarrow> Inl (ProtocolError (''profile must be one of: '' @ join '', '' (map profile_str PROFILE_NAMES))))
    | _ \<Rightarrow> Inl (ProtocolError (''profile must be one of: '' @ join '', '' (map profile_str PROFILE_NAMES))))"

definition capabilities_for_profile :: "json \<Rightarrow> protocol_error + task_type list" where
  "capabilities_for_profile value = rbind (validate_profile value) (\<lambda>p. Inr (NODE_PROFILES p))"

text \<open>\<open>capabilities != expected\<close> compares a decoded list with a list of strings.\<close>

definition validate_capabilities :: "json \<Rightarrow> json \<Rightarrow> protocol_error + task_type list" where
  "validate_capabilities value capabilities =
    rbind (validate_profile value) (\<lambda>p.
      if capabilities \<noteq> JList (map (\<lambda>t. JStr (task_type_str t)) (NODE_PROFILES p)) then
        Inl (ProtocolError (''capabilities must exactly match the '' @ profile_str p @ '' profile''))
      else Inr (NODE_PROFILES p))"

definition bounded_int :: "string \<Rightarrow> int \<Rightarrow> int \<Rightarrow> json \<Rightarrow> protocol_error + int" where
  "bounded_int field lo hi value = (case as_int value of
      Some i \<Rightarrow> if lo \<le> i \<and> i \<le> hi then Inr i
        else Inl (ProtocolError (field @ '' must be an integer from '' @ int_str lo @ '' to '' @ int_str hi))
    | None \<Rightarrow> Inl (ProtocolError (field @ '' must be an integer from '' @ int_str lo @ '' to '' @ int_str hi)))"

definition validate_poll_interval :: "json \<Rightarrow> protocol_error + int" where
  "validate_poll_interval value =
     bounded_int ''poll_interval_ms'' MIN_POLL_INTERVAL_MS MAX_POLL_INTERVAL_MS value"

definition validate_jitter_percent :: "json \<Rightarrow> protocol_error + int" where
  "validate_jitter_percent value = bounded_int ''jitter_percent'' 0 MAX_JITTER_PERCENT value"

section \<open>Task payloads\<close>

definition EVENT_CATEGORIES :: "string list" where
  "EVENT_CATEGORIES = [''training'', ''telemetry'', ''policy'']"

definition EVENT_SEVERITIES :: "string list" where
  "EVENT_SEVERITIES = [''info'', ''warning'']"

definition string_in :: "json \<Rightarrow> string list \<Rightarrow> string option" where
  "string_in v S = (case v of JStr s \<Rightarrow> if s \<in> set S then Some s else None | _ \<Rightarrow> None)"

definition event_payload :: "(string \<times> json) list \<Rightarrow> protocol_error + payload" where
  "event_payload payload =
    rbind (exact_keys payload [''category'', ''severity'', ''message'']) (\<lambda>_.
    case string_in (get_key payload ''category'') EVENT_CATEGORIES of
      None \<Rightarrow> Inl (ProtocolError ''category must be training, telemetry, or policy'')
    | Some category \<Rightarrow>
        (case string_in (get_key payload ''severity'') EVENT_SEVERITIES of
          None \<Rightarrow> Inl (ProtocolError ''severity must be info or warning'')
        | Some severity \<Rightarrow>
            rbind (clean_text (get_key payload ''message'') ''message'' 1 MAX_TEXT_LENGTH) (\<lambda>message.
              Inr (EventFields category severity message))))"

fun payload_of :: "task_type \<Rightarrow> (string \<times> json) list \<Rightarrow> protocol_error + payload" where
  "payload_of PING payload = rbind (exact_keys payload []) (\<lambda>_. Inr NoFields)"
| "payload_of RUNTIME_STATUS payload = rbind (exact_keys payload []) (\<lambda>_. Inr NoFields)"
| "payload_of ECHO_TEXT payload =
     rbind (exact_keys payload [''text'']) (\<lambda>_.
     rbind (clean_text (get_key payload ''text'') ''text'' 1 MAX_TEXT_LENGTH) (\<lambda>t. Inr (TextField t)))"
| "payload_of HASH_TEXT payload =
     rbind (exact_keys payload [''text'']) (\<lambda>_.
     rbind (clean_text (get_key payload ''text'') ''text'' 1 MAX_TEXT_LENGTH) (\<lambda>t. Inr (TextField t)))"
| "payload_of WAIT payload =
     rbind (exact_keys payload [''milliseconds'']) (\<lambda>_.
     rbind (bounded_int ''milliseconds'' 0 MAX_WAIT_MS (get_key payload ''milliseconds'')) (\<lambda>ms. Inr (WaitFields ms)))"
| "payload_of SLEEP payload =
     rbind (exact_keys payload [''interval_ms'', ''jitter_percent'']) (\<lambda>_.
     rbind (bounded_int ''interval_ms'' MIN_POLL_INTERVAL_MS MAX_POLL_INTERVAL_MS (get_key payload ''interval_ms'')) (\<lambda>i.
     rbind (validate_jitter_percent (get_key payload ''jitter_percent'')) (\<lambda>j. Inr (SleepFields i j))))"
| "payload_of EXIT payload = rbind (exact_keys payload []) (\<lambda>_. Inr NoFields)"
| "payload_of RUN_PLAYBOOK payload =
     rbind (exact_keys payload [''playbook'']) (\<lambda>_.
     case parse_playbook (get_key payload ''playbook'') of
       None \<Rightarrow> Inl (ProtocolError (''playbook must be one of: '' @ join '', '' (map playbook_str PLAYBOOK_NAMES)))
     | Some p \<Rightarrow> Inr (PlaybookField p))"
| "payload_of GENERATE_EVENT payload = event_payload payload"

definition parse_task_type :: "json \<Rightarrow> task_type option" where
  "parse_task_type v = (case v of JStr s \<Rightarrow> task_type_of_str s | _ \<Rightarrow> None)"

definition validate_task_payload :: "json \<Rightarrow> json \<Rightarrow> protocol_error + (task_type \<times> payload)" where
  "validate_task_payload task_type payload = (case parse_task_type task_type of
      None \<Rightarrow> Inl (ProtocolError (''task type must be one of: '' @ join '', '' (map task_type_str TASK_TYPES)))
    | Some t \<Rightarrow> (case payload of
          JObj kvs \<Rightarrow> rbind (payload_of t kvs) (\<lambda>p. Inr (t, p))
        | _ \<Rightarrow> Inl (ProtocolError ''payload must be a JSON object'')))"

section \<open>Enumerations and their spelling\<close>

lemma task_type_of_str_str [simp]: "task_type_of_str (task_type_str t) = Some t"
  by (cases t) (simp_all add: task_type_of_str_def TASK_TYPES_def TRAINING_TASK_TYPES_def)

lemma task_type_of_str_SomeD: "task_type_of_str s = Some t \<Longrightarrow> s = task_type_str t"
  by (auto simp: task_type_of_str_def TASK_TYPES_def TRAINING_TASK_TYPES_def split: if_splits)

lemma task_type_str_inject [simp]: "task_type_str t = task_type_str u \<longleftrightarrow> t = u"
  by (metis option.inject task_type_of_str_str)

lemma profile_of_str_str [simp]: "profile_of_str (profile_str p) = Some p"
  by (cases p) (simp_all add: profile_of_str_def PROFILE_NAMES_def)

lemma profile_of_str_SomeD: "profile_of_str s = Some p \<Longrightarrow> s = profile_str p"
  by (auto simp: profile_of_str_def PROFILE_NAMES_def split: if_splits)

lemma profile_str_inject [simp]: "profile_str p = profile_str q \<longleftrightarrow> p = q"
  by (metis option.inject profile_of_str_str)

lemma all_task_types: "t \<in> set TASK_TYPES"
  by (cases t) (simp_all add: TASK_TYPES_def TRAINING_TASK_TYPES_def)

lemma profiles_grow: "set (NODE_PROFILES Basic) \<subseteq> set (NODE_PROFILES Training)"
  "set (NODE_PROFILES Training) \<subseteq> set (NODE_PROFILES Purple_lab)"
  by (auto simp: TASK_TYPES_def TRAINING_TASK_TYPES_def)

lemma playbook_capability: "RUN_PLAYBOOK \<in> set (NODE_PROFILES p) \<longleftrightarrow> p = Purple_lab"
  by (cases p) (simp_all add: TASK_TYPES_def TRAINING_TASK_TYPES_def)

section \<open>Accepted text\<close>

lemma py_strip_idem: "py_strip (py_strip s) = py_strip s"
proof -
  define t where "t = dropWhile py_isspace s"
  define u where "u = rev (dropWhile py_isspace (rev t))"
  have u: "py_strip s = u" by (simp add: py_strip_def t_def u_def)
  obtain w where tw: "t = u @ w"
    unfolding u_def by (metis rev_append rev_rev_ident takeWhile_dropWhile_id)
  have "\<not> py_isspace (hd u)" if "u \<noteq> []"
    using that tw hd_dropWhile [of py_isspace s] by (auto simp: t_def)
  then have "dropWhile py_isspace u = u" by (cases u) auto
  moreover have "dropWhile py_isspace (rev u) = rev u" by (simp add: u_def)
  ultimately have "py_strip u = u" by (simp add: py_strip_def)
  then show ?thesis by (simp add: u)
qed

lemma clean_text_Inr:
  "clean_text v f lo hi = Inr s \<longleftrightarrow>
     (\<exists>r. v = JStr r \<and> s = py_strip r \<and> lo \<le> length s \<and> length s \<le> hi \<and>
       list_all (\<lambda>c. py_isprintable c \<or> code c = 10 \<or> code c = 9) s)"
  by (auto simp: clean_text_def Let_def split: json.splits if_splits)

lemma clean_text_revalidate: "clean_text v f lo hi = Inr s \<Longrightarrow> clean_text (JStr s) f lo hi = Inr s"
  unfolding clean_text_Inr by (auto simp: py_strip_idem)

lemma bounded_int_Inr: "bounded_int f lo hi v = Inr i \<longleftrightarrow> v = JInt i \<and> lo \<le> i \<and> i \<le> hi"
  by (cases v) (auto simp: bounded_int_def)

lemma validate_poll_interval_Inr:
  "validate_poll_interval v = Inr i \<longleftrightarrow> v = JInt i \<and> MIN_POLL_INTERVAL_MS \<le> i \<and> i \<le> MAX_POLL_INTERVAL_MS"
  by (simp add: validate_poll_interval_def bounded_int_Inr)

lemma validate_jitter_percent_Inr:
  "validate_jitter_percent v = Inr i \<longleftrightarrow> v = JInt i \<and> 0 \<le> i \<and> i \<le> MAX_JITTER_PERCENT"
  by (simp add: validate_jitter_percent_def bounded_int_Inr)

lemma validate_profile_Inr: "validate_profile v = Inr p \<longleftrightarrow> v = JStr (profile_str p)"
  by (auto simp: validate_profile_def split: json.splits option.splits dest: profile_of_str_SomeD)

lemma validate_capabilities_Inr:
  "validate_capabilities v c = Inr ts \<longleftrightarrow>
     (\<exists>p. v = JStr (profile_str p) \<and> ts = NODE_PROFILES p \<and> c = JList (map (\<lambda>t. JStr (task_type_str t)) ts))"
  by (auto simp: validate_capabilities_def rbind_eq_Inr validate_profile_Inr split: if_splits)

lemma exact_keys_Inr: "exact_keys kvs ks = Inr u \<longleftrightarrow> set (keys kvs) = set ks"
  by (simp add: exact_keys_def Let_def)

interpretation text_validator: validator "\<lambda>v. clean_text v f lo hi" JStr
  by unfold_locales (rule clean_text_revalidate)

interpretation interval_validator: validator validate_poll_interval JInt
  by unfold_locales (simp add: validate_poll_interval_Inr)

interpretation jitter_validator: validator validate_jitter_percent JInt
  by unfold_locales (simp add: validate_jitter_percent_Inr)

interpretation profile_validator: validator validate_profile "\<lambda>p. JStr (profile_str p)"
  by unfold_locales (simp add: validate_profile_Inr)

section \<open>Accepted payloads\<close>

text \<open>The shape and the bounds of a payload that passed validation.\<close>

definition text_ok :: "string \<Rightarrow> bool" where
  "text_ok s \<longleftrightarrow> clean_text (JStr s) [] 1 MAX_TEXT_LENGTH = Inr s"

lemma text_ok_iff: "text_ok s \<longleftrightarrow> (\<exists>v. clean_text v f 1 MAX_TEXT_LENGTH = Inr s)"
  unfolding text_ok_def clean_text_Inr by (auto simp: py_strip_idem)

fun payload_ok :: "task_type \<Rightarrow> payload \<Rightarrow> bool" where
  "payload_ok PING p = (p = NoFields)"
| "payload_ok RUNTIME_STATUS p = (p = NoFields)"
| "payload_ok EXIT p = (p = NoFields)"
| "payload_ok ECHO_TEXT p = (case p of TextField s \<Rightarrow> text_ok s | _ \<Rightarrow> False)"
| "payload_ok HASH_TEXT p = (case p of TextField s \<Rightarrow> text_ok s | _ \<Rightarrow> False)"
| "payload_ok WAIT p = (case p of WaitFields ms \<Rightarrow> 0 \<le> ms \<and> ms \<le> MAX_WAIT_MS | _ \<Rightarrow> False)"
| "payload_ok SLEEP p = (case p of SleepFields i j \<Rightarrow>
     MIN_POLL_INTERVAL_MS \<le> i \<and> i \<le> MAX_POLL_INTERVAL_MS \<and> 0 \<le> j \<and> j \<le> MAX_JITTER_PERCENT | _ \<Rightarrow> False)"
| "payload_ok RUN_PLAYBOOK p = (case p of PlaybookField _ \<Rightarrow> True | _ \<Rightarrow> False)"
| "payload_ok GENERATE_EVENT p = (case p of EventFields c s m \<Rightarrow>
     c \<in> set EVENT_CATEGORIES \<and> s \<in> set EVENT_SEVERITIES \<and> text_ok m | _ \<Rightarrow> False)"

lemma text_okI [simplified]: "clean_text v f 1 MAX_TEXT_LENGTH = Inr s \<Longrightarrow> text_ok s"
  using text_ok_iff by blast

lemma text_okD [simplified]: "text_ok s \<Longrightarrow> clean_text (JStr s) f 1 MAX_TEXT_LENGTH = Inr s"
  unfolding text_ok_def clean_text_Inr by auto

lemma string_in_Some: "string_in v S = Some s \<longleftrightarrow> v = JStr s \<and> s \<in> set S"
  by (auto simp: string_in_def split: json.splits)

lemma event_payload_ok: "event_payload kvs = Inr p \<Longrightarrow> payload_ok GENERATE_EVENT p"
  by (auto simp: event_payload_def rbind_eq_Inr string_in_Some intro: text_okI split: option.splits)

lemma payload_of_ok: "payload_of t kvs = Inr p \<Longrightarrow> payload_ok t p"
proof (cases t)
  case GENERATE_EVENT
  moreover assume "payload_of t kvs = Inr p"
  ultimately show ?thesis using event_payload_ok by simp
qed (auto simp: rbind_eq_Inr bounded_int_Inr validate_jitter_percent_Inr
      intro: text_okI split: option.splits)

lemma payload_of_payload_json: "payload_ok t p \<Longrightarrow> payload_of t (payload_json p) = Inr p"
proof (cases t)
  case GENERATE_EVENT
  assume "payload_ok t p"
  with GENERATE_EVENT show ?thesis
    by (auto simp: event_payload_def rbind_eq_Inr exact_keys_Inr get_key_def string_in_def text_okD
        split: payload.splits)
qed (auto simp: rbind_eq_Inr exact_keys_Inr get_key_def bounded_int_Inr validate_jitter_percent_Inr
      text_okD split: payload.splits)

lemma parse_task_type_Some: "parse_task_type v = Some t \<longleftrightarrow> v = JStr (task_type_str t)"
  by (auto simp: parse_task_type_def split: json.splits dest: task_type_of_str_SomeD)

lemma parse_task_type_str [simp]: "parse_task_type (JStr (task_type_str t)) = Some t"
  by (simp add: parse_task_type_Some)

lemma validate_task_payload_Inr:
  "validate_task_payload tt v = Inr (t, p) \<longleftrightarrow>
     tt = JStr (task_type_str t) \<and> (\<exists>kvs. v = JObj kvs \<and> payload_of t kvs = Inr p)"
  by (cases v) (auto simp: validate_task_payload_def rbind_eq_Inr parse_task_type_Some split: option.splits
      json.splits)

lemma validate_task_payload_ok: "validate_task_payload tt v = Inr (t, p) \<Longrightarrow> payload_ok t p"
  by (auto simp: validate_task_payload_Inr intro: payload_of_ok)

lemma validate_task_payload_json:
  "payload_ok t p \<Longrightarrow>
   validate_task_payload (JStr (task_type_str t)) (JObj (payload_json p)) = Inr (t, p)"
  by (simp add: validate_task_payload_Inr payload_of_payload_json)

definition task_json :: "task_type \<times> payload \<Rightarrow> json \<times> json" where
  "task_json tp = (JStr (task_type_str (fst tp)), JObj (payload_json (snd tp)))"

interpretation task_validator: validator "\<lambda>(tt, v). validate_task_payload tt v" task_json
  by unfold_locales
    (auto simp: task_json_def intro!: validate_task_payload_json dest: validate_task_payload_ok)

end
