(* ===== verification/Task_Result.thy ===== *)
theory Task_Result
  imports Protocol
begin

text \<open>
  \<open>validate_result\<close> and \<open>validate_task_result\<close> of \<open>c2lab/protocol.py\<close>: the envelope of a
  reported result, and the contract of each task type.  The lemmas give, per task type, exactly
  which results are accepted, and show that what is stored is the canonical value.
\<close>

section \<open>The envelope\<close>

definition report_status :: "json \<Rightarrow> task_status option" where
  "report_status v =
     (if v = JStr ''completed'' then Some Completed
      else if v = JStr ''failed'' then Some Failed else None)"

definition validate_result :: "json \<Rightarrow> json \<Rightarrow> protocol_error + (task_status \<times> (string \<times> json) list)" where
  "validate_result status result = (case report_status status of
      None \<Rightarrow> Inl (ProtocolError ''result status must be completed or failed'')
    | Some st \<Rightarrow> (case result of
        JObj kvs \<Rightarrow> (case encoded_size result of
            None \<Rightarrow> Inl (ProtocolError ''result must contain JSON-compatible values'')
          | Some n \<Rightarrow>
              if n > MAX_RESULT_BYTES
              then Inl (ProtocolError (''result must be at most '' @ nat_str MAX_RESULT_BYTES @ '' bytes''))
              else Inr (st, kvs))
      | _ \<Rightarrow> Inl (ProtocolError ''result must be a JSON object'')))"

section \<open>The contracts of the task types\<close>

text \<open>What the Teamserver knows of the Node when a \<open>RUNTIME_STATUS\<close> or \<open>SLEEP\<close> result arrives.\<close>

record runtime_identity =
  ri_version :: string
  ri_profile :: profile
  ri_poll_interval_ms :: int
  ri_jitter_percent :: int

definition MAX_SAFE_INTEGER :: int where "MAX_SAFE_INTEGER = 2 ^ 53 - 1"
definition MAX_TASKS_COMPLETED :: int where "MAX_TASKS_COMPLETED = 1000000"

definition int_between :: "json \<Rightarrow> int \<Rightarrow> int \<Rightarrow> int option" where
  "int_between v lo hi = (case as_int v of Some i \<Rightarrow> if lo \<le> i \<and> i \<le> hi then Some i else None | None \<Rightarrow> None)"

text \<open>The cases whose result must equal one fixed object.\<close>

definition fixed_result ::
  "(string \<times> json) list \<Rightarrow> (string \<times> json) list \<Rightarrow> string \<Rightarrow> protocol_error + (string \<times> json) list" where
  "fixed_result result expected message =
     (if same_json_value (JObj result) (JObj expected) then Inr expected
      else Inl (ProtocolError message))"

definition failed_result :: "(string \<times> json) list \<Rightarrow> protocol_error + (string \<times> json) list" where
  "failed_result result =
    rbind (exact_keys result [''error_code'']) (\<lambda>_.
    case string_in (get_key result ''error_code'') NODE_FAILURE_CODES of
      None \<Rightarrow> Inl (ProtocolError (''error_code must be one of: '' @ join '', '' NODE_FAILURE_CODES))
    | Some c \<Rightarrow> Inr [(''error_code'', JStr c)])"

definition runtime_status_result ::
  "(string \<times> json) list \<Rightarrow> runtime_identity option \<Rightarrow> protocol_error + (string \<times> json) list" where
  "runtime_status_result result expected =
    rbind (exact_keys result [''version'', ''profile'', ''uptime_ms'', ''tasks_completed'',
             ''poll_interval_ms'', ''jitter_percent'']) (\<lambda>_.
    rbind (clean_text (get_key result ''version'') ''version'' 1 32) (\<lambda>version.
    rbind (validate_profile (get_key result ''profile'')) (\<lambda>profile.
    rbind (validate_poll_interval (get_key result ''poll_interval_ms'')) (\<lambda>poll.
    rbind (validate_jitter_percent (get_key result ''jitter_percent'')) (\<lambda>jitter.
    case int_between (get_key result ''uptime_ms'') 0 MAX_SAFE_INTEGER of
      None \<Rightarrow> Inl (ProtocolError ''uptime_ms must be a non-negative safe integer'')
    | Some uptime \<Rightarrow>
        (case int_between (get_key result ''tasks_completed'') 0 MAX_TASKS_COMPLETED of
          None \<Rightarrow> Inl (ProtocolError ''tasks_completed must be an integer from 0 to 1000000'')
        | Some done_count \<Rightarrow>
            if (case expected of None \<Rightarrow> False
                | Some e \<Rightarrow> version \<noteq> ri_version e \<or> profile \<noteq> ri_profile e \<or>
                    poll \<noteq> ri_poll_interval_ms e \<or> jitter \<noteq> ri_jitter_percent e)
            then Inl (ProtocolError ''runtime identity fields do not match the enrolled node'')
            else Inr [(''version'', JStr version), (''profile'', JStr (profile_str profile)),
                      (''uptime_ms'', JInt uptime), (''tasks_completed'', JInt done_count),
                      (''poll_interval_ms'', JInt poll), (''jitter_percent'', JInt jitter)]))))))"

definition sleep_result ::
  "(string \<times> json) list \<Rightarrow> int \<Rightarrow> int \<Rightarrow> runtime_identity option \<Rightarrow> protocol_error + (string \<times> json) list" where
  "sleep_result result interval jitter_percent expected =
    rbind (exact_keys result [''previous_interval_ms'', ''new_interval_ms'', ''jitter_percent'']) (\<lambda>_.
    case int_between (get_key result ''previous_interval_ms'') MIN_POLL_INTERVAL_MS MAX_POLL_INTERVAL_MS of
      None \<Rightarrow> Inl (ProtocolError ''previous_interval_ms is outside the supported range'')
    | Some prev \<Rightarrow>
      if (case expected of None \<Rightarrow> False | Some e \<Rightarrow> prev \<noteq> ri_poll_interval_ms e)
      then Inl (ProtocolError ''previous_interval_ms does not match the enrolled node'')
      else (case int_between (get_key result ''new_interval_ms'') MIN_POLL_INTERVAL_MS MAX_POLL_INTERVAL_MS of
          None \<Rightarrow> Inl (ProtocolError ''new_interval_ms is outside the supported range'')
        | Some new \<Rightarrow>
          if new \<noteq> interval then Inl (ProtocolError ''new_interval_ms must match the requested interval'')
          else (case int_between (get_key result ''jitter_percent'') 0 MAX_JITTER_PERCENT of
              None \<Rightarrow> Inl (ProtocolError ''jitter_percent is outside the supported range'')
            | Some jitter \<Rightarrow>
              if jitter \<noteq> jitter_percent
              then Inl (ProtocolError ''jitter_percent must match the requested jitter'')
              else Inr [(''previous_interval_ms'', JInt prev), (''new_interval_ms'', JInt new),
                        (''jitter_percent'', JInt jitter)])))"

text \<open>\<open>except ValueError as error: raise ProtocolError(str(error))\<close>; a \<open>TypeError\<close> passes through.\<close>

definition playbook_task_result :: "(string \<times> json) list \<Rightarrow> playbook \<Rightarrow> protocol_error + (string \<times> json) list" where
  "playbook_task_result result p =
    (case validate_playbook_result (JStr (playbook_str p)) (JObj result) of
      Inr (JObj kvs) \<Rightarrow> Inr kvs
    | Inr _ \<Rightarrow> Inl (PyException ''TypeError'')
    | Inl e \<Rightarrow> if is_value_error e then Inl (ProtocolError (error_message e))
               else Inl (PyException ''TypeError''))"

text \<open>A completed result of a task; a payload of another shape is the \<open>KeyError\<close> of
  \<open>task_payload["..."]\<close>.\<close>

fun completed_result ::
  "task_type \<Rightarrow> payload \<Rightarrow> (string \<times> json) list \<Rightarrow> runtime_identity option
    \<Rightarrow> protocol_error + (string \<times> json) list" where
  "completed_result PING _ result _ =
     fixed_result result [(''reply'', JStr ''PONG'')] ''PING result must be the fixed PONG response''"
| "completed_result RUNTIME_STATUS _ result expected = runtime_status_result result expected"
| "completed_result ECHO_TEXT (TextField t) result _ =
     fixed_result result [(''echo'', JStr t)] ''ECHO_TEXT result must match the queued text''"
| "completed_result HASH_TEXT (TextField t) result _ =
     fixed_result result [(''algorithm'', JStr ''sha256''), (''digest'', JStr (sha256_hex (utf8_encode t)))]
       ''HASH_TEXT result must match the queued text digest''"
| "completed_result WAIT (WaitFields ms) result _ =
     fixed_result result [(''waited_ms'', JInt ms)] ''WAIT result must match the bounded wait request''"
| "completed_result SLEEP (SleepFields i j) result expected = sleep_result result i j expected"
| "completed_result EXIT _ result _ =
     fixed_result result [(''acknowledged'', JBool True)] ''EXIT result must be the fixed acknowledgement''"
| "completed_result GENERATE_EVENT (EventFields c s m) result _ =
     fixed_result result [(''recorded'', JBool True), (''category'', JStr c), (''severity'', JStr s),
        (''message'', JStr m)] ''GENERATE_EVENT result must match the queued event''"
| "completed_result RUN_PLAYBOOK (PlaybookField p) result _ = playbook_task_result result p"
| "completed_result _ _ _ _ = Inl (PyException ''KeyError'')"

definition validate_task_result ::
  "task_type \<Rightarrow> payload \<Rightarrow> json \<Rightarrow> json \<Rightarrow> runtime_identity option
    \<Rightarrow> protocol_error + (task_status \<times> (string \<times> json) list)" where
  "validate_task_result task_type task_payload status result expected =
    rbind (validate_result status result) (\<lambda>(st, clean).
      if st = Failed then rbind (failed_result clean) (\<lambda>r. Inr (Failed, r))
      else rbind (completed_result task_type task_payload clean expected) (\<lambda>r. Inr (st, r)))"

section \<open>What is accepted\<close>

lemma report_status_Some:
  "report_status v = Some st \<longleftrightarrow> st \<in> {Completed, Failed} \<and> v = JStr (status_str st)"
  by (auto simp: report_status_def)

lemma validate_result_Inr:
  "validate_result s r = Inr (st, kvs) \<longleftrightarrow>
     r = JObj kvs \<and> report_status s = Some st \<and> (\<exists>n\<le>MAX_RESULT_BYTES. encoded_size r = Some n)"
  by (auto simp: validate_result_def split: option.splits json.splits if_splits)

lemma validate_result_status: "validate_result s r = Inr (st, kvs) \<Longrightarrow> st = Completed \<or> st = Failed"
  by (auto simp: validate_result_Inr report_status_Some)

lemma int_between_Some: "int_between v lo hi = Some i \<longleftrightarrow> v = JInt i \<and> lo \<le> i \<and> i \<le> hi"
  by (cases v) (auto simp: int_between_def)

lemma fixed_result_Inr:
  "fixed_result r e m = Inr r' \<longleftrightarrow> r' = e \<and> same_json_value (JObj r) (JObj e)"
  by (auto simp: fixed_result_def)

lemma failed_result_Inr:
  "failed_result r = Inr r' \<longleftrightarrow>
     (\<exists>c\<in>set NODE_FAILURE_CODES. r' = [(''error_code'', JStr c)] \<and> set (keys r) = {''error_code''} \<and>
        get_key r ''error_code'' = JStr c)"
  by (cases "string_in (get_key r ''error_code'') NODE_FAILURE_CODES")
    (simp_all add: failed_result_def rbind_eq_Inr exact_keys_Inr string_in_def Bex_def
      split: json.splits if_splits, blast+)

lemma sleep_result_Inr:
  "sleep_result r i j (Some e) = Inr r' \<Longrightarrow>
     r' = [(''previous_interval_ms'', JInt (ri_poll_interval_ms e)), (''new_interval_ms'', JInt i),
           (''jitter_percent'', JInt j)] \<and>
     MIN_POLL_INTERVAL_MS \<le> i \<and> i \<le> MAX_POLL_INTERVAL_MS \<and> 0 \<le> j \<and> j \<le> MAX_JITTER_PERCENT"
  by (auto simp: sleep_result_def rbind_eq_Inr int_between_Some split: option.splits if_splits)

lemma runtime_status_result_Inr:
  assumes "runtime_status_result r (Some e) = Inr r'"
  shows "\<exists>up n. r' = [(''version'', JStr (ri_version e)), (''profile'', JStr (profile_str (ri_profile e))),
        (''uptime_ms'', JInt up), (''tasks_completed'', JInt n),
        (''poll_interval_ms'', JInt (ri_poll_interval_ms e)), (''jitter_percent'', JInt (ri_jitter_percent e))] \<and>
        0 \<le> up \<and> up \<le> MAX_SAFE_INTEGER \<and> 0 \<le> n \<and> n \<le> MAX_TASKS_COMPLETED"
proof -
  from assms obtain up n where
    "int_between (get_key r ''uptime_ms'') 0 MAX_SAFE_INTEGER = Some up"
    "int_between (get_key r ''tasks_completed'') 0 MAX_TASKS_COMPLETED = Some n"
    "r' = [(''version'', JStr (ri_version e)), (''profile'', JStr (profile_str (ri_profile e))),
        (''uptime_ms'', JInt up), (''tasks_completed'', JInt n),
        (''poll_interval_ms'', JInt (ri_poll_interval_ms e)), (''jitter_percent'', JInt (ri_jitter_percent e))]"
    unfolding runtime_status_result_def rbind_eq_Inr
    by (elim exE conjE) (simp split: option.splits if_splits)
  then show ?thesis by (simp add: int_between_Some)
qed

lemma playbook_task_result_Inr:
  assumes "playbook_task_result r p = Inr r'"
  shows "r' = r \<and> (\<exists>ev\<in>set (allowed_evidence p). same_json_value (JObj r) (playbook_result p ev))"
proof -
  from assms obtain j where j: "validate_playbook_result (JStr (playbook_str p)) (JObj r) = Inr j" "j = JObj r'"
    by (auto simp: playbook_task_result_def split: sum.splits json.splits if_splits)
  from validate_playbook_result_Inr [OF j(1)] j(2) show ?thesis by auto
qed

lemma validate_task_result_Inr:
  "validate_task_result t p s r e = Inr (st, r') \<longleftrightarrow>
     (\<exists>kvs. validate_result s r = Inr (st, kvs) \<and>
       (if st = Failed then failed_result kvs = Inr r' else completed_result t p kvs e = Inr r'))"
  by (auto simp: validate_task_result_def rbind_eq_Inr split: if_splits)

lemma validate_task_result_status:
  "validate_task_result t p s r e = Inr (st, r') \<Longrightarrow> st = Completed \<or> st = Failed"
  by (auto simp: validate_task_result_Inr dest: validate_result_status)

text \<open>For a well-formed payload the lookups of \<open>task_payload\<close> never fail: the only exception
  that is not a \<open>ProtocolError\<close> is the \<open>TypeError\<close> of the playbook validator.\<close>

definition raises_cleanly :: "protocol_error + 'a \<Rightarrow> bool" where
  "raises_cleanly m \<longleftrightarrow> (\<forall>x. m \<noteq> Inl (PyException x))"

named_theorems clean_simps

lemma clean_Inr [clean_simps]: "raises_cleanly (Inr x)"
  and clean_error [clean_simps]: "raises_cleanly (Inl (ProtocolError m))"
  by (simp_all add: raises_cleanly_def)

lemma clean_rbind: "raises_cleanly m \<Longrightarrow> (\<And>x. m = Inr x \<Longrightarrow> raises_cleanly (f x)) \<Longrightarrow> raises_cleanly (rbind m f)"
  by (cases m) (auto simp: raises_cleanly_def)

lemma clean_validators [clean_simps]:
  "raises_cleanly (clean_text v f lo hi)" "raises_cleanly (exact_keys kvs ks)"
  "raises_cleanly (validate_profile v)" "raises_cleanly (validate_poll_interval v)"
  "raises_cleanly (validate_jitter_percent v)" "raises_cleanly (bounded_int f a b v)"
  by (auto simp: raises_cleanly_def clean_text_def exact_keys_def validate_profile_def
      validate_poll_interval_def validate_jitter_percent_def bounded_int_def Let_def
      split: json.splits option.splits)

lemma clean_contracts [clean_simps]:
  "raises_cleanly (fixed_result r e m)" "raises_cleanly (failed_result r)"
  "raises_cleanly (sleep_result r i j ri)" "raises_cleanly (runtime_status_result r ri)"
  unfolding fixed_result_def failed_result_def sleep_result_def runtime_status_result_def
  by (auto intro!: clean_rbind simp: clean_simps split: option.splits)

lemma clean_validate_result [clean_simps]: "raises_cleanly (validate_result s r)"
  by (auto simp: validate_result_def clean_simps split: option.splits json.splits)

lemma completed_result_clean:
  "payload_ok t p \<Longrightarrow> t \<noteq> RUN_PLAYBOOK \<Longrightarrow> raises_cleanly (completed_result t p r e)"
  by (cases t; cases p) (simp_all add: clean_simps)

lemma validate_task_result_clean:
  "payload_ok t p \<Longrightarrow> t \<noteq> RUN_PLAYBOOK \<Longrightarrow> raises_cleanly (validate_task_result t p s r e)"
  unfolding validate_task_result_def
  by (auto intro!: clean_rbind completed_result_clean simp: clean_simps)

lemma playbook_task_result_exception:
  assumes "playbook_task_result r p = Inl (PyException x)"
  shows "x = ''TypeError''"
proof (cases "validate_playbook_result (JStr (playbook_str p)) (JObj r)")
  case (Inl e)
  with assms show ?thesis by (simp add: playbook_task_result_def split: if_splits)
next
  case (Inr j)
  with assms show ?thesis by (cases j) (simp_all add: playbook_task_result_def)
qed

lemma validate_task_result_exception:
  assumes "payload_ok t p" and "validate_task_result t p s r e = Inl (PyException x)"
  shows "x = ''TypeError'' \<and> t = RUN_PLAYBOOK"
proof -
  have t: "t = RUN_PLAYBOOK"
    using validate_task_result_clean [of t p s r e] assms by (auto simp: raises_cleanly_def)
  with assms(1) obtain pb where p: "p = PlaybookField pb" by (cases p) auto
  have "raises_cleanly (validate_result s r)" "raises_cleanly (failed_result k)" for k
    by (simp_all add: clean_simps)
  with assms(2) have "\<exists>k. playbook_task_result k pb = Inl (PyException x)"
    by (auto simp: validate_task_result_def rbind_eq_Inl t p raises_cleanly_def split: if_splits)
  with t playbook_task_result_exception show ?thesis by blast
qed

end
