(* ===== verification/Core_State.thy ===== *)
theory Core_State
  imports Task_Result
begin

text \<open>
  The state of \<open>LabState\<close> in \<open>c2lab/core.py\<close> and the helpers every operation uses.

  A dictionary of the source with a fixed set of keys is a record.  Keys that start with an
  underscore are private: the public projection of an object is the record without them, so
  \<open>task\<close> extends \<open>public_task\<close>, which extends \<open>node_task\<close> (what the Node sees), and the
  projections \<open>_public_task\<close>, \<open>_node_task\<close>, \<open>_public_node\<close>, \<open>_public_exercise\<close> are record
  truncations.

  The outside world is explicit: \<open>env\<close> gives the result of the \<open>n\<close>-th reading of the wall clock,
  of \<open>uuid4().hex\<close> and of the \<open>secrets\<close> module, and \<open>s_draws\<close> counts the readings;
  \<open>env_float_repr\<close> is the text Python prints for a float.  The
  monotonic clock is the rational argument \<open>now\<close> of the operations that read it.
\<close>

section \<open>Constants\<close>

definition MAX_NODES :: nat where "MAX_NODES = 20"
definition MAX_TASKS :: nat where "MAX_TASKS = 500"
definition MAX_QUEUED_TASKS_PER_NODE :: nat where "MAX_QUEUED_TASKS_PER_NODE = 50"
definition MAX_QUEUED_PLAYBOOKS_PER_NODE :: nat where "MAX_QUEUED_PLAYBOOKS_PER_NODE = 3"
definition MAX_OPERATION_STEPS :: nat where "MAX_OPERATION_STEPS = 3"
definition MAX_OPERATION_IDEMPOTENCY_RECORDS :: nat where
  "MAX_OPERATION_IDEMPOTENCY_RECORDS = MAX_TASKS"
definition MAX_EVENTS :: nat where "MAX_EVENTS = 500"
definition MAX_AUDIT_ENTRIES :: nat where "MAX_AUDIT_ENTRIES = 500"
definition MAX_OPERATOR_NOTES_RETAINED :: nat where "MAX_OPERATOR_NOTES_RETAINED = 100"
definition MAX_OPERATOR_NOTE_LENGTH :: nat where "MAX_OPERATOR_NOTE_LENGTH = 240"
definition MAX_SYNC_CURSOR :: int where "MAX_SYNC_CURSOR = 9223372036854775807"
definition MAX_SYNC_PAGE_SIZE :: int where "MAX_SYNC_PAGE_SIZE = 100"
definition TASK_TIMEOUT_SECONDS :: rat where "TASK_TIMEOUT_SECONDS = 8"
definition NODE_STALE_SECONDS :: rat where "NODE_STALE_SECONDS = 8"
definition STALE_SESSION_TTL_SECONDS :: rat where "STALE_SESSION_TTL_SECONDS = 60"
definition HEARTBEAT_EVENT_SECONDS :: rat where "HEARTBEAT_EVENT_SECONDS = 5"
definition DEFAULT_QUEUE_TTL_SECONDS :: int where "DEFAULT_QUEUE_TTL_SECONDS = 300"
definition MIN_QUEUE_TTL_SECONDS :: int where "MIN_QUEUE_TTL_SECONDS = 5"
definition MAX_QUEUE_TTL_SECONDS :: int where "MAX_QUEUE_TTL_SECONDS = 86400"
definition MIN_IDEMPOTENCY_KEY_LENGTH :: nat where "MIN_IDEMPOTENCY_KEY_LENGTH = 8"
definition MAX_IDEMPOTENCY_KEY_LENGTH :: nat where "MAX_IDEMPOTENCY_KEY_LENGTH = 128"
definition MAX_OPERATOR_ACTOR_LENGTH :: nat where "MAX_OPERATOR_ACTOR_LENGTH = 48"
definition MAX_TASK_RESULT_TOMBSTONES :: nat where "MAX_TASK_RESULT_TOMBSTONES = MAX_TASKS"

definition TERMINAL_TASK_STATUSES :: "task_status set" where
  "TERMINAL_TASK_STATUSES = {Completed, Failed, Timeout, Cancelled, Expired}"

lemma terminal_iff: "st \<in> TERMINAL_TASK_STATUSES \<longleftrightarrow> st \<noteq> Queued \<and> st \<noteq> Dispatched"
  by (cases st) (simp_all add: TERMINAL_TASK_STATUSES_def)

section \<open>Records\<close>

datatype node_status = Online | Offline

fun node_status_str :: "node_status \<Rightarrow> string" where
  "node_status_str Online = ''online''"
| "node_status_str Offline = ''offline''"

record public_node =
  n_id :: string
  n_name :: string
  n_status :: node_status
  n_session_active :: bool
  n_version :: string
  n_profile :: profile
  n_transport :: string
  n_capabilities :: "task_type list"
  n_poll_interval_ms :: int
  n_jitter_percent :: int
  n_created_at :: string
  n_last_seen :: string
  n_tasks_completed :: nat
  n_tasks_failed :: nat
  n_tasking_paused :: bool
  n_tasking_paused_at :: "string option"
  n_tasking_paused_by :: "string option"

record node = public_node +
  n_session_token :: string
  n_last_seen_monotonic :: rat
  n_last_heartbeat_event :: rat

record node_task =
  t_id :: string
  t_correlation_id :: string
  t_node_id :: string
  t_type :: task_type
  t_payload :: payload
  t_status :: task_status
  t_result :: "(string \<times> json) list option"
  t_created_at :: string
  t_queue_ttl_seconds :: int
  t_dispatched_at :: "string option"
  t_completed_at :: "string option"
  t_delivery_attempts :: nat

record public_task = node_task +
  t_created_by :: string
  t_operation :: "(string \<times> nat) option"

record task = public_task +
  t_sequence :: nat
  t_deadline :: "rat option"
  t_queue_deadline :: "rat option"
  t_idempotency_key :: "string option"
  t_exercise_id :: "string option"
  t_result_accepted :: bool

record event =
  e_id :: string
  e_sequence :: nat
  e_time :: string
  e_kind :: string
  e_level :: string
  e_node_id :: "string option"
  e_task_id :: "string option"
  e_correlation_id :: "string option"
  e_actor :: string
  e_data :: "(string \<times> json) list"

record audit_entry =
  a_id :: string
  a_sequence :: nat
  a_time :: string
  a_actor :: string
  a_action :: string
  a_node_id :: "string option"
  a_task_id :: "string option"
  a_correlation_id :: "string option"
  a_task_type :: "string option"
  a_from_state :: "string option"
  a_to_state :: "string option"
  a_outcome :: string
  a_reason :: "string option"

datatype exercise_status = XRunning | XCompleted | XFailed | XContained
datatype detection_status = Pending | Detected
datatype alert_status = AlertOpen | AlertContained

fun exercise_status_str :: "exercise_status \<Rightarrow> string" where
  "exercise_status_str XRunning = ''running''"
| "exercise_status_str XCompleted = ''completed''"
| "exercise_status_str XFailed = ''failed''"
| "exercise_status_str XContained = ''contained''"

record timeline_item =
  tl_sequence :: nat
  tl_time :: string
  tl_phase :: string
  tl_kind :: string
  tl_summary :: string
  tl_task_id :: "string option"
  tl_rule_id :: "string option"
  tl_technique_id :: "string option"
  tl_action :: "string option"

record alert =
  al_id :: string
  al_rule_id :: string
  al_source_id :: string
  al_name :: string
  al_technique_id :: string
  al_severity :: string
  al_signal :: string
  al_status :: alert_status
  al_detected_at :: string
  al_contained_at :: "string option"
  al_task_id :: string

record containment =
  ct_applied :: bool
  ct_action :: "containment_action option"
  ct_actor :: "string option"
  ct_time :: "string option"

record public_exercise =
  x_id :: string
  x_scenario_id :: string
  x_title :: string
  x_description :: string
  x_scope :: json
  x_status :: exercise_status
  x_detection_status :: detection_status
  x_node_id :: string
  x_created_by :: string
  x_created_at :: string
  x_completed_at :: "string option"
  x_task_ids :: "string list"
  x_techniques :: "technique list"
  x_alerts :: "alert list"
  x_timeline :: "timeline_item list"
  x_containment :: containment

record exercise = public_exercise +
  x_timeline_sequence :: nat
  x_observed_task_ids :: "string list"
  x_completion_recorded :: bool

record operation_summary =
  op_id :: string
  op_node_id :: string
  op_created_by :: string
  op_steps :: "playbook list"
  op_tasks :: "public_task list"

record operation_record =
  or_actor :: string
  or_node_id :: string
  or_playbooks :: "playbook list"
  or_queue_ttl_seconds :: int
  or_task_ids :: "string list"
  or_summary :: operation_summary

record env =
  env_utc :: "nat \<Rightarrow> string"
  env_uuid :: "nat \<Rightarrow> string"
  env_token :: "nat \<Rightarrow> string"
  env_float_repr :: "rat \<Rightarrow> string"

record lab_state =
  s_nodes :: "node dict"
  s_tasks :: "task dict"
  s_tombstones :: "node_task dict"
  s_events :: "event list"
  s_audit :: "audit_entry list"
  s_note_idem :: "(string \<times> string \<times> string) dict"
  s_exercises :: "exercise dict"
  s_exercise_idem :: "(string \<times> string \<times> string \<times> string) dict"
  s_operation_idem :: "operation_record dict"
  s_event_seq :: nat
  s_audit_seq :: nat
  s_task_seq :: nat
  s_stream_id :: string
  s_env :: env
  s_draws :: nat

definition init_state :: "string \<Rightarrow> env \<Rightarrow> lab_state" where
  "init_state stream_hex e =
    \<lparr>s_nodes = [], s_tasks = [], s_tombstones = [], s_events = [], s_audit = [], s_note_idem = [],
     s_exercises = [], s_exercise_idem = [], s_operation_idem = [], s_event_seq = 0, s_audit_seq = 0,
     s_task_seq = 0, s_stream_id = ''stream-'' @ stream_hex, s_env = e, s_draws = 0\<rparr>"

section \<open>Errors\<close>

datatype lab_error = LabError string string nat | Uncaught string

abbreviation invalid_request :: "string \<Rightarrow> lab_error" where
  "invalid_request m \<equiv> LabError m ''invalid_request'' 400"

text \<open>\<open>_protocol_call\<close>: a \<open>ProtocolError\<close> becomes a \<open>LabError\<close>, anything else passes.\<close>

fun lab_error_of :: "protocol_error \<Rightarrow> lab_error" where
  "lab_error_of (ProtocolError m) = invalid_request m"
| "lab_error_of (PyException x) = Uncaught x"

definition protocol_call :: "protocol_error + 'a \<Rightarrow> lab_error + 'a" where
  "protocol_call m = map_error lab_error_of m"

lemma protocol_call_Inr [simp]: "protocol_call m = Inr x \<longleftrightarrow> m = Inr x"
  by (simp add: protocol_call_def)

section \<open>The outside world\<close>

definition utc_now :: "lab_state \<Rightarrow> string" where
  "utc_now s = env_utc (s_env s) (s_draws s)"

definition uuid_hex :: "nat \<Rightarrow> lab_state \<Rightarrow> string" where
  "uuid_hex digits s = take digits (env_uuid (s_env s) (s_draws s))"

definition fresh_token :: "lab_state \<Rightarrow> string" where
  "fresh_token s = env_token (s_env s) (s_draws s)"

definition tick :: "lab_state \<Rightarrow> lab_state" where
  "tick s = s\<lparr>s_draws := Suc (s_draws s)\<rparr>"

section \<open>Event and audit logs\<close>

text \<open>The keyword arguments of \<open>_record_locked\<close> and \<open>_audit_locked\<close>, with their defaults.\<close>

record event_args =
  ea_kind :: string
  ea_level :: string
  ea_node_id :: "string option"
  ea_task_id :: "string option"
  ea_correlation_id :: "string option"
  ea_actor :: string
  ea_data :: "(string \<times> json) list"

definition event_of :: "string \<Rightarrow> event_args" where
  "event_of kind = \<lparr>ea_kind = kind, ea_level = ''info'', ea_node_id = None, ea_task_id = None,
     ea_correlation_id = None, ea_actor = ''teamserver'', ea_data = []\<rparr>"

definition event_correlation :: "event_args \<Rightarrow> string option" where
  "event_correlation a = (case ea_correlation_id a of
      Some c \<Rightarrow> Some c
    | None \<Rightarrow> (case map_of (ea_data a) ''correlation_id'' of Some (JStr c) \<Rightarrow> Some c | _ \<Rightarrow> None))"

definition new_event :: "event_args \<Rightarrow> lab_state \<Rightarrow> event" where
  "new_event a s =
    \<lparr>e_id = ''event-'' @ uuid_hex 12 s, e_sequence = Suc (s_event_seq s), e_time = utc_now s,
     e_kind = ea_kind a, e_level = ea_level a, e_node_id = ea_node_id a, e_task_id = ea_task_id a,
     e_correlation_id = event_correlation a, e_actor = ea_actor a, e_data = ea_data a\<rparr>"

definition record_event :: "event_args \<Rightarrow> lab_state \<Rightarrow> lab_state" where
  "record_event a s = tick (s\<lparr>s_event_seq := Suc (s_event_seq s),
     s_events := deque_append MAX_EVENTS (new_event a s) (s_events s)\<rparr>)"

record audit_args =
  aa_action :: string
  aa_actor :: string
  aa_node_id :: "string option"
  aa_task_id :: "string option"
  aa_correlation_id :: "string option"
  aa_task_type :: "task_type option"
  aa_from_state :: "string option"
  aa_to_state :: "string option"
  aa_outcome :: string
  aa_reason :: "string option"

definition audit_of :: "string \<Rightarrow> string \<Rightarrow> string \<Rightarrow> audit_args" where
  "audit_of action actor outcome = \<lparr>aa_action = action, aa_actor = actor, aa_node_id = None,
     aa_task_id = None, aa_correlation_id = None, aa_task_type = None, aa_from_state = None,
     aa_to_state = None, aa_outcome = outcome, aa_reason = None\<rparr>"

definition new_audit :: "audit_args \<Rightarrow> lab_state \<Rightarrow> audit_entry" where
  "new_audit a s =
    \<lparr>a_id = ''audit-'' @ pad_nat 12 (Suc (s_audit_seq s)), a_sequence = Suc (s_audit_seq s),
     a_time = utc_now s, a_actor = aa_actor a, a_action = aa_action a, a_node_id = aa_node_id a,
     a_task_id = aa_task_id a, a_correlation_id = aa_correlation_id a,
     a_task_type = map_option task_type_str (aa_task_type a), a_from_state = aa_from_state a,
     a_to_state = aa_to_state a, a_outcome = aa_outcome a, a_reason = aa_reason a\<rparr>"

definition record_audit :: "audit_args \<Rightarrow> lab_state \<Rightarrow> lab_state" where
  "record_audit a s = tick (s\<lparr>s_audit_seq := Suc (s_audit_seq s),
     s_audit := deque_append MAX_AUDIT_ENTRIES (new_audit a s) (s_audit s)\<rparr>)"

section \<open>Mutating a stored object\<close>

definition modify_task :: "string \<Rightarrow> (task \<Rightarrow> task) \<Rightarrow> lab_state \<Rightarrow> lab_state" where
  "modify_task tid f s = s\<lparr>s_tasks := dmod tid f (s_tasks s)\<rparr>"

definition modify_node :: "string \<Rightarrow> (node \<Rightarrow> node) \<Rightarrow> lab_state \<Rightarrow> lab_state" where
  "modify_node nid f s = s\<lparr>s_nodes := dmod nid f (s_nodes s)\<rparr>"

definition modify_exercise :: "string \<Rightarrow> (exercise \<Rightarrow> exercise) \<Rightarrow> lab_state \<Rightarrow> lab_state" where
  "modify_exercise xid f s = s\<lparr>s_exercises := dmod xid f (s_exercises s)\<rparr>"

section \<open>Projections\<close>

definition project_node :: "node \<Rightarrow> public_node" where
  "project_node n = public_node.truncate n"

definition project_task :: "task \<Rightarrow> public_task" where
  "project_task t = public_task.truncate t"

definition project_node_task :: "task \<Rightarrow> node_task" where
  "project_node_task t = node_task.truncate t"

definition project_exercise :: "exercise \<Rightarrow> public_exercise" where
  "project_exercise x = public_exercise.truncate x"

definition correlation_data :: "'a node_task_scheme \<Rightarrow> (string \<times> json) list" where
  "correlation_data t = [(''type'', JStr (task_type_str (t_type t))), (''correlation_id'', JStr (t_correlation_id t))]"

section \<open>Frames: the fields a helper leaves alone\<close>

lemma tick_frame [simp]:
  "s_nodes (tick s) = s_nodes s"
  "s_tasks (tick s) = s_tasks s"
  "s_tombstones (tick s) = s_tombstones s"
  "s_events (tick s) = s_events s"
  "s_audit (tick s) = s_audit s"
  "s_note_idem (tick s) = s_note_idem s"
  "s_exercises (tick s) = s_exercises s"
  "s_exercise_idem (tick s) = s_exercise_idem s"
  "s_operation_idem (tick s) = s_operation_idem s"
  "s_event_seq (tick s) = s_event_seq s"
  "s_audit_seq (tick s) = s_audit_seq s"
  "s_task_seq (tick s) = s_task_seq s"
  "s_stream_id (tick s) = s_stream_id s"
  "s_env (tick s) = s_env s"
  by (simp_all add: tick_def)

lemma record_event_frame [simp]:
  "s_nodes (record_event a s) = s_nodes s"
  "s_tasks (record_event a s) = s_tasks s"
  "s_tombstones (record_event a s) = s_tombstones s"
  "s_audit (record_event a s) = s_audit s"
  "s_note_idem (record_event a s) = s_note_idem s"
  "s_exercises (record_event a s) = s_exercises s"
  "s_exercise_idem (record_event a s) = s_exercise_idem s"
  "s_operation_idem (record_event a s) = s_operation_idem s"
  "s_audit_seq (record_event a s) = s_audit_seq s"
  "s_task_seq (record_event a s) = s_task_seq s"
  "s_stream_id (record_event a s) = s_stream_id s"
  "s_env (record_event a s) = s_env s"
  by (simp_all add: record_event_def)

lemma record_audit_frame [simp]:
  "s_nodes (record_audit a s) = s_nodes s"
  "s_tasks (record_audit a s) = s_tasks s"
  "s_tombstones (record_audit a s) = s_tombstones s"
  "s_events (record_audit a s) = s_events s"
  "s_note_idem (record_audit a s) = s_note_idem s"
  "s_exercises (record_audit a s) = s_exercises s"
  "s_exercise_idem (record_audit a s) = s_exercise_idem s"
  "s_operation_idem (record_audit a s) = s_operation_idem s"
  "s_event_seq (record_audit a s) = s_event_seq s"
  "s_task_seq (record_audit a s) = s_task_seq s"
  "s_stream_id (record_audit a s) = s_stream_id s"
  "s_env (record_audit a s) = s_env s"
  by (simp_all add: record_audit_def)

lemma modify_task_frame [simp]:
  "s_nodes (modify_task k f s) = s_nodes s"
  "s_tombstones (modify_task k f s) = s_tombstones s"
  "s_events (modify_task k f s) = s_events s"
  "s_audit (modify_task k f s) = s_audit s"
  "s_note_idem (modify_task k f s) = s_note_idem s"
  "s_exercises (modify_task k f s) = s_exercises s"
  "s_exercise_idem (modify_task k f s) = s_exercise_idem s"
  "s_operation_idem (modify_task k f s) = s_operation_idem s"
  "s_event_seq (modify_task k f s) = s_event_seq s"
  "s_audit_seq (modify_task k f s) = s_audit_seq s"
  "s_task_seq (modify_task k f s) = s_task_seq s"
  "s_stream_id (modify_task k f s) = s_stream_id s"
  "s_env (modify_task k f s) = s_env s"
  "s_draws (modify_task k f s) = s_draws s"
  by (simp_all add: modify_task_def)

lemma modify_node_frame [simp]:
  "s_tasks (modify_node k f s) = s_tasks s"
  "s_tombstones (modify_node k f s) = s_tombstones s"
  "s_events (modify_node k f s) = s_events s"
  "s_audit (modify_node k f s) = s_audit s"
  "s_note_idem (modify_node k f s) = s_note_idem s"
  "s_exercises (modify_node k f s) = s_exercises s"
  "s_exercise_idem (modify_node k f s) = s_exercise_idem s"
  "s_operation_idem (modify_node k f s) = s_operation_idem s"
  "s_event_seq (modify_node k f s) = s_event_seq s"
  "s_audit_seq (modify_node k f s) = s_audit_seq s"
  "s_task_seq (modify_node k f s) = s_task_seq s"
  "s_stream_id (modify_node k f s) = s_stream_id s"
  "s_env (modify_node k f s) = s_env s"
  "s_draws (modify_node k f s) = s_draws s"
  by (simp_all add: modify_node_def)

lemma modify_exercise_frame [simp]:
  "s_nodes (modify_exercise k f s) = s_nodes s"
  "s_tasks (modify_exercise k f s) = s_tasks s"
  "s_tombstones (modify_exercise k f s) = s_tombstones s"
  "s_events (modify_exercise k f s) = s_events s"
  "s_audit (modify_exercise k f s) = s_audit s"
  "s_note_idem (modify_exercise k f s) = s_note_idem s"
  "s_exercise_idem (modify_exercise k f s) = s_exercise_idem s"
  "s_operation_idem (modify_exercise k f s) = s_operation_idem s"
  "s_event_seq (modify_exercise k f s) = s_event_seq s"
  "s_audit_seq (modify_exercise k f s) = s_audit_seq s"
  "s_task_seq (modify_exercise k f s) = s_task_seq s"
  "s_stream_id (modify_exercise k f s) = s_stream_id s"
  "s_env (modify_exercise k f s) = s_env s"
  "s_draws (modify_exercise k f s) = s_draws s"
  by (simp_all add: modify_exercise_def)

lemma modify_task_tasks [simp]: "s_tasks (modify_task k f s) = dmod k f (s_tasks s)"
  by (simp add: modify_task_def)

lemma modify_node_nodes [simp]: "s_nodes (modify_node k f s) = dmod k f (s_nodes s)"
  by (simp add: modify_node_def)

lemma modify_exercise_exercises [simp]: "s_exercises (modify_exercise k f s) = dmod k f (s_exercises s)"
  by (simp add: modify_exercise_def)

lemma record_event_events [simp]:
  "s_events (record_event a s) = deque_append MAX_EVENTS (new_event a s) (s_events s)"
  "s_event_seq (record_event a s) = Suc (s_event_seq s)"
  by (simp_all add: record_event_def)

lemma record_audit_audit [simp]:
  "s_audit (record_audit a s) = deque_append MAX_AUDIT_ENTRIES (new_audit a s) (s_audit s)"
  "s_audit_seq (record_audit a s) = Suc (s_audit_seq s)"
  by (simp_all add: record_audit_def)

end
