(* ===== verification/Core_Exercise.thy ===== *)
theory Core_Exercise
  imports Core_State
begin

text \<open>
  The exercise machinery of \<open>LabState\<close>: the bounded timeline, the evidence kept from task
  records, and \<open>_refresh_exercises_locked\<close>, which derives alerts and final states from the
  task ledger.  While one exercise is refreshed the source mutates that exercise and the logs
  only, so the exercise and the rest of the state are threaded as a pair and the exercise is
  written back at the end.
\<close>

section \<open>Timeline\<close>

record timeline_args =
  ta_phase :: string
  ta_kind :: string
  ta_summary :: string
  ta_task_id :: "string option"
  ta_rule_id :: "string option"
  ta_technique_id :: "string option"
  ta_action :: "string option"

definition timeline_of :: "string \<Rightarrow> string \<Rightarrow> string \<Rightarrow> timeline_args" where
  "timeline_of phase kind summary = \<lparr>ta_phase = phase, ta_kind = kind, ta_summary = summary,
     ta_task_id = None, ta_rule_id = None, ta_technique_id = None, ta_action = None\<rparr>"

definition timeline_item_of :: "exercise \<Rightarrow> string \<Rightarrow> timeline_args \<Rightarrow> timeline_item" where
  "timeline_item_of x time a =
    \<lparr>tl_sequence = Suc (x_timeline_sequence x), tl_time = time, tl_phase = ta_phase a,
     tl_kind = ta_kind a, tl_summary = ta_summary a, tl_task_id = ta_task_id a,
     tl_rule_id = ta_rule_id a, tl_technique_id = ta_technique_id a, tl_action = ta_action a\<rparr>"

definition append_exercise_timeline ::
  "timeline_args \<Rightarrow> exercise \<times> lab_state \<Rightarrow> exercise \<times> lab_state" where
  "append_exercise_timeline a xs = (case xs of (x, s) \<Rightarrow>
     if length (x_timeline x) \<ge> MAX_EXERCISE_TIMELINE then (x, s)
     else (x\<lparr>x_timeline_sequence := Suc (x_timeline_sequence x),
             x_timeline := x_timeline x @ [timeline_item_of x (utc_now s) a]\<rparr>, tick s))"

section \<open>Evidence\<close>

text \<open>
  \<open>task["result"]["attack_techniques"]\<close>, each entry's \<open>"id"\<close>.  A result of another shape would
  raise \<open>KeyError\<close>; completed playbook tasks always carry a validated result.
\<close>

definition result_technique_ids :: "(string \<times> json) list option \<Rightarrow> string list" where
  "result_technique_ids r = (case r of
      None \<Rightarrow> []
    | Some kvs \<Rightarrow> (case map_of kvs ''attack_techniques'' of
        Some (JList ts) \<Rightarrow> List.map_filter (\<lambda>t. case t of
            JObj o' \<Rightarrow> (case map_of o' ''id'' of Some (JStr i) \<Rightarrow> Some i | _ \<Rightarrow> None)
          | _ \<Rightarrow> None) ts
      | _ \<Rightarrow> []))"

text \<open>\<open>task["payload"]["playbook"]\<close> of a playbook task.\<close>

definition task_playbook :: "'a node_task_scheme \<Rightarrow> playbook option" where
  "task_playbook t = (case t_payload t of PlaybookField p \<Rightarrow> Some p | _ \<Rightarrow> None)"

definition playbook_label :: "'a node_task_scheme \<Rightarrow> string" where
  "playbook_label t = (case task_playbook t of Some p \<Rightarrow> playbook_str p | None \<Rightarrow> [])"

definition allowed_technique_ids :: "string \<Rightarrow> string list" where
  "allowed_technique_ids scenario_id = (case scenario_definition scenario_id of
     Some d \<Rightarrow> map tq_id (sc_techniques d) | None \<Rightarrow> [])"

definition observe_technique ::
  "task \<Rightarrow> string \<Rightarrow> exercise \<times> lab_state \<Rightarrow> exercise \<times> lab_state" where
  "observe_technique task technique_id xs =
     (if technique_id \<notin> set (allowed_technique_ids (x_scenario_id (fst xs))) then xs
      else append_exercise_timeline
        ((timeline_of ''simulate'' ''technique.observed'' (technique_id @ '' observed''))
          \<lparr>ta_task_id := Some (t_id task), ta_technique_id := Some technique_id\<rparr>) xs)"

definition append_exercise_task_evidence ::
  "task \<Rightarrow> exercise \<times> lab_state \<Rightarrow> exercise \<times> lab_state" where
  "append_exercise_task_evidence task xs =
    (let xs = append_exercise_timeline
        ((timeline_of ''simulate'' (''task.'' @ status_str (t_status task))
           (playbook_label task @ '' '' @ status_str (t_status task)))\<lparr>ta_task_id := Some (t_id task)\<rparr>) xs
     in if t_status task \<noteq> Completed then xs
        else fold (observe_technique task) (result_technique_ids (t_result task)) xs)"

section \<open>Detection\<close>

definition new_alert :: "detection_rule \<Rightarrow> string \<Rightarrow> lab_state \<Rightarrow> alert" where
  "new_alert rule task_id s =
    \<lparr>al_id = ''alert-'' @ uuid_hex 12 s, al_rule_id = dr_id rule, al_source_id = dr_source_id rule,
     al_name = dr_name rule, al_technique_id = dr_technique_id rule, al_severity = dr_severity rule,
     al_signal = dr_signal rule, al_status = AlertOpen, al_detected_at = utc_now s,
     al_contained_at = None, al_task_id = task_id\<rparr>"

definition raise_alert :: "string \<Rightarrow> detection_rule \<Rightarrow> exercise \<times> lab_state \<Rightarrow> exercise \<times> lab_state" where
  "raise_alert task_id rule xs = (case xs of (x, s) \<Rightarrow>
     if list_ex (\<lambda>al. al_rule_id al = dr_id rule) (x_alerts x) then (x, s)
     else
       let alert = new_alert rule task_id s;
           (x, s) = append_exercise_timeline
             ((timeline_of ''detect'' ''detection.matched'' (dr_name rule))
               \<lparr>ta_task_id := Some task_id, ta_rule_id := Some (dr_id rule),
                ta_technique_id := Some (dr_technique_id rule)\<rparr>)
             (x\<lparr>x_alerts := x_alerts x @ [alert], x_detection_status := Detected\<rparr>, tick s);
           s = record_event ((event_of ''exercise.detected'')
             \<lparr>ea_level := ''warning'', ea_node_id := Some (x_node_id x), ea_task_id := Some task_id,
              ea_correlation_id := Some (x_id x),
              ea_data := [(''exercise_id'', JStr (x_id x)), (''scenario_id'', JStr (x_scenario_id x)),
                (''rule_id'', JStr (dr_id rule)), (''source_id'', JStr (dr_source_id rule)),
                (''technique_id'', JStr (dr_technique_id rule)), (''severity'', JStr (dr_severity rule)),
                (''signal'', JStr (dr_signal rule))]\<rparr>) s;
           s = record_audit ((audit_of ''exercise.detected'' ''teamserver'' ''detected'')
             \<lparr>aa_node_id := Some (x_node_id x), aa_task_id := Some task_id,
              aa_correlation_id := Some (x_id x), aa_task_type := Some RUN_PLAYBOOK,
              aa_reason := Some (dr_id rule)\<rparr>) s
       in (x, s))"

definition rules_for :: "exercise \<Rightarrow> task \<Rightarrow> detection_rule list" where
  "rules_for x task = (case task_playbook task of
      Some p \<Rightarrow> (case detections_for_playbook (x_scenario_id x) p of Some rs \<Rightarrow> rs | None \<Rightarrow> [])
    | None \<Rightarrow> [])"

section \<open>Refreshing one exercise\<close>

text \<open>A task whose final state the exercise has not taken notice of yet.\<close>

definition newly_terminal :: "lab_state \<Rightarrow> exercise \<Rightarrow> string \<Rightarrow> task option" where
  "newly_terminal s x task_id =
     (if task_id \<in> set (x_observed_task_ids x) then None
      else (case map_of (s_tasks s) task_id of
          Some task \<Rightarrow> if t_status task \<in> TERMINAL_TASK_STATUSES then Some task else None
        | None \<Rightarrow> None))"

definition mark_observed :: "string \<Rightarrow> exercise \<Rightarrow> exercise" where
  "mark_observed task_id x = x\<lparr>x_observed_task_ids := x_observed_task_ids x @ [task_id]\<rparr>"

definition observe_contained :: "string \<Rightarrow> exercise \<times> lab_state \<Rightarrow> exercise \<times> lab_state" where
  "observe_contained task_id xs = (case xs of (x, s) \<Rightarrow>
     case newly_terminal s x task_id of
       None \<Rightarrow> (x, s)
     | Some task \<Rightarrow> append_exercise_task_evidence task (mark_observed task_id x, s))"

definition observe_task :: "string \<Rightarrow> exercise \<times> lab_state \<Rightarrow> exercise \<times> lab_state" where
  "observe_task task_id xs = (case xs of (x, s) \<Rightarrow>
     case newly_terminal s x task_id of
       None \<Rightarrow> (x, s)
     | Some task \<Rightarrow>
         let xs = append_exercise_task_evidence task (mark_observed task_id x, s)
         in if t_status task \<noteq> Completed then xs
            else fold (raise_alert task_id) (rules_for x task) xs)"

definition finish_exercise :: "exercise \<times> lab_state \<Rightarrow> exercise \<times> lab_state" where
  "finish_exercise xs = (case xs of (x, s) \<Rightarrow>
     let tasks = map (map_of (s_tasks s)) (x_task_ids x) in
     if tasks = [] \<or> list_ex (\<lambda>t. case t of None \<Rightarrow> True
          | Some t \<Rightarrow> t_status t \<notin> TERMINAL_TASK_STATUSES) tasks then (x, s)
     else if x_completion_recorded x then (x, s)
     else
       let status = (if list_all (\<lambda>t. case t of Some t \<Rightarrow> t_status t = Completed | None \<Rightarrow> False) tasks
              then XCompleted else XFailed);
           x = x\<lparr>x_completion_recorded := True, x_status := status, x_completed_at := Some (utc_now s)\<rparr>;
           (x, s) = append_exercise_timeline
             (timeline_of ''complete'' (''exercise.'' @ exercise_status_str status)
               (''Exercise '' @ exercise_status_str status)) (x, tick s);
           s = record_event ((event_of (''exercise.'' @ exercise_status_str status))
             \<lparr>ea_level := (if status = XCompleted then ''info'' else ''warning''),
              ea_node_id := Some (x_node_id x), ea_correlation_id := Some (x_id x),
              ea_data := [(''exercise_id'', JStr (x_id x)), (''scenario_id'', JStr (x_scenario_id x)),
                (''alerts'', JInt (int (length (x_alerts x))))]\<rparr>) s;
           s = record_audit ((audit_of (''exercise.'' @ exercise_status_str status) ''teamserver''
               (exercise_status_str status))
             \<lparr>aa_node_id := Some (x_node_id x), aa_correlation_id := Some (x_id x),
              aa_reason := Some ''scenario_tasks_terminal''\<rparr>) s
       in (x, s))"

definition refresh_one :: "exercise \<times> lab_state \<Rightarrow> exercise \<times> lab_state" where
  "refresh_one xs =
     (if x_status (fst xs) = XContained then fold observe_contained (x_task_ids (fst xs)) xs
      else finish_exercise (fold observe_task (x_task_ids (fst xs)) xs))"

definition refresh_exercise :: "string \<Rightarrow> lab_state \<Rightarrow> lab_state" where
  "refresh_exercise xid s = (case map_of (s_exercises s) xid of
      None \<Rightarrow> s
    | Some x \<Rightarrow> (case refresh_one (x, s) of (x', s') \<Rightarrow> modify_exercise xid (\<lambda>_. x') s'))"

definition refresh_exercises :: "lab_state \<Rightarrow> lab_state" where
  "refresh_exercises s = fold refresh_exercise (keys (s_exercises s)) s"

end
