(* ===== verification/Core_Node.thy ===== *)
theory Core_Node
  imports Core_Exercise
begin

text \<open>
  The Node-facing operations of \<open>LabState\<close>: enrollment, authentication, polling, result
  submission, disconnection, and the expiry of tasks and sessions.  An operation returns its
  result or its error together with the state, because an error can follow a state change (the
  expiry at the start of a poll, the log of a rejected result).
\<close>

type_synonym 'a op_result = "(lab_error + 'a) \<times> lab_state"

section \<open>Enrollment\<close>

definition enrolled_event :: "node \<Rightarrow> event_args" where
  "enrolled_event n = (event_of ''node.enrolled'')\<lparr>ea_node_id := Some (n_id n), ea_actor := ''node'',
     ea_data := [(''name'', JStr (n_name n)), (''version'', JStr (n_version n)),
       (''profile'', JStr (profile_str (n_profile n))), (''transport'', JStr (n_transport n))]\<rparr>"

definition enrolled_audit :: "node \<Rightarrow> audit_args" where
  "enrolled_audit n = (audit_of ''node.enrolled'' ''node'' ''success'')
     \<lparr>aa_node_id := Some (n_id n), aa_to_state := Some ''online''\<rparr>"

text \<open>The bound on node records: the oldest closed record makes room, or enrollment fails.\<close>

definition prune_closed_node :: "lab_state \<Rightarrow> lab_error + lab_state" where
  "prune_closed_node s =
    (if length (s_nodes s) < MAX_NODES then Inr s
     else
       let closed_nodes = filter (\<lambda>n. \<not> n_session_active n) (vals (s_nodes s)) in
       if closed_nodes = [] then Inl (LabError ''active node limit reached'' ''node_limit'' 429)
       else
         let oldest = arg_min_list n_created_at closed_nodes;
             s = s\<lparr>s_nodes := AList.delete (n_id oldest) (s_nodes s)\<rparr>;
             s = record_event ((event_of ''node.pruned'')\<lparr>ea_level := ''warning'',
                   ea_node_id := Some (n_id oldest),
                   ea_data := [(''reason'', JStr ''closed_node_record_limit'')]\<rparr>) s;
             s = record_audit ((audit_of ''node.pruned'' ''teamserver'' ''success'')
                   \<lparr>aa_node_id := Some (n_id oldest),
                    aa_from_state := Some (node_status_str (n_status oldest)),
                    aa_to_state := Some ''removed'', aa_reason := Some ''closed_node_record_limit''\<rparr>) s
         in Inr s)"

definition new_node :: "string \<Rightarrow> string \<Rightarrow> profile \<Rightarrow> task_type list \<Rightarrow> int \<Rightarrow> int \<Rightarrow> rat \<Rightarrow> lab_state \<Rightarrow> node" where
  "new_node name version prof capabilities interval jitter instant s =
    \<lparr>n_id = ''node-'' @ uuid_hex 10 s, n_name = name, n_status = Online, n_session_active = True,
     n_version = version, n_profile = prof, n_transport = ''loopback-http-poll/v1'',
     n_capabilities = capabilities, n_poll_interval_ms = interval, n_jitter_percent = jitter,
     n_created_at = utc_now s, n_last_seen = utc_now s, n_tasks_completed = 0, n_tasks_failed = 0,
     n_tasking_paused = False, n_tasking_paused_at = None, n_tasking_paused_by = None,
     n_session_token = fresh_token s, n_last_seen_monotonic = instant, n_last_heartbeat_event = instant\<rparr>"

record enrollment_request =
  er_name :: json
  er_version :: json
  er_profile :: json
  er_capabilities :: json
  er_poll_interval_ms :: json
  er_jitter_percent :: json

definition enroll_node :: "enrollment_request \<Rightarrow> rat \<Rightarrow> lab_state \<Rightarrow> (public_node \<times> string) op_result" where
  "enroll_node q now s =
    (case rbind (protocol_call (clean_text (er_name q) ''name'' 1 48)) (\<lambda>name.
          rbind (protocol_call (clean_text (er_version q) ''version'' 1 32)) (\<lambda>version.
          rbind (protocol_call (validate_capabilities (er_profile q) (er_capabilities q))) (\<lambda>capabilities.
          rbind (protocol_call (validate_poll_interval (er_poll_interval_ms q))) (\<lambda>interval.
          rbind (protocol_call (validate_jitter_percent (er_jitter_percent q))) (\<lambda>jitter.
          rbind (protocol_call (validate_profile (er_profile q))) (\<lambda>prof.
            Inr (name, version, capabilities, interval, jitter, prof))))))) of
      Inl e \<Rightarrow> (Inl e, s)
    | Inr (name, version, capabilities, interval, jitter, prof) \<Rightarrow>
        (case prune_closed_node s of
          Inl e \<Rightarrow> (Inl e, s)
        | Inr s1 \<Rightarrow>
            let node = new_node name version prof capabilities interval jitter now s1;
                s2 = tick (s1\<lparr>s_nodes := AList.update (n_id node) node (s_nodes s1)\<rparr>);
                s3 = record_audit (enrolled_audit node) (record_event (enrolled_event node) s2)
            in (Inr (project_node node, n_session_token node), s3)))"

section \<open>Authentication\<close>

definition authenticate_node :: "json \<Rightarrow> json \<Rightarrow> lab_state \<Rightarrow> bool" where
  "authenticate_node node_id session_token s =
    (case (node_id, session_token) of
      (JStr nid, JStr tok) \<Rightarrow>
        (case map_of (s_nodes s) nid of
          None \<Rightarrow> False
        | Some node \<Rightarrow> utf8_encode (n_session_token node) = utf8_encode tok)
    | _ \<Rightarrow> False)"

text \<open>\<open>_require_node_session_locked\<close>: the node's key and record, or a 401.\<close>

definition require_node_session :: "json \<Rightarrow> json \<Rightarrow> lab_state \<Rightarrow> lab_error + (string \<times> node)" where
  "require_node_session node_id session_token s =
    (if \<not> authenticate_node node_id session_token s
     then Inl (LabError ''invalid node session'' ''invalid_node_session'' 401)
     else (case node_id of
         JStr nid \<Rightarrow> (case map_of (s_nodes s) nid of
             Some n \<Rightarrow> Inr (nid, n) | None \<Rightarrow> Inl (Uncaught ''KeyError''))
       | _ \<Rightarrow> Inl (Uncaught ''KeyError'')))"

section \<open>Closing a session\<close>

definition unfinished :: "'a node_task_scheme \<Rightarrow> bool" where
  "unfinished t \<longleftrightarrow> t_status t = Queued \<or> t_status t = Dispatched"

definition fail_unfinished_task :: "string \<Rightarrow> string \<Rightarrow> string \<Rightarrow> string \<Rightarrow> lab_state \<Rightarrow> lab_state" where
  "fail_unfinished_task nid reason message tid s =
    (case map_of (s_tasks s) tid of
      None \<Rightarrow> s
    | Some task \<Rightarrow>
        if t_node_id task \<noteq> nid \<or> \<not> unfinished task then s
        else
          let s = tick (modify_task tid (\<lambda>t. t\<lparr>t_status := Failed,
                t_result := Some [(''error'', JStr message)], t_completed_at := Some (utc_now s),
                t_deadline := None, t_queue_deadline := None\<rparr>) s);
              s = modify_node nid (\<lambda>n. n\<lparr>n_tasks_failed := Suc (n_tasks_failed n)\<rparr>) s;
              s = record_event ((event_of ''task.failed'')\<lparr>ea_level := ''warning'',
                ea_node_id := Some nid, ea_task_id := Some tid,
                ea_correlation_id := Some (t_correlation_id task),
                ea_data := correlation_data task @ [(''reason'', JStr reason)]\<rparr>) s
          in record_audit ((audit_of ''task.failed'' ''teamserver'' ''failed'')
                \<lparr>aa_node_id := Some nid, aa_task_id := Some tid,
                 aa_correlation_id := Some (t_correlation_id task), aa_task_type := Some (t_type task),
                 aa_from_state := Some (status_str (t_status task)), aa_to_state := Some ''failed'',
                 aa_reason := Some reason\<rparr>) s)"

definition fail_unfinished_tasks :: "string \<Rightarrow> string \<Rightarrow> string \<Rightarrow> lab_state \<Rightarrow> lab_state" where
  "fail_unfinished_tasks nid reason message s =
     refresh_exercises (fold (fail_unfinished_task nid reason message) (keys (s_tasks s)) s)"

definition disconnect_node :: "json \<Rightarrow> json \<Rightarrow> lab_state \<Rightarrow> public_node op_result" where
  "disconnect_node node_id session_token s =
    (case require_node_session node_id session_token s of
      Inl e \<Rightarrow> (Inl e, s)
    | Inr (nid, node) \<Rightarrow>
        let s = fail_unfinished_tasks nid ''node_disconnected''
                  ''node session closed before task completion'' s;
            s = modify_node nid (\<lambda>n. n\<lparr>n_status := Offline\<rparr>) s;
            s = record_event ((event_of ''node.disconnected'')\<lparr>ea_level := ''warning'',
                  ea_node_id := Some nid, ea_actor := ''node'',
                  ea_data := [(''session_invalidated'', JBool True)]\<rparr>) s;
            s = tick (modify_node nid (\<lambda>n. n\<lparr>n_session_active := False,
                  n_session_token := fresh_token s\<rparr>) s);
            s = record_audit ((audit_of ''node.disconnected'' ''node'' ''success'')
                  \<lparr>aa_node_id := Some nid, aa_from_state := Some (node_status_str (n_status node)),
                   aa_to_state := Some ''offline'', aa_reason := Some ''session_invalidated''\<rparr>) s
        in (case map_of (s_nodes s) nid of
             Some n \<Rightarrow> (Inr (project_node n), s)
           | None \<Rightarrow> (Inl (Uncaught ''KeyError''), s)))"

section \<open>Expiry\<close>

text \<open>First loop of \<open>_expire_locked\<close>: queued tasks past their queue deadline.\<close>

definition expire_queued_task :: "rat \<Rightarrow> string \<Rightarrow> lab_state \<Rightarrow> lab_state" where
  "expire_queued_task now tid s =
    (case map_of (s_tasks s) tid of
      None \<Rightarrow> s
    | Some task \<Rightarrow>
        if t_status task \<noteq> Queued \<or> (case t_queue_deadline task of None \<Rightarrow> True | Some d \<Rightarrow> now < d) then s
        else
          let s = tick (modify_task tid (\<lambda>t. t\<lparr>t_status := Expired, t_completed_at := Some (utc_now s),
                t_result := Some [(''reason'', JStr ''queue_ttl_exceeded'')], t_queue_deadline := None\<rparr>) s);
              s = record_event ((event_of ''task.expired'')\<lparr>ea_level := ''warning'',
                ea_node_id := Some (t_node_id task), ea_task_id := Some tid,
                ea_correlation_id := Some (t_correlation_id task),
                ea_data := correlation_data task @ [(''reason'', JStr ''queue_ttl_exceeded'')]\<rparr>) s
          in record_audit ((audit_of ''task.expired'' ''teamserver'' ''expired'')
                \<lparr>aa_node_id := Some (t_node_id task), aa_task_id := Some tid,
                 aa_correlation_id := Some (t_correlation_id task), aa_task_type := Some (t_type task),
                 aa_from_state := Some ''queued'', aa_to_state := Some ''expired'',
                 aa_reason := Some ''queue_ttl_exceeded''\<rparr>) s)"

text \<open>Second loop: dispatched tasks past their execution deadline.  A dispatched task always has
  a deadline, so the comparison with \<open>None\<close> that Python would reject does not arise.\<close>

definition expire_dispatched_task :: "rat \<Rightarrow> string \<Rightarrow> lab_state \<Rightarrow> lab_state" where
  "expire_dispatched_task now tid s =
    (case map_of (s_tasks s) tid of
      None \<Rightarrow> s
    | Some task \<Rightarrow>
        if t_status task \<noteq> Dispatched \<or> (case t_deadline task of None \<Rightarrow> True | Some d \<Rightarrow> now < d) then s
        else
          let s = tick (modify_task tid (\<lambda>t. t\<lparr>t_status := Timeout, t_completed_at := Some (utc_now s),
                t_result := Some [(''error'', JStr ''node did not return before the task deadline'')],
                t_deadline := None\<rparr>) s);
              s = modify_node (t_node_id task) (\<lambda>n. n\<lparr>n_tasks_failed := Suc (n_tasks_failed n)\<rparr>) s;
              s = record_event ((event_of ''task.timeout'')\<lparr>ea_level := ''warning'',
                ea_node_id := Some (t_node_id task), ea_task_id := Some tid,
                ea_data := correlation_data task\<rparr>) s
          in record_audit ((audit_of ''task.timeout'' ''teamserver'' ''timeout'')
                \<lparr>aa_node_id := Some (t_node_id task), aa_task_id := Some tid,
                 aa_correlation_id := Some (t_correlation_id task), aa_task_type := Some (t_type task),
                 aa_from_state := Some ''dispatched'', aa_to_state := Some ''timeout'',
                 aa_reason := Some ''deadline_exceeded''\<rparr>) s)"

text \<open>Third loop: nodes that stopped polling, and sessions that stayed offline too long.\<close>

definition stale_after :: "node \<Rightarrow> rat" where
  "stale_after n = max NODE_STALE_SECONDS ((of_int (n_poll_interval_ms n) / 1000) * 3)"

definition stale_data :: "rat \<Rightarrow> lab_state \<Rightarrow> (string \<times> json) list" where
  "stale_data d s = [(''stale_after_seconds'', JFloat (FRepr (env_float_repr (s_env s) d)))]"

definition mark_stale :: "rat \<Rightarrow> string \<Rightarrow> lab_state \<Rightarrow> lab_state" where
  "mark_stale now nid s =
    (case map_of (s_nodes s) nid of
      None \<Rightarrow> s
    | Some node \<Rightarrow>
        if n_status node = Online \<and> now - n_last_seen_monotonic node \<ge> stale_after node then
          let s = modify_node nid (\<lambda>n. n\<lparr>n_status := Offline\<rparr>) s;
              s = record_event ((event_of ''node.stale'')\<lparr>ea_level := ''warning'',
                ea_node_id := Some nid, ea_data := stale_data (stale_after node) s\<rparr>) s
          in record_audit ((audit_of ''node.stale'' ''teamserver'' ''success'')
                \<lparr>aa_node_id := Some nid, aa_from_state := Some ''online'', aa_to_state := Some ''offline'',
                 aa_reason := Some ''heartbeat_timeout''\<rparr>) s
        else s)"

definition session_expired :: "rat \<Rightarrow> node \<Rightarrow> bool" where
  "session_expired now n \<longleftrightarrow> n_status n = Offline \<and> n_session_active n \<and>
     now - n_last_seen_monotonic n - stale_after n \<ge> STALE_SESSION_TTL_SECONDS"

definition expire_session :: "rat \<Rightarrow> string \<Rightarrow> lab_state \<Rightarrow> lab_state" where
  "expire_session now nid s =
    (case map_of (s_nodes s) nid of
      None \<Rightarrow> s
    | Some node \<Rightarrow>
        if session_expired now node then
          let s = fail_unfinished_tasks nid ''node_session_expired''
                    ''node session expired before task completion'' s;
              s = tick (modify_node nid (\<lambda>n. n\<lparr>n_session_active := False, n_session_token := fresh_token s\<rparr>) s);
              s = record_event ((event_of ''node.session_expired'')\<lparr>ea_level := ''warning'',
                ea_node_id := Some nid, ea_data := [(''session_invalidated'', JBool True),
                  (''offline_ttl_seconds'', JFloat (FRepr ''60.0''))]\<rparr>) s
          in record_audit ((audit_of ''node.session_expired'' ''teamserver'' ''success'')
                \<lparr>aa_node_id := Some nid, aa_from_state := Some ''offline'', aa_to_state := Some ''offline'',
                 aa_reason := Some ''offline_session_ttl_exceeded''\<rparr>) s
        else s)"

definition expire_node :: "rat \<Rightarrow> string \<Rightarrow> lab_state \<Rightarrow> lab_state" where
  "expire_node now nid s = expire_session now nid (mark_stale now nid s)"

definition expire_locked :: "rat \<Rightarrow> lab_state \<Rightarrow> lab_state" where
  "expire_locked now s =
    (let s = fold (expire_queued_task now) (keys (s_tasks s)) s;
         s = fold (expire_dispatched_task now) (keys (s_tasks s)) s;
         s = fold (expire_node now) (keys (s_nodes s)) s
     in refresh_exercises s)"

section \<open>Polling\<close>

text \<open>The liveness bookkeeping at the start of a poll.\<close>

definition note_poll :: "rat \<Rightarrow> string \<Rightarrow> node \<Rightarrow> lab_state \<Rightarrow> lab_state" where
  "note_poll now nid node s =
    (let s = tick (modify_node nid (\<lambda>n. n\<lparr>n_status := Online, n_last_seen := utc_now s,
               n_last_seen_monotonic := now\<rparr>) s);
         s = (if n_status node = Offline then
                record_audit ((audit_of ''node.online'' ''node'' ''success'')
                  \<lparr>aa_node_id := Some nid, aa_from_state := Some ''offline'',
                   aa_to_state := Some ''online'', aa_reason := Some ''poll_recovered''\<rparr>)
                (record_event ((event_of ''node.online'')\<lparr>ea_node_id := Some nid, ea_actor := ''node''\<rparr>) s)
              else s)
     in if now - n_last_heartbeat_event node \<ge> HEARTBEAT_EVENT_SECONDS then
          record_event ((event_of ''node.heartbeat'')\<lparr>ea_node_id := Some nid, ea_actor := ''node''\<rparr>)
            (modify_node nid (\<lambda>n. n\<lparr>n_last_heartbeat_event := now\<rparr>) s)
        else s)"

definition active_task :: "string \<Rightarrow> lab_state \<Rightarrow> task option" where
  "active_task nid s = find (\<lambda>t. t_node_id t = nid \<and> t_status t = Dispatched) (vals (s_tasks s))"

definition next_queued :: "string \<Rightarrow> lab_state \<Rightarrow> task option" where
  "next_queued nid s =
    (let candidates = filter (\<lambda>t. t_node_id t = nid \<and> t_status t = Queued) (vals (s_tasks s))
     in if candidates = [] then None else Some (arg_min_list t_sequence candidates))"

definition redeliver :: "string \<Rightarrow> task \<Rightarrow> lab_state \<Rightarrow> lab_state" where
  "redeliver nid active s =
    (let s = modify_task (t_id active) (\<lambda>t. t\<lparr>t_delivery_attempts := Suc (t_delivery_attempts t)\<rparr>) s
     in record_event ((event_of ''task.redelivered'')\<lparr>ea_level := ''warning'', ea_node_id := Some nid,
          ea_task_id := Some (t_id active), ea_actor := ''node'',
          ea_data := correlation_data active @
            [(''delivery_attempt'', JInt (int (Suc (t_delivery_attempts active))))]\<rparr>) s)"

definition dispatch :: "rat \<Rightarrow> string \<Rightarrow> task \<Rightarrow> lab_state \<Rightarrow> lab_state" where
  "dispatch now nid task s =
    (let s = tick (modify_task (t_id task) (\<lambda>t. t\<lparr>t_status := Dispatched, t_dispatched_at := Some (utc_now s),
               t_deadline := Some (now + TASK_TIMEOUT_SECONDS), t_queue_deadline := None,
               t_delivery_attempts := 1\<rparr>) s);
         s = record_event ((event_of ''task.dispatched'')\<lparr>ea_node_id := Some nid,
               ea_task_id := Some (t_id task), ea_actor := ''node'', ea_data := correlation_data task\<rparr>) s
     in record_audit ((audit_of ''task.dispatched'' ''node'' ''success'')
          \<lparr>aa_node_id := Some nid, aa_task_id := Some (t_id task),
           aa_correlation_id := Some (t_correlation_id task), aa_task_type := Some (t_type task),
           aa_from_state := Some ''queued'', aa_to_state := Some ''dispatched''\<rparr>) s)"

text \<open>The poll response: the public node, the task handed out, the server time.\<close>

record poll_response =
  pr_node :: public_node
  pr_task :: "node_task option"
  pr_server_time :: string

definition poll_response_for :: "string \<Rightarrow> string option \<Rightarrow> lab_state \<Rightarrow> poll_response op_result" where
  "poll_response_for nid tid s = (case map_of (s_nodes s) nid of
      None \<Rightarrow> (Inl (Uncaught ''KeyError''), s)
    | Some n \<Rightarrow> (Inr \<lparr>pr_node = project_node n,
        pr_task = (case tid of None \<Rightarrow> None | Some t \<Rightarrow> map_option project_node_task (map_of (s_tasks s) t)),
        pr_server_time = utc_now s\<rparr>, tick s))"

definition poll_node :: "json \<Rightarrow> json \<Rightarrow> rat \<Rightarrow> lab_state \<Rightarrow> poll_response op_result" where
  "poll_node node_id session_token now s0 =
    (let s = expire_locked now s0 in
     case require_node_session node_id session_token s of
       Inl e \<Rightarrow> (Inl e, s)
     | Inr (nid, node) \<Rightarrow>
         let s = note_poll now nid node s in
         if n_tasking_paused node then poll_response_for nid None s
         else (case active_task nid s of
             Some active \<Rightarrow> poll_response_for nid (Some (t_id active)) (redeliver nid active s)
           | None \<Rightarrow> (case next_queued nid s of
               Some task \<Rightarrow> poll_response_for nid (Some (t_id task)) (dispatch now nid task s)
             | None \<Rightarrow> poll_response_for nid None s)))"

section \<open>Results\<close>

definition reject_result :: "'a node_task_scheme \<Rightarrow> string \<Rightarrow> lab_state \<Rightarrow> lab_state" where
  "reject_result task reason s =
    record_audit ((audit_of ''task.result_rejected'' ''node'' ''denied'')
      \<lparr>aa_node_id := Some (t_node_id task), aa_task_id := Some (t_id task),
       aa_correlation_id := Some (t_correlation_id task), aa_task_type := Some (t_type task),
       aa_from_state := Some (status_str (t_status task)), aa_to_state := Some (status_str (t_status task)),
       aa_reason := Some reason\<rparr>)
    (record_event ((event_of ''task.result_rejected'')\<lparr>ea_level := ''warning'',
       ea_node_id := Some (t_node_id task), ea_task_id := Some (t_id task),
       ea_correlation_id := Some (t_correlation_id task), ea_actor := ''node'',
       ea_data := [(''type'', JStr (task_type_str (t_type task))), (''reason'', JStr reason)]\<rparr>) s)"

definition result_json :: "(string \<times> json) list option \<Rightarrow> json" where
  "result_json r = (case r of None \<Rightarrow> JNull | Some kvs \<Rightarrow> JObj kvs)"

definition same_result :: "'a node_task_scheme \<Rightarrow> task_status \<Rightarrow> (string \<times> json) list \<Rightarrow> bool" where
  "same_result t st r \<longleftrightarrow> t_status t = st \<and> type_strict_equal (result_json (t_result t)) (JObj r)"

text \<open>The task of the ledger, or the record kept of a pruned one.\<close>

definition result_record :: "string \<Rightarrow> lab_state \<Rightarrow> node_task option" where
  "result_record tid s = (case map_of (s_tasks s) tid of
      Some t \<Rightarrow> Some (project_node_task t)
    | None \<Rightarrow> map_of (s_tombstones s) tid)"

definition identity_of :: "node \<Rightarrow> runtime_identity" where
  "identity_of n = \<lparr>ri_version = n_version n, ri_profile = n_profile n,
     ri_poll_interval_ms = n_poll_interval_ms n, ri_jitter_percent = n_jitter_percent n\<rparr>"

definition result_int :: "string \<Rightarrow> (string \<times> json) list \<Rightarrow> int" where
  "result_int k r = (case map_of r k of Some (JInt i) \<Rightarrow> i | _ \<Rightarrow> 0)"

text \<open>The counters and settings of the node after an accepted result.\<close>

definition credit_node :: "task_type \<Rightarrow> task_status \<Rightarrow> (string \<times> json) list \<Rightarrow> node \<Rightarrow> node" where
  "credit_node ty st r n =
    (let n = (if st = Completed then n\<lparr>n_tasks_completed := Suc (n_tasks_completed n)\<rparr>
              else n\<lparr>n_tasks_failed := Suc (n_tasks_failed n)\<rparr>)
     in if ty = SLEEP \<and> st = Completed
        then n\<lparr>n_poll_interval_ms := result_int ''new_interval_ms'' r,
               n_jitter_percent := result_int ''jitter_percent'' r\<rparr>
        else n)"

definition generated_event :: "string \<Rightarrow> task \<Rightarrow> lab_state \<Rightarrow> lab_state" where
  "generated_event nid task s = (case t_payload task of
      EventFields category severity message \<Rightarrow>
        record_event ((event_of ''node.generated_event'')\<lparr>ea_level := severity, ea_node_id := Some nid,
          ea_task_id := Some (t_id task), ea_correlation_id := Some (t_correlation_id task),
          ea_actor := ''node'',
          ea_data := [(''category'', JStr category), (''message'', JStr message)]\<rparr>) s
    | _ \<Rightarrow> s)"

definition accept_result ::
  "rat \<Rightarrow> string \<Rightarrow> task \<Rightarrow> task_status \<Rightarrow> (string \<times> json) list \<Rightarrow> lab_state \<Rightarrow> lab_state" where
  "accept_result now nid task st r s =
    (let tid = t_id task;
         s = tick (modify_task tid (\<lambda>t. t\<lparr>t_status := st, t_result := Some r, t_result_accepted := True,
               t_completed_at := Some (utc_now s), t_deadline := None\<rparr>) s);
         s = tick (modify_node nid (\<lambda>n. credit_node (t_type task) st r
               (n\<lparr>n_last_seen := utc_now s, n_last_seen_monotonic := now\<rparr>)) s);
         s = (if t_type task = GENERATE_EVENT \<and> st = Completed then generated_event nid task s else s);
         s = record_event ((event_of (''task.'' @ status_str st))
               \<lparr>ea_level := (if st = Completed then ''info'' else ''warning''), ea_node_id := Some nid,
                ea_task_id := Some tid, ea_actor := ''node'', ea_data := correlation_data task\<rparr>) s;
         s = record_audit ((audit_of (''task.'' @ status_str st) ''node'' (status_str st))
               \<lparr>aa_node_id := Some nid, aa_task_id := Some tid,
                aa_correlation_id := Some (t_correlation_id task), aa_task_type := Some (t_type task),
                aa_from_state := Some ''dispatched'', aa_to_state := Some (status_str st)\<rparr>) s
     in refresh_exercises s)"

definition result_conflict :: lab_error where
  "result_conflict = LabError ''task already has a different result'' ''result_conflict'' 409"

text \<open>A \<open>ProtocolError\<close> of the result validators is logged and answered with
  \<open>invalid_result\<close>; another exception leaves the handler as it is.\<close>

fun result_error :: "'a node_task_scheme \<Rightarrow> string \<Rightarrow> protocol_error \<Rightarrow> lab_state \<Rightarrow> lab_error \<times> lab_state" where
  "result_error task reason (ProtocolError m) s =
     (LabError m ''invalid_result'' 400, reject_result task reason s)"
| "result_error task reason (PyException x) s = (Uncaught x, s)"

definition submit_to_task ::
  "rat \<Rightarrow> string \<Rightarrow> node \<Rightarrow> task \<Rightarrow> json \<Rightarrow> json \<Rightarrow> task_status \<Rightarrow> (string \<times> json) list
    \<Rightarrow> lab_state \<Rightarrow> node_task op_result" where
  "submit_to_task now nid node task status result st r s =
    (if t_status task = Completed \<or> t_status task = Failed then
       (if same_result task st r then (Inr (project_node_task task), s) else (Inl result_conflict, s))
     else if t_status task \<noteq> Dispatched then
       (Inl (LabError ''task is not accepting a result'' ''invalid_task_state'' 409), s)
     else (case validate_task_result (t_type task) (t_payload task) status result (Some (identity_of node)) of
         Inl e \<Rightarrow> (case result_error task ''task_contract_mismatch'' e s of (e', s') \<Rightarrow> (Inl e', s'))
       | Inr (st, r) \<Rightarrow>
           let s = accept_result now nid task st r s
           in (case map_of (s_tasks s) (t_id task) of
                Some t \<Rightarrow> (Inr (project_node_task t), s)
              | None \<Rightarrow> (Inl (Uncaught ''KeyError''), s))))"

definition not_found_for_node :: lab_error where
  "not_found_for_node = LabError ''task not found for node'' ''not_found'' 404"

definition submit_locked ::
  "rat \<Rightarrow> string \<Rightarrow> node \<Rightarrow> string \<Rightarrow> json \<Rightarrow> json \<Rightarrow> lab_state \<Rightarrow> node_task op_result" where
  "submit_locked now nid node tid status result s =
    (case result_record tid s of
      None \<Rightarrow> (Inl not_found_for_node, s)
    | Some record \<Rightarrow>
        if t_node_id record \<noteq> nid then (Inl not_found_for_node, s)
        else (case validate_result status result of
            Inl e \<Rightarrow> (case result_error record ''invalid_result_envelope'' e s of (e', s') \<Rightarrow> (Inl e', s'))
          | Inr (st, r) \<Rightarrow>
              (case map_of (s_tasks s) tid of
                 None \<Rightarrow> if same_result record st r then (Inr record, s) else (Inl result_conflict, s)
               | Some task \<Rightarrow> submit_to_task now nid node task status result st r s)))"

definition submit_result ::
  "json \<Rightarrow> json \<Rightarrow> json \<Rightarrow> json \<Rightarrow> json \<Rightarrow> rat \<Rightarrow> lab_state \<Rightarrow> node_task op_result" where
  "submit_result node_id session_token task_id status result now s0 =
    (let s = expire_locked now s0 in
     case require_node_session node_id session_token s of
       Inl e \<Rightarrow> (Inl e, s)
     | Inr (nid, node) \<Rightarrow>
         (case task_id of
            JStr tid \<Rightarrow> submit_locked now nid node tid status result s
          | _ \<Rightarrow> (Inl not_found_for_node, s)))"

end
