(* ===== verification/Core_Task.thy ===== *)
theory Core_Task
  imports Core_Node
begin

text \<open>
  The Operator-facing operations on tasks: retention and pruning, \<open>queue_task\<close>,
  \<open>queue_operation\<close>, \<open>cancel_task\<close>, and the argument validators of \<open>core.py\<close>.
\<close>

section \<open>Argument validators\<close>

definition validate_queue_ttl :: "json option \<Rightarrow> lab_error + int" where
  "validate_queue_ttl value = (case value of
      None \<Rightarrow> Inr DEFAULT_QUEUE_TTL_SECONDS
    | Some v \<Rightarrow> (case int_between v MIN_QUEUE_TTL_SECONDS MAX_QUEUE_TTL_SECONDS of
        Some ttl \<Rightarrow> Inr ttl
      | None \<Rightarrow> Inl (invalid_request (''queue_ttl_seconds must be an integer from ''
          @ int_str MIN_QUEUE_TTL_SECONDS @ '' to '' @ int_str MAX_QUEUE_TTL_SECONDS))))"

definition actor_chars :: string where
  "actor_chars = ''abcdefghijklmnopqrstuvwxyzABCDEFGHIJKLMNOPQRSTUVWXYZ0123456789-_''"

definition idempotency_chars :: string where
  "idempotency_chars = actor_chars @ ''.:''"

definition validate_idempotency_key :: "json \<Rightarrow> lab_error + string option" where
  "validate_idempotency_key value = (case value of
      JNull \<Rightarrow> Inr None
    | JStr k \<Rightarrow>
        if \<not> (MIN_IDEMPOTENCY_KEY_LENGTH \<le> length k \<and> length k \<le> MAX_IDEMPOTENCY_KEY_LENGTH)
        then Inl (invalid_request (''idempotency_key must be '' @ nat_str MIN_IDEMPOTENCY_KEY_LENGTH
          @ '' to '' @ nat_str MAX_IDEMPOTENCY_KEY_LENGTH @ '' characters''))
        else if \<not> set k \<subseteq> set idempotency_chars
        then Inl (invalid_request ''idempotency_key contains unsupported characters'')
        else Inr (Some k)
    | _ \<Rightarrow> Inl (invalid_request (''idempotency_key must be '' @ nat_str MIN_IDEMPOTENCY_KEY_LENGTH
          @ '' to '' @ nat_str MAX_IDEMPOTENCY_KEY_LENGTH @ '' characters'')))"

definition validate_operator_actor :: "json \<Rightarrow> lab_error + string" where
  "validate_operator_actor value = (case value of
      JStr a \<Rightarrow>
        if \<not> (1 \<le> length a \<and> length a \<le> MAX_OPERATOR_ACTOR_LENGTH)
        then Inl (invalid_request (''actor must be 1 to '' @ nat_str MAX_OPERATOR_ACTOR_LENGTH @ '' characters''))
        else if \<not> set a \<subseteq> set actor_chars
        then Inl (invalid_request ''actor contains unsupported characters'')
        else Inr a
    | _ \<Rightarrow> Inl (invalid_request (''actor must be 1 to '' @ nat_str MAX_OPERATOR_ACTOR_LENGTH @ '' characters'')))"

fun validate_steps_from :: "nat \<Rightarrow> json list \<Rightarrow> lab_error + playbook list" where
  "validate_steps_from index [] = Inr []"
| "validate_steps_from index (step # steps) = (case step of
      JObj kvs \<Rightarrow>
        if set (keys kvs) \<noteq> {''playbook''}
        then Inl (invalid_request (''steps['' @ nat_str index @ ''] must be an object containing only playbook''))
        else rbind (protocol_call (validate_task_payload (JStr ''RUN_PLAYBOOK'') step)) (\<lambda>tp.
          rbind (validate_steps_from (Suc index) steps) (\<lambda>ps.
            Inr ((case snd tp of PlaybookField p \<Rightarrow> [p] | _ \<Rightarrow> []) @ ps)))
    | _ \<Rightarrow> Inl (invalid_request (''steps['' @ nat_str index @ ''] must be an object containing only playbook'')))"

definition validate_operation_steps :: "json \<Rightarrow> lab_error + playbook list" where
  "validate_operation_steps value = (case value of
      JList steps \<Rightarrow>
        if \<not> (1 \<le> length steps \<and> length steps \<le> MAX_OPERATION_STEPS)
        then Inl (invalid_request (''steps must be a list of 1 to '' @ nat_str MAX_OPERATION_STEPS @ '' playbooks''))
        else validate_steps_from 0 steps
    | _ \<Rightarrow> Inl (invalid_request (''steps must be a list of 1 to '' @ nat_str MAX_OPERATION_STEPS @ '' playbooks'')))"

section \<open>Retention\<close>

definition required_by_running_exercise :: "lab_state \<Rightarrow> task \<Rightarrow> bool" where
  "required_by_running_exercise s task = (case t_exercise_id task of
      None \<Rightarrow> False
    | Some xid \<Rightarrow> (case map_of (s_exercises s) xid of
        None \<Rightarrow> False | Some x \<Rightarrow> x_status x = XRunning))"

text \<open>\<open>while len(tombstones) >= MAX: del tombstones[next(iter(tombstones))]\<close>: each turn drops the
  oldest entry.\<close>

fun drop_oldest :: "nat \<Rightarrow> 'v dict \<Rightarrow> 'v dict" where
  "drop_oldest bound [] = []"
| "drop_oldest bound (e # d) = (if length (e # d) \<ge> bound then drop_oldest bound d else e # d)"

definition remember_tombstone :: "task \<Rightarrow> lab_state \<Rightarrow> lab_state" where
  "remember_tombstone task s =
    (if \<not> t_result_accepted task then s
     else s\<lparr>s_tombstones := AList.update (t_id task) (project_node_task task)
              (drop_oldest MAX_TASK_RESULT_TOMBSTONES (s_tombstones s))\<rparr>)"

definition prune_terminal_task :: "task \<Rightarrow> lab_state \<Rightarrow> lab_state" where
  "prune_terminal_task task s =
    (let s = remember_tombstone task s;
         s = s\<lparr>s_tasks := AList.delete (t_id task) (s_tasks s)\<rparr>;
         s = record_event ((event_of ''task.pruned'')\<lparr>ea_level := ''warning'',
               ea_node_id := Some (t_node_id task), ea_task_id := Some (t_id task),
               ea_correlation_id := Some (t_correlation_id task),
               ea_data := [(''type'', JStr (task_type_str (t_type task))),
                 (''status'', JStr (status_str (t_status task))),
                 (''correlation_id'', JStr (t_correlation_id task)),
                 (''reason'', JStr ''terminal_task_retention_limit'')]\<rparr>) s
     in record_audit ((audit_of ''task.pruned'' ''teamserver'' ''success'')
          \<lparr>aa_node_id := Some (t_node_id task), aa_task_id := Some (t_id task),
           aa_correlation_id := Some (t_correlation_id task), aa_task_type := Some (t_type task),
           aa_from_state := Some (status_str (t_status task)), aa_to_state := Some ''removed'',
           aa_reason := Some ''terminal_task_retention_limit''\<rparr>) s)"

definition prunable :: "lab_state \<Rightarrow> task \<Rightarrow> bool" where
  "prunable s t \<longleftrightarrow> t_status t \<in> TERMINAL_TASK_STATUSES \<and> \<not> required_by_running_exercise s t"

definition task_limit :: lab_error where
  "task_limit = LabError ''task limit reached; reset the lab'' ''task_limit'' 429"

definition make_task_slots :: "nat \<Rightarrow> lab_state \<Rightarrow> lab_error + lab_state" where
  "make_task_slots required_slots s =
    (if length (s_tasks s) + required_slots \<le> MAX_TASKS then Inr s
     else
       let slots_to_free = length (s_tasks s) + required_slots - MAX_TASKS;
           candidates = sort_key t_sequence (filter (prunable s) (vals (s_tasks s)))
       in if length candidates < slots_to_free then Inl task_limit
          else Inr (fold prune_terminal_task (take slots_to_free candidates) s))"

definition operation_record_evictable :: "lab_state \<Rightarrow> operation_record \<Rightarrow> bool" where
  "operation_record_evictable s r = list_all (\<lambda>tid. case map_of (s_tasks s) tid of
       None \<Rightarrow> True | Some t \<Rightarrow> t_status t \<in> TERMINAL_TASK_STATUSES) (or_task_ids r)"

section \<open>Admission\<close>

definition queued_for :: "string \<Rightarrow> lab_state \<Rightarrow> nat" where
  "queued_for nid s = count_if (\<lambda>t. t_status t = Queued \<and> t_node_id t = nid) (vals (s_tasks s))"

definition queued_playbooks_for :: "string \<Rightarrow> lab_state \<Rightarrow> nat" where
  "queued_playbooks_for nid s =
     count_if (\<lambda>t. t_status t = Queued \<and> t_node_id t = nid \<and> t_type t = RUN_PLAYBOOK) (vals (s_tasks s))"

definition node_not_found :: lab_error where
  "node_not_found = LabError ''node not found'' ''not_found'' 404"
definition node_disconnected :: lab_error where
  "node_disconnected = LabError ''node session is closed; start a new node process'' ''node_disconnected'' 409"
definition node_tasking_paused :: lab_error where
  "node_tasking_paused = LabError ''node tasking is paused by containment'' ''node_tasking_paused'' 409"
definition queue_limit :: lab_error where
  "queue_limit = LabError ''node queue limit reached'' ''queue_limit'' 429"
definition playbook_queue_limit :: lab_error where
  "playbook_queue_limit = LabError ''purple-lab playbook queue limit reached'' ''playbook_queue_limit'' 429"
definition idempotency_conflict :: "string \<Rightarrow> lab_error" where
  "idempotency_conflict what = LabError (''Idempotency-Key was already used for a different '' @ what
     @ '' request'') ''idempotency_conflict'' 409"

text \<open>The request fields of a new task, and the record it becomes.\<close>

record task_request =
  rq_node_id :: string
  rq_type :: task_type
  rq_payload :: payload
  rq_actor :: string
  rq_ttl :: int
  rq_idempotency_key :: "string option"
  rq_operation :: "(string \<times> nat) option"
  rq_exercise_id :: "string option"

definition new_task :: "task_request \<Rightarrow> rat \<Rightarrow> lab_state \<Rightarrow> task" where
  "new_task q now s =
    \<lparr>t_id = ''task-'' @ uuid_hex 12 s, t_correlation_id = ''corr-'' @ uuid_hex 12 (tick s),
     t_node_id = rq_node_id q, t_type = rq_type q, t_payload = rq_payload q, t_status = Queued,
     t_result = None, t_created_at = utc_now (tick s), t_queue_ttl_seconds = rq_ttl q,
     t_dispatched_at = None, t_completed_at = None, t_delivery_attempts = 0,
     t_created_by = rq_actor q, t_operation = rq_operation q, t_sequence = Suc (s_task_seq s),
     t_deadline = None, t_queue_deadline = Some (now + of_int (rq_ttl q)),
     t_idempotency_key = rq_idempotency_key q, t_exercise_id = rq_exercise_id q,
     t_result_accepted = False\<rparr>"

definition add_task :: "task \<Rightarrow> lab_state \<Rightarrow> lab_state" where
  "add_task t s = tick (tick (s\<lparr>s_task_seq := t_sequence t,
     s_tasks := AList.update (t_id t) t (s_tasks s)\<rparr>))"

definition log_queued :: "task \<Rightarrow> string option \<Rightarrow> lab_state \<Rightarrow> lab_state" where
  "log_queued t reason s =
    record_audit ((audit_of ''task.queued'' (t_created_by t) ''accepted'')
      \<lparr>aa_node_id := Some (t_node_id t), aa_task_id := Some (t_id t),
       aa_correlation_id := Some (t_correlation_id t), aa_task_type := Some (t_type t),
       aa_to_state := Some ''queued'', aa_reason := reason\<rparr>)
    (record_event ((event_of ''task.queued'')\<lparr>ea_node_id := Some (t_node_id t), ea_task_id := Some (t_id t),
       ea_actor := t_created_by t, ea_data := correlation_data t\<rparr>) s)"

definition enqueue :: "task_request \<Rightarrow> rat \<Rightarrow> string option \<Rightarrow> lab_state \<Rightarrow> lab_state" where
  "enqueue q now reason s = (let t = new_task q now s in log_queued t reason (add_task t s))"

section \<open>queue\_task\<close>

definition admit_task :: "string \<Rightarrow> task_type \<Rightarrow> lab_state \<Rightarrow> lab_error + lab_state" where
  "admit_task nid ty s = (case map_of (s_nodes s) nid of
      None \<Rightarrow> Inl node_not_found
    | Some node \<Rightarrow>
        if \<not> n_session_active node then Inl node_disconnected
        else if n_tasking_paused node then Inl node_tasking_paused
        else if ty \<notin> set (n_capabilities node)
        then Inl (LabError ''task is not allowed by the node profile'' ''capability_denied'' 409)
        else if queued_for nid s \<ge> MAX_QUEUED_TASKS_PER_NODE then Inl queue_limit
        else if ty = RUN_PLAYBOOK \<and> queued_playbooks_for nid s \<ge> MAX_QUEUED_PLAYBOOKS_PER_NODE
        then Inl playbook_queue_limit
        else make_task_slots 1 s)"

definition task_with_key :: "string \<Rightarrow> lab_state \<Rightarrow> task option" where
  "task_with_key k s = find (\<lambda>t. t_idempotency_key t = Some k) (vals (s_tasks s))"

definition same_task_request :: "task \<Rightarrow> task_request \<Rightarrow> bool" where
  "same_task_request t q \<longleftrightarrow> t_node_id t = rq_node_id q \<and> t_type t = rq_type q \<and>
     t_created_by t = rq_actor q \<and> t_payload t = rq_payload q \<and> t_queue_ttl_seconds t = rq_ttl q"

definition queue_locked :: "task_request \<Rightarrow> rat \<Rightarrow> lab_state \<Rightarrow> public_task op_result" where
  "queue_locked q now s =
    (case (case rq_idempotency_key q of None \<Rightarrow> None | Some k \<Rightarrow> task_with_key k s) of
      Some existing \<Rightarrow>
        if same_task_request existing q then (Inr (project_task existing), s)
        else (Inl (idempotency_conflict ''task''), s)
    | None \<Rightarrow>
        (case admit_task (rq_node_id q) (rq_type q) s of
          Inl e \<Rightarrow> (Inl e, s)
        | Inr s1 \<Rightarrow> (Inr (project_task (new_task q now s1)), enqueue q now None s1)))"

text \<open>A payload rejected by the protocol is \<open>unsupported_task_type\<close> when the type is unknown.\<close>

fun queue_payload_error :: "json \<Rightarrow> protocol_error \<Rightarrow> lab_error" where
  "queue_payload_error task_type (ProtocolError m) =
     LabError m (if parse_task_type task_type = None then ''unsupported_task_type'' else ''invalid_request'') 400"
| "queue_payload_error task_type (PyException x) = Uncaught x"

definition queue_task ::
  "json \<Rightarrow> json \<Rightarrow> json \<Rightarrow> json option \<Rightarrow> json \<Rightarrow> json \<Rightarrow> rat \<Rightarrow> lab_state \<Rightarrow> public_task op_result" where
  "queue_task node_id task_type payload ttl idempotency_key actor now s = (case node_id of
      JStr nid \<Rightarrow>
        (case rbind (map_error (queue_payload_error task_type) (validate_task_payload task_type payload)) (\<lambda>(ty, p).
              rbind (validate_queue_ttl ttl) (\<lambda>ttl.
              rbind (validate_idempotency_key idempotency_key) (\<lambda>key.
              rbind (validate_operator_actor actor) (\<lambda>act.
                Inr \<lparr>rq_node_id = nid, rq_type = ty, rq_payload = p, rq_actor = act, rq_ttl = ttl,
                     rq_idempotency_key = key, rq_operation = None, rq_exercise_id = None\<rparr>)))) of
          Inl e \<Rightarrow> (Inl e, s)
        | Inr q \<Rightarrow> queue_locked q now s)
    | _ \<Rightarrow> (Inl (invalid_request ''node_id must be a string''), s))"

section \<open>queue\_operation\<close>

definition admit_playbooks :: "string \<Rightarrow> nat \<Rightarrow> lab_state \<Rightarrow> lab_error + unit" where
  "admit_playbooks nid n s =
    (if queued_for nid s + n > MAX_QUEUED_TASKS_PER_NODE then Inl queue_limit
     else if queued_playbooks_for nid s + n > MAX_QUEUED_PLAYBOOKS_PER_NODE then Inl playbook_queue_limit
     else Inr ())"

definition admit_operation :: "string \<Rightarrow> nat \<Rightarrow> lab_state \<Rightarrow> lab_error + unit" where
  "admit_operation nid n s = (case map_of (s_nodes s) nid of
      None \<Rightarrow> Inl node_not_found
    | Some node \<Rightarrow>
        if \<not> n_session_active node then Inl node_disconnected
        else if n_status node \<noteq> Online
        then Inl (LabError ''operation requires an online node'' ''node_offline'' 409)
        else if n_tasking_paused node then Inl node_tasking_paused
        else if n_profile node \<noteq> Purple_lab \<or> RUN_PLAYBOOK \<notin> set (n_capabilities node)
        then Inl (LabError ''operations require a purple_lab node'' ''capability_denied'' 409)
        else admit_playbooks nid n s)"

definition eviction_keys :: "string option \<Rightarrow> lab_state \<Rightarrow> lab_error + string list" where
  "eviction_keys key s =
    (if key = None \<or> length (s_operation_idem s) + 1 \<le> MAX_OPERATION_IDEMPOTENCY_RECORDS then Inr []
     else
       let records_to_free = length (s_operation_idem s) + 1 - MAX_OPERATION_IDEMPOTENCY_RECORDS;
           ks = take records_to_free
             (keys (filter (\<lambda>(k, r). operation_record_evictable s r) (s_operation_idem s)))
       in if length ks < records_to_free
          then Inl (LabError ''operation idempotency retention limit reached'' ''operation_idempotency_limit'' 429)
          else Inr ks)"

definition step_request :: "string \<Rightarrow> string \<Rightarrow> int \<Rightarrow> string \<Rightarrow> nat \<Rightarrow> playbook \<Rightarrow> task_request" where
  "step_request nid act ttl opid step p =
    \<lparr>rq_node_id = nid, rq_type = RUN_PLAYBOOK, rq_payload = PlaybookField p, rq_actor = act, rq_ttl = ttl,
     rq_idempotency_key = None, rq_operation = Some (opid, step), rq_exercise_id = None\<rparr>"

text \<open>The loop over \<open>enumerate(clean_steps, start=1)\<close>: the created tasks, in order.\<close>

fun queue_steps ::
  "(nat \<Rightarrow> playbook \<Rightarrow> task_request) \<Rightarrow> rat \<Rightarrow> nat \<Rightarrow> playbook list \<Rightarrow> lab_state \<Rightarrow> task list \<times> lab_state" where
  "queue_steps mk now step [] s = ([], s)"
| "queue_steps mk now step (p # ps) s =
     (let q = mk step p;
          t = new_task q now s;
          (ts, s') = queue_steps mk now (Suc step) ps (enqueue q now (Some ''operation_request'') s)
      in (t # ts, s'))"

definition log_operation :: "string \<Rightarrow> string \<Rightarrow> string \<Rightarrow> task list \<Rightarrow> lab_state \<Rightarrow> lab_state" where
  "log_operation opid nid act ts s =
    record_audit ((audit_of ''operation.queued'' act ''accepted'')
      \<lparr>aa_node_id := Some nid, aa_correlation_id := Some opid, aa_to_state := Some ''queued'',
       aa_reason := Some ''bounded_playbook_operation''\<rparr>)
    (record_event ((event_of ''operation.queued'')\<lparr>ea_node_id := Some nid, ea_correlation_id := Some opid,
       ea_actor := act,
       ea_data := [(''operation_id'', JStr opid), (''step_count'', JInt (int (length ts))),
         (''task_ids'', JList (map (\<lambda>t. JStr (t_id t)) ts))]\<rparr>) s)"

definition remember_operation ::
  "string option \<Rightarrow> string list \<Rightarrow> operation_record \<Rightarrow> lab_state \<Rightarrow> lab_state" where
  "remember_operation key evict r s = (case key of
      None \<Rightarrow> s
    | Some k \<Rightarrow> s\<lparr>s_operation_idem := AList.update k r (fold AList.delete evict (s_operation_idem s))\<rparr>)"

definition create_operation ::
  "string \<Rightarrow> playbook list \<Rightarrow> int \<Rightarrow> string option \<Rightarrow> string \<Rightarrow> rat \<Rightarrow> string list \<Rightarrow> lab_state
    \<Rightarrow> operation_summary \<times> lab_state" where
  "create_operation nid playbooks ttl key act now evict s =
    (let opid = ''operation-'' @ uuid_hex 12 s;
         (ts, s) = queue_steps (step_request nid act ttl opid) now 1 playbooks (tick s);
         s = log_operation opid nid act ts s;
         summary = \<lparr>op_id = opid, op_node_id = nid, op_created_by = act, op_steps = playbooks,
                    op_tasks = map project_task ts\<rparr>;
         s = remember_operation key evict
               \<lparr>or_actor = act, or_node_id = nid, or_playbooks = playbooks, or_queue_ttl_seconds = ttl,
                or_task_ids = map t_id ts, or_summary = summary\<rparr> s
     in (summary, s))"

definition same_operation_request :: "operation_record \<Rightarrow> string \<Rightarrow> string \<Rightarrow> playbook list \<Rightarrow> int \<Rightarrow> bool" where
  "same_operation_request r act nid playbooks ttl \<longleftrightarrow> or_actor r = act \<and> or_node_id r = nid \<and>
     or_playbooks r = playbooks \<and> or_queue_ttl_seconds r = ttl"

definition operation_locked ::
  "string \<Rightarrow> playbook list \<Rightarrow> int \<Rightarrow> string option \<Rightarrow> string \<Rightarrow> rat \<Rightarrow> lab_state \<Rightarrow> operation_summary op_result" where
  "operation_locked nid playbooks ttl key act now s =
    (case (case key of None \<Rightarrow> None | Some k \<Rightarrow> map_of (s_operation_idem s) k) of
      Some previous \<Rightarrow>
        if same_operation_request previous act nid playbooks ttl then (Inr (or_summary previous), s)
        else (Inl (idempotency_conflict ''operation''), s)
    | None \<Rightarrow>
        (case rbind (admit_operation nid (length playbooks) s) (\<lambda>_.
              rbind (eviction_keys key s) (\<lambda>evict.
              rbind (make_task_slots (length playbooks) s) (\<lambda>s1. Inr (evict, s1)))) of
          Inl e \<Rightarrow> (Inl e, s)
        | Inr (evict, s1) \<Rightarrow>
            (case create_operation nid playbooks ttl key act now evict s1 of
              (summary, s2) \<Rightarrow> (Inr summary, s2))))"

definition queue_operation ::
  "json \<Rightarrow> json \<Rightarrow> json option \<Rightarrow> json \<Rightarrow> json \<Rightarrow> rat \<Rightarrow> lab_state \<Rightarrow> operation_summary op_result" where
  "queue_operation node_id steps ttl idempotency_key actor now s = (case node_id of
      JStr nid \<Rightarrow>
        (case rbind (validate_operation_steps steps) (\<lambda>playbooks.
              rbind (validate_queue_ttl ttl) (\<lambda>ttl.
              rbind (validate_idempotency_key idempotency_key) (\<lambda>key.
              rbind (validate_operator_actor actor) (\<lambda>act. Inr (playbooks, ttl, key, act))))) of
          Inl e \<Rightarrow> (Inl e, s)
        | Inr (playbooks, ttl, key, act) \<Rightarrow> operation_locked nid playbooks ttl key act now s)
    | _ \<Rightarrow> (Inl (invalid_request ''node_id must be a string''), s))"

section \<open>cancel\_task\<close>

definition cancelled :: "string \<Rightarrow> string \<Rightarrow> task \<Rightarrow> task" where
  "cancelled reason time t = t\<lparr>t_status := Cancelled, t_result := Some [(''reason'', JStr reason)],
     t_completed_at := Some time, t_queue_deadline := None\<rparr>"

definition log_cancelled :: "task \<Rightarrow> string \<Rightarrow> string \<Rightarrow> lab_state \<Rightarrow> lab_state" where
  "log_cancelled task act reason s =
    record_audit ((audit_of ''task.cancelled'' act ''cancelled'')
      \<lparr>aa_node_id := Some (t_node_id task), aa_task_id := Some (t_id task),
       aa_correlation_id := Some (t_correlation_id task), aa_task_type := Some (t_type task),
       aa_from_state := Some ''queued'', aa_to_state := Some ''cancelled'', aa_reason := Some reason\<rparr>)
    (record_event ((event_of ''task.cancelled'')\<lparr>ea_level := ''warning'',
       ea_node_id := Some (t_node_id task), ea_task_id := Some (t_id task),
       ea_correlation_id := Some (t_correlation_id task), ea_actor := act,
       ea_data := correlation_data task @ [(''reason'', JStr reason)]\<rparr>) s)"

definition cancel_task :: "json \<Rightarrow> json \<Rightarrow> lab_state \<Rightarrow> public_task op_result" where
  "cancel_task task_id actor s = (case task_id of
      JStr tid \<Rightarrow>
        (case validate_operator_actor actor of
          Inl e \<Rightarrow> (Inl e, s)
        | Inr act \<Rightarrow>
            (case map_of (s_tasks s) tid of
              None \<Rightarrow> (Inl (LabError ''task not found'' ''not_found'' 404), s)
            | Some task \<Rightarrow>
                if t_status task = Cancelled then (Inr (project_task task), s)
                else if t_status task \<noteq> Queued
                then (Inl (LabError ''only queued tasks can be cancelled'' ''task_not_cancellable'' 409), s)
                else
                  let task' = cancelled ''operator_cancelled'' (utc_now s) task;
                      s = tick (modify_task tid (\<lambda>_. task') s);
                      s = log_cancelled task act ''operator_cancelled'' s
                  in (Inr (project_task task'), refresh_exercises s)))
    | _ \<Rightarrow> (Inl (invalid_request ''task_id must be a string''), s))"

end
