(* ===== verification/Core_Scenario.thy ===== *)
theory Core_Scenario
  imports Core_Task
begin

text \<open>
  \<open>start_exercise\<close> and \<open>contain_exercise\<close>: queueing a fixed scenario on a Node, and applying one
  control-plane response to a detected exercise.
\<close>

section \<open>Starting\<close>

definition new_exercise :: "scenario \<Rightarrow> string \<Rightarrow> string \<Rightarrow> lab_state \<Rightarrow> exercise" where
  "new_exercise d nid act s =
    \<lparr>x_id = ''exercise-'' @ uuid_hex 12 s, x_scenario_id = sc_id d, x_title = sc_title d,
     x_description = sc_description d, x_scope = sc_scope d, x_status = XRunning,
     x_detection_status = Pending, x_node_id = nid, x_created_by = act, x_created_at = utc_now s,
     x_completed_at = None, x_task_ids = [], x_techniques = sc_techniques d, x_alerts = [],
     x_timeline = [],
     x_containment = \<lparr>ct_applied = False, ct_action = None, ct_actor = None, ct_time = None\<rparr>,
     x_timeline_sequence = 0, x_observed_task_ids = [], x_completion_recorded = False\<rparr>"

definition scenario_request :: "string \<Rightarrow> string \<Rightarrow> string \<Rightarrow> playbook \<Rightarrow> task_request" where
  "scenario_request xid nid act p =
    \<lparr>rq_node_id = nid, rq_type = RUN_PLAYBOOK, rq_payload = PlaybookField p, rq_actor = act,
     rq_ttl = DEFAULT_QUEUE_TTL_SECONDS, rq_idempotency_key = None, rq_operation = None,
     rq_exercise_id = Some xid\<rparr>"

definition queue_scenario_step ::
  "string \<Rightarrow> string \<Rightarrow> rat \<Rightarrow> playbook \<Rightarrow> exercise \<times> lab_state \<Rightarrow> exercise \<times> lab_state" where
  "queue_scenario_step nid act now p xs = (case xs of (x, s) \<Rightarrow>
     let t = new_task (scenario_request (x_id x) nid act p) now s;
         s = add_task t s;
         x = x\<lparr>x_task_ids := x_task_ids x @ [t_id t]\<rparr>;
         (x, s) = append_exercise_timeline
           ((timeline_of ''prepare'' ''task.queued'' (playbook_str p @ '' queued''))
             \<lparr>ta_task_id := Some (t_id t)\<rparr>) (x, s)
     in (x, log_queued t (Some ''exercise_scenario'') s))"

definition log_started :: "exercise \<Rightarrow> string \<Rightarrow> lab_state \<Rightarrow> lab_state" where
  "log_started x act s =
    record_audit ((audit_of ''exercise.started'' act ''accepted'')
      \<lparr>aa_node_id := Some (x_node_id x), aa_correlation_id := Some (x_id x),
       aa_reason := Some (x_scenario_id x)\<rparr>)
    (record_event ((event_of ''exercise.started'')\<lparr>ea_node_id := Some (x_node_id x),
       ea_correlation_id := Some (x_id x), ea_actor := act,
       ea_data := [(''exercise_id'', JStr (x_id x)), (''scenario_id'', JStr (x_scenario_id x)),
         (''task_count'', JInt (int (length (x_task_ids x))))]\<rparr>) s)"

definition admit_exercise :: "string \<Rightarrow> nat \<Rightarrow> lab_state \<Rightarrow> lab_error + unit" where
  "admit_exercise nid n s = (case map_of (s_nodes s) nid of
      None \<Rightarrow> Inl node_not_found
    | Some node \<Rightarrow>
        if \<not> n_session_active node then Inl node_disconnected
        else if n_tasking_paused node then Inl node_tasking_paused
        else if n_profile node \<noteq> Purple_lab \<or> RUN_PLAYBOOK \<notin> set (n_capabilities node)
        then Inl (LabError ''exercise scenarios require a purple_lab node'' ''capability_denied'' 409)
        else if length (s_exercises s) \<ge> MAX_EXERCISES
        then Inl (LabError ''exercise retention limit reached; reset the lab'' ''exercise_limit'' 429)
        else admit_playbooks nid n s)"

definition create_exercise ::
  "scenario \<Rightarrow> string \<Rightarrow> string \<Rightarrow> string option \<Rightarrow> rat \<Rightarrow> lab_state \<Rightarrow> exercise \<times> lab_state" where
  "create_exercise d nid act key now s =
    (let x = new_exercise d nid act s;
         xs = append_exercise_timeline (timeline_of ''prepare'' ''exercise.started'' (sc_title d)) (x, tick s);
         (x, s) = fold (queue_scenario_step nid act now) (sc_playbooks d) xs;
         s = s\<lparr>s_exercises := AList.update (x_id x) x (s_exercises s)\<rparr>;
         s = (case key of None \<Rightarrow> s
              | Some k \<Rightarrow> s\<lparr>s_exercise_idem := AList.update k (act, nid, sc_id d, x_id x) (s_exercise_idem s)\<rparr>)
     in (x, log_started x act s))"

definition exercise_locked ::
  "string \<Rightarrow> scenario \<Rightarrow> string \<Rightarrow> string option \<Rightarrow> rat \<Rightarrow> lab_state \<Rightarrow> public_exercise op_result" where
  "exercise_locked nid d act key now s =
    (case (case key of None \<Rightarrow> None | Some k \<Rightarrow> map_of (s_exercise_idem s) k) of
      Some (act', nid', sid', xid) \<Rightarrow>
        (case (if act' = act \<and> nid' = nid \<and> sid' = sc_id d then map_of (s_exercises s) xid else None) of
          Some retained \<Rightarrow> (Inr (project_exercise retained), s)
        | None \<Rightarrow> (Inl (idempotency_conflict ''exercise''), s))
    | None \<Rightarrow>
        (case rbind (admit_exercise nid (length (sc_playbooks d)) s) (\<lambda>_.
              make_task_slots (length (sc_playbooks d)) s) of
          Inl e \<Rightarrow> (Inl e, s)
        | Inr s1 \<Rightarrow> (case create_exercise d nid act key now s1 of
              (x, s2) \<Rightarrow> (Inr (project_exercise x), s2))))"

definition start_exercise ::
  "json \<Rightarrow> json \<Rightarrow> json \<Rightarrow> json \<Rightarrow> rat \<Rightarrow> lab_state \<Rightarrow> public_exercise op_result" where
  "start_exercise node_id scenario_id actor idempotency_key now s = (case node_id of
      JStr nid \<Rightarrow>
        (case (case scenario_id of JStr sid \<Rightarrow> scenario_definition sid | _ \<Rightarrow> None) of
          None \<Rightarrow> (Inl (LabError ''unsupported exercise scenario'' ''unsupported_scenario'' 400), s)
        | Some d \<Rightarrow>
            (case rbind (validate_operator_actor actor) (\<lambda>act.
                  rbind (validate_idempotency_key idempotency_key) (\<lambda>key. Inr (act, key))) of
              Inl e \<Rightarrow> (Inl e, s)
            | Inr (act, key) \<Rightarrow> exercise_locked nid d act key now s))
    | _ \<Rightarrow> (Inl (invalid_request ''node_id must be a string''), s))"

section \<open>Containing\<close>

definition contain_task :: "string \<Rightarrow> string \<Rightarrow> exercise \<times> lab_state \<Rightarrow> exercise \<times> lab_state" where
  "contain_task act tid xs = (case xs of (x, s) \<Rightarrow>
     case map_of (s_tasks s) tid of
       None \<Rightarrow> (x, s)
     | Some task \<Rightarrow>
         if t_status task \<noteq> Queued then (x, s)
         else
           let s = tick (modify_task tid (cancelled ''exercise_contained'' (utc_now s)) s);
               (x, s) = append_exercise_timeline
                 ((timeline_of ''simulate'' ''task.cancelled'' (playbook_label task @ '' cancelled''))
                   \<lparr>ta_task_id := Some tid\<rparr>) (x, s)
           in (mark_observed tid x, log_cancelled task act ''exercise_contained'' s))"

definition pause_node :: "string \<Rightarrow> string \<Rightarrow> string \<Rightarrow> lab_state \<Rightarrow> lab_state" where
  "pause_node nid xid act s =
    (let s = tick (modify_node nid (\<lambda>n. n\<lparr>n_tasking_paused := True,
               n_tasking_paused_at := Some (utc_now s), n_tasking_paused_by := Some act\<rparr>) s);
         s = record_event ((event_of ''node.tasking_paused'')\<lparr>ea_level := ''warning'',
               ea_node_id := Some nid, ea_correlation_id := Some xid, ea_actor := act,
               ea_data := [(''exercise_id'', JStr xid)]\<rparr>) s
     in record_audit ((audit_of ''node.tasking_paused'' act ''success'')
          \<lparr>aa_node_id := Some nid, aa_correlation_id := Some xid, aa_from_state := Some ''active'',
           aa_to_state := Some ''paused'', aa_reason := Some ''exercise_containment''\<rparr>) s)"

definition contain_alert :: "string \<Rightarrow> alert \<Rightarrow> alert" where
  "contain_alert time al = (if al_status al = AlertOpen
     then al\<lparr>al_status := AlertContained, al_contained_at := Some time\<rparr> else al)"

definition contained :: "containment_action \<Rightarrow> string \<Rightarrow> string \<Rightarrow> exercise \<Rightarrow> exercise" where
  "contained action act time x = x\<lparr>x_status := XContained,
     x_completed_at := (if x_completed_at x = None then Some time else x_completed_at x),
     x_containment := \<lparr>ct_applied = True, ct_action = Some action, ct_actor = Some act, ct_time = Some time\<rparr>,
     x_alerts := map (contain_alert time) (x_alerts x)\<rparr>"

definition log_contained :: "exercise \<Rightarrow> containment_action \<Rightarrow> string \<Rightarrow> lab_state \<Rightarrow> lab_state" where
  "log_contained x action act s =
    record_audit ((audit_of ''exercise.contained'' act ''success'')
      \<lparr>aa_node_id := Some (x_node_id x), aa_correlation_id := Some (x_id x),
       aa_from_state := Some ''detected'', aa_to_state := Some ''contained'',
       aa_reason := Some (action_str action)\<rparr>)
    (record_event ((event_of ''exercise.contained'')\<lparr>ea_level := ''warning'',
       ea_node_id := Some (x_node_id x), ea_correlation_id := Some (x_id x), ea_actor := act,
       ea_data := [(''exercise_id'', JStr (x_id x)), (''scenario_id'', JStr (x_scenario_id x)),
         (''action'', JStr (action_str action)), (''alerts'', JInt (int (length (x_alerts x))))]\<rparr>) s)"

definition apply_containment ::
  "string \<Rightarrow> containment_action \<Rightarrow> string \<Rightarrow> exercise \<Rightarrow> lab_state \<Rightarrow> exercise \<times> lab_state" where
  "apply_containment xid action act x s =
    (let (x, s) = fold (contain_task act) (x_task_ids x) (x, s);
         s = (if action = PAUSE_NODE_TASKING \<and> map_of (s_nodes s) (x_node_id x) \<noteq> None
              then pause_node (x_node_id x) xid act s else s);
         (x, s) = append_exercise_timeline
           ((timeline_of ''contain'' ''containment.applied'' ''Control-plane containment applied'')
             \<lparr>ta_action := Some (action_str action)\<rparr>) (contained action act (utc_now s) x, tick s);
         s = log_contained x action act s
     in (x, modify_exercise xid (\<lambda>_. x) s))"

definition contain_exercise ::
  "json \<Rightarrow> json \<Rightarrow> json \<Rightarrow> lab_state \<Rightarrow> public_exercise op_result" where
  "contain_exercise exercise_id action actor s = (case exercise_id of
      JStr xid \<Rightarrow>
        (case (case action of JStr a \<Rightarrow> action_of_str a | _ \<Rightarrow> None) of
          None \<Rightarrow> (Inl (LabError ''unsupported containment action'' ''unsupported_action'' 400), s)
        | Some act_kind \<Rightarrow>
            (case validate_operator_actor actor of
              Inl e \<Rightarrow> (Inl e, s)
            | Inr act \<Rightarrow>
                (case map_of (s_exercises s) xid of
                  None \<Rightarrow> (Inl (LabError ''exercise not found'' ''not_found'' 404), s)
                | Some x \<Rightarrow>
                    if x_status x = XContained then
                      (if ct_action (x_containment x) = Some act_kind then (Inr (project_exercise x), s)
                       else (Inl (LabError ''exercise already has a different containment action''
                              ''containment_conflict'' 409), s))
                    else if x_detection_status x \<noteq> Detected
                    then (Inl (LabError ''containment requires a detected exercise'' ''detection_required'' 409), s)
                    else (case apply_containment xid act_kind act x s of
                        (x', s') \<Rightarrow> (Inr (project_exercise x'), s')))))
    | _ \<Rightarrow> (Inl (invalid_request ''exercise_id must be a string''), s))"

end
