(* ===== verification/Core_Read.thy ===== *)
theory Core_Read
  imports Core_Scenario
begin

text \<open>
  Operator notes, the reset, and the read side of \<open>LabState\<close>: listings, counts, the
  cursor-based synchronisation, the overview and the report.
\<close>

section \<open>Notes and reset\<close>

definition note_event :: "string \<Rightarrow> string \<Rightarrow> event_args" where
  "note_event act message = (event_of ''operator.note'')\<lparr>ea_actor := act,
     ea_data := [(''message'', JStr message)]\<rparr>"

definition retained_notes :: "lab_state \<Rightarrow> nat" where
  "retained_notes s = count_if (\<lambda>e. e_kind e = ''operator.note'') (s_events s)"

text \<open>\<open>while len(d) > n: d.pop(next(iter(d)))\<close>\<close>

fun trim_oldest :: "nat \<Rightarrow> 'v dict \<Rightarrow> 'v dict" where
  "trim_oldest bound [] = []"
| "trim_oldest bound (e # d) = (if length (e # d) > bound then trim_oldest bound d else e # d)"

definition append_note :: "string \<Rightarrow> string \<Rightarrow> string option \<Rightarrow> lab_state \<Rightarrow> event op_result" where
  "append_note act message key s =
    (if retained_notes s \<ge> MAX_OPERATOR_NOTES_RETAINED
     then (Inl (LabError ''operator note retention limit reached'' ''note_limit'' 429), s)
     else
       let event = new_event (note_event act message) s;
           s = record_event (note_event act message) s;
           s = record_audit ((audit_of ''operator.note'' act ''accepted'')
                 \<lparr>aa_reason := Some ''shared_event_feed''\<rparr>) s;
           s = (case key of None \<Rightarrow> s
                | Some k \<Rightarrow> s\<lparr>s_note_idem := trim_oldest MAX_OPERATOR_NOTES_RETAINED
                    (AList.update k (act, message, e_id event) (s_note_idem s))\<rparr>)
       in (Inr event, s))"

definition post_operator_note :: "json \<Rightarrow> json \<Rightarrow> json \<Rightarrow> lab_state \<Rightarrow> event op_result" where
  "post_operator_note message actor idempotency_key s =
    (case rbind (validate_operator_actor actor) (\<lambda>act.
          rbind (protocol_call (clean_text message ''message'' 1 MAX_OPERATOR_NOTE_LENGTH)) (\<lambda>msg.
          rbind (validate_idempotency_key idempotency_key) (\<lambda>key. Inr (act, msg, key)))) of
      Inl e \<Rightarrow> (Inl e, s)
    | Inr (act, msg, key) \<Rightarrow>
        (case (case key of None \<Rightarrow> None | Some k \<Rightarrow> map_of (s_note_idem s) k) of
          None \<Rightarrow> append_note act msg key s
        | Some (act', msg', eid) \<Rightarrow>
            if act' \<noteq> act \<or> msg' \<noteq> msg then (Inl (idempotency_conflict ''note''), s)
            else (case find (\<lambda>e. e_id e = eid) (s_events s) of
                Some retained \<Rightarrow> (Inr retained, s)
              | None \<Rightarrow> append_note act msg key
                  (s\<lparr>s_note_idem := AList.delete (the key) (s_note_idem s)\<rparr>))))"

definition reset_lab :: "json \<Rightarrow> lab_state \<Rightarrow> unit op_result" where
  "reset_lab actor s = (case validate_operator_actor actor of
      Inl e \<Rightarrow> (Inl e, s)
    | Inr act \<Rightarrow>
        let s = s\<lparr>s_nodes := [], s_tasks := [], s_tombstones := [], s_exercises := [], s_events := [],
                  s_note_idem := [], s_exercise_idem := [], s_operation_idem := []\<rparr>;
            s = record_event ((event_of ''lab.reset'')\<lparr>ea_actor := act,
                  ea_data := [(''sessions_invalidated'', JBool True)]\<rparr>) s;
            s = record_audit ((audit_of ''lab.reset'' act ''success'')
                  \<lparr>aa_reason := Some ''sessions_invalidated''\<rparr>) s
        in (Inr (), s))"

section \<open>Listings\<close>

definition nodes_view :: "lab_state \<Rightarrow> public_node list" where
  "nodes_view s = sort_key n_created_at (map project_node (vals (s_nodes s)))"

definition tasks_view :: "lab_state \<Rightarrow> public_task list" where
  "tasks_view s = map project_task (sorted_desc t_sequence (vals (s_tasks s)))"

definition exercises_view :: "lab_state \<Rightarrow> public_exercise list" where
  "exercises_view s = sorted_desc x_created_at (map project_exercise (vals (s_exercises s)))"

definition events_view :: "lab_state \<Rightarrow> event list" where
  "events_view s = rev (s_events s)"

definition audit_view :: "lab_state \<Rightarrow> audit_entry list" where
  "audit_view s = rev (s_audit s)"

section \<open>Counts\<close>

record counts =
  c_nodes_online :: nat
  c_nodes_total :: nat
  c_tasks_queued :: nat
  c_tasks_active :: nat
  c_tasks_completed :: nat
  c_tasks_failed :: nat
  c_tasks_timeout :: nat
  c_tasks_cancelled :: nat
  c_tasks_expired :: nat
  c_exercises_total :: nat
  c_exercises_running :: nat
  c_exercises_detected :: nat
  c_exercises_contained :: nat
  c_alerts_open :: nat

definition counts_of :: "public_node list \<Rightarrow> public_task list \<Rightarrow> public_exercise list \<Rightarrow> counts" where
  "counts_of nodes tasks exercises =
    \<lparr>c_nodes_online = count_if (\<lambda>n. n_status n = Online) nodes,
     c_nodes_total = length nodes,
     c_tasks_queued = count_if (\<lambda>t. t_status t = Queued) tasks,
     c_tasks_active = count_if (\<lambda>t. t_status t = Dispatched) tasks,
     c_tasks_completed = count_if (\<lambda>t. t_status t = Completed) tasks,
     c_tasks_failed = count_if (\<lambda>t. t_status t = Failed) tasks,
     c_tasks_timeout = count_if (\<lambda>t. t_status t = Timeout) tasks,
     c_tasks_cancelled = count_if (\<lambda>t. t_status t = Cancelled) tasks,
     c_tasks_expired = count_if (\<lambda>t. t_status t = Expired) tasks,
     c_exercises_total = length exercises,
     c_exercises_running = count_if (\<lambda>x. x_status x = XRunning) exercises,
     c_exercises_detected = count_if (\<lambda>x. x_detection_status x = Detected) exercises,
     c_exercises_contained = count_if (\<lambda>x. x_status x = XContained) exercises,
     c_alerts_open = sum_list (map (\<lambda>x. count_if (\<lambda>al. al_status al = AlertOpen) (x_alerts x)) exercises)\<rparr>"

section \<open>Synchronisation\<close>

text \<open>\<open>history_delta\<close> over the retained entries of a log, given the position of each entry.\<close>

record 'e delta =
  d_selected :: "'e list"
  d_next_cursor :: nat
  d_earliest :: nat
  d_reset_required :: bool
  d_has_more :: bool

definition history_delta ::
  "('e \<Rightarrow> nat) \<Rightarrow> nat \<Rightarrow> 'e list \<Rightarrow> nat \<Rightarrow> nat \<Rightarrow> nat option \<Rightarrow> 'e delta" where
  "history_delta pos limit retained after latest reset_floor =
    (let earliest = (case retained of [] \<Rightarrow> latest + 1 | e # _ \<Rightarrow> pos e);
         reset_required = (after > latest \<or> int after < int earliest - 1 \<or>
           (case reset_floor of None \<Rightarrow> False | Some f \<Rightarrow> after < f));
         candidates = (if reset_required then retained else filter (\<lambda>e. pos e > after) retained);
         selected = take limit candidates;
         next_cursor = (if selected = [] then latest else pos (last selected))
     in \<lparr>d_selected = selected, d_next_cursor = next_cursor, d_earliest = earliest,
         d_reset_required = reset_required, d_has_more = length candidates > length selected\<rparr>)"

record sync_response =
  y_generated_at :: string
  y_stream_id :: string
  y_lab_mode :: bool
  y_protocol :: string
  y_counts :: counts
  y_nodes :: "public_node list"
  y_tasks :: "public_task list"
  y_scenario_catalog :: "scenario list"
  y_exercises :: "public_exercise list"
  y_events :: "event delta"
  y_audit :: "audit_entry delta"
  y_high_events :: nat
  y_high_audit :: nat

definition validate_sync_cursor :: "json \<Rightarrow> string \<Rightarrow> lab_error + nat" where
  "validate_sync_cursor value fld = (case int_between value 0 MAX_SYNC_CURSOR of
      Some i \<Rightarrow> Inr (nat i)
    | None \<Rightarrow> Inl (invalid_request (fld @ '' must be an integer from 0 to '' @ int_str MAX_SYNC_CURSOR)))"

definition validate_sync_limit :: "json \<Rightarrow> lab_error + nat" where
  "validate_sync_limit value = (case int_between value 1 MAX_SYNC_PAGE_SIZE of
      Some i \<Rightarrow> Inr (nat i)
    | None \<Rightarrow> Inl (invalid_request (''limit must be an integer from 1 to '' @ int_str MAX_SYNC_PAGE_SIZE)))"

definition reset_floor :: "lab_state \<Rightarrow> nat option" where
  "reset_floor s = map_option e_sequence (find (\<lambda>e. e_kind e = ''lab.reset'') (s_events s))"

definition sync_snapshot :: "nat \<Rightarrow> nat \<Rightarrow> nat \<Rightarrow> lab_state \<Rightarrow> sync_response" where
  "sync_snapshot events_after audit_after limit s =
    \<lparr>y_generated_at = utc_now s, y_stream_id = s_stream_id s,
     y_lab_mode = True, y_protocol = ''loopback-http-poll/v1'',
     y_counts = counts_of (nodes_view s) (tasks_view s) (exercises_view s),
     y_nodes = nodes_view s, y_tasks = tasks_view s, y_scenario_catalog = scenario_catalog,
     y_exercises = exercises_view s,
     y_events = history_delta e_sequence limit (s_events s) events_after (s_event_seq s) (reset_floor s),
     y_audit = history_delta a_sequence limit (s_audit s) audit_after (s_audit_seq s) None,
     y_high_events = s_event_seq s, y_high_audit = s_audit_seq s\<rparr>"

definition sync_lab :: "json \<Rightarrow> json \<Rightarrow> json \<Rightarrow> lab_state \<Rightarrow> sync_response op_result" where
  "sync_lab events_after audit_after limit s =
    (case rbind (validate_sync_cursor events_after ''events_after'') (\<lambda>ea.
          rbind (validate_sync_cursor audit_after ''audit_after'') (\<lambda>aa.
          rbind (validate_sync_limit limit) (\<lambda>l. Inr (ea, aa, l)))) of
      Inl e \<Rightarrow> (Inl e, s)
    | Inr (ea, aa, l) \<Rightarrow> (Inr (sync_snapshot ea aa l s), tick s))"

section \<open>Overview and report\<close>

record overview =
  ov_lab_mode :: bool
  ov_protocol :: string
  ov_counts :: counts
  ov_nodes :: "public_node list"
  ov_tasks :: "public_task list"
  ov_scenario_catalog :: "scenario list"
  ov_exercises :: "public_exercise list"
  ov_events :: "event list"

definition overview_of :: "lab_state \<Rightarrow> overview" where
  "overview_of s =
    \<lparr>ov_lab_mode = True, ov_protocol = ''loopback-http-poll/v1'',
     ov_counts = counts_of (nodes_view s) (tasks_view s) (exercises_view s), ov_nodes = nodes_view s,
     ov_tasks = tasks_view s, ov_scenario_catalog = scenario_catalog, ov_exercises = exercises_view s,
     ov_events = events_view s\<rparr>"

text \<open>The report leaves out payloads, results and the node settings.\<close>

record report_node =
  rn_id :: string
  rn_name :: string
  rn_status :: node_status
  rn_session_active :: bool
  rn_profile :: profile
  rn_transport :: string
  rn_created_at :: string
  rn_last_seen :: string
  rn_tasks_completed :: nat
  rn_tasks_failed :: nat
  rn_tasking_paused :: bool
  rn_tasking_paused_at :: "string option"
  rn_tasking_paused_by :: "string option"

record report_task =
  rt_id :: string
  rt_correlation_id :: string
  rt_node_id :: string
  rt_type :: task_type
  rt_created_by :: string
  rt_status :: task_status
  rt_created_at :: string
  rt_queue_ttl_seconds :: int
  rt_dispatched_at :: "string option"
  rt_completed_at :: "string option"
  rt_delivery_attempts :: nat

definition safe_node :: "public_node \<Rightarrow> report_node" where
  "safe_node n =
    \<lparr>rn_id = n_id n, rn_name = n_name n, rn_status = n_status n, rn_session_active = n_session_active n,
     rn_profile = n_profile n, rn_transport = n_transport n, rn_created_at = n_created_at n,
     rn_last_seen = n_last_seen n, rn_tasks_completed = n_tasks_completed n,
     rn_tasks_failed = n_tasks_failed n, rn_tasking_paused = n_tasking_paused n,
     rn_tasking_paused_at = n_tasking_paused_at n, rn_tasking_paused_by = n_tasking_paused_by n\<rparr>"

definition safe_task :: "public_task \<Rightarrow> report_task" where
  "safe_task t =
    \<lparr>rt_id = t_id t, rt_correlation_id = t_correlation_id t, rt_node_id = t_node_id t, rt_type = t_type t,
     rt_created_by = t_created_by t, rt_status = t_status t, rt_created_at = t_created_at t,
     rt_queue_ttl_seconds = t_queue_ttl_seconds t, rt_dispatched_at = t_dispatched_at t,
     rt_completed_at = t_completed_at t, rt_delivery_attempts = t_delivery_attempts t\<rparr>"

definition RETENTION :: "(string \<times> rat) list" where
  "RETENTION =
    [(''nodes'', of_nat MAX_NODES), (''tasks'', of_nat MAX_TASKS), (''events'', of_nat MAX_EVENTS),
     (''audit'', of_nat MAX_AUDIT_ENTRIES), (''operator_notes'', of_nat MAX_OPERATOR_NOTES_RETAINED),
     (''operator_note_length'', of_nat MAX_OPERATOR_NOTE_LENGTH), (''exercises'', of_nat MAX_EXERCISES),
     (''exercise_timeline'', of_nat MAX_EXERCISE_TIMELINE), (''sync_page_size'', of_int MAX_SYNC_PAGE_SIZE),
     (''default_queue_ttl_seconds'', of_int DEFAULT_QUEUE_TTL_SECONDS),
     (''stale_session_ttl_seconds'', STALE_SESSION_TTL_SECONDS)]"

record report =
  rp_generated_at :: string
  rp_lab_mode :: bool
  rp_protocol :: string
  rp_retention :: "(string \<times> rat) list"
  rp_counts :: counts
  rp_events_retained :: nat
  rp_audit_retained :: nat
  rp_notes_retained :: nat
  rp_event_seq :: nat
  rp_audit_seq :: nat
  rp_nodes :: "report_node list"
  rp_tasks :: "report_task list"
  rp_scenario_catalog :: "scenario list"
  rp_exercises :: "public_exercise list"
  rp_audit :: "audit_entry list"

definition report_of :: "lab_state \<Rightarrow> report" where
  "report_of s =
    \<lparr>rp_generated_at = utc_now s, rp_lab_mode = True, rp_protocol = ''loopback-http-poll/v1'',
     rp_retention = RETENTION,
     rp_counts = counts_of (nodes_view s) (tasks_view s) (exercises_view s),
     rp_events_retained = length (s_events s), rp_audit_retained = length (audit_view s),
     rp_notes_retained = retained_notes s, rp_event_seq = s_event_seq s, rp_audit_seq = s_audit_seq s,
     rp_nodes = map safe_node (nodes_view s), rp_tasks = map safe_task (tasks_view s),
     rp_scenario_catalog = scenario_catalog, rp_exercises = exercises_view s, rp_audit = audit_view s\<rparr>"

end
