(* ===== verification/Core_Machine.thy ===== *)
theory Core_Machine
  imports Core_Read
begin

text \<open>
  \<open>LabState\<close> as a state machine: one operation per public method, each run under the lock and
  therefore atomic, with the arguments the HTTP layer or the expiry thread supplies.  A state is
  reachable when a sequence of operations leads to it from a fresh \<open>LabState\<close>.
\<close>

datatype lab_op =
    Enroll enrollment_request rat
  | Poll json json rat
  | Submit json json json json json rat
  | Disconnect json json
  | Expire rat
  | QueueTask json json json "json option" json json rat
  | QueueOperation json json "json option" json json rat
  | CancelTask json json
  | StartExercise json json json json rat
  | ContainExercise json json json
  | PostNote json json json
  | Sync json json json
  | Reset json

inductive lab_step :: "lab_state \<Rightarrow> lab_op \<Rightarrow> lab_state \<Rightarrow> bool" where
  enroll: "enroll_node q now s = (r, s') \<Longrightarrow> lab_step s (Enroll q now) s'"
| poll: "poll_node nid tok now s = (r, s') \<Longrightarrow> lab_step s (Poll nid tok now) s'"
| submit: "submit_result nid tok tid st res now s = (r, s') \<Longrightarrow> lab_step s (Submit nid tok tid st res now) s'"
| disconnect: "disconnect_node nid tok s = (r, s') \<Longrightarrow> lab_step s (Disconnect nid tok) s'"
| expire: "s' = expire_locked now s \<Longrightarrow> lab_step s (Expire now) s'"
| queue: "queue_task nid ty p ttl key act now s = (r, s') \<Longrightarrow> lab_step s (QueueTask nid ty p ttl key act now) s'"
| operation: "queue_operation nid steps ttl key act now s = (r, s') \<Longrightarrow>
    lab_step s (QueueOperation nid steps ttl key act now) s'"
| cancel: "cancel_task tid act s = (r, s') \<Longrightarrow> lab_step s (CancelTask tid act) s'"
| start: "start_exercise nid sid act key now s = (r, s') \<Longrightarrow> lab_step s (StartExercise nid sid act key now) s'"
| contain: "contain_exercise xid a act s = (r, s') \<Longrightarrow> lab_step s (ContainExercise xid a act) s'"
| post_note: "post_operator_note m act key s = (r, s') \<Longrightarrow> lab_step s (PostNote m act key) s'"
| sync: "sync_lab ea aa l s = (r, s') \<Longrightarrow> lab_step s (Sync ea aa l) s'"
| reset: "reset_lab act s = (r, s') \<Longrightarrow> lab_step s (Reset act) s'"

inductive_cases lab_step_cases: "lab_step s op s'"

inductive reachable :: "lab_state \<Rightarrow> bool" where
  start: "reachable (init_state stream_hex e)"
| step: "reachable s \<Longrightarrow> lab_step s op s' \<Longrightarrow> reachable s'"

text \<open>The step an operation takes, as a function.\<close>

fun run_op :: "lab_op \<Rightarrow> lab_state \<Rightarrow> lab_state" where
  "run_op (Enroll q now) s = snd (enroll_node q now s)"
| "run_op (Poll nid tok now) s = snd (poll_node nid tok now s)"
| "run_op (Submit nid tok tid st res now) s = snd (submit_result nid tok tid st res now s)"
| "run_op (Disconnect nid tok) s = snd (disconnect_node nid tok s)"
| "run_op (Expire now) s = expire_locked now s"
| "run_op (QueueTask nid ty p ttl key act now) s = snd (queue_task nid ty p ttl key act now s)"
| "run_op (QueueOperation nid steps ttl key act now) s = snd (queue_operation nid steps ttl key act now s)"
| "run_op (CancelTask tid act) s = snd (cancel_task tid act s)"
| "run_op (StartExercise nid sid act key now) s = snd (start_exercise nid sid act key now s)"
| "run_op (ContainExercise xid a act) s = snd (contain_exercise xid a act s)"
| "run_op (PostNote m act key) s = snd (post_operator_note m act key s)"
| "run_op (Sync ea aa l) s = snd (sync_lab ea aa l s)"
| "run_op (Reset act) s = snd (reset_lab act s)"

lemma lab_step_run_op: "lab_step s op s' \<longleftrightarrow> s' = run_op op s"
proof
  assume "lab_step s op s'"
  then show "s' = run_op op s" by (cases rule: lab_step.cases) simp_all
next
  assume "s' = run_op op s"
  then show "lab_step s op s'"
    by (cases op) (auto intro: lab_step.intros simp: prod_eq_iff)
qed

lemma reachable_induct [consumes 1, case_names start step]:
  assumes "reachable s"
    and "\<And>h e. P (init_state h e)"
    and "\<And>s op. reachable s \<Longrightarrow> P s \<Longrightarrow> P (run_op op s)"
  shows "P s"
  using assms(1) by induction (auto simp: assms(2,3) lab_step_run_op)

end
