(* ===== verification/Core_Life.thy ===== *)
theory Core_Life
  imports Core_Machine
begin

text \<open>
  The life of a task, as a relation between its record before and after one mutation of the
  source, and the well-formedness of task and node records.  The theories that follow show that
  every operation moves tasks along this relation only.
\<close>

section \<open>One mutation of a task\<close>

text \<open>\<open>result_for t st r\<close>: some report passes \<open>validate_task_result\<close> for the task \<open>t\<close> with the
  status \<open>st\<close> and the canonical result \<open>r\<close>.\<close>

definition result_for :: "'a node_task_scheme \<Rightarrow> task_status \<Rightarrow> (string \<times> json) list \<Rightarrow> bool" where
  "result_for t st r \<longleftrightarrow>
     (\<exists>status result ident. validate_task_result (t_type t) (t_payload t) status result (Some ident) = Inr (st, r))"

inductive life :: "task \<Rightarrow> task \<Rightarrow> bool" where
  dispatch: "t_status t = Queued \<Longrightarrow>
    life t (t\<lparr>t_status := Dispatched, t_dispatched_at := Some time, t_deadline := Some d,
              t_queue_deadline := None, t_delivery_attempts := 1\<rparr>)"
| redeliver: "t_status t = Dispatched \<Longrightarrow>
    life t (t\<lparr>t_delivery_attempts := Suc (t_delivery_attempts t)\<rparr>)"
| expire: "t_status t = Queued \<Longrightarrow>
    life t (t\<lparr>t_status := Expired, t_completed_at := Some time, t_result := Some r, t_queue_deadline := None\<rparr>)"
| timeout: "t_status t = Dispatched \<Longrightarrow>
    life t (t\<lparr>t_status := Timeout, t_completed_at := Some time, t_result := Some r, t_deadline := None\<rparr>)"
| cancel: "t_status t = Queued \<Longrightarrow> life t (cancelled reason time t)"
| fail: "unfinished t \<Longrightarrow>
    life t (t\<lparr>t_status := Failed, t_result := Some r, t_completed_at := Some time,
              t_deadline := None, t_queue_deadline := None\<rparr>)"
| accept: "t_status t = Dispatched \<Longrightarrow> result_for t st r \<Longrightarrow>
    life t (t\<lparr>t_status := st, t_result := Some r, t_result_accepted := True,
              t_completed_at := Some time, t_deadline := None\<rparr>)"

inductive_cases life_cases: "life t t'"

text \<open>What never changes in a task once it is queued.\<close>

definition same_identity :: "task \<Rightarrow> task \<Rightarrow> bool" where
  "same_identity t t' \<longleftrightarrow> t_id t' = t_id t \<and> t_correlation_id t' = t_correlation_id t \<and>
     t_node_id t' = t_node_id t \<and> t_type t' = t_type t \<and> t_payload t' = t_payload t \<and>
     t_created_at t' = t_created_at t \<and> t_queue_ttl_seconds t' = t_queue_ttl_seconds t \<and>
     t_created_by t' = t_created_by t \<and> t_operation t' = t_operation t \<and> t_sequence t' = t_sequence t \<and>
     t_idempotency_key t' = t_idempotency_key t \<and> t_exercise_id t' = t_exercise_id t"

text \<open>How far a task has come: a task is queued, then dispatched, then final.\<close>

fun stage :: "task_status \<Rightarrow> nat" where
  "stage Queued = 0"
| "stage Dispatched = 1"
| "stage _ = 2"

lemma result_for_status: "result_for t st r \<Longrightarrow> st = Completed \<or> st = Failed"
  by (auto simp: result_for_def dest: validate_task_result_status)

lemma life_identity: "life t t' \<Longrightarrow> same_identity t t'"
  by (induction rule: life.induct) (simp_all add: same_identity_def cancelled_def)

lemma same_identity_refl [simp]: "same_identity t t"
  by (simp add: same_identity_def)

lemma same_identity_trans: "same_identity t u \<Longrightarrow> same_identity u v \<Longrightarrow> same_identity t v"
  by (simp add: same_identity_def)

lemmas life_identityD = life_identity [unfolded same_identity_def]

lemma life_unfinished: "life t t' \<Longrightarrow> unfinished t"
  by (induction rule: life.induct) (auto simp: unfinished_def)

lemma unfinished_iff: "unfinished t \<longleftrightarrow> t_status t \<notin> TERMINAL_TASK_STATUSES"
  by (auto simp: unfinished_def terminal_iff)

lemma life_queued: "life t t' \<Longrightarrow> t_status t' \<noteq> Queued"
  by (induction rule: life.induct) (auto simp: cancelled_def dest: result_for_status)

lemma life_stage: "life t t' \<Longrightarrow> stage (t_status t) < stage (t_status t') \<or>
    t_status t = Dispatched \<and> t_status t' = Dispatched \<and> t_delivery_attempts t' = Suc (t_delivery_attempts t)"
  by (induction rule: life.induct) (auto simp: cancelled_def unfinished_def dest: result_for_status)

section \<open>Well-formed tasks\<close>

definition task_wf :: "task \<Rightarrow> bool" where
  "task_wf t \<longleftrightarrow>
     (t_queue_deadline t \<noteq> None \<longleftrightarrow> t_status t = Queued) \<and>
     (t_deadline t \<noteq> None \<longleftrightarrow> t_status t = Dispatched) \<and>
     (t_result t = None \<longleftrightarrow> unfinished t) \<and>
     (t_completed_at t = None \<longleftrightarrow> unfinished t) \<and>
     (t_delivery_attempts t = 0 \<longleftrightarrow> t_dispatched_at t = None) \<and>
     (t_status t = Dispatched \<longrightarrow> t_dispatched_at t \<noteq> None) \<and>
     (t_status t = Queued \<longrightarrow> t_dispatched_at t = None) \<and>
     payload_ok (t_type t) (t_payload t) \<and>
     (t_status t = Completed \<longrightarrow> t_result_accepted t) \<and>
     (t_result_accepted t \<longrightarrow> t_dispatched_at t \<noteq> None \<and>
        (\<exists>r. t_result t = Some r \<and> result_for t (t_status t) r))"

lemma result_for_accepted [simp]:
  "result_for (t\<lparr>t_status := st', t_result := r', t_result_accepted := a, t_completed_at := c, t_deadline := d\<rparr>) st r
    = result_for t st r" for t :: task
  by (simp add: result_for_def)

lemma task_wf_new: "payload_ok (rq_type q) (rq_payload q) \<Longrightarrow> task_wf (new_task q now s)"
  by (simp add: task_wf_def new_task_def unfinished_def)

lemma task_wf_accepted: "task_wf t \<Longrightarrow> t_result_accepted t \<Longrightarrow> t_status t = Completed \<or> t_status t = Failed"
  unfolding task_wf_def by (blast dest: result_for_status)

lemma task_wf_not_accepted: "task_wf t \<Longrightarrow> unfinished t \<Longrightarrow> \<not> t_result_accepted t"
  using task_wf_accepted by (fastforce simp: unfinished_def)

lemma task_wf_life: "life t t' \<Longrightarrow> task_wf t \<Longrightarrow> task_wf t'"
proof (induction rule: life.induct)
  case (dispatch t time d)
  then have "\<not> t_result_accepted t" by (simp add: task_wf_not_accepted unfinished_def)
  with dispatch show ?case by (simp add: task_wf_def unfinished_def)
next
  case (redeliver t)
  then have "\<not> t_result_accepted t" by (simp add: task_wf_not_accepted unfinished_def)
  with redeliver show ?case by (simp add: task_wf_def unfinished_def)
next
  case (expire t time r)
  then have "\<not> t_result_accepted t" by (simp add: task_wf_not_accepted unfinished_def)
  with expire show ?case by (simp add: task_wf_def unfinished_def)
next
  case (timeout t time r)
  then have "\<not> t_result_accepted t" by (simp add: task_wf_not_accepted unfinished_def)
  with timeout show ?case by (simp add: task_wf_def unfinished_def)
next
  case (cancel t reason time)
  then have "\<not> t_result_accepted t" by (simp add: task_wf_not_accepted unfinished_def)
  with cancel show ?case by (simp add: task_wf_def unfinished_def cancelled_def)
next
  case (fail t r time)
  then have "\<not> t_result_accepted t" by (simp add: task_wf_not_accepted)
  with fail show ?case by (simp add: task_wf_def unfinished_def)
next
  case (accept t st r time)
  then have "st = Completed \<or> st = Failed" by (auto dest: result_for_status)
  with accept show ?case by (elim disjE) (simp_all add: task_wf_def unfinished_def)
qed

section \<open>Node records\<close>

definition settings_ok :: "'a public_node_scheme \<Rightarrow> bool" where
  "settings_ok n \<longleftrightarrow> MIN_POLL_INTERVAL_MS \<le> n_poll_interval_ms n \<and>
     n_poll_interval_ms n \<le> MAX_POLL_INTERVAL_MS \<and>
     0 \<le> n_jitter_percent n \<and> n_jitter_percent n \<le> MAX_JITTER_PERCENT"

text \<open>What the operations other than closing a session may change in a node record.\<close>

definition node_keep :: "node \<Rightarrow> node \<Rightarrow> bool" where
  "node_keep n n' \<longleftrightarrow> n_id n' = n_id n \<and> n_name n' = n_name n \<and> n_version n' = n_version n \<and>
     n_profile n' = n_profile n \<and> n_capabilities n' = n_capabilities n \<and>
     n_created_at n' = n_created_at n \<and> n_session_active n' = n_session_active n \<and>
     n_session_token n' = n_session_token n \<and>
     (n_tasking_paused n \<longrightarrow> n_tasking_paused n') \<and>
     n_tasks_completed n \<le> n_tasks_completed n' \<and> n_tasks_failed n \<le> n_tasks_failed n' \<and>
     (settings_ok n \<longrightarrow> settings_ok n')"

lemma node_keep_refl [simp]: "node_keep n n"
  by (simp add: node_keep_def)

lemma node_keep_updates [simp]:
  "node_keep n (n\<lparr>n_status := st\<rparr>)"
  "node_keep n (n\<lparr>n_tasks_failed := Suc (n_tasks_failed n)\<rparr>)"
  "node_keep n (n\<lparr>n_status := st, n_last_seen := time, n_last_seen_monotonic := m\<rparr>)"
  "node_keep n (n\<lparr>n_last_heartbeat_event := m\<rparr>)"
  "node_keep n (n\<lparr>n_tasking_paused := True, n_tasking_paused_at := a, n_tasking_paused_by := b\<rparr>)"
  by (simp_all add: node_keep_def settings_ok_def)

lemma result_int_sleep:
  assumes "result_for t Completed r" and "t_type t = SLEEP" and "payload_ok SLEEP (t_payload t)"
  shows "MIN_POLL_INTERVAL_MS \<le> result_int ''new_interval_ms'' r \<and>
    result_int ''new_interval_ms'' r \<le> MAX_POLL_INTERVAL_MS \<and>
    0 \<le> result_int ''jitter_percent'' r \<and> result_int ''jitter_percent'' r \<le> MAX_JITTER_PERCENT"
proof -
  from assms(3) obtain i j where p: "t_payload t = SleepFields i j" by (auto split: payload.splits)
  with assms obtain kvs ident where "sleep_result kvs i j (Some ident) = Inr r"
    by (auto simp: result_for_def validate_task_result_Inr)
  from sleep_result_Inr [OF this] show ?thesis by (simp add: result_int_def)
qed

lemma node_keep_credit:
  assumes "result_for t st r" and "payload_ok (t_type t) (t_payload t)"
  shows "node_keep n (credit_node (t_type t) st r (n\<lparr>n_last_seen := time, n_last_seen_monotonic := m\<rparr>))"
  using result_int_sleep [of t r] assms unfolding credit_node_def Let_def
  by (cases "st = Completed"; cases "t_type t = SLEEP") (simp_all add: node_keep_def settings_ok_def)

end
