(* ===== verification/Core_Exercise_Inv.thy ===== *)
theory Core_Exercise_Inv
  imports Core_Life "HOL-Library.Sublist"
begin

text \<open>
  What refreshing an exercise does.  On the rest of the state it only logs and reads the clock:
  every property closed under those three mutations survives (locale \<open>log_closed\<close>).  On the
  exercise it is monotone: \<open>exercise_rel\<close> relates the record before and after, and
  \<open>exercise_ok\<close> is the invariant it keeps.
\<close>

section \<open>Logging only\<close>

locale log_closed =
  fixes P :: "lab_state \<Rightarrow> bool"
  assumes tick: "P s \<Longrightarrow> P (tick s)"
    and event: "P s \<Longrightarrow> P (record_event a s)"
    and audit: "P s \<Longrightarrow> P (record_audit b s)"
begin

lemma append_timeline: "P (snd xs) \<Longrightarrow> P (snd (append_exercise_timeline a xs))"
  by (cases xs) (simp add: append_exercise_timeline_def tick)

lemma observe_technique: "P (snd xs) \<Longrightarrow> P (snd (observe_technique t i xs))"
  by (simp add: observe_technique_def append_timeline)

lemma fold_pair: "(\<And>a ys. P (snd ys) \<Longrightarrow> P (snd (g a ys))) \<Longrightarrow> P (snd xs) \<Longrightarrow> P (snd (fold g as xs))"
  by (induction as arbitrary: xs) auto

lemma task_evidence: "P (snd xs) \<Longrightarrow> P (snd (append_exercise_task_evidence t xs))"
  by (simp add: append_exercise_task_evidence_def Let_def append_timeline fold_pair observe_technique)

lemma raise_alert: "P (snd xs) \<Longrightarrow> P (snd (raise_alert tid r xs))"
proof (cases xs)
  case (Pair x s)
  assume "P (snd xs)"
  moreover have "P (snd (append_exercise_timeline a (y, tick s)))" if "P s" for a y
    using append_timeline [of "(y, tick s)"] that by (simp add: tick)
  ultimately show ?thesis
    by (simp add: Pair raise_alert_def Let_def split: prod.splits)
      (metis audit event snd_conv)
qed

lemma observe_contained: "P (snd xs) \<Longrightarrow> P (snd (observe_contained tid xs))"
  by (cases xs) (auto simp: observe_contained_def intro!: task_evidence split: option.splits)

lemma observe_task: "P (snd xs) \<Longrightarrow> P (snd (observe_task tid xs))"
  by (cases xs)
    (auto simp: observe_task_def Let_def intro!: task_evidence fold_pair raise_alert split: option.splits)

lemma finish_exercise: "P (snd xs) \<Longrightarrow> P (snd (finish_exercise xs))"
proof (cases xs)
  case (Pair x s)
  assume "P (snd xs)"
  moreover have "P (snd (append_exercise_timeline a (y, tick s)))" if "P s" for a y
    using append_timeline [of "(y, tick s)"] that by (simp add: tick)
  ultimately show ?thesis
    by (simp add: Pair finish_exercise_def Let_def split: prod.splits)
      (metis audit event snd_conv)
qed

lemma refresh_one: "P (snd xs) \<Longrightarrow> P (snd (refresh_one xs))"
  by (simp add: refresh_one_def finish_exercise fold_pair observe_contained observe_task)

end

section \<open>Refreshing every exercise\<close>

locale exercise_blind = log_closed +
  assumes exercises: "P s \<Longrightarrow> P (s\<lparr>s_exercises := d\<rparr>)"
begin

lemma refresh_exercise: "P s \<Longrightarrow> P (refresh_exercise xid s)"
  using refresh_one [of "(_, s)"]
  by (auto simp: refresh_exercise_def modify_exercise_def split: option.splits prod.splits
      intro!: exercises) (metis snd_conv)

lemma refresh_exercises: "P s \<Longrightarrow> P (refresh_exercises s)"
  unfolding refresh_exercises_def
  by (rule fold_invariant [where Q = "\<lambda>_. True"]) (auto intro: refresh_exercise)

end

text \<open>Everything but the exercises and the logs.\<close>

definition same_ledger :: "lab_state \<Rightarrow> lab_state \<Rightarrow> bool" where
  "same_ledger s s' \<longleftrightarrow> s_nodes s' = s_nodes s \<and> s_tasks s' = s_tasks s \<and>
     s_tombstones s' = s_tombstones s \<and> s_note_idem s' = s_note_idem s \<and>
     s_exercise_idem s' = s_exercise_idem s \<and> s_operation_idem s' = s_operation_idem s \<and>
     s_task_seq s' = s_task_seq s \<and> s_stream_id s' = s_stream_id s \<and> s_env s' = s_env s \<and>
     s_draws s \<le> s_draws s'"

lemma same_ledger_refl [simp]: "same_ledger s s"
  by (simp add: same_ledger_def)

interpretation ledger_frame: exercise_blind "same_ledger s" for s
  by unfold_locales
    (simp_all add: same_ledger_def tick_def record_event_def record_audit_def)

lemmas refresh_same_ledger = ledger_frame.refresh_exercises [OF same_ledger_refl, unfolded same_ledger_def]
lemmas refresh_one_same_ledger = ledger_frame.refresh_one [where xs = "(x, s)" for x s,
    unfolded snd_conv, OF same_ledger_refl, unfolded same_ledger_def]

lemma refresh_frame [simp]:
  "s_nodes (refresh_exercises s) = s_nodes s"
  "s_tasks (refresh_exercises s) = s_tasks s"
  "s_tombstones (refresh_exercises s) = s_tombstones s"
  "s_note_idem (refresh_exercises s) = s_note_idem s"
  "s_exercise_idem (refresh_exercises s) = s_exercise_idem s"
  "s_operation_idem (refresh_exercises s) = s_operation_idem s"
  "s_task_seq (refresh_exercises s) = s_task_seq s"
  "s_stream_id (refresh_exercises s) = s_stream_id s"
  "s_env (refresh_exercises s) = s_env s"
  "s_draws s \<le> s_draws (refresh_exercises s)"
  using refresh_same_ledger [of s] by simp_all

definition same_exercises :: "lab_state \<Rightarrow> lab_state \<Rightarrow> bool" where
  "same_exercises s s' \<longleftrightarrow> s_exercises s' = s_exercises s"

interpretation exercises_frame: log_closed "same_exercises s" for s
  by unfold_locales (simp_all add: same_exercises_def)

lemma refresh_one_exercises [simp]: "s_exercises (snd (refresh_one (x, s))) = s_exercises s"
  using exercises_frame.refresh_one [of s "(x, s)"] by (simp add: same_exercises_def)

section \<open>The invariant of an exercise\<close>

definition rule_of_scenario :: "string \<Rightarrow> alert \<Rightarrow> bool" where
  "rule_of_scenario sid al \<longleftrightarrow> (\<exists>d. scenario_definition sid = Some d \<and> (\<exists>r\<in>set (sc_detections d).
     al_rule_id al = dr_id r \<and> al_source_id al = dr_source_id r \<and> al_name al = dr_name r \<and>
     al_technique_id al = dr_technique_id r \<and> al_severity al = dr_severity r \<and> al_signal al = dr_signal r))"

definition timeline_ok :: "exercise \<Rightarrow> bool" where
  "timeline_ok x \<longleftrightarrow> length (x_timeline x) \<le> MAX_EXERCISE_TIMELINE \<and>
     map tl_sequence (x_timeline x) = [1..<Suc (length (x_timeline x))] \<and>
     x_timeline_sequence x = length (x_timeline x)"

definition alerts_ok :: "exercise \<Rightarrow> bool" where
  "alerts_ok x \<longleftrightarrow> distinct (map al_rule_id (x_alerts x)) \<and>
     (\<forall>al\<in>set (x_alerts x). al_task_id al \<in> set (x_task_ids x) \<and> rule_of_scenario (x_scenario_id x) al) \<and>
     (x_detection_status x = Detected \<longleftrightarrow> x_alerts x \<noteq> [])"

definition outcome_ok :: "exercise \<Rightarrow> bool" where
  "outcome_ok x \<longleftrightarrow>
     (x_status x = XRunning \<longleftrightarrow> x_completed_at x = None) \<and>
     (x_status x \<in> {XCompleted, XFailed} \<longrightarrow> x_completion_recorded x) \<and>
     (x_status x = XRunning \<longrightarrow> \<not> x_completion_recorded x) \<and>
     (ct_applied (x_containment x) \<longleftrightarrow> x_status x = XContained) \<and>
     (x_status x = XContained \<longrightarrow> x_alerts x \<noteq> [] \<and> ct_action (x_containment x) \<noteq> None \<and>
        (\<forall>al\<in>set (x_alerts x). al_status al = AlertContained)) \<and>
     (x_status x \<noteq> XContained \<longrightarrow> (\<forall>al\<in>set (x_alerts x). al_status al = AlertOpen)) \<and>
     set (x_observed_task_ids x) \<subseteq> set (x_task_ids x)"

definition exercise_ok :: "exercise \<Rightarrow> bool" where
  "exercise_ok x \<longleftrightarrow> timeline_ok x \<and> alerts_ok x \<and> outcome_ok x"

lemmas exercise_ok_defs = exercise_ok_def timeline_ok_def alerts_ok_def outcome_ok_def

section \<open>Monotonicity\<close>

definition same_exercise :: "exercise \<Rightarrow> exercise \<Rightarrow> bool" where
  "same_exercise x y \<longleftrightarrow> x_id y = x_id x \<and> x_scenario_id y = x_scenario_id x \<and> x_title y = x_title x \<and>
     x_description y = x_description x \<and> x_scope y = x_scope x \<and> x_node_id y = x_node_id x \<and>
     x_created_by y = x_created_by x \<and> x_created_at y = x_created_at x \<and>
     x_task_ids y = x_task_ids x \<and> x_techniques y = x_techniques x"

definition exercise_rel :: "exercise \<Rightarrow> exercise \<Rightarrow> bool" where
  "exercise_rel x y \<longleftrightarrow> same_exercise x y \<and>
     prefix (x_timeline x) (x_timeline y) \<and>
     prefix (map al_rule_id (x_alerts x)) (map al_rule_id (x_alerts y)) \<and>
     set (x_observed_task_ids x) \<subseteq> set (x_observed_task_ids y) \<and>
     (x_completion_recorded x \<longrightarrow> x_completion_recorded y) \<and>
     (x_completed_at x \<noteq> None \<longrightarrow> x_completed_at y = x_completed_at x) \<and>
     (x_status x = XContained \<longrightarrow> x_status y = XContained \<and> x_containment y = x_containment x \<and>
        x_alerts y = x_alerts x) \<and>
     (x_status y = XRunning \<longrightarrow> x_status x = XRunning) \<and>
     (exercise_ok x \<longrightarrow> exercise_ok y)"

lemma exercise_rel_refl [simp]: "exercise_rel x x"
  by (simp add: exercise_rel_def same_exercise_def)

lemma same_exercise_trans: "same_exercise x y \<Longrightarrow> same_exercise y z \<Longrightarrow> same_exercise x z"
  by (simp add: same_exercise_def)

lemma exercise_relD:
  assumes "exercise_rel x y"
  shows "same_exercise x y" "prefix (x_timeline x) (x_timeline y)"
    "prefix (map al_rule_id (x_alerts x)) (map al_rule_id (x_alerts y))"
    "set (x_observed_task_ids x) \<subseteq> set (x_observed_task_ids y)"
    "x_completion_recorded x \<Longrightarrow> x_completion_recorded y"
    "x_completed_at x \<noteq> None \<Longrightarrow> x_completed_at y = x_completed_at x"
    "x_status x = XContained \<Longrightarrow>
       x_status y = XContained \<and> x_containment y = x_containment x \<and> x_alerts y = x_alerts x"
    "x_status y = XRunning \<Longrightarrow> x_status x = XRunning"
    "exercise_ok x \<Longrightarrow> exercise_ok y"
  using assms unfolding exercise_rel_def by blast+

lemma exercise_rel_trans:
  assumes xy: "exercise_rel x y" and yz: "exercise_rel y z"
  shows "exercise_rel x z"
  unfolding exercise_rel_def
proof (intro conjI impI)
  show "same_exercise x z" by (rule same_exercise_trans [OF exercise_relD(1) [OF xy] exercise_relD(1) [OF yz]])
  show "prefix (x_timeline x) (x_timeline z)"
    by (rule prefix_order.trans [OF exercise_relD(2) [OF xy] exercise_relD(2) [OF yz]])
  show "prefix (map al_rule_id (x_alerts x)) (map al_rule_id (x_alerts z))"
    by (rule prefix_order.trans [OF exercise_relD(3) [OF xy] exercise_relD(3) [OF yz]])
  show "set (x_observed_task_ids x) \<subseteq> set (x_observed_task_ids z)"
    by (rule subset_trans [OF exercise_relD(4) [OF xy] exercise_relD(4) [OF yz]])
  show "x_completion_recorded z" if "x_completion_recorded x"
    using that by (intro exercise_relD(5) [OF yz] exercise_relD(5) [OF xy])
  show "x_completed_at z = x_completed_at x" if "x_completed_at x \<noteq> None"
    using exercise_relD(6) [OF xy that] exercise_relD(6) [OF yz] that by simp
  show "x_status x = XRunning" if "x_status z = XRunning"
    using that by (intro exercise_relD(8) [OF xy] exercise_relD(8) [OF yz])
  show "exercise_ok z" if "exercise_ok x"
    using that by (intro exercise_relD(9) [OF yz] exercise_relD(9) [OF xy])
  assume c: "x_status x = XContained"
  from exercise_relD(7) [OF xy c] exercise_relD(7) [OF yz]
  show "x_status z = XContained" "x_containment z = x_containment x" "x_alerts z = x_alerts x"
    by simp_all
qed

text \<open>A step on the pair of an exercise and the state that is monotone in the exercise and does
  not decide its outcome, for exercises whose scenario, task list and status satisfy \<open>C\<close>.\<close>

definition quiet_step ::
  "(string \<Rightarrow> string list \<Rightarrow> exercise_status \<Rightarrow> bool) \<Rightarrow> (exercise \<times> lab_state \<Rightarrow> exercise \<times> lab_state) \<Rightarrow> bool" where
  "quiet_step C g \<longleftrightarrow> (\<forall>x s. C (x_scenario_id x) (x_task_ids x) (x_status x) \<longrightarrow>
     exercise_rel x (fst (g (x, s))) \<and> x_status (fst (g (x, s))) = x_status x)"

lemma quiet_stepI:
  "(\<And>x s. C (x_scenario_id x) (x_task_ids x) (x_status x) \<Longrightarrow> exercise_rel x (fst (g (x, s))) \<and>
     x_status (fst (g (x, s))) = x_status x) \<Longrightarrow> quiet_step C g"
  by (simp add: quiet_step_def)

lemma quiet_stepD:
  assumes "quiet_step C g" and "C (x_scenario_id x) (x_task_ids x) (x_status x)" and "g (x, s) = (y, t)"
  shows "exercise_rel x y" and "x_status y = x_status x" and "x_task_ids y = x_task_ids x"
    and "x_scenario_id y = x_scenario_id x"
proof -
  have "exercise_rel x (fst (g (x, s))) \<and> x_status (fst (g (x, s))) = x_status x"
    using assms(1,2) unfolding quiet_step_def by blast
  then show "exercise_rel x y" "x_status y = x_status x" "x_task_ids y = x_task_ids x" "x_scenario_id y = x_scenario_id x"
    using exercise_relD(1) [of x y] assms(3) by (simp_all add: same_exercise_def)
qed

lemma quiet_mono: "quiet_step D g \<Longrightarrow> (\<And>sid ids st. C sid ids st \<Longrightarrow> D sid ids st) \<Longrightarrow> quiet_step C g"
  by (simp add: quiet_step_def)

lemma quiet_comp:
  assumes "quiet_step C g" and "quiet_step C h"
  shows "quiet_step C (\<lambda>xs. h (g xs))"
proof (rule quiet_stepI)
  fix x :: exercise and s assume c: "C (x_scenario_id x) (x_task_ids x) (x_status x)"
  obtain y t where y: "g (x, s) = (y, t)" by fastforce
  obtain z u where z: "h (y, t) = (z, u)" by fastforce
  note g = quiet_stepD [where g = g, OF assms(1) c y]
  have "C (x_scenario_id y) (x_task_ids y) (x_status y)" using c g by simp
  note h = quiet_stepD [where g = h, OF assms(2) this z]
  show "exercise_rel x (fst (h (g (x, s)))) \<and> x_status (fst (h (g (x, s)))) = x_status x"
    using exercise_rel_trans [OF g(1) h(1)] g h by (simp add: y z)
qed

lemma quiet_id: "quiet_step C (\<lambda>xs. xs)"
  by (simp add: quiet_step_def)

lemma quiet_fold: "(\<And>a. a \<in> set as \<Longrightarrow> quiet_step C (g a)) \<Longrightarrow> quiet_step C (fold g as)"
proof (induction as)
  case (Cons a as)
  then have "quiet_step C (g a)" "quiet_step C (fold g as)" by simp_all
  from quiet_comp [OF this] show ?case by (simp add: comp_def)
qed (simp add: quiet_id id_def)

lemma timeline_ok_append:
  assumes "timeline_ok x" and "length (x_timeline x) < MAX_EXERCISE_TIMELINE"
  shows "timeline_ok (x\<lparr>x_timeline_sequence := Suc (x_timeline_sequence x),
    x_timeline := x_timeline x @ [timeline_item_of x time a]\<rparr>)"
  using assms by (simp add: timeline_ok_def timeline_item_of_def)

lemma exercise_rel_append:
  assumes "length (x_timeline x) < MAX_EXERCISE_TIMELINE"
  shows "exercise_rel x (x\<lparr>x_timeline_sequence := Suc (x_timeline_sequence x),
    x_timeline := x_timeline x @ [timeline_item_of x time a]\<rparr>)"
  using timeline_ok_append [OF _ assms]
  by (simp add: exercise_rel_def exercise_ok_def same_exercise_def alerts_ok_def outcome_ok_def)

lemma quiet_timeline: "quiet_step C (append_exercise_timeline a)"
  by (rule quiet_stepI) (simp add: append_exercise_timeline_def exercise_rel_append)

lemma quiet_technique: "quiet_step C (observe_technique t i)"
  by (rule quiet_stepI)
    (simp add: observe_technique_def quiet_timeline [unfolded quiet_step_def, rule_format])

lemma quiet_evidence: "quiet_step C (append_exercise_task_evidence t)"
  unfolding append_exercise_task_evidence_def Let_def
  by (cases "t_status t = Completed") (simp_all add: quiet_timeline quiet_comp quiet_fold quiet_technique)

section \<open>Alerts\<close>

lemma exercise_rel_observed: "tid \<in> set (x_task_ids x) \<Longrightarrow> exercise_rel x (mark_observed tid x)"
  by (auto simp: mark_observed_def exercise_rel_def same_exercise_def exercise_ok_defs)

lemma quiet_mark: "quiet_step (\<lambda>_ ids _. tid \<in> set ids) (\<lambda>(x, s). (mark_observed tid x, s))"
  by (rule quiet_stepI) (simp add: exercise_rel_observed, simp add: mark_observed_def)

lemma quiet_contained: "quiet_step (\<lambda>_ ids _. tid \<in> set ids) (observe_contained tid)"
proof (rule quiet_stepI)
  fix x :: exercise and s assume t: "tid \<in> set (x_task_ids x)"
  show "exercise_rel x (fst (observe_contained tid (x, s))) \<and>
      x_status (fst (observe_contained tid (x, s))) = x_status x"
  proof (cases "newly_terminal s x tid")
    case (Some task)
    have "quiet_step (\<lambda>_ ids _. tid \<in> set ids) (\<lambda>xs. append_exercise_task_evidence task
        ((\<lambda>(x, s). (mark_observed tid x, s)) xs))"
      by (rule quiet_comp [OF quiet_mark quiet_evidence])
    with t Some show ?thesis by (simp add: quiet_step_def observe_contained_def)
  qed (simp add: observe_contained_def)
qed

text \<open>An exercise that is not contained may take an alert of one of its tasks.\<close>

definition open_for :: "string \<Rightarrow> string \<Rightarrow> string list \<Rightarrow> exercise_status \<Rightarrow> bool" where
  "open_for tid sid ids st \<longleftrightarrow> tid \<in> set ids \<and> st \<noteq> XContained"

definition rule_in_catalog :: "string \<Rightarrow> detection_rule \<Rightarrow> bool" where
  "rule_in_catalog sid r \<longleftrightarrow> (\<exists>d. scenario_definition sid = Some d \<and> r \<in> set (sc_detections d))"

lemma rules_for_catalog: "r \<in> set (rules_for x task) \<Longrightarrow> rule_in_catalog (x_scenario_id x) r"
  by (cases "task_playbook task"; cases "map_of SCENARIOS (x_scenario_id x)")
    (auto simp: rules_for_def detections_for_playbook_def rule_in_catalog_def scenario_definition_def)

lemma exercise_rel_alert:
  assumes "open_for tid (x_scenario_id x) (x_task_ids x) (x_status x)" and "rule_in_catalog (x_scenario_id x) r"
    and "\<not> list_ex (\<lambda>al. al_rule_id al = dr_id r) (x_alerts x)"
  shows "exercise_rel x (x\<lparr>x_alerts := x_alerts x @ [new_alert r tid s], x_detection_status := Detected\<rparr>)"
  using assms
proof -
  have "rule_of_scenario (x_scenario_id x) (new_alert r tid s)"
    using assms(2) by (auto simp: rule_of_scenario_def rule_in_catalog_def new_alert_def)
  with assms(1,3) show ?thesis
    by (auto simp: exercise_rel_def same_exercise_def exercise_ok_defs open_for_def new_alert_def list_ex_iff)
qed

lemma quiet_alert:
  "quiet_step (\<lambda>sid ids st. open_for tid sid ids st \<and> rule_in_catalog sid r) (raise_alert tid r)"
proof (rule quiet_stepI)
  fix x :: exercise and s assume o': "open_for tid (x_scenario_id x) (x_task_ids x) (x_status x) \<and> rule_in_catalog (x_scenario_id x) r"
  show "exercise_rel x (fst (raise_alert tid r (x, s))) \<and>
      x_status (fst (raise_alert tid r (x, s))) = x_status x"
  proof (cases "list_ex (\<lambda>al. al_rule_id al = dr_id r) (x_alerts x)")
    case False
    let ?y = "x\<lparr>x_alerts := x_alerts x @ [new_alert r tid s], x_detection_status := Detected\<rparr>"
    let ?a = "(timeline_of ''detect'' ''detection.matched'' (dr_name r))
      \<lparr>ta_task_id := Some tid, ta_rule_id := Some (dr_id r), ta_technique_id := Some (dr_technique_id r)\<rparr>"
    obtain z u where z: "append_exercise_timeline ?a (?y, tick s) = (z, u)" by fastforce
    note t = quiet_stepD [OF quiet_timeline [of "\<lambda>_ _ _. True"] TrueI z]
    from exercise_rel_trans [OF exercise_rel_alert [OF conjunct1 [OF o'] conjunct2 [OF o'] False, of s] t(1)] t(2) False z
    show ?thesis by (simp add: raise_alert_def Let_def)
  qed (simp add: raise_alert_def)
qed

lemma quiet_task: "quiet_step (open_for tid) (observe_task tid)"
proof (rule quiet_stepI)
  fix x :: exercise and s assume o': "open_for tid (x_scenario_id x) (x_task_ids x) (x_status x)"
  show "exercise_rel x (fst (observe_task tid (x, s))) \<and> x_status (fst (observe_task tid (x, s))) = x_status x"
  proof (cases "newly_terminal s x tid")
    case (Some task)
    let ?C = "\<lambda>sid ids st. open_for tid sid ids st \<and> sid = x_scenario_id x"
    have "quiet_step ?C (\<lambda>(x, s). (mark_observed tid x, s))"
      by (rule quiet_mono [OF quiet_mark]) (simp add: open_for_def)
    note e = quiet_comp [OF this quiet_evidence [of ?C task]]
    have f: "quiet_step ?C (fold (raise_alert tid) (rules_for x task))"
      by (rule quiet_fold, rule quiet_mono [OF quiet_alert]) (auto dest: rules_for_catalog)
    from e quiet_comp [OF e f] o' Some show ?thesis
      by (simp add: quiet_step_def observe_task_def Let_def)
  qed (simp add: observe_task_def)
qed

section \<open>Finishing and refreshing\<close>

lemma exercise_rel_finished:
  assumes "x_status x \<noteq> XContained" and "\<not> x_completion_recorded x" and "st = XCompleted \<or> st = XFailed"
    and "exercise_ok x \<Longrightarrow> x_completed_at x = None"
  shows "exercise_ok x \<Longrightarrow>
    exercise_rel x (x\<lparr>x_completion_recorded := True, x_status := st, x_completed_at := Some time\<rparr>)"
  using assms
  by (elim disjE) (simp_all add: exercise_rel_def same_exercise_def exercise_ok_defs)

lemma finish_exercise_rel:
  assumes "exercise_ok x" and "x_status x \<noteq> XContained"
  shows "exercise_rel x (fst (finish_exercise (x, s)))"
proof (cases "x_completion_recorded x")
  case True
  then show ?thesis by (simp add: finish_exercise_def Let_def)
next
  case False
  define x1 where "x1 st = x\<lparr>x_completion_recorded := True, x_status := st, x_completed_at := Some (utc_now s)\<rparr>" for st
  have "x_status x = XRunning"
    using assms False by (cases "x_status x") (simp_all add: exercise_ok_defs)
  then have "exercise_rel x (x1 st)" if "st = XCompleted \<or> st = XFailed" for st
    unfolding x1_def using assms False that
    by (intro exercise_rel_finished) (simp_all add: exercise_ok_defs)
  then have "exercise_rel x (fst (append_exercise_timeline a (x1 st, tick s)))"
    if "st = XCompleted \<or> st = XFailed" for st a
    using that quiet_timeline [of "\<lambda>_ _ _. True" a] exercise_rel_trans unfolding quiet_step_def by blast
  then show ?thesis
    using False by (simp add: finish_exercise_def Let_def x1_def split: prod.split) (metis fst_conv)
qed

lemma refresh_one_rel:
  assumes "exercise_ok x"
  shows "exercise_rel x (fst (refresh_one (x, s)))"
proof (cases "x_status x = XContained")
  case True
  have "quiet_step (\<lambda>_ ids _. set (x_task_ids x) \<subseteq> set ids) (fold observe_contained (x_task_ids x))"
    by (rule quiet_fold) (auto intro: quiet_mono [OF quiet_contained])
  with True show ?thesis by (simp add: refresh_one_def quiet_step_def)
next
  case False
  let ?C = "\<lambda>sid ids st. set (x_task_ids x) \<subseteq> set ids \<and> st \<noteq> XContained"
  have q: "quiet_step ?C (fold observe_task (x_task_ids x))"
    by (rule quiet_fold, rule quiet_mono [OF quiet_task]) (auto simp: open_for_def)
  obtain y t where y: "fold observe_task (x_task_ids x) (x, s) = (y, t)" by fastforce
  have r: "exercise_rel x y" "x_status y = x_status x"
    using q False unfolding quiet_step_def by (metis fst_conv order_refl y)+
  have "exercise_rel y (fst (finish_exercise (y, t)))"
    using r assms False by (intro finish_exercise_rel exercise_relD(9) [OF r(1)]) simp_all
  from exercise_rel_trans [OF r(1) this] False y show ?thesis by (simp add: refresh_one_def)
qed

end
