(* ===== verification/Core_Laws.thy ===== *)
theory Core_Laws
  imports Core_Exercise_Inv
begin

text \<open>
  The mutations of the ledger.  Every operation of \<open>LabState\<close> is a sequence of a few atomic
  mutations of the state, each under the guard the code has established at that point.  The
  locale \<open>ledger_closed\<close> lists those mutations with their guards as laws on a property of states;
  inside it every operation is shown to preserve such a property.  The invariants of the ledger
  are its interpretations.
\<close>

section \<open>Records under their own keys\<close>

definition records_ok :: "lab_state \<Rightarrow> bool" where
  "records_ok s \<longleftrightarrow>
     distinct (keys (s_tasks s)) \<and> (\<forall>(k, t)\<in>set (s_tasks s). t_id t = k \<and> task_wf t) \<and>
     distinct (keys (s_nodes s)) \<and> (\<forall>(k, n)\<in>set (s_nodes s). n_id n = k \<and> settings_ok n) \<and>
     distinct (keys (s_exercises s)) \<and> (\<forall>(k, x)\<in>set (s_exercises s). x_id x = k \<and> exercise_ok x) \<and>
     distinct (keys (s_note_idem s)) \<and> distinct (keys (s_exercise_idem s)) \<and>
     distinct (keys (s_operation_idem s)) \<and> distinct (keys (s_tombstones s)) \<and>
     length (s_nodes s) \<le> MAX_NODES"

lemma records_task:
  "records_ok s \<Longrightarrow> map_of (s_tasks s) k = Some t \<Longrightarrow> t_id t = k \<and> task_wf t"
  by (auto simp: records_ok_def dest: map_of_SomeD)

lemma records_task_in:
  "records_ok s \<Longrightarrow> t \<in> set (vals (s_tasks s)) \<Longrightarrow> map_of (s_tasks s) (t_id t) = Some t"
  by (auto simp: records_ok_def)

lemma records_task_ids: "records_ok s \<Longrightarrow> map t_id (vals (s_tasks s)) = keys (s_tasks s)"
  by (auto simp: records_ok_def)

lemma records_node:
  "records_ok s \<Longrightarrow> map_of (s_nodes s) k = Some n \<Longrightarrow> n_id n = k \<and> settings_ok n"
  by (auto simp: records_ok_def dest: map_of_SomeD)

lemma records_node_in:
  "records_ok s \<Longrightarrow> n \<in> set (vals (s_nodes s)) \<Longrightarrow> map_of (s_nodes s) (n_id n) = Some n"
  by (auto simp: records_ok_def)

lemma records_exercise:
  "records_ok s \<Longrightarrow> map_of (s_exercises s) k = Some x \<Longrightarrow> x_id x = k \<and> exercise_ok x"
  by (auto simp: records_ok_def dest: map_of_SomeD)

lemma dmod_const: "distinct (keys d) \<Longrightarrow> map_of d k = Some v \<Longrightarrow> dmod k f d = dmod k (\<lambda>_. f v) d"
  by (auto simp: dmod_def dest: eq_key_imp_eq_value [rotated])

lemma modify_task_const:
  "records_ok s \<Longrightarrow> map_of (s_tasks s) k = Some t \<Longrightarrow> modify_task k f s = modify_task k (\<lambda>_. f t) s"
  using dmod_const [of "s_tasks s" k t f] by (simp only: modify_task_def records_ok_def)

section \<open>Guards\<close>

text \<open>A queued task may be dispatched only as the oldest of a node that runs nothing.\<close>

definition dispatch_guard :: "lab_state \<Rightarrow> task \<Rightarrow> bool" where
  "dispatch_guard s t \<longleftrightarrow> next_queued (t_node_id t) s = Some t \<and> active_task (t_node_id t) s = None \<and>
     (\<exists>n. map_of (s_nodes s) (t_node_id t) = Some n \<and> \<not> n_tasking_paused n)"

definition life_step :: "lab_state \<Rightarrow> task \<Rightarrow> task \<Rightarrow> bool" where
  "life_step s t t' \<longleftrightarrow> life t t' \<and>
     (t_status t = Queued \<and> t_status t' = Dispatched \<longrightarrow> dispatch_guard s t)"

definition idle_node :: "string \<Rightarrow> lab_state \<Rightarrow> bool" where
  "idle_node nid s \<longleftrightarrow> (\<forall>t\<in>set (vals (s_tasks s)). t_node_id t = nid \<longrightarrow> \<not> unfinished t)"

text \<open>What \<open>queue_task\<close>, \<open>queue_operation\<close> and \<open>start_exercise\<close> have checked when a task is made.\<close>

definition admitted :: "task_request \<Rightarrow> lab_state \<Rightarrow> bool" where
  "admitted q s \<longleftrightarrow>
     (\<exists>n. map_of (s_nodes s) (rq_node_id q) = Some n \<and> n_session_active n \<and> \<not> n_tasking_paused n \<and>
        rq_type q \<in> set (n_capabilities n)) \<and>
     payload_ok (rq_type q) (rq_payload q) \<and>
     (\<forall>k. rq_idempotency_key q = Some k \<longrightarrow> task_with_key k s = None) \<and>
     queued_for (rq_node_id q) s < MAX_QUEUED_TASKS_PER_NODE \<and>
     (rq_type q = RUN_PLAYBOOK \<longrightarrow> queued_playbooks_for (rq_node_id q) s < MAX_QUEUED_PLAYBOOKS_PER_NODE) \<and>
     length (s_tasks s) < MAX_TASKS"

definition enrollable :: "node \<Rightarrow> lab_state \<Rightarrow> bool" where
  "enrollable n s \<longleftrightarrow> settings_ok n \<and> length (s_nodes s) < MAX_NODES \<and>
     (\<exists>nm v pr cs i j now. n = new_node nm v pr cs i j now s)"

definition exercise_started :: "exercise \<Rightarrow> bool" where
  "exercise_started x \<longleftrightarrow> exercise_ok x \<and> x_status x = XRunning \<and> x_alerts x = [] \<and>
     x_observed_task_ids x = []"

section \<open>The laws\<close>

text \<open>Ending tasks, closing sessions and refreshing exercises: all that expiry, result submission
  and disconnection do.\<close>

locale expiry_closed = log_closed P for P +
  assumes records: "P s \<Longrightarrow> records_ok s"
    and node: "P s \<Longrightarrow> (\<And>n. node_keep n (f n)) \<Longrightarrow> P (modify_node nid f s)"
    and finish: "P s \<Longrightarrow> map_of (s_tasks s) tid = Some t \<Longrightarrow> life t t' \<Longrightarrow> \<not> unfinished t' \<Longrightarrow>
      P (modify_task tid (\<lambda>_. t') s)"
    and close: "P s \<Longrightarrow> idle_node nid s \<Longrightarrow>
      P (modify_node nid (\<lambda>n. n\<lparr>n_session_active := False, n_session_token := tok\<rparr>) s)"
    and exercise: "P s \<Longrightarrow> map_of (s_exercises s) xid = Some x \<Longrightarrow> exercise_rel x x' \<Longrightarrow>
      P (modify_exercise xid (\<lambda>_. x') s)"
begin

lemma finish_mod:
  "P s \<Longrightarrow> map_of (s_tasks s) tid = Some t \<Longrightarrow> life t (f t) \<Longrightarrow> \<not> unfinished (f t) \<Longrightarrow> P (modify_task tid f s)"
  using finish [of s tid t "f t"] modify_task_const [OF records, of s tid t f] by argo

lemma log_one: "P s \<Longrightarrow> P (record_audit b (record_event a s))"
  by (intro audit event)

lemma refresh_exercise: "P s \<Longrightarrow> P (refresh_exercise xid s)"
proof (cases "map_of (s_exercises s) xid")
  case (Some x)
  assume p: "P s"
  obtain y t where y: "refresh_one (x, s) = (y, t)" by fastforce
  have "exercise_rel x y"
    using refresh_one_rel [of x s] records_exercise [OF records [OF p] Some] y by simp
  moreover have "P t" using refresh_one [of "(x, s)"] p y by simp
  moreover have "map_of (s_exercises t) xid = Some x"
    using refresh_one_exercises [of x s] Some y by simp
  ultimately show ?thesis
    using exercise by (simp add: refresh_exercise_def Some y)
qed (simp add: refresh_exercise_def)

lemma fold_closed: "P s \<Longrightarrow> (\<And>a s. P s \<Longrightarrow> P (g a s)) \<Longrightarrow> P (fold g as s)"
  by (induction as arbitrary: s) auto

lemma refresh: "P s \<Longrightarrow> P (refresh_exercises s)"
  unfolding refresh_exercises_def by (intro fold_closed refresh_exercise)

end

text \<open>All the mutations.\<close>

locale ledger_closed = log_closed P for P +
  assumes l_records: "P s \<Longrightarrow> records_ok s"
    and l_node: "P s \<Longrightarrow> (\<And>n. node_keep n (f n)) \<Longrightarrow> P (modify_node nid f s)"
    and life: "P s \<Longrightarrow> map_of (s_tasks s) tid = Some t \<Longrightarrow> life_step s t t' \<Longrightarrow>
      P (modify_task tid (\<lambda>_. t') s)"
    and l_close: "P s \<Longrightarrow> idle_node nid s \<Longrightarrow>
      P (modify_node nid (\<lambda>n. n\<lparr>n_session_active := False, n_session_token := tok\<rparr>) s)"
    and drop_node: "P s \<Longrightarrow> map_of (s_nodes s) nid = Some n \<Longrightarrow> \<not> n_session_active n \<Longrightarrow>
      P (s\<lparr>s_nodes := AList.delete nid (s_nodes s)\<rparr>)"
    and add_node: "P s \<Longrightarrow> enrollable n s \<Longrightarrow> P (s\<lparr>s_nodes := AList.update (n_id n) n (s_nodes s)\<rparr>)"
    and add_task: "P s \<Longrightarrow> admitted q s \<Longrightarrow> P (add_task (new_task q now s) s)"
    and drop_task: "P s \<Longrightarrow> map_of (s_tasks s) (t_id t) = Some t \<Longrightarrow> prunable s t \<Longrightarrow>
      P ((remember_tombstone t s)\<lparr>s_tasks := AList.delete (t_id t) (s_tasks s)\<rparr>)"
    and l_exercise: "P s \<Longrightarrow> map_of (s_exercises s) xid = Some x \<Longrightarrow> exercise_rel x x' \<Longrightarrow>
      P (modify_exercise xid (\<lambda>_. x') s)"
    and add_exercise: "P s \<Longrightarrow> exercise_started x \<Longrightarrow> length (s_exercises s) < MAX_EXERCISES \<Longrightarrow>
      P u \<Longrightarrow> s_env u = s_env s \<Longrightarrow> x_id x = ''exercise-'' @ uuid_hex 12 u \<Longrightarrow>
      P (s\<lparr>s_exercises := AList.update (x_id x) x (s_exercises s)\<rparr>)"
    and forget_note: "P s \<Longrightarrow> P (s\<lparr>s_note_idem := AList.delete k (s_note_idem s)\<rparr>)"
    and remember_note: "P s \<Longrightarrow> map_of (s_note_idem s) k = None \<Longrightarrow>
      P (s\<lparr>s_note_idem := trim_oldest MAX_OPERATOR_NOTES_RETAINED (AList.update k v (s_note_idem s))\<rparr>)"
    and remember_exercise: "P s \<Longrightarrow> map_of (s_exercise_idem s) k = None \<Longrightarrow>
      map_of (s_exercises s) (snd (snd (snd w))) \<noteq> None \<Longrightarrow>
      P (s\<lparr>s_exercise_idem := AList.update k w (s_exercise_idem s)\<rparr>)"
    and remember_operation: "P s \<Longrightarrow> map_of (s_operation_idem s) k = None \<Longrightarrow>
      length (fold AList.delete evict (s_operation_idem s)) < MAX_OPERATION_IDEMPOTENCY_RECORDS \<Longrightarrow>
      P (remember_operation (Some k) evict r s)"

sublocale ledger_closed \<subseteq> expiry_closed P
proof
  fix s tid t t' assume "P s" "map_of (s_tasks s) tid = Some t" "life t t'" "\<not> unfinished t'"
  then show "P (modify_task tid (\<lambda>_. t') s)"
    by (intro life [of s tid t]) (simp_all add: life_step_def unfinished_def)
qed (fact l_records l_node l_close l_exercise)+

context ledger_closed begin

lemma life_mod:
  "P s \<Longrightarrow> map_of (s_tasks s) tid = Some t \<Longrightarrow> life_step s t (f t) \<Longrightarrow> P (modify_task tid f s)"
  using life [of s tid t "f t"] modify_task_const [OF l_records, of s tid t f] by argo

end

end
