(* ===== verification/Core_Preserve_Node.thy ===== *)
theory Core_Preserve_Node
  imports Core_Laws
begin

text \<open>
  The Node-facing operations preserve every property closed under the laws of the ledger.
\<close>

section \<open>Small facts of the operations\<close>

lemma active_task_SomeD:
  "active_task nid s = Some t \<Longrightarrow> t \<in> set (vals (s_tasks s)) \<and> t_node_id t = nid \<and> t_status t = Dispatched"
  unfolding active_task_def by (drule find_SomeD) simp

lemma next_queued_SomeD:
  assumes "next_queued nid s = Some t"
  shows "t \<in> set (vals (s_tasks s)) \<and> t_node_id t = nid \<and> t_status t = Queued"
proof -
  let ?c = "filter (\<lambda>t. t_node_id t = nid \<and> t_status t = Queued) (vals (s_tasks s))"
  from assms have "?c \<noteq> []" and t: "t = arg_min_list t_sequence ?c"
    by (auto simp: next_queued_def Let_def split: if_splits)
  from arg_min_list_in [OF this(1), of t_sequence] t show ?thesis by auto
qed

lemma require_node_session_Inr:
  "require_node_session nid tok s = Inr (k, n) \<Longrightarrow> nid = JStr k \<and> map_of (s_nodes s) k = Some n"
  by (auto simp: require_node_session_def split: if_splits json.splits option.splits)

lemma next_queued_log [simp]:
  "next_queued nid (tick s) = next_queued nid s"
  "next_queued nid (record_event a s) = next_queued nid s"
  "next_queued nid (record_audit b s) = next_queued nid s"
  "next_queued nid (modify_node k f s) = next_queued nid s"
  by (simp_all add: next_queued_def)

lemma active_task_log [simp]:
  "active_task nid (tick s) = active_task nid s"
  "active_task nid (record_event a s) = active_task nid s"
  "active_task nid (record_audit b s) = active_task nid s"
  "active_task nid (modify_node k f s) = active_task nid s"
  by (simp_all add: active_task_def)

lemma life_step_terminal: "life t t' \<Longrightarrow> t_status t' \<noteq> Dispatched \<Longrightarrow> life_step s t t'"
  by (simp add: life_step_def)

lemma fail_unfinished_task_tasks:
  "s_tasks (fail_unfinished_task nid reason message tid s) =
     (case map_of (s_tasks s) tid of
        None \<Rightarrow> s_tasks s
      | Some t \<Rightarrow> if t_node_id t = nid \<and> unfinished t
          then dmod tid (\<lambda>t. t\<lparr>t_status := Failed, t_result := Some [(''error'', JStr message)],
            t_completed_at := Some (utc_now s), t_deadline := None, t_queue_deadline := None\<rparr>) (s_tasks s)
          else s_tasks s)"
  by (simp add: fail_unfinished_task_def Let_def split: option.split)

text \<open>A task that failed is not unfinished, whatever happens to the others.\<close>

lemma fail_fold_idle:
  assumes "map_of (s_tasks (fold (fail_unfinished_task nid r m) ks s)) k = Some t" and "k \<in> set ks"
    and "t_node_id t = nid"
  shows "\<not> unfinished t"
proof -
  let ?R = "\<lambda>k s. \<forall>t. map_of (s_tasks s) k = Some t \<longrightarrow> t_node_id t = nid \<longrightarrow> \<not> unfinished t"
  have "?R k (fold (fail_unfinished_task nid r m) ks s)"
    by (rule fold_each [where I = "\<lambda>_. True" and R = ?R])
      (use assms(2) in \<open>auto simp: fail_unfinished_task_tasks map_of_dmod unfinished_def
        split: option.splits if_splits\<close>)
  with assms show ?thesis by blast
qed

lemma fail_fold_keys [simp]: "keys (s_tasks (fold (fail_unfinished_task nid r m) ks s)) = keys (s_tasks s)"
  by (induction ks arbitrary: s) (simp_all add: fail_unfinished_task_tasks split: option.split)

lemma fail_unfinished_tasks_idle:
  assumes "records_ok s"
  shows "idle_node nid (fail_unfinished_tasks nid r m s)"
proof -
  let ?s = "fold (fail_unfinished_task nid r m) (keys (s_tasks s)) s"
  have d: "distinct (keys (s_tasks s))" using assms by (simp add: records_ok_def)
  show ?thesis
    unfolding idle_node_def fail_unfinished_tasks_def refresh_frame
  proof (intro ballI impI)
    fix t assume "t \<in> set (vals (s_tasks ?s))" and n: "t_node_id t = nid"
    then obtain k where kt: "(k, t) \<in> set (s_tasks ?s)" by auto
    then have "map_of (s_tasks ?s) k = Some t" using d by (simp add: map_of_is_SomeI)
    moreover have "k \<in> set (keys (s_tasks s))"
      using kt fail_fold_keys [of nid r m "keys (s_tasks s)" s] by (metis fst_conv image_eqI set_map)
    ultimately show "\<not> unfinished t" using fail_fold_idle n by blast
  qed
qed

section \<open>Preservation\<close>

context expiry_closed begin

lemma fail_one: "P s \<Longrightarrow> P (fail_unfinished_task nid r m tid s)"
  unfolding fail_unfinished_task_def Let_def
  by (auto simp: unfinished_def split: option.split
      intro!: audit event node tick finish_mod life.fail)

lemma fail_all: "P s \<Longrightarrow> P (fail_unfinished_tasks nid r m s)"
  by (simp add: fail_unfinished_tasks_def refresh fold_closed fail_one)

lemma fail_all_idle: "P s \<Longrightarrow> idle_node nid (fail_unfinished_tasks nid r m s)"
  by (rule fail_unfinished_tasks_idle [OF records])

lemma expire_queued: "P s \<Longrightarrow> P (expire_queued_task now tid s)"
  unfolding expire_queued_task_def Let_def
  by (auto simp: unfinished_def split: option.split
      intro!: audit event tick finish_mod life.expire)

lemma expire_dispatched: "P s \<Longrightarrow> P (expire_dispatched_task now tid s)"
  unfolding expire_dispatched_task_def Let_def
  by (auto simp: unfinished_def split: option.split
      intro!: audit event tick node finish_mod life.timeout)

lemma stale: "P s \<Longrightarrow> P (mark_stale now nid s)"
  unfolding mark_stale_def Let_def
  by (auto split: option.split intro!: audit event node)

lemma expired_session: "P s \<Longrightarrow> P (expire_session now nid s)"
  unfolding expire_session_def Let_def
  by (auto split: option.split intro!: audit event tick close fail_all fail_all_idle)

lemma expire: "P s \<Longrightarrow> P (expire_locked now s)"
  unfolding expire_locked_def Let_def expire_node_def
  by (intro refresh fold_closed expire_queued expire_dispatched stale expired_session)

lemma disconnect: "P s \<Longrightarrow> P (snd (disconnect_node nid tok s))"
proof (cases "require_node_session nid tok s")
  case (Inr kn)
  obtain k n where kn: "kn = (k, n)" by (cases kn)
  assume "P s"
  have idle: "idle_node k (record_event a (modify_node k f (fail_unfinished_tasks k r m s)))" for a f r m
    using fail_all_idle [OF \<open>P s\<close>] by (simp add: idle_node_def)
  have "P (record_event a (modify_node k (\<lambda>n. n\<lparr>n_status := Offline\<rparr>) (fail_unfinished_tasks k r m s)))" for a r m
    by (intro event node fail_all \<open>P s\<close>) simp
  from close [OF this idle] show ?thesis
    unfolding disconnect_node_def Inr kn Let_def
    by (simp add: audit tick split: option.split)
qed (simp add: disconnect_node_def)

lemma note_poll: "P s \<Longrightarrow> P (note_poll now nid n s)"
  unfolding note_poll_def Let_def
  by (auto intro!: audit event tick node)

lemma response: "P s \<Longrightarrow> P (snd (poll_response_for nid tid s))"
  by (auto simp: poll_response_for_def intro!: tick split: option.split)

lemma rejected: "P s \<Longrightarrow> P (reject_result t reason s)"
  unfolding reject_result_def by (intro audit event)

lemma result_error: "P s \<Longrightarrow> P (snd (result_error t reason e s))"
  by (cases e) (simp_all add: rejected)

lemma generated: "P s \<Longrightarrow> P (generated_event nid t s)"
  by (auto simp: generated_event_def intro: event split: payload.split)

lemma accepted:
  assumes "P s" and t: "map_of (s_tasks s) (t_id t) = Some t" "t_status t = Dispatched"
    and r: "result_for t st r"
  shows "P (accept_result now nid t st r s)"
proof -
  have "payload_ok (t_type t) (t_payload t)"
    using records_task [OF records [OF assms(1)] t(1)] by (simp add: task_wf_def)
  note k = node_keep_credit [OF r this]
  have st: "st \<noteq> Dispatched \<and> st \<noteq> Queued" using result_for_status [OF r] by auto
  let ?s1 = "tick (modify_task (t_id t) (\<lambda>t. t\<lparr>t_status := st, t_result := Some r,
    t_result_accepted := True, t_completed_at := Some (utc_now s), t_deadline := None\<rparr>) s)"
  have "P ?s1"
    using assms st by (intro tick finish_mod [of _ _ t]) (simp_all add: life.accept unfinished_def)
  then have "P (tick (modify_node nid (\<lambda>n. credit_node (t_type t) st r
      (n\<lparr>n_last_seen := utc_now ?s1, n_last_seen_monotonic := now\<rparr>)) ?s1))"
    by (rule tick [OF node [OF _ k]])
  then show ?thesis
    unfolding accept_result_def Let_def
    by (cases "t_type t = GENERATE_EVENT \<and> st = Completed")
      (simp_all only: if_True if_False refresh audit event generated simp_thms)
qed

lemma submit_to_task:
  assumes p: "P s" and t: "map_of (s_tasks s) (t_id t) = Some t"
  shows "P (snd (submit_to_task now nid n t status result st r s))"
proof (cases "validate_task_result (t_type t) (t_payload t) status result (Some (identity_of n))")
  case (Inl e)
  then show ?thesis
    using p result_error [OF p, of t "''task_contract_mismatch''" e]
    by (auto simp: submit_to_task_def split: prod.split)
next
  case (Inr sr)
  obtain st' r' where sr: "sr = (st', r')" by (cases sr)
  have "result_for t st' r'" using Inr sr unfolding result_for_def by blast
  from accepted [OF p t _ this] have "t_status t = Dispatched \<Longrightarrow> P (accept_result now nid t st' r' s)" .
  with p Inr sr show ?thesis
    by (simp add: submit_to_task_def Let_def split: option.split)
qed

lemma submit: "P s \<Longrightarrow> P (snd (submit_result nid tok tid status result now s))"
proof -
  assume "P s"
  let ?s = "expire_locked now s"
  have e: "P ?s" by (rule expire) fact
  have "P (snd (submit_locked now k n t status result ?s))" for k n t
  proof -
    have "P (snd (result_error rec reason x ?s))" for rec :: node_task and reason x
      by (rule result_error [OF e])
    moreover have "P (snd (submit_to_task now k n u status result st r ?s))"
      if "map_of (s_tasks ?s) t = Some u" for u st r
      using submit_to_task [OF e] records_task [OF records [OF e] that] that by simp
    ultimately show ?thesis
      using e unfolding submit_locked_def
      by (auto split: option.split sum.split prod.split) (metis snd_conv)+
  qed
  then show ?thesis
    using e by (auto simp: submit_result_def Let_def split: sum.split prod.split json.split)
qed

end

context ledger_closed begin

lemma redelivered:
  assumes "P s" and "active_task nid s = Some t"
  shows "P (redeliver nid t s)"
proof -
  have "map_of (s_tasks s) (t_id t) = Some t" "t_status t = Dispatched"
    using active_task_SomeD [OF assms(2)] records_task_in [OF records [OF assms(1)]] by auto
  with assms(1) show ?thesis
    unfolding redeliver_def Let_def
    by (intro event life_mod [of _ _ t]) (simp_all add: life_step_def life.redeliver)
qed

lemma dispatched:
  assumes "P s" and "next_queued nid s = Some t" and "active_task nid s = None"
    and "map_of (s_nodes s) nid = Some n" and "\<not> n_tasking_paused n"
  shows "P (dispatch now nid t s)"
proof -
  have "map_of (s_tasks s) (t_id t) = Some t" "t_status t = Queued" "dispatch_guard s t"
    using next_queued_SomeD [OF assms(2)] records_task_in [OF records [OF assms(1)]] assms(2-)
    by (auto simp: dispatch_guard_def)
  with assms(1) show ?thesis
    unfolding dispatch_def Let_def
    by (intro audit event tick life_mod [of _ _ t]) (auto simp: life_step_def intro: life.dispatch [simplified])
qed

lemma note_poll_nodes:
  "map_of (s_nodes s) nid = Some n \<Longrightarrow>
   \<exists>n'. map_of (s_nodes (note_poll now nid n s)) nid = Some n' \<and> n_tasking_paused n' = n_tasking_paused n"
  by (auto simp: note_poll_def Let_def)

lemma poll: "P s \<Longrightarrow> P (snd (poll_node nid tok now s))"
proof -
  assume "P s"
  let ?s = "expire_locked now s"
  have e: "P ?s" by (rule expire) fact
  show ?thesis
  proof (cases "require_node_session nid tok ?s")
    case (Inr kn)
    obtain k n where kn: "kn = (k, n)" by (cases kn)
    from require_node_session_Inr Inr kn have n: "map_of (s_nodes ?s) k = Some n" by blast
    let ?t = "note_poll now k n ?s"
    have p: "P ?t" by (rule note_poll [OF e])
    from note_poll_nodes [OF n] obtain n' where n':
      "map_of (s_nodes ?t) k = Some n'" "n_tasking_paused n' = n_tasking_paused n" by blast
    show ?thesis
      unfolding poll_node_def Let_def Inr kn sum.case prod.case
      using p dispatched [OF p _ _ n'(1)] n'(2) redelivered [OF p]
      by (auto split: option.split intro!: response)
  qed (simp add: poll_node_def Let_def e)
qed

lemma pruned_node: "P s \<Longrightarrow> prune_closed_node s = Inr s' \<Longrightarrow> P s' \<and> length (s_nodes s') < MAX_NODES"
proof (cases "length (s_nodes s) < MAX_NODES")
  case False
  let ?c = "filter (\<lambda>n. \<not> n_session_active n) (vals (s_nodes s))"
  assume p: "P s" and pr: "prune_closed_node s = Inr s'"
  with False have ne: "?c \<noteq> []" by (auto simp: prune_closed_node_def Let_def)
  let ?o = "arg_min_list n_created_at ?c"
  have o': "?o \<in> set (vals (s_nodes s))" "\<not> n_session_active ?o"
    using arg_min_list_in [OF ne, of n_created_at] by auto
  have m: "map_of (s_nodes s) (n_id ?o) = Some ?o" by (rule records_node_in [OF records [OF p] o'(1)])
  have "length (AList.delete (n_id ?o) (s_nodes s)) < length (s_nodes s)"
    by (rule length_delete_less [OF m])
  moreover have "length (s_nodes s) \<le> MAX_NODES"
    using records [OF p] by (simp add: records_ok_def)
  moreover have "s' = record_audit b (record_event a (s\<lparr>s_nodes := AList.delete (n_id ?o) (s_nodes s)\<rparr>)) \<longrightarrow> P s'"
    for a b using log_one [OF drop_node [OF p m o'(2)]] by blast
  ultimately show ?thesis
    using pr ne False unfolding prune_closed_node_def Let_def
    by (auto simp del: arg_min_list.simps)
qed (simp add: prune_closed_node_def)

lemma enroll: "P s \<Longrightarrow> P (snd (enroll_node q now s))"
proof -
  assume p: "P s"
  have step: "P (record_audit b (record_event a (tick (s1\<lparr>s_nodes := AList.update (n_id n) n (s_nodes s1)\<rparr>))))"
    if "prune_closed_node s = Inr s1" and "n = new_node nm v pr cs i j now s1" and "settings_ok n"
    for a b n nm v pr cs i j s1
  proof -
    have "enrollable n s1"
      using pruned_node [OF p that(1)] that(2,3) unfolding enrollable_def by blast
    with pruned_node [OF p that(1)] show ?thesis by (intro audit event tick add_node) auto
  qed
  show ?thesis
    using p step unfolding enroll_node_def Let_def
    by (auto split: sum.split prod.split simp: rbind_eq_Inr new_node_def settings_ok_def
        validate_poll_interval_Inr validate_jitter_percent_Inr)
qed

end

end
