(* ===== verification/Core_Preserve_Task.thy ===== *)
theory Core_Preserve_Task
  imports Core_Preserve_Node
begin

text \<open>
  The Operator-facing operations preserve every property closed under the laws of the ledger.
  The admission checks of one request cover all the tasks it makes: \<open>room\<close> is what is left of
  the bounds after the checks, and each new task uses up one place.
\<close>

section \<open>Pruning\<close>

lemma prune_frame [simp]:
  "s_nodes (prune_terminal_task t s) = s_nodes s"
  "s_tasks (prune_terminal_task t s) = AList.delete (t_id t) (s_tasks s)"
  "s_note_idem (prune_terminal_task t s) = s_note_idem s"
  "s_exercises (prune_terminal_task t s) = s_exercises s"
  "s_exercise_idem (prune_terminal_task t s) = s_exercise_idem s"
  "s_operation_idem (prune_terminal_task t s) = s_operation_idem s"
  "s_task_seq (prune_terminal_task t s) = s_task_seq s"
  by (simp_all add: prune_terminal_task_def remember_tombstone_def Let_def)

lemma prunable_cong: "s_exercises s' = s_exercises s \<Longrightarrow> prunable s' t = prunable s t"
  by (simp add: prunable_def required_by_running_exercise_def split: option.split)

text \<open>The tasks pruned to make room: distinct, and the oldest that may go.\<close>

definition slot_candidates :: "lab_state \<Rightarrow> task list" where
  "slot_candidates s = sort_key t_sequence (filter (prunable s) (vals (s_tasks s)))"

lemma slot_candidates_ids:
  assumes "records_ok s"
  shows "distinct (map t_id (take n (slot_candidates s)))"
proof -
  have "distinct (map t_id (vals (s_tasks s)))"
    unfolding records_task_ids [OF assms] using assms by (simp add: records_ok_def)
  then have "distinct (map t_id (filter (prunable s) (vals (s_tasks s))))"
    by (rule distinct_map_filter)
  then have "distinct (map t_id (slot_candidates s))"
    by (simp add: slot_candidates_def distinct_map)
  then show ?thesis by (metis distinct_take take_map)
qed

lemma make_task_slots_alt:
  "make_task_slots n s =
    (if length (s_tasks s) + n \<le> MAX_TASKS then Inr s
     else if length (slot_candidates s) < length (s_tasks s) + n - MAX_TASKS then Inl task_limit
     else Inr (fold prune_terminal_task (take (length (s_tasks s) + n - MAX_TASKS) (slot_candidates s)) s))"
  by (simp add: make_task_slots_def slot_candidates_def Let_def)

lemma slot_candidatesD:
  "t \<in> set (take n (slot_candidates s)) \<Longrightarrow> t \<in> set (vals (s_tasks s)) \<and> prunable s t"
  by (auto simp: slot_candidates_def dest!: in_set_takeD)

definition pruned_from :: "lab_state \<Rightarrow> task list \<Rightarrow> bool" where
  "pruned_from s ts \<longleftrightarrow> distinct (map t_id ts) \<and>
     (\<forall>t\<in>set ts. map_of (s_tasks s) (t_id t) = Some t \<and> prunable s t)"

lemma pruned_from_candidates:
  assumes "records_ok s"
  shows "pruned_from s (take n (slot_candidates s))"
  unfolding pruned_from_def
proof (intro conjI ballI)
  show "distinct (map t_id (take n (slot_candidates s)))" by (rule slot_candidates_ids [OF assms])
next
  fix t assume "t \<in> set (take n (slot_candidates s))"
  from slot_candidatesD [OF this]
  show "map_of (s_tasks s) (t_id t) = Some t" "prunable s t"
    using records_task_in [OF assms] by blast+
qed

lemma pruned_from_head: "pruned_from s (t # ts) \<Longrightarrow> map_of (s_tasks s) (t_id t) = Some t \<and> prunable s t"
  unfolding pruned_from_def by (metis list.set_intros(1))

lemma pruned_from_rest:
  assumes "pruned_from s (t # ts)" and "u \<in> set ts"
  shows "t_id u \<noteq> t_id t" and "map_of (s_tasks s) (t_id u) = Some u" and "prunable s u"
  using assms unfolding pruned_from_def
  by (metis distinct.simps(2) image_eqI list.map(2) list.set_map) (metis assms list.set_intros(2) pruned_from_def)+

lemma pruned_from_tail:
  assumes "pruned_from s (t # ts)"
  shows "pruned_from (prune_terminal_task t s) ts"
  unfolding pruned_from_def
proof (intro conjI ballI)
  show "distinct (map t_id ts)"
    using assms unfolding pruned_from_def by (metis distinct.simps(2) list.map(2))
next
  fix u assume u: "u \<in> set ts"
  note r = pruned_from_rest [OF assms u]
  show "map_of (s_tasks (prune_terminal_task t s)) (t_id u) = Some u"
    using r by (simp add: map_of_delete_iff)
  show "prunable (prune_terminal_task t s) u"
    using r(3) prunable_cong [of "prune_terminal_task t s" s u] by simp
qed

lemma prune_fold_frame:
  "s_nodes (fold prune_terminal_task ts s) = s_nodes s"
  "s_exercises (fold prune_terminal_task ts s) = s_exercises s"
  "s_note_idem (fold prune_terminal_task ts s) = s_note_idem s"
  "s_exercise_idem (fold prune_terminal_task ts s) = s_exercise_idem s"
  "s_operation_idem (fold prune_terminal_task ts s) = s_operation_idem s"
  "s_task_seq (fold prune_terminal_task ts s) = s_task_seq s"
  "s_tasks (fold prune_terminal_task ts s) = fold AList.delete (map t_id ts) (s_tasks s)"
  by (induction ts arbitrary: s) simp_all

lemma fold_delete_length:
  "distinct (keys d) \<Longrightarrow> distinct ks \<Longrightarrow> set ks \<subseteq> set (keys d) \<Longrightarrow>
   length (fold AList.delete ks d) + length ks = length d"
proof (induction ks arbitrary: d)
  case (Cons k ks)
  then obtain v where "map_of d k = Some v" by (auto dest: weak_map_of_SomeI)
  then have l: "Suc (length (AList.delete k d)) = length d"
    by (rule length_delete_present [OF Cons.prems(1)])
  have "length (fold AList.delete ks (AList.delete k d)) + length ks = length (AList.delete k d)"
    using Cons.prems by (intro Cons.IH distinct_keys_delete) (auto simp: delete_keys)
  with l show ?case by simp
qed simp

lemma count_delete_le: "count_if p (vals (AList.delete k d)) \<le> count_if p (vals d)"
  by (induction d) auto

lemma count_fold_delete_le: "count_if p (vals (fold AList.delete ks d)) \<le> count_if p (vals d)"
  by (induction ks arbitrary: d) (auto intro: order.trans count_delete_le)

lemma count_update_le: "count_if p (vals (AList.update k v d)) \<le> Suc (count_if p (vals d))"
  by (induction d) auto

section \<open>Room for a request\<close>

definition node_ready :: "string \<Rightarrow> lab_state \<Rightarrow> bool" where
  "node_ready nid s \<longleftrightarrow> (\<exists>n. map_of (s_nodes s) nid = Some n \<and> n_session_active n \<and>
     \<not> n_tasking_paused n \<and> RUN_PLAYBOOK \<in> set (n_capabilities n))"

definition room :: "string \<Rightarrow> nat \<Rightarrow> lab_state \<Rightarrow> bool" where
  "room nid k s \<longleftrightarrow> node_ready nid s \<and> queued_for nid s + k \<le> MAX_QUEUED_TASKS_PER_NODE \<and>
     queued_playbooks_for nid s + k \<le> MAX_QUEUED_PLAYBOOKS_PER_NODE \<and> length (s_tasks s) + k \<le> MAX_TASKS"

definition playbook_request :: "string \<Rightarrow> task_request \<Rightarrow> bool" where
  "playbook_request nid q \<longleftrightarrow> rq_node_id q = nid \<and> rq_type q = RUN_PLAYBOOK \<and>
     rq_idempotency_key q = None \<and>
     payload_ok RUN_PLAYBOOK (rq_payload q)"

lemma room_log [simp]:
  "room nid k (tick s) = room nid k s"
  "room nid k (record_event a s) = room nid k s"
  "room nid k (record_audit b s) = room nid k s"
  by (simp_all add: room_def node_ready_def queued_for_def queued_playbooks_for_def)

interpretation room_log: log_closed "room nid k" for nid k
  by unfold_locales simp_all

lemma room_admitted: "room nid (Suc k) s \<Longrightarrow> playbook_request nid q \<Longrightarrow> admitted q s"
  by (auto simp: room_def node_ready_def playbook_request_def admitted_def)

lemma add_task_frame [simp]:
  "s_nodes (add_task t s) = s_nodes s"
  "s_tasks (add_task t s) = AList.update (t_id t) t (s_tasks s)"
  "s_exercises (add_task t s) = s_exercises s"
  "s_operation_idem (add_task t s) = s_operation_idem s"
  "s_exercise_idem (add_task t s) = s_exercise_idem s"
  "s_tombstones (add_task t s) = s_tombstones s"
  "s_note_idem (add_task t s) = s_note_idem s"
  "s_events (add_task t s) = s_events s"
  "s_audit (add_task t s) = s_audit s"
  "s_event_seq (add_task t s) = s_event_seq s"
  "s_audit_seq (add_task t s) = s_audit_seq s"
  "s_task_seq (add_task t s) = t_sequence t"
  "s_stream_id (add_task t s) = s_stream_id s"
  "s_env (add_task t s) = s_env s"
  by (simp_all add: add_task_def)

lemma room_add_task: "room nid (Suc k) s \<Longrightarrow> room nid k (add_task t s)"
  using count_update_le [of _ "t_id t" t "s_tasks s"] length_update_le [of "t_id t" t "s_tasks s"]
  by (fastforce simp: room_def node_ready_def queued_for_def queued_playbooks_for_def
      intro: order.trans [rotated])

lemma room_log_queued [simp]: "room nid k (log_queued t r s) = room nid k s"
  by (simp add: log_queued_def)

lemma room_enqueue: "room nid (Suc k) s \<Longrightarrow> room nid k (enqueue q now r s)"
  by (simp add: enqueue_def Let_def room_add_task)

lemma make_task_slots_frame:
  assumes "make_task_slots k s = Inr s'"
  shows "s_nodes s' = s_nodes s" "s_exercises s' = s_exercises s" "s_note_idem s' = s_note_idem s"
    "s_exercise_idem s' = s_exercise_idem s" "s_operation_idem s' = s_operation_idem s"
    "s_task_seq s' = s_task_seq s"
  using assms by (auto simp: make_task_slots_alt prune_fold_frame split: if_splits)

section \<open>Requests that passed validation\<close>

lemma clean_steps_playbooks:
  "validate_operation_steps v = Inr ps \<Longrightarrow> 1 \<le> length ps \<and> length ps \<le> MAX_OPERATION_STEPS"
proof -
  have from_index: "validate_steps_from i vs = Inr ps \<Longrightarrow> length ps = length vs" for i vs ps
  proof (induction vs arbitrary: i ps)
    case (Cons v vs)
    then obtain tp qs kvs where v: "v = JObj kvs"
      and tp: "validate_task_payload (JStr ''RUN_PLAYBOOK'') v = Inr tp"
      and qs: "validate_steps_from (Suc i) vs = Inr qs"
      and ps: "ps = (case snd tp of PlaybookField p \<Rightarrow> [p] | _ \<Rightarrow> []) @ qs"
      by (auto simp: rbind_eq_Inr split: json.splits if_splits)
    obtain ty p where tpeq: "tp = (ty, p)" by (cases tp)
    from tp tpeq have "task_type_str ty = ''RUN_PLAYBOOK''" "payload_ok ty p"
      by (auto simp: validate_task_payload_Inr intro: payload_of_ok)
    then have "\<exists>q. p = PlaybookField q" by (cases ty; cases p) simp_all
    with Cons.IH [OF qs] ps tpeq show ?case by auto
  qed simp
  assume "validate_operation_steps v = Inr ps"
  then show ?thesis
    by (auto simp: validate_operation_steps_def split: json.splits if_splits dest!: from_index)
qed

lemma scenario_sizes:
  "scenario_definition sid = Some d \<Longrightarrow> length (sc_playbooks d) \<le> MAX_QUEUED_PLAYBOOKS_PER_NODE"
  using scenario_definition_cases [of sid] by (auto simp: catalog_defs MAX_QUEUED_PLAYBOOKS_PER_NODE_def)

lemma admit_task_Inr:
  assumes "admit_task nid ty s = Inr s'"
  shows "make_task_slots 1 s = Inr s'" "queued_for nid s < MAX_QUEUED_TASKS_PER_NODE"
    "ty = RUN_PLAYBOOK \<Longrightarrow> queued_playbooks_for nid s < MAX_QUEUED_PLAYBOOKS_PER_NODE"
    "\<exists>n. map_of (s_nodes s) nid = Some n \<and> n_session_active n \<and> \<not> n_tasking_paused n \<and>
       ty \<in> set (n_capabilities n)"
  using assms by (auto simp: admit_task_def split: option.splits if_splits)

lemma admit_playbooks_Inr:
  "admit_playbooks nid n s = Inr u \<longleftrightarrow> queued_for nid s + n \<le> MAX_QUEUED_TASKS_PER_NODE \<and>
     queued_playbooks_for nid s + n \<le> MAX_QUEUED_PLAYBOOKS_PER_NODE"
  by (auto simp: admit_playbooks_def)

lemma admit_operation_Inr:
  assumes "admit_operation nid k s = Inr u"
  shows "node_ready nid s" "admit_playbooks nid k s = Inr u"
  using assms by (auto simp: admit_operation_def node_ready_def split: option.splits if_splits)

lemma admit_exercise_Inr:
  assumes "admit_exercise nid k s = Inr u"
  shows "node_ready nid s" "admit_playbooks nid k s = Inr u" "length (s_exercises s) < MAX_EXERCISES"
  using assms by (auto simp: admit_exercise_def node_ready_def split: option.splits if_splits)

lemma slots_counts:
  assumes "records_ok s" and "make_task_slots k s = Inr s'"
  shows "\<And>nid. queued_for nid s' \<le> queued_for nid s" "\<And>nid. queued_playbooks_for nid s' \<le> queued_playbooks_for nid s"
    "length (s_tasks s') + k \<le> MAX_TASKS"
proof -
  show "queued_for nid s' \<le> queued_for nid s" "queued_playbooks_for nid s' \<le> queued_playbooks_for nid s" for nid
    using assms(2) count_fold_delete_le [of _ _ "s_tasks s"]
    by (auto simp: make_task_slots_alt queued_for_def queued_playbooks_for_def prune_fold_frame
        split: if_splits)
  show "length (s_tasks s') + k \<le> MAX_TASKS"
  proof (cases "length (s_tasks s) + k \<le> MAX_TASKS")
    case False
    let ?ts = "take (length (s_tasks s) + k - MAX_TASKS) (slot_candidates s)"
    from False assms(2) have s': "s' = fold prune_terminal_task ?ts s"
      and n: "length ?ts = length (s_tasks s) + k - MAX_TASKS"
      by (auto simp: make_task_slots_alt split: if_splits)
    have p: "pruned_from s ?ts" by (rule pruned_from_candidates [OF assms(1)])
    have "length (s_tasks s') + length (map t_id ?ts) = length (s_tasks s)"
      unfolding s' prune_fold_frame
      using assms(1) p by (intro fold_delete_length)
        (auto simp: records_ok_def pruned_from_def dest: map_of_SomeD intro: rev_image_eqI)
    with n False show ?thesis by simp
  qed (use assms in \<open>simp add: make_task_slots_alt\<close>)
qed

lemma task_with_key_None: "task_with_key k s = None \<longleftrightarrow> (\<forall>t\<in>set (vals (s_tasks s)). t_idempotency_key t \<noteq> Some k)"
  by (auto simp: task_with_key_def find_None_iff)

lemma fold_delete_vals: "set (vals (fold AList.delete ks d)) \<subseteq> set (vals d)"
proof (induction ks arbitrary: d)
  case (Cons k ks)
  have "set (vals (AList.delete k d)) \<subseteq> set (vals d)" using set_delete_subset [of k d] by auto
  with Cons [of "AList.delete k d"] show ?case by simp
qed simp

lemma slots_vals: "make_task_slots k s = Inr s' \<Longrightarrow> set (vals (s_tasks s')) \<subseteq> set (vals (s_tasks s))"
  by (auto simp only: make_task_slots_alt prune_fold_frame sum.inject split: if_splits
      dest!: subsetD [OF fold_delete_vals])

lemma room_after_slots:
  assumes "records_ok s" and "make_task_slots k s = Inr s'" and "node_ready nid s"
    and "admit_playbooks nid k s = Inr u"
  shows "room nid k s'"
  using slots_counts(1) [OF assms(1,2), of nid] slots_counts(2) [OF assms(1,2), of nid]
    slots_counts(3) [OF assms(1,2)] assms(3,4) make_task_slots_frame(1) [OF assms(2)]
  by (simp add: room_def node_ready_def admit_playbooks_Inr)

section \<open>Preservation\<close>

context ledger_closed begin

lemma pruned_one: "P s \<Longrightarrow> map_of (s_tasks s) (t_id t) = Some t \<Longrightarrow> prunable s t \<Longrightarrow> P (prune_terminal_task t s)"
proof -
  assume "P s" "map_of (s_tasks s) (t_id t) = Some t" "prunable s t"
  from drop_task [OF this] show ?thesis
    by (simp add: prune_terminal_task_def Let_def audit event remember_tombstone_def split: if_splits)
qed

lemma pruned_all: "P s \<Longrightarrow> pruned_from s ts \<Longrightarrow> P (fold prune_terminal_task ts s)"
proof (induction ts arbitrary: s)
  case (Cons t ts)
  note h = pruned_from_head [OF Cons.prems(2)]
  have "P (prune_terminal_task t s)" using pruned_one [OF Cons.prems(1)] h by blast
  from Cons.IH [OF this pruned_from_tail [OF Cons.prems(2)]] show ?case by simp
qed simp

lemma slots: "P s \<Longrightarrow> make_task_slots k s = Inr s' \<Longrightarrow> P s'"
  using pruned_all [OF _ pruned_from_candidates [OF records]]
  by (auto simp: make_task_slots_alt split: if_splits)

lemma logged: "P s \<Longrightarrow> P (log_queued t r s)"
  by (simp add: log_queued_def audit event)

lemma enqueued: "P s \<Longrightarrow> admitted q s \<Longrightarrow> P (enqueue q now r s)"
  by (simp add: enqueue_def Let_def logged add_task)

lemma queue: "P s \<Longrightarrow> P (snd (queue_task nid ty p ttl key act now s))"
proof -
  assume p: "P s"
  have "P (enqueue q now None s1)"
    if a: "admit_task (rq_node_id q) (rq_type q) s = Inr s1" and "payload_ok (rq_type q) (rq_payload q)"
      and k: "\<And>k. rq_idempotency_key q = Some k \<Longrightarrow> task_with_key k s = None" for q s1
  proof -
    note m = admit_task_Inr [OF a]
    have "\<And>k. rq_idempotency_key q = Some k \<Longrightarrow> task_with_key k s1 = None"
      using k slots_vals [OF m(1)] unfolding task_with_key_None by blast
    then    have "admitted q s1"
      using that(2) m(2-) slots_counts(1,2) [OF records [OF p] m(1), of "rq_node_id q"] slots_counts(3) [OF records [OF p] m(1)]
        make_task_slots_frame(1) [OF m(1)]
      unfolding admitted_def by auto
    then show ?thesis by (rule enqueued [OF slots [OF p m(1)]])
  qed
  note made = this
  have "P (snd (queue_locked q now s))" if "payload_ok (rq_type q) (rq_payload q)" for q
    using p that by (auto simp: queue_locked_def intro!: made split: option.split sum.split)
  then show ?thesis
    using p unfolding queue_task_def
    by (auto split: json.split sum.split simp: rbind_eq_Inr dest!: validate_task_payload_ok)
qed

lemma cancel: "P s \<Longrightarrow> P (snd (cancel_task tid act s))"
proof -
  assume p: "P s"
  have "P (refresh_exercises (log_cancelled t a r (tick (modify_task k (\<lambda>_. cancelled r time t) s))))"
    if "map_of (s_tasks s) k = Some t" "t_status t = Queued" for t a r k time
  proof -
    have "life_step s t (cancelled r time t)"
      by (rule life_step_terminal [OF life.cancel [OF that(2)]]) (simp add: cancelled_def)
    from life [OF p that(1) this] show ?thesis
      unfolding log_cancelled_def by (intro refresh audit event tick)
  qed
  with p show ?thesis
    by (auto simp: cancel_task_def Let_def split: json.split sum.split option.split)
qed

end

end
