(* ===== verification/Core_Preserve_Scenario.thy ===== *)
theory Core_Preserve_Scenario
  imports Core_Preserve_Task
begin

text \<open>
  Operations, exercises, containment and notes preserve every property closed under the laws of
  the ledger; \<open>run_op\<close> then preserves it for every operation but the reset.  The locale
  \<open>ledger_invariant\<close> adds the initial state and the reset: its properties hold in every
  reachable state.
\<close>

section \<open>Operations\<close>

lemma step_request_playbook: "playbook_request nid (step_request nid act ttl opid i p)"
  by (simp add: playbook_request_def step_request_def)

lemma log_queued_frame [simp]:
  "s_operation_idem (log_queued t r s) = s_operation_idem s"
  "s_exercise_idem (log_queued t r s) = s_exercise_idem s"
  "s_exercises (log_queued t r s) = s_exercises s"
  "s_nodes (log_queued t r s) = s_nodes s"
  "s_env (log_queued t r s) = s_env s"
  by (simp_all add: log_queued_def)

lemma enqueue_frame [simp]:
  "s_operation_idem (enqueue q now r s) = s_operation_idem s"
  "s_exercises (enqueue q now r s) = s_exercises s"
  by (simp_all add: enqueue_def Let_def)

lemma queue_steps_frame [simp]:
  "s_operation_idem (snd (queue_steps mk now i ps s)) = s_operation_idem s"
  by (induction ps arbitrary: i s) (simp_all add: Let_def case_prod_beta)

lemma eviction_keys_length:
  assumes "records_ok s" and "eviction_keys (Some k) s = Inr ks"
  shows "length (fold AList.delete ks (s_operation_idem s)) < MAX_OPERATION_IDEMPOTENCY_RECORDS"
proof (cases "length (s_operation_idem s) + 1 \<le> MAX_OPERATION_IDEMPOTENCY_RECORDS")
  case True
  with assms(2) show ?thesis by (simp add: eviction_keys_def)
next
  case False
  let ?d = "s_operation_idem s" and ?n = "length (s_operation_idem s) + 1 - MAX_OPERATION_IDEMPOTENCY_RECORDS"
  let ?f = "filter (\<lambda>(k, r). operation_record_evictable s r) ?d"
  have ks: "ks = take ?n (keys ?f)" and n: "length ks = ?n"
    using assms(2) False by (auto simp: eviction_keys_def Let_def split: if_splits)
  have d: "distinct (keys ?d)" using assms(1) by (simp add: records_ok_def)
  have "distinct ks" unfolding ks by (intro distinct_take distinct_map_filter d)
  moreover have "set ks \<subseteq> set (keys ?d)" unfolding ks by (auto dest!: in_set_takeD)
  ultimately have "length (fold AList.delete ks ?d) + length ks = length ?d"
    by (rule fold_delete_length [OF d])
  with n False show ?thesis by simp
qed

section \<open>A new exercise\<close>

lemma started_timeline:
  assumes "exercise_started x"
  shows "exercise_started (fst (append_exercise_timeline a (x, s)))"
  using assms quiet_timeline [of "\<lambda>_ _ _. True" a]
  by (auto simp: exercise_started_def append_exercise_timeline_def exercise_ok_defs timeline_item_of_def)

lemma started_task: "exercise_started x \<Longrightarrow> exercise_started (x\<lparr>x_task_ids := x_task_ids x @ [t]\<rparr>)"
  by (auto simp: exercise_started_def exercise_ok_defs)

lemma started_new: "exercise_started (new_exercise d nid act s)"
  by (simp add: exercise_started_def new_exercise_def exercise_ok_defs)

lemma new_exercise_id: "x_id (new_exercise d nid act s) = ''exercise-'' @ uuid_hex 12 s"
  by (simp add: new_exercise_def)

lemma append_timeline_ids [simp]:
  "x_id (fst (append_exercise_timeline a xs)) = x_id (fst xs)"
  by (simp add: append_exercise_timeline_def split: prod.splits)

definition same_request_maps :: "lab_state \<Rightarrow> lab_state \<Rightarrow> bool" where
  "same_request_maps s s' \<longleftrightarrow> s_exercises s' = s_exercises s \<and> s_exercise_idem s' = s_exercise_idem s \<and>
     s_nodes s' = s_nodes s \<and> s_env s' = s_env s"

interpretation request_maps: log_closed "same_request_maps s" for s
  by unfold_locales (simp_all add: same_request_maps_def)

lemma same_request_maps_refl [simp]: "same_request_maps s s"
  by (simp add: same_request_maps_def)

section \<open>Containment\<close>

lemma quiet_contain_task: "quiet_step (\<lambda>_ ids _. tid \<in> set ids) (contain_task act tid)"
proof (rule quiet_stepI)
  fix x :: exercise and s assume t: "tid \<in> set (x_task_ids x)"
  have q: "quiet_step (\<lambda>_ ids _. tid \<in> set ids)
      (\<lambda>xs. (\<lambda>(x, s). (mark_observed tid x, s)) (append_exercise_timeline a xs))" for a
    by (rule quiet_comp [OF quiet_timeline quiet_mark])
  have r: "exercise_rel x (mark_observed tid y) \<and> x_status (mark_observed tid y) = x_status x"
    if "append_exercise_timeline a (x, u) = (y, v)" for a u y v
    using q [of a] t that unfolding quiet_step_def by (metis fst_conv old.prod.case)
  show "exercise_rel x (fst (contain_task act tid (x, s))) \<and>
      x_status (fst (contain_task act tid (x, s))) = x_status x"
  proof (cases "map_of (s_tasks s) tid")
    case (Some task)
    show ?thesis
    proof (cases "t_status task = Queued")
      case True
      then show ?thesis
        by (simp add: contain_task_def Some Let_def r split: prod.split)
    qed (simp add: contain_task_def Some)
  qed (simp add: contain_task_def)
qed

lemma contained_rel:
  assumes "exercise_ok x" and "x_status x \<noteq> XContained" and "x_detection_status x = Detected"
  shows "exercise_rel x (contained action act time x)"
proof -
  have ids: "map al_rule_id (map (contain_alert time) as) = map al_rule_id as" for as
    by (simp add: contain_alert_def)
  have st: "al_status (contain_alert time al) = AlertContained" for al
    by (cases "al_status al") (simp_all add: contain_alert_def)
  have tk: "al_task_id (contain_alert time al) = al_task_id al"
    and rl: "rule_of_scenario sid (contain_alert time al) = rule_of_scenario sid al" for al sid
    by (simp_all add: contain_alert_def rule_of_scenario_def)
  let ?y = "contained action act time x"
  have al: "x_alerts ?y = map (contain_alert time) (x_alerts x)" by (simp add: contained_def)
  have "timeline_ok ?y" using assms(1) by (simp add: exercise_ok_def timeline_ok_def contained_def)
  moreover have "alerts_ok ?y"
    using assms(1) by (simp add: exercise_ok_def alerts_ok_def al ids tk rl del: map_map)
      (simp add: contained_def)
  moreover have "outcome_ok ?y"
    using assms by (simp add: exercise_ok_def alerts_ok_def outcome_ok_def al st) (auto simp: contained_def)
  ultimately have "exercise_ok ?y" by (simp add: exercise_ok_def)
  moreover have "same_exercise x ?y" by (simp add: same_exercise_def contained_def)
  moreover have "prefix (map al_rule_id (x_alerts x)) (map al_rule_id (x_alerts ?y))"
    by (simp add: al ids del: map_map)
  ultimately show ?thesis
    using assms(2) by (simp add: exercise_rel_def) (simp add: contained_def)
qed

lemma contain_fold_exercises [simp]:
  "s_exercises (snd (fold (contain_task act) ids xs)) = s_exercises (snd xs)"
proof (induction ids arbitrary: xs)
  case (Cons i ids)
  have "s_exercises (snd (contain_task act i xs)) = s_exercises (snd xs)"
    using exercises_frame.append_timeline
    by (auto simp: contain_task_def Let_def log_cancelled_def append_exercise_timeline_def
        split: prod.splits option.split)
  with Cons show ?case by simp
qed simp

lemma detected_mono: "exercise_ok x \<Longrightarrow> exercise_rel x y \<Longrightarrow> x_detection_status x = Detected \<Longrightarrow>
  x_detection_status y = Detected"
  using exercise_relD(3,9) [of x y] by (auto simp: exercise_ok_def alerts_ok_def)

section \<open>Preservation\<close>

context ledger_closed begin

lemma steps:
  "P s \<Longrightarrow> room nid (length ps) s \<Longrightarrow> (\<And>i p. playbook_request nid (mk i p)) \<Longrightarrow>
   P (snd (queue_steps mk now i ps s))"
proof (induction ps arbitrary: i s)
  case (Cons p ps)
  then have r: "room nid (Suc (length ps)) s" by simp
  have "P (enqueue (mk i p) now (Some ''operation_request'') s)"
    by (rule enqueued [OF Cons.prems(1) room_admitted [OF r Cons.prems(3)]])
  from Cons.IH [OF this room_enqueue [OF r] Cons.prems(3)] show ?case
    by (simp add: Let_def case_prod_beta)
qed simp

lemma operation: "P s \<Longrightarrow> P (snd (queue_operation nid st ttl key act now s))"
proof -
  assume p: "P s"
  have "P (snd (create_operation k ps t ky a now ev s1))"
    if "admit_operation k (length ps) s = Inr u" and ev: "eviction_keys ky s = Inr ev"
      and m: "make_task_slots (length ps) s = Inr s1"
      and new: "\<And>j. ky = Some j \<Longrightarrow> map_of (s_operation_idem s) j = None" for k ps t ky a ev s1 u
  proof -
    have r: "room k (length ps) (tick s1)"
      using room_after_slots [OF records [OF p] m] admit_operation_Inr [OF that(1)] by simp
    have q: "P (snd (queue_steps (step_request k a t oid) now 1 ps (tick s1)))" for oid
      by (rule steps [OF tick [OF slots [OF p m]] r step_request_playbook])
    have l: "P (log_operation oid k a ts (snd (queue_steps (step_request k a t oid) now 1 ps (tick s1))))" for oid ts
      unfolding log_operation_def by (intro audit event q)
    have idem: "s_operation_idem (log_operation oid k a ts
        (snd (queue_steps (step_request k a t oid) now 1 ps (tick s1)))) = s_operation_idem s" for oid ts
      using make_task_slots_frame(5) [OF m] by (simp add: log_operation_def)
    show ?thesis
    proof (cases ky)
      case None
      then show ?thesis
        using l by (simp add: create_operation_def Let_def case_prod_beta remember_operation_def)
    next
      case (Some j)
      have "P (remember_operation (Some j) ev rec (log_operation oid k a ts
          (snd (queue_steps (step_request k a t oid) now 1 ps (tick s1)))))" for rec oid ts
      proof (rule remember_operation [OF l])
        show "map_of (s_operation_idem (log_operation oid k a ts
            (snd (queue_steps (step_request k a t oid) now 1 ps (tick s1))))) j = None"
          unfolding idem by (rule new [OF Some])
        show "length (fold AList.delete ev (s_operation_idem (log_operation oid k a ts
            (snd (queue_steps (step_request k a t oid) now 1 ps (tick s1)))))) < MAX_OPERATION_IDEMPOTENCY_RECORDS"
          unfolding idem using eviction_keys_length [OF records [OF p]] ev Some by simp
      qed
      with Some show ?thesis
        by (simp add: create_operation_def Let_def case_prod_beta)
    qed
  qed
  note made = this
  have "P (snd (operation_locked k ps t ky a now s))" for k ps t ky a
    using p unfolding operation_locked_def case_prod_beta
    by (auto split: option.split sum.split simp: rbind_eq_Inr intro!: made)
  with p show ?thesis
    unfolding queue_operation_def by (auto split: json.split sum.split prod.split)
qed

lemma scenario_steps:
  assumes "P s" and "room nid (length ps) s" and "exercise_started x" and "same_request_maps s0 s"
    and "fold (queue_scenario_step nid act now) ps (x, s) = (y, t)"
  shows "P t \<and> exercise_started y \<and> same_request_maps s0 t \<and> x_id y = x_id x"
  using assms
proof (induction ps arbitrary: x s)
  case (Cons p ps)
  let ?q = "scenario_request (x_id x) nid act p"
  let ?t = "new_task ?q now s"
  let ?x = "x\<lparr>x_task_ids := x_task_ids x @ [t_id ?t]\<rparr>"
  let ?a = "(timeline_of ''prepare'' ''task.queued'' (playbook_str p @ '' queued''))\<lparr>ta_task_id := Some (t_id ?t)\<rparr>"
  obtain z u where z: "append_exercise_timeline ?a (?x, add_task ?t s) = (z, u)" by fastforce
  have step: "queue_scenario_step nid act now p (x, s) = (z, log_queued ?t (Some ''exercise_scenario'') u)"
    using z by (simp add: queue_scenario_step_def Let_def)
  have r: "room nid (Suc (length ps)) s" using Cons.prems(2) by simp
  have "playbook_request nid ?q" by (simp add: playbook_request_def scenario_request_def)
  then have p: "P (add_task ?t s)" by (rule add_task [OF Cons.prems(1) room_admitted [OF r]])
  note snd_z = arg_cong [where f = snd, OF z, simplified, symmetric]
  note fst_z = arg_cong [where f = fst, OF z, simplified, symmetric]
  have "P u" using append_timeline [of "(?x, add_task ?t s)" ?a] p z by simp
  moreover have "room nid (length ps) u"
    using room_log.append_timeline [of nid "length ps" "(?x, add_task ?t s)" ?a] room_add_task [OF r, of ?t] z
    by simp
  moreover have "exercise_started z"
    using started_timeline [OF started_task [OF Cons.prems(3), of "t_id ?t"], of ?a "add_task ?t s"] z by simp
  moreover have "same_request_maps s0 u"
    using request_maps.append_timeline [of s0 "(?x, add_task ?t s)" ?a] Cons.prems(4) z
    by (simp add: same_request_maps_def)
  moreover have "x_id z = x_id x"
    using append_timeline_ids [of ?a "(?x, add_task ?t s)"] z by simp
  ultimately show ?case
    using Cons.IH [of "log_queued ?t (Some ''exercise_scenario'') u" z] Cons.prems(5) step
    by (simp add: logged same_request_maps_def)
qed simp

lemma start:
  "P s \<Longrightarrow> P (snd (start_exercise nid sid act key now s))"
proof -
  assume p: "P s"
  have made: "P (snd (create_exercise d k a ky now s1))"
    if "admit_exercise k (length (sc_playbooks d)) s = Inr u"
      and m: "make_task_slots (length (sc_playbooks d)) s = Inr s1"
      and new: "\<And>j. ky = Some j \<Longrightarrow> map_of (s_exercise_idem s) j = None" for d k a ky u s1
  proof -
    let ?x = "new_exercise d k a s1"
    obtain y t where yt: "append_exercise_timeline (timeline_of ''prepare'' ''exercise.started'' (sc_title d))
        (?x, tick s1) = (y, t)" by fastforce
    obtain z w where zw: "fold (queue_scenario_step k a now) (sc_playbooks d) (y, t) = (z, w)" by fastforce
    have "room k (length (sc_playbooks d)) (tick s1)"
      using room_after_slots [OF records [OF p] m] admit_exercise_Inr [OF that(1)] by simp
    then have "P t" "room k (length (sc_playbooks d)) t" "same_request_maps s1 t"
      using append_timeline [of "(?x, tick s1)"] room_log.append_timeline [of _ _ "(?x, tick s1)"]
        request_maps.append_timeline [of s1 "(?x, tick s1)"] tick [OF slots [OF p m]] yt
      by (auto simp: same_request_maps_def) (metis snd_conv)+
    moreover have "exercise_started y"
      using started_timeline [OF started_new, of _ d k a s1 "tick s1"] yt by (metis fst_conv)
    ultimately have w: "P w" "exercise_started z" "same_request_maps s1 w" "x_id z = x_id y"
      using scenario_steps [OF _ _ _ _ zw] by blast+
    have y: "x_id y = ''exercise-'' @ uuid_hex 12 s1"
      using append_timeline_ids [of _ "(?x, tick s1)"] yt by (metis fst_conv new_exercise_id)
    let ?u = "w\<lparr>s_exercises := AList.update (x_id z) z (s_exercises w)\<rparr>"
    have e: "P ?u"
      using w y admit_exercise_Inr(3) [OF that(1)] make_task_slots_frame(2) [OF m] slots [OF p m]
      by (intro add_exercise [where u = s1]) (simp_all add: same_request_maps_def)
    have "P (?u\<lparr>s_exercise_idem := AList.update j (a, k, sc_id d, x_id z) (s_exercise_idem ?u)\<rparr>)"
      if "ky = Some j" for j
      using new [OF that] w(3) make_task_slots_frame(4) [OF m]
      by (intro remember_exercise [OF e]) (simp_all add: same_request_maps_def update_conv')
    with e yt zw show ?thesis
      unfolding create_exercise_def Let_def log_started_def
      by (auto intro!: audit event split: option.split)
  qed
  have "P (snd (exercise_locked k d a ky now s))" for k d a ky
    using p unfolding exercise_locked_def case_prod_beta
    by (auto split: option.split sum.split simp: rbind_eq_Inr intro!: made)
  with p show ?thesis
    unfolding start_exercise_def by (auto split: json.split sum.split prod.split option.split)
qed

lemma contain_one:
  assumes "P s" and "contain_task act tid (x, s) = (y, t)"
  shows "P t"
proof (cases "map_of (s_tasks s) tid")
  case (Some task)
  show ?thesis
  proof (cases "t_status task = Queued")
    case True
    have "life_step s task (cancelled r time task)" for r time
      by (rule life_step_terminal [OF life.cancel [OF True]]) (simp add: cancelled_def)
    then have c: "P (tick (modify_task tid (cancelled r time) s))" for r time
      by (intro tick life_mod [OF assms(1) Some])
    have "P (snd (append_exercise_timeline a (x, tick (modify_task tid (cancelled r time) s))))" for a r time
      by (rule append_timeline) (simp add: c)
    with assms(2) Some True show ?thesis
      unfolding contain_task_def log_cancelled_def Let_def
      by (auto intro!: audit event split: prod.splits) (metis snd_conv)
  qed (use assms Some in \<open>simp add: contain_task_def\<close>)
qed (use assms in \<open>simp add: contain_task_def\<close>)

lemma contain_all: "P s \<Longrightarrow> fold (contain_task act) ids (x, s) = (y, t) \<Longrightarrow> P t"
proof (induction ids arbitrary: x s)
  case (Cons i ids)
  obtain z u where z: "contain_task act i (x, s) = (z, u)" by fastforce
  from Cons.IH [OF contain_one [OF Cons.prems(1) z]] Cons.prems(2) z show ?case by simp
qed simp

lemma paused: "P s \<Longrightarrow> P (pause_node nid xid act s)"
  unfolding pause_node_def Let_def by (intro audit event tick node) simp_all

lemma contain: "P s \<Longrightarrow> P (snd (contain_exercise xid action act s))"
proof -
  assume p: "P s"
  have "P (snd (apply_containment k kind a x s))"
    if x: "map_of (s_exercises s) k = Some x" "x_status x \<noteq> XContained" "x_detection_status x = Detected"
    for k kind a x
  proof -
    have ok: "exercise_ok x" using records_exercise [OF records [OF p] x(1)] by blast
    obtain y t where y: "fold (contain_task a) (x_task_ids x) (x, s) = (y, t)" by fastforce
    have "quiet_step (\<lambda>_ ids _. set (x_task_ids x) \<subseteq> set ids) (fold (contain_task a) (x_task_ids x))"
      by (rule quiet_fold) (auto intro: quiet_mono [OF quiet_contain_task])
    from quiet_stepD [where x = x, OF this _ y] have xy: "exercise_rel x y" "x_status y = x_status x" by auto
    have py: "P t" by (rule contain_all [OF p y])
    have yx: "map_of (s_exercises t) k = Some x"
      using contain_fold_exercises [of a "x_task_ids x" "(x, s)"] y x(1) by simp
    let ?u = "if kind = PAUSE_NODE_TASKING \<and> map_of (s_nodes t) (x_node_id y) \<noteq> None
      then pause_node (x_node_id y) k a t else t"
    have pu: "P ?u" using py by (simp add: paused)
    have ux: "map_of (s_exercises ?u) k = Some x" using yx by (simp add: pause_node_def Let_def)
    let ?y = "contained kind a (utc_now ?u) y"
    let ?a = "(timeline_of ''contain'' ''containment.applied'' ''Control-plane containment applied'')
      \<lparr>ta_action := Some (action_str kind)\<rparr>"
    obtain z w where z: "append_exercise_timeline ?a (?y, tick ?u) = (z, w)" by fastforce
    have "exercise_rel y ?y"
      using xy x(2) detected_mono [OF ok xy(1) x(3)] exercise_relD(9) [OF xy(1) ok]
      by (intro contained_rel) simp_all
    with quiet_stepD(1) [OF quiet_timeline [of "\<lambda>_ _ _. True"] TrueI z] xy have xz: "exercise_rel x z"
      by (blast intro: exercise_rel_trans)
    have pw: "P w" using append_timeline [of "(?y, tick ?u)" ?a] tick [OF pu] z by simp
    have wx: "s_exercises w = s_exercises ?u"
      using exercises_frame.append_timeline [of "?u" "(?y, tick ?u)" ?a] z by (simp add: same_exercises_def)
    have "P (modify_exercise k (\<lambda>_. z) (log_contained z kind a w))"
      using pw ux wx by (intro exercise [OF _ _ xz]) (auto simp: log_contained_def intro!: audit event)
    with y z show ?thesis by (simp add: apply_containment_def Let_def)
  qed
  with p show ?thesis
    unfolding contain_exercise_def
    by (auto split: json.split sum.split option.split prod.split) (metis snd_conv)
qed

lemma noted: "P s \<Longrightarrow> (\<And>k. key = Some k \<Longrightarrow> map_of (s_note_idem s) k = None) \<Longrightarrow>
  P (snd (append_note act m key s))"
  using remember_note [OF log_one]
  by (auto simp: append_note_def Let_def intro: log_one split: option.split)

lemma post_note: "P s \<Longrightarrow> P (snd (post_operator_note m act key s))"
  unfolding post_operator_note_def
  by (auto split: sum.split option.split prod.split intro!: noted forget_note simp: delete_conv')

lemma synced: "P s \<Longrightarrow> P (snd (sync_lab ea aa l s))"
  by (auto simp: sync_lab_def tick split: sum.split prod.split)

lemma preserved: "P s \<Longrightarrow> (\<And>act. op \<noteq> Reset act) \<Longrightarrow> P (run_op op s)"
  by (cases op)
    (auto simp: enroll poll submit disconnect expire queue operation cancel start contain post_note synced)

end

section \<open>Every reachable state\<close>

definition cleared :: "lab_state \<Rightarrow> lab_state" where
  "cleared s = s\<lparr>s_nodes := [], s_tasks := [], s_tombstones := [], s_exercises := [], s_events := [],
     s_note_idem := [], s_exercise_idem := [], s_operation_idem := []\<rparr>"

locale ledger_invariant = ledger_closed P for P +
  assumes initial: "P (init_state h e)"
    and clear: "P s \<Longrightarrow> P (cleared s)"
begin

lemma reset: "P s \<Longrightarrow> P (snd (reset_lab act s))"
  using clear by (auto simp: reset_lab_def Let_def cleared_def intro!: audit event split: sum.split)

lemma step: "P s \<Longrightarrow> P (run_op op s)"
  using preserved [of s op] reset by (cases op) auto

lemma always: "reachable s \<Longrightarrow> P s"
  by (induction rule: reachable_induct) (auto intro: initial step)

end

end
