(* ===== verification/Core_Invariants.thy ===== *)
theory Core_Invariants
  imports Core_Preserve_Scenario
begin

text \<open>
  The invariants of the ledger, each an interpretation of \<open>ledger_invariant\<close>: records under their
  own keys, the retention bounds, the numbering of the logs, and the rules of the task queue.
\<close>

section \<open>Dictionaries\<close>

definition dall :: "('k \<Rightarrow> 'v \<Rightarrow> bool) \<Rightarrow> ('k \<times> 'v) list \<Rightarrow> bool" where
  "dall Q d \<longleftrightarrow> (\<forall>(k, v)\<in>set d. Q k v)"

lemma dall_Nil [simp]: "dall Q []"
  by (simp add: dall_def)

lemma dall_update: "dall Q d \<Longrightarrow> Q k v \<Longrightarrow> dall Q (AList.update k v d)"
  by (induction d) (auto simp: dall_def)

lemma dall_delete: "dall Q d \<Longrightarrow> dall Q (AList.delete k d)"
  using set_delete_subset [of k d] by (auto simp: dall_def)

lemma dall_dmod: "dall Q d \<Longrightarrow> (\<And>v. Q k v \<Longrightarrow> Q k (f v)) \<Longrightarrow> dall Q (dmod k f d)"
  by (fastforce simp: dall_def dmod_def)

lemma dall_map_of: "dall Q d \<Longrightarrow> map_of d k = Some v \<Longrightarrow> Q k v"
  by (auto simp: dall_def dest: map_of_SomeD)

lemma dall_dmod_some: "distinct (keys d) \<Longrightarrow> dall Q d \<Longrightarrow> map_of d k = Some v \<Longrightarrow> Q k v' \<Longrightarrow>
  dall Q (dmod k (\<lambda>_. v') d)"
  by (auto simp: dall_def dmod_def)

lemma dall_vals: "dall (\<lambda>_ v. Q v) d \<longleftrightarrow> (\<forall>v\<in>set (vals d). Q v)"
  by (auto simp: dall_def)

lemma records_ok_dall:
  "records_ok s \<longleftrightarrow>
     distinct (keys (s_tasks s)) \<and> dall (\<lambda>k t. t_id t = k \<and> task_wf t) (s_tasks s) \<and>
     distinct (keys (s_nodes s)) \<and> dall (\<lambda>k n. n_id n = k \<and> settings_ok n) (s_nodes s) \<and>
     distinct (keys (s_exercises s)) \<and> dall (\<lambda>k x. x_id x = k \<and> exercise_ok x) (s_exercises s) \<and>
     distinct (keys (s_note_idem s)) \<and> distinct (keys (s_exercise_idem s)) \<and>
     distinct (keys (s_operation_idem s)) \<and> distinct (keys (s_tombstones s)) \<and>
     length (s_nodes s) \<le> MAX_NODES"
  by (simp add: records_ok_def dall_def)

lemma trim_oldest_suffix: "\<exists>p. d = p @ trim_oldest n d"
  by (induction n d rule: trim_oldest.induct) (auto, metis append_Cons)

lemma drop_oldest_suffix: "\<exists>p. d = p @ drop_oldest n d"
  by (induction n d rule: drop_oldest.induct) (auto, metis append_Cons)

lemma distinct_trim: "distinct (keys d) \<Longrightarrow> distinct (keys (trim_oldest n d))"
  using trim_oldest_suffix [of d n] by (metis distinct_append map_append)

lemma distinct_drop: "distinct (keys d) \<Longrightarrow> distinct (keys (drop_oldest n d))"
  using drop_oldest_suffix [of d n] by (metis distinct_append map_append)

lemma length_trim: "length (trim_oldest n d) \<le> n"
  by (induction n d rule: trim_oldest.induct) auto

lemma length_drop: "0 < n \<Longrightarrow> length (drop_oldest n d) < n"
  by (induction n d rule: drop_oldest.induct) auto

lemma distinct_fold_delete: "distinct (keys d) \<Longrightarrow> distinct (keys (fold AList.delete ks d))"
  by (induction ks arbitrary: d) (auto intro: distinct_keys_delete)

section \<open>Records\<close>

lemma remember_operation_frame [simp]:
  "s_tasks (remember_operation k ev r s) = s_tasks s"
  "s_nodes (remember_operation k ev r s) = s_nodes s"
  "s_exercises (remember_operation k ev r s) = s_exercises s"
  "s_note_idem (remember_operation k ev r s) = s_note_idem s"
  "s_exercise_idem (remember_operation k ev r s) = s_exercise_idem s"
  "s_tombstones (remember_operation k ev r s) = s_tombstones s"
  "s_events (remember_operation k ev r s) = s_events s"
  "s_audit (remember_operation k ev r s) = s_audit s"
  "s_event_seq (remember_operation k ev r s) = s_event_seq s"
  "s_audit_seq (remember_operation k ev r s) = s_audit_seq s"
  "s_task_seq (remember_operation k ev r s) = s_task_seq s"
  "s_env (remember_operation k ev r s) = s_env s"
  "s_draws (remember_operation k ev r s) = s_draws s"
  by (simp_all add: remember_operation_def split: option.split)

lemma remember_tombstone_frame [simp]:
  "s_nodes (remember_tombstone t s) = s_nodes s"
  "s_tasks (remember_tombstone t s) = s_tasks s"
  "s_exercises (remember_tombstone t s) = s_exercises s"
  "s_note_idem (remember_tombstone t s) = s_note_idem s"
  "s_exercise_idem (remember_tombstone t s) = s_exercise_idem s"
  "s_operation_idem (remember_tombstone t s) = s_operation_idem s"
  "s_events (remember_tombstone t s) = s_events s"
  "s_audit (remember_tombstone t s) = s_audit s"
  "s_event_seq (remember_tombstone t s) = s_event_seq s"
  "s_audit_seq (remember_tombstone t s) = s_audit_seq s"
  "s_task_seq (remember_tombstone t s) = s_task_seq s"
  "s_env (remember_tombstone t s) = s_env s"
  "s_draws (remember_tombstone t s) = s_draws s"
  by (simp_all add: remember_tombstone_def)

lemma node_keep_settings: "node_keep n n' \<Longrightarrow> n_id n' = n_id n \<and> (settings_ok n \<longrightarrow> settings_ok n')"
  by (simp add: node_keep_def)

lemma length_update_new: "map_of d k = None \<Longrightarrow> length (AList.update k v d) = Suc (length d)"
  by (simp add: update_fresh map_of_eq_None_iff)

interpretation records: ledger_invariant records_ok
proof unfold_locales
  fix s :: lab_state and f :: "node \<Rightarrow> node" and nid
  assume "records_ok s" "\<And>n. node_keep n (f n)"
  then show "records_ok (modify_node nid f s)"
    using node_keep_settings by (auto simp: records_ok_dall intro!: dall_dmod)
next
  fix s tid t t' assume "records_ok s" "map_of (s_tasks s) tid = Some t" "life_step s t t'"
  then show "records_ok (modify_task tid (\<lambda>_. t') s)"
    using records_task [of s tid t] life_identity [of t t'] task_wf_life [of t t']
    by (auto simp: records_ok_dall life_step_def same_identity_def intro!: dall_dmod_some)
next
  fix s nid n assume "records_ok s"
  then show "records_ok (s\<lparr>s_nodes := AList.delete nid (s_nodes s)\<rparr>)"
    using length_delete_le [of nid "s_nodes s"]
    by (auto simp: records_ok_dall distinct_keys_delete intro: dall_delete)
next
  fix n s assume "records_ok s" "enrollable n s"
  then show "records_ok (s\<lparr>s_nodes := AList.update (n_id n) n (s_nodes s)\<rparr>)"
    using length_update_le [of "n_id n" n "s_nodes s"]
    by (auto simp: records_ok_dall enrollable_def distinct_keys_update intro!: dall_update)
next
  fix q s now assume "records_ok s" "admitted q s"
  then show "records_ok (add_task (new_task q now s) s)"
    by (auto simp: records_ok_dall admitted_def add_task_def tick_def distinct_keys_update
        intro!: dall_update task_wf_new)
next
  fix s t assume "records_ok s"
  then show "records_ok ((remember_tombstone t s)\<lparr>s_tasks := AList.delete (t_id t) (s_tasks s)\<rparr>)"
    by (auto simp: records_ok_dall remember_tombstone_def distinct_keys_delete distinct_keys_update
        distinct_drop intro: dall_delete)
next
  fix s xid x x' assume "records_ok s" "map_of (s_exercises s) xid = Some x" "exercise_rel x x'"
  then show "records_ok (modify_exercise xid (\<lambda>_. x') s)"
    using records_exercise [of s xid x] exercise_relD(1,9) [of x x']
    by (auto simp: records_ok_dall same_exercise_def intro!: dall_dmod_some)
next
  fix s x assume "records_ok s" "exercise_started x"
  then show "records_ok (s\<lparr>s_exercises := AList.update (x_id x) x (s_exercises s)\<rparr>)"
    by (auto simp: records_ok_dall exercise_started_def distinct_keys_update intro!: dall_update)
next
  fix s k evict r assume "records_ok s"
  then show "records_ok (remember_operation (Some k) evict r s)"
    by (auto simp: records_ok_dall remember_operation_def
        intro!: distinct_keys_update distinct_fold_delete)
qed (auto simp: records_ok_dall tick_def record_event_def record_audit_def init_state_def cleared_def
    distinct_keys_update distinct_keys_delete distinct_trim settings_ok_def intro!: dall_dmod)

section \<open>Properties on top of the records\<close>

text \<open>A property that is preserved wherever the records are well-formed.\<close>

locale ledger_extra_closed =
  fixes Q :: "lab_state \<Rightarrow> bool"
  assumes x_tick: "Q s \<Longrightarrow> Q (tick s)"
    and x_event: "Q s \<Longrightarrow> Q (record_event a s)"
    and x_audit: "Q s \<Longrightarrow> Q (record_audit b s)"
    and x_node: "records_ok s \<Longrightarrow> Q s \<Longrightarrow> (\<And>n. node_keep n (f n)) \<Longrightarrow> Q (modify_node nid f s)"
    and x_life: "records_ok s \<Longrightarrow> Q s \<Longrightarrow> map_of (s_tasks s) tid = Some t \<Longrightarrow> life_step s t t' \<Longrightarrow>
      Q (modify_task tid (\<lambda>_. t') s)"
    and x_close: "records_ok s \<Longrightarrow> Q s \<Longrightarrow> idle_node nid s \<Longrightarrow>
      Q (modify_node nid (\<lambda>n. n\<lparr>n_session_active := False, n_session_token := tok\<rparr>) s)"
    and x_drop_node: "records_ok s \<Longrightarrow> Q s \<Longrightarrow> map_of (s_nodes s) nid = Some n \<Longrightarrow> \<not> n_session_active n \<Longrightarrow>
      Q (s\<lparr>s_nodes := AList.delete nid (s_nodes s)\<rparr>)"
    and x_add_node: "records_ok s \<Longrightarrow> Q s \<Longrightarrow> enrollable n s \<Longrightarrow>
      Q (s\<lparr>s_nodes := AList.update (n_id n) n (s_nodes s)\<rparr>)"
    and x_add_task: "records_ok s \<Longrightarrow> Q s \<Longrightarrow> admitted q s \<Longrightarrow> Q (add_task (new_task q now s) s)"
    and x_drop_task: "records_ok s \<Longrightarrow> Q s \<Longrightarrow> map_of (s_tasks s) (t_id t) = Some t \<Longrightarrow> prunable s t \<Longrightarrow>
      Q ((remember_tombstone t s)\<lparr>s_tasks := AList.delete (t_id t) (s_tasks s)\<rparr>)"
    and x_exercise: "records_ok s \<Longrightarrow> Q s \<Longrightarrow> map_of (s_exercises s) xid = Some x \<Longrightarrow> exercise_rel x x' \<Longrightarrow>
      Q (modify_exercise xid (\<lambda>_. x') s)"
    and x_add_exercise: "records_ok s \<Longrightarrow> Q s \<Longrightarrow> exercise_started x \<Longrightarrow> length (s_exercises s) < MAX_EXERCISES \<Longrightarrow>
      Q u \<Longrightarrow> s_env u = s_env s \<Longrightarrow> x_id x = ''exercise-'' @ uuid_hex 12 u \<Longrightarrow>
      Q (s\<lparr>s_exercises := AList.update (x_id x) x (s_exercises s)\<rparr>)"
    and x_forget_note: "Q s \<Longrightarrow> Q (s\<lparr>s_note_idem := AList.delete k (s_note_idem s)\<rparr>)"
    and x_remember_note: "Q s \<Longrightarrow> map_of (s_note_idem s) k = None \<Longrightarrow>
      Q (s\<lparr>s_note_idem := trim_oldest MAX_OPERATOR_NOTES_RETAINED (AList.update k v (s_note_idem s))\<rparr>)"
    and x_remember_exercise: "Q s \<Longrightarrow> map_of (s_exercise_idem s) k = None \<Longrightarrow>
      map_of (s_exercises s) (snd (snd (snd w))) \<noteq> None \<Longrightarrow>
      Q (s\<lparr>s_exercise_idem := AList.update k w (s_exercise_idem s)\<rparr>)"
    and x_remember_operation: "records_ok s \<Longrightarrow> Q s \<Longrightarrow> map_of (s_operation_idem s) k = None \<Longrightarrow>
      length (fold AList.delete evict (s_operation_idem s)) < MAX_OPERATION_IDEMPOTENCY_RECORDS \<Longrightarrow>
      Q (remember_operation (Some k) evict r s)"

sublocale ledger_extra_closed \<subseteq> ledger_closed "\<lambda>s. records_ok s \<and> Q s"
proof unfold_locales
  fix s tid t t' assume "records_ok s \<and> Q s" "map_of (s_tasks s) tid = Some t" "life_step s t t'"
  then show "records_ok (modify_task tid (\<lambda>_. t') s) \<and> Q (modify_task tid (\<lambda>_. t') s)"
    using x_life records.life by blast
next
  fix s nid n assume "records_ok s \<and> Q s" "map_of (s_nodes s) nid = Some n" "\<not> n_session_active n"
  then show "records_ok (s\<lparr>s_nodes := AList.delete nid (s_nodes s)\<rparr>) \<and> Q (s\<lparr>s_nodes := AList.delete nid (s_nodes s)\<rparr>)"
    using x_drop_node records.drop_node by blast
next
  fix s xid x x' assume "records_ok s \<and> Q s" "map_of (s_exercises s) xid = Some x" "exercise_rel x x'"
  then show "records_ok (modify_exercise xid (\<lambda>_. x') s) \<and> Q (modify_exercise xid (\<lambda>_. x') s)"
    using x_exercise records.exercise by blast
next
  fix s u x
  assume "records_ok s \<and> Q s" "exercise_started x" "length (s_exercises s) < MAX_EXERCISES"
    "records_ok u \<and> Q u" "s_env u = s_env s" "x_id x = ''exercise-'' @ uuid_hex 12 u"
  then show "records_ok (s\<lparr>s_exercises := AList.update (x_id x) x (s_exercises s)\<rparr>) \<and>
      Q (s\<lparr>s_exercises := AList.update (x_id x) x (s_exercises s)\<rparr>)"
    using x_add_exercise [of s x u] records.add_exercise [of s x u] by blast
qed (simp_all add: records.tick records.event records.audit records.node records.close
    records.add_node records.add_task records.drop_task
    records.forget_note records.remember_note records.remember_exercise records.remember_operation
    x_tick x_event x_audit x_node x_close x_add_node x_add_task x_drop_task
    x_forget_note x_remember_note x_remember_exercise x_remember_operation)

locale ledger_extra = ledger_extra_closed Q for Q +
  assumes x_initial: "Q (init_state h e)"
    and x_clear: "Q s \<Longrightarrow> Q (cleared s)"

sublocale ledger_extra \<subseteq> ledger_invariant "\<lambda>s. records_ok s \<and> Q s"
  by unfold_locales (simp_all add: records.initial records.clear x_initial x_clear)

section \<open>Retention\<close>

definition within_bounds :: "lab_state \<Rightarrow> bool" where
  "within_bounds s \<longleftrightarrow> length (s_nodes s) \<le> MAX_NODES \<and> length (s_tasks s) \<le> MAX_TASKS \<and>
     length (s_tombstones s) \<le> MAX_TASK_RESULT_TOMBSTONES \<and> length (s_events s) \<le> MAX_EVENTS \<and>
     length (s_audit s) \<le> MAX_AUDIT_ENTRIES \<and> length (s_note_idem s) \<le> MAX_OPERATOR_NOTES_RETAINED \<and>
     length (s_exercises s) \<le> MAX_EXERCISES \<and>
     length (s_operation_idem s) \<le> MAX_OPERATION_IDEMPOTENCY_RECORDS"

lemma tombstone_bound: "length (AList.update k v (drop_oldest MAX_TASK_RESULT_TOMBSTONES d)) \<le> MAX_TASK_RESULT_TOMBSTONES"
  using length_update_le [of k v "drop_oldest MAX_TASK_RESULT_TOMBSTONES d"]
    length_drop [of MAX_TASK_RESULT_TOMBSTONES d]
  by (simp add: MAX_TASK_RESULT_TOMBSTONES_def MAX_TASKS_def)

lemma length_update_less: "length d < n \<Longrightarrow> length (AList.update k v d) \<le> n"
  using length_update_le [of k v d] by simp

lemma length_delete_bound: "length d \<le> n \<Longrightarrow> length (AList.delete k d) \<le> n"
  using length_delete_le [of k d] by simp

lemmas bounds_simps = within_bounds_def length_deque_append_le length_update_less length_delete_bound
  length_trim tombstone_bound

interpretation bounds: ledger_extra within_bounds
  by unfold_locales
    (auto simp: bounds_simps enrollable_def admitted_def init_state_def cleared_def remember_tombstone_def
      remember_operation_def)

end
