(* ===== verification/Core_Logs.thy ===== *)
theory Core_Logs
  imports Core_Invariants
begin

text \<open>
  The event and audit logs and their cursor-based synchronisation.  \<open>sequenced_log\<close> is the
  interface of a bounded, numbered log: appending gives the next number.  The retained entries
  are then always the latest ones without a gap, which is what makes a cursor enough.
\<close>

section \<open>Numbered entries\<close>

definition numbered :: "('e \<Rightarrow> nat) \<Rightarrow> nat \<Rightarrow> 'e list \<Rightarrow> bool" where
  "numbered pos latest es \<longleftrightarrow> length es \<le> latest \<and> map pos es = [Suc latest - length es..<Suc latest]"

lemma numbered_Nil [simp]: "numbered pos n []"
  by (simp add: numbered_def)

lemma numbered_append:
  assumes "numbered pos n es" and "pos e = Suc n"
  shows "numbered pos (Suc n) (deque_append cap e es)"
proof -
  let ?k = "Suc (length es) - cap"
  have m: "map pos es = [Suc n - length es..<Suc n]" and l: "length es \<le> n"
    using assms(1) by (simp_all only: numbered_def)
  have "map pos (es @ [e]) = [Suc n - length es..<Suc n] @ [Suc n]"
    by (simp only: map_append m list.map assms(2))
  also have "\<dots> = [Suc n - length es..<Suc (Suc n)]" by simp
  finally have "map pos (deque_append cap e es) = [Suc n - length es + ?k..<Suc (Suc n)]"
    by (simp only: deque_append_def drop_map [symmetric] drop_upt)
  moreover have "[Suc n - length es + ?k..<Suc (Suc n)] = [Suc (Suc n) - min cap (Suc (length es))..<Suc (Suc n)]"
    using l by (intro arg_cong2 [where f = upt]) (auto simp: min_def)
  ultimately show ?thesis
    using l by (simp add: numbered_def length_deque_append del: upt_Suc)
qed

lemma filter_upt:
  "map pos es = [a..<b] \<Longrightarrow> filter (\<lambda>e. pos e > after) es = drop (Suc after - a) es"
proof (induction es arbitrary: a)
  case (Cons e es)
  have ab: "a < b" using Cons.prems by (cases "a < b") auto
  with Cons.prems have e: "pos e = a" "map pos es = [Suc a..<b]" by (simp_all add: upt_conv_Cons)
  show ?case
  proof (cases "after < a")
    case True
    have "\<forall>x\<in>set es. after < pos x"
    proof
      fix x assume "x \<in> set es"
      then have "pos x \<in> set [Suc a..<b]" using e(2) by (metis image_eqI list.set_map)
      with True show "after < pos x" by simp
    qed
    with True e show ?thesis by simp
  next
    case False
    with Cons.IH [OF e(2)] e show ?thesis by (simp add: Suc_diff_le)
  qed
qed simp

section \<open>The interface of a log\<close>

locale sequenced_log =
  fixes entries :: "'s \<Rightarrow> 'e list" and latest :: "'s \<Rightarrow> nat" and pos :: "'e \<Rightarrow> nat"
    and append :: "'a \<Rightarrow> 's \<Rightarrow> 's" and cap :: nat
  assumes latest_append: "latest (append a s) = Suc (latest s)"
    and entries_append: "\<exists>e. entries (append a s) = deque_append cap e (entries s) \<and> pos e = Suc (latest s)"
begin

lemma append_numbered: "numbered pos (latest s) (entries s) \<Longrightarrow> numbered pos (latest (append a s)) (entries (append a s))"
  using entries_append [of a s] by (auto simp: latest_append numbered_append)

lemma appends_numbered:
  "numbered pos (latest s) (entries s) \<Longrightarrow> numbered pos (latest (fold append as s)) (entries (fold append as s))"
  by (induction as arbitrary: s) (simp_all add: append_numbered)

lemma appends_latest: "latest (fold append as s) = latest s + length as"
  by (induction as arbitrary: s) (simp_all add: latest_append)

lemma appends_bound: "length (entries s) \<le> cap \<Longrightarrow> length (entries (fold append as s)) \<le> cap"
proof (induction as arbitrary: s)
  case (Cons a as)
  obtain e where "entries (append a s) = deque_append cap e (entries s)" using entries_append by blast
  with Cons.IH [of "append a s"] show ?case by (simp add: length_deque_append_le)
qed simp

end

interpretation event_log: sequenced_log s_events s_event_seq e_sequence record_event MAX_EVENTS
  by unfold_locales (auto simp: new_event_def intro!: exI)

interpretation audit_log: sequenced_log s_audit s_audit_seq a_sequence record_audit MAX_AUDIT_ENTRIES
  by unfold_locales (auto simp: new_audit_def intro!: exI)

section \<open>The logs of the ledger are numbered\<close>

definition logs_numbered :: "lab_state \<Rightarrow> bool" where
  "logs_numbered s \<longleftrightarrow> numbered e_sequence (s_event_seq s) (s_events s) \<and>
     numbered a_sequence (s_audit_seq s) (s_audit s)"

interpretation logs: ledger_extra logs_numbered
proof unfold_locales
  fix s a assume "logs_numbered s"
  then show "logs_numbered (record_event a s)"
    using event_log.append_numbered [of s a] by (simp add: logs_numbered_def)
next
  fix s b assume "logs_numbered s"
  then show "logs_numbered (record_audit b s)"
    using audit_log.append_numbered [of s b] by (simp add: logs_numbered_def)
qed (simp_all add: logs_numbered_def init_state_def cleared_def)

section \<open>Pages\<close>

lemma numbered_head: "numbered pos n (e # es) \<Longrightarrow> pos e = n - length es"
  unfolding numbered_def by (auto dest!: arg_cong [where f = hd] simp del: upt_Suc)

lemma history_earliest:
  assumes "numbered pos latest es"
  shows "d_earliest (history_delta pos limit es after latest fl) = Suc latest - length es"
  using assms numbered_head [of pos latest] 
  by (cases es) (auto simp: history_delta_def Let_def numbered_def)

lemma history_resets:
  assumes "numbered pos latest es"
  shows "d_reset_required (history_delta pos limit es after latest fl) \<longleftrightarrow>
    after > latest \<or> after < latest - length es \<or> (\<exists>f. fl = Some f \<and> after < f)"
proof -
  have "int after < int (d_earliest (history_delta pos limit es after latest fl)) - 1 \<longleftrightarrow> after < latest - length es"
    unfolding history_earliest [OF assms] using assms by (auto simp: numbered_def)
  then show ?thesis
    by (simp add: history_delta_def Let_def split: option.split)
qed

lemma history_page:
  assumes n: "numbered pos latest es" and l: "0 < limit"
    and r: "\<not> d_reset_required (history_delta pos limit es after latest fl)"
  defines "d \<equiv> history_delta pos limit es after latest fl"
  shows "map pos (d_selected d) = [Suc after..<Suc (d_next_cursor d)]"
    and "d_next_cursor d = min latest (after + limit)"
    and "d_has_more d \<longleftrightarrow> d_next_cursor d < latest"
proof -
  let ?a = "Suc latest - length es"
  have m: "map pos es = [?a..<Suc latest]" "length es \<le> latest" using n by (simp_all add: numbered_def)
  have b: "after \<le> latest" "latest - length es \<le> after"
    using r unfolding history_resets [OF n] by auto
  let ?c = "filter (\<lambda>e. pos e > after) es"
  have c: "?c = drop (Suc after - ?a) es" by (rule filter_upt [OF m(1)])
  have mc: "map pos ?c = [Suc after..<Suc latest]"
    unfolding c drop_map [symmetric] m(1) drop_upt using b m(2) by (intro arg_cong2 [where f = upt]) auto
  have sel: "d_selected d = take limit ?c"
    using r by (simp add: d_def history_delta_def Let_def)
  have ms: "map pos (d_selected d) = [Suc after..<Suc (min latest (after + limit))]"
  proof (cases "after + limit \<le> latest")
    case True
    then show ?thesis
      unfolding sel take_map [symmetric] mc by (simp add: take_upt min_def del: upt_Suc)
  next
    case False
    then show ?thesis
      unfolding sel take_map [symmetric] mc by (simp add: min_def del: upt_Suc)
  qed
  show cur: "d_next_cursor d = min latest (after + limit)"
  proof (cases "d_selected d = []")
    case True
    then have "length [Suc after..<Suc (min latest (after + limit))] = 0"
      using ms by (metis list.size(3) map_is_Nil_conv)
    then have "min latest (after + limit) \<le> after" by (simp only: length_upt)
    with l b have "latest = after" by auto
    with True show ?thesis by (simp add: d_def history_delta_def Let_def)
  next
    case False
    then have "d_next_cursor d = last (map pos (d_selected d))"
      by (simp add: d_def history_delta_def Let_def last_map)
    also have "\<dots> = min latest (after + limit)"
    proof -
      have "Suc after < Suc (min latest (after + limit))"
        using False ms by (metis list.map_disc_iff not_less upt_eq_Nil_conv)
      then show ?thesis unfolding ms by simp
    qed
    finally show ?thesis .
  qed
  show "map pos (d_selected d) = [Suc after..<Suc (d_next_cursor d)]" using ms cur by simp
  have "length ?c = latest - after" using arg_cong [OF mc, of length] by (simp del: upt_Suc)
  then show "d_has_more d \<longleftrightarrow> d_next_cursor d < latest"
    using r l b cur sel by (auto simp: d_def history_delta_def Let_def min_def)
qed

end
