(* ===== verification/Core_Queue.thy ===== *)
theory Core_Queue
  imports Core_Logs
begin

text \<open>
  The rules of the task queue: an unfinished task belongs to an open session, a node runs one
  task at a time, the queue of a node is bounded, and queue positions and idempotency keys
  identify tasks.
\<close>

section \<open>Values of a dictionary after an update\<close>

lemma vals_dmod_some:
  assumes "distinct (keys d)" and "map_of d k = Some v"
  shows "\<exists>xs ys. d = xs @ (k, v) # ys \<and> dmod k (\<lambda>_. v') d = xs @ (k, v') # ys"
proof -
  from assms(2) have "(k, v) \<in> set d" by (rule map_of_SomeD)
  then obtain xs ys where d: "d = xs @ (k, v) # ys" by (auto dest: split_list)
  with assms(1) have "\<forall>p\<in>set xs \<union> set ys. fst p \<noteq> k" by force
  then have "map (\<lambda>(k', w). (k', if k' = k then v' else w)) xs = xs"
    "map (\<lambda>(k', w). (k', if k' = k then v' else w)) ys = ys"
    by (force intro!: map_idI)+
  then have "dmod k (\<lambda>_. v') d = xs @ (k, v') # ys" by (simp add: d dmod_def)
  with d show ?thesis by blast
qed

lemma count_dmod_some:
  assumes "distinct (keys d)" and "map_of d k = Some v"
  shows "count_if p (vals (dmod k (\<lambda>_. v') d)) \<le> of_bool (p v' \<and> \<not> p v) + count_if p (vals d)"
  using vals_dmod_some [OF assms, of v'] by auto

lemma vals_dmod_some_subset:
  assumes "distinct (keys d)" and "map_of d k = Some v"
  shows "set (vals (dmod k (\<lambda>_. v') d)) \<subseteq> insert v' (set (vals d))"
  using vals_dmod_some [OF assms, of v'] by auto

lemma count_update: "count_if p (vals (AList.update k v d)) \<le> of_bool (p v) + count_if p (vals d)"
  by (induction d) auto

lemma vals_update_subset: "set (vals (AList.update k v d)) \<subseteq> insert v (set (vals d))"
  by (induction d) auto

lemma vals_delete_subset: "set (vals (AList.delete k d)) \<subseteq> set (vals d)"
  using set_delete_subset [of k d] by auto

lemma count_zero: "count_if p xs = 0 \<longleftrightarrow> (\<forall>x\<in>set xs. \<not> p x)"
  by (simp add: count_if_def filter_empty_conv)

section \<open>The rules\<close>

definition sessions_open :: "lab_state \<Rightarrow> bool" where
  "sessions_open s \<longleftrightarrow> (\<forall>t\<in>set (vals (s_tasks s)). unfinished t \<longrightarrow>
     (\<exists>n. map_of (s_nodes s) (t_node_id t) = Some n \<and> n_session_active n))"

definition running_for :: "string \<Rightarrow> lab_state \<Rightarrow> nat" where
  "running_for nid s = count_if (\<lambda>t. t_node_id t = nid \<and> t_status t = Dispatched) (vals (s_tasks s))"

definition queues_bounded :: "lab_state \<Rightarrow> bool" where
  "queues_bounded s \<longleftrightarrow> (\<forall>nid. queued_for nid s \<le> MAX_QUEUED_TASKS_PER_NODE \<and>
     queued_playbooks_for nid s \<le> MAX_QUEUED_PLAYBOOKS_PER_NODE \<and> running_for nid s \<le> 1)"

definition tasks_identified :: "lab_state \<Rightarrow> bool" where
  "tasks_identified s \<longleftrightarrow>
     (\<forall>i. count_if (\<lambda>t. t_sequence t = i) (vals (s_tasks s)) \<le> 1) \<and>
     (\<forall>k. count_if (\<lambda>t. t_idempotency_key t = Some k) (vals (s_tasks s)) \<le> 1) \<and>
     (\<forall>t\<in>set (vals (s_tasks s)). t_sequence t \<le> s_task_seq s)"

lemma active_task_None: "active_task nid s = None \<longleftrightarrow> running_for nid s = 0"
  by (auto simp: active_task_def running_for_def find_None_iff count_zero)

lemma one_holder:
  assumes "count_if p (vals m) \<le> 1" and "map_of m i = Some t" "p t" and "map_of m j = Some u" "p u"
  shows "i = j"
proof (rule ccontr)
  assume ne: "i \<noteq> j"
  have "(i, t) \<in> set (filter (\<lambda>(k, v). p v) m)" "(j, u) \<in> set (filter (\<lambda>(k, v). p v) m)"
    using assms(2-5) by (auto dest: map_of_SomeD)
  moreover have "length (filter (\<lambda>(k, v). p v) m) \<le> 1"
    using assms(1) by (simp add: count_if_def filter_map comp_def case_prod_beta')
  ultimately show False using ne by (cases "filter (\<lambda>(k, v). p v) m") auto
qed

lemma records_distinct_tasks: "records_ok s \<Longrightarrow> distinct (keys (s_tasks s))"
  by (simp add: records_ok_def)

section \<open>Open sessions\<close>

interpretation sessions: ledger_extra sessions_open
proof unfold_locales
  fix s nid and f :: "node \<Rightarrow> node" assume "sessions_open s" "\<And>n. node_keep n (f n)"
  then show "sessions_open (modify_node nid f s)"
    by (fastforce simp: sessions_open_def map_of_dmod node_keep_def)
next
  fix s tid t t'
  assume r: "records_ok s" and q: "sessions_open s" and t: "map_of (s_tasks s) tid = Some t"
    and l: "life_step s t t'"
  have "t \<in> set (vals (s_tasks s))" by (rule map_of_in_vals [OF t])
  moreover have "t_node_id t' = t_node_id t" "unfinished t"
    using l life_identityD [of t t'] life_unfinished [of t t'] by (simp_all add: life_step_def)
  ultimately show "sessions_open (modify_task tid (\<lambda>_. t') s)"
    using q vals_dmod_some_subset [OF records_distinct_tasks [OF r] t, of t']
    unfolding sessions_open_def by (auto simp del: set_map)
next
  fix s nid tok assume "sessions_open s" "idle_node nid s"
  then show "sessions_open (modify_node nid (\<lambda>n. n\<lparr>n_session_active := False, n_session_token := tok\<rparr>) s)"
    by (auto simp: sessions_open_def idle_node_def map_of_dmod)
next
  fix s nid n assume "sessions_open s" "map_of (s_nodes s) nid = Some n" "\<not> n_session_active n"
  then show "sessions_open (s\<lparr>s_nodes := AList.delete nid (s_nodes s)\<rparr>)"
    by (fastforce simp: sessions_open_def delete_conv')
next
  fix s n assume "sessions_open s" "enrollable n s"
  then show "sessions_open (s\<lparr>s_nodes := AList.update (n_id n) n (s_nodes s)\<rparr>)"
    by (auto simp: sessions_open_def update_conv' enrollable_def new_node_def)
next
  fix s q now assume "sessions_open s" "admitted q s"
  then show "sessions_open (add_task (new_task q now s) s)"
    using vals_update_subset [of "t_id (new_task q now s)" "new_task q now s" "s_tasks s"]
    by (fastforce simp: sessions_open_def admitted_def new_task_def simp del: set_map)
next
  fix s t assume "sessions_open s"
  then show "sessions_open ((remember_tombstone t s)\<lparr>s_tasks := AList.delete (t_id t) (s_tasks s)\<rparr>)"
    using vals_delete_subset [of "t_id t" "s_tasks s"]
    by (auto simp: sessions_open_def simp del: set_map)
qed (auto simp: sessions_open_def init_state_def cleared_def simp del: set_map)

section \<open>Bounded queues, one running task\<close>

lemma queued_log [simp]:
  "queued_for nid (tick s) = queued_for nid s" "queued_playbooks_for nid (tick s) = queued_playbooks_for nid s"
  "running_for nid (tick s) = running_for nid s"
  by (simp_all add: queued_for_def queued_playbooks_for_def running_for_def)

interpretation queues: ledger_extra queues_bounded
proof unfold_locales
  fix s tid t t'
  assume r: "records_ok s" and q: "queues_bounded s" and t: "map_of (s_tasks s) tid = Some t"
    and l: "life_step s t t'"
  have i: "t_node_id t' = t_node_id t" "t_status t' \<noteq> Queued"
    using l life_identityD [of t t'] life_queued [of t t'] by (simp_all add: life_step_def)
  note c = count_dmod_some [OF records_distinct_tasks [OF r] t, of _ t']
  have "running_for nid (modify_task tid (\<lambda>_. t') s) \<le> 1" for nid
  proof (cases "t_status t' = Dispatched \<and> t_status t = Queued \<and> nid = t_node_id t")
    case True
    with l have "running_for nid s = 0" by (auto simp: life_step_def dispatch_guard_def active_task_None)
    with c [of "\<lambda>t. t_node_id t = nid \<and> t_status t = Dispatched"] show ?thesis
      by (simp add: running_for_def of_bool_def split: if_splits)
  next
    case False
    have "t_status t' = Dispatched \<longrightarrow> t_status t = Dispatched \<or> t_status t = Queued"
      using l life_unfinished [of t t'] by (auto simp: life_step_def unfinished_def)
    with False i q c [of "\<lambda>t. t_node_id t = nid \<and> t_status t = Dispatched"] show ?thesis
      by (fastforce simp: running_for_def queues_bounded_def intro: order.trans)
  qed
  then show "queues_bounded (modify_task tid (\<lambda>_. t') s)"
    using q i c by (fastforce simp: queues_bounded_def queued_for_def queued_playbooks_for_def intro: order.trans)
next
  fix s q now assume b: "queues_bounded s" and a: "admitted q s"
  let ?t = "new_task q now s"
  have t: "t_node_id ?t = rq_node_id q" "t_type ?t = rq_type q" "t_status ?t = Queued"
    by (simp_all add: new_task_def)
  note c = count_update [of _ "t_id ?t" ?t "s_tasks s"]
  show "queues_bounded (add_task ?t s)"
    unfolding queues_bounded_def
  proof (intro allI conjI)
    fix nid
    show "queued_for nid (add_task ?t s) \<le> MAX_QUEUED_TASKS_PER_NODE"
      using c [of "\<lambda>t. t_status t = Queued \<and> t_node_id t = nid"] a b t
      by (cases "nid = rq_node_id q") (auto simp: admitted_def queues_bounded_def queued_for_def
          intro: order.trans)
    show "queued_playbooks_for nid (add_task ?t s) \<le> MAX_QUEUED_PLAYBOOKS_PER_NODE"
      using c [of "\<lambda>t. t_status t = Queued \<and> t_node_id t = nid \<and> t_type t = RUN_PLAYBOOK"] a b t
      by (cases "nid = rq_node_id q \<and> rq_type q = RUN_PLAYBOOK")
        (auto simp: admitted_def queues_bounded_def queued_playbooks_for_def intro: order.trans)
    show "running_for nid (add_task ?t s) \<le> 1"
      using c [of "\<lambda>t. t_node_id t = nid \<and> t_status t = Dispatched"] b t
      by (auto simp: queues_bounded_def running_for_def intro: order.trans)
  qed
next
  fix s t assume "queues_bounded s"
  then show "queues_bounded ((remember_tombstone t s)\<lparr>s_tasks := AList.delete (t_id t) (s_tasks s)\<rparr>)"
    using count_delete_le [of _ "t_id t" "s_tasks s"]
    by (auto simp: queues_bounded_def queued_for_def queued_playbooks_for_def running_for_def
        intro: order.trans)
qed (auto simp: queues_bounded_def queued_for_def queued_playbooks_for_def running_for_def
    init_state_def cleared_def)

section \<open>Sequence numbers and keys\<close>

interpretation identified: ledger_extra tasks_identified
proof unfold_locales
  fix s tid t t'
  assume r: "records_ok s" and q: "tasks_identified s" and t: "map_of (s_tasks s) tid = Some t"
    and l: "life_step s t t'"
  have i: "t_sequence t' = t_sequence t" "t_idempotency_key t' = t_idempotency_key t"
    using l life_identityD [of t t'] by (simp_all add: life_step_def)
  have "t \<in> set (vals (s_tasks s))" by (rule map_of_in_vals [OF t])
  then have "t_sequence t \<le> s_task_seq s" using q unfolding tasks_identified_def by blast
  with i q have "\<forall>u\<in>insert t' (set (vals (s_tasks s))). t_sequence u \<le> s_task_seq s"
    unfolding tasks_identified_def by simp
  moreover have "count_if (\<lambda>t. t_sequence t = j) (vals (dmod tid (\<lambda>_. t') (s_tasks s))) \<le> 1"
    "count_if (\<lambda>t. t_idempotency_key t = Some k) (vals (dmod tid (\<lambda>_. t') (s_tasks s))) \<le> 1" for j k
    using count_dmod_some [OF records_distinct_tasks [OF r] t, of "\<lambda>t. t_sequence t = j" t'] q i
      count_dmod_some [OF records_distinct_tasks [OF r] t, of "\<lambda>t. t_idempotency_key t = Some k" t']
    by (auto simp: tasks_identified_def simp del: set_map intro: order.trans)
  ultimately show "tasks_identified (modify_task tid (\<lambda>_. t') s)"
    using vals_dmod_some_subset [OF records_distinct_tasks [OF r] t, of t']
    unfolding tasks_identified_def modify_task_tasks modify_task_frame by blast
next
  fix s q now assume b: "tasks_identified s" and a: "admitted q s"
  let ?t = "new_task q now s"
  have t: "t_sequence ?t = Suc (s_task_seq s)" "t_idempotency_key ?t = rq_idempotency_key q"
    by (simp_all add: new_task_def)
  note c = count_update [of _ "t_id ?t" ?t "s_tasks s"]
  have seq: "count_if (\<lambda>t. t_sequence t = Suc (s_task_seq s)) (vals (s_tasks s)) = 0"
    unfolding count_zero using b unfolding tasks_identified_def by (metis Suc_n_not_le_n)
  have key: "count_if (\<lambda>t. t_idempotency_key t = Some k) (vals (s_tasks s)) = 0" if "rq_idempotency_key q = Some k" for k
    unfolding count_zero using a that by (auto simp: admitted_def task_with_key_None simp del: set_map)
  show "tasks_identified (add_task ?t s)"
    unfolding tasks_identified_def
  proof (intro conjI allI ballI)
    show "count_if (\<lambda>t. t_sequence t = i) (vals (s_tasks (add_task ?t s))) \<le> 1" for i
      using c [of "\<lambda>t. t_sequence t = i"] seq b t
      by (cases "i = Suc (s_task_seq s)") (auto simp: tasks_identified_def intro: order.trans)
    show "count_if (\<lambda>t. t_idempotency_key t = Some k) (vals (s_tasks (add_task ?t s))) \<le> 1" for k
      using c [of "\<lambda>t. t_idempotency_key t = Some k"] key b t
      by (cases "rq_idempotency_key q = Some k") (auto simp: tasks_identified_def intro: order.trans)
    fix u assume "u \<in> set (vals (s_tasks (add_task ?t s)))"
    then have "u = ?t \<or> u \<in> set (vals (s_tasks s))"
      using vals_update_subset [of "t_id ?t" ?t "s_tasks s"] unfolding add_task_frame by blast
    moreover have "\<forall>v\<in>set (vals (s_tasks s)). t_sequence v \<le> Suc (s_task_seq s)"
      using b unfolding tasks_identified_def by (blast intro: le_SucI)
    ultimately show "t_sequence u \<le> s_task_seq (add_task ?t s)"
      using t unfolding add_task_frame by auto
  qed
next
  fix s t assume q: "tasks_identified s"
  show "tasks_identified ((remember_tombstone t s)\<lparr>s_tasks := AList.delete (t_id t) (s_tasks s)\<rparr>)"
    unfolding tasks_identified_def
  proof (intro conjI allI ballI)
    fix i k u
    show "count_if (\<lambda>t. t_sequence t = i)
        (vals (s_tasks (remember_tombstone t s\<lparr>s_tasks := AList.delete (t_id t) (s_tasks s)\<rparr>))) \<le> 1"
      using q by (auto simp: tasks_identified_def intro: order.trans [OF count_delete_le])
    show "count_if (\<lambda>t. t_idempotency_key t = Some k)
        (vals (s_tasks (remember_tombstone t s\<lparr>s_tasks := AList.delete (t_id t) (s_tasks s)\<rparr>))) \<le> 1"
      using q by (auto simp: tasks_identified_def intro: order.trans [OF count_delete_le])
    assume "u \<in> set (vals (s_tasks (remember_tombstone t s\<lparr>s_tasks := AList.delete (t_id t) (s_tasks s)\<rparr>)))"
    then show "t_sequence u \<le> s_task_seq (remember_tombstone t s\<lparr>s_tasks := AList.delete (t_id t) (s_tasks s)\<rparr>)"
      using q vals_delete_subset [of "t_id t" "s_tasks s"] by (auto simp: tasks_identified_def simp del: set_map)
  qed
qed (auto simp: tasks_identified_def init_state_def cleared_def simp del: set_map)

end
