(* ===== verification/Core_History.thy ===== *)
theory Core_History
  imports Core_Queue
begin

text \<open>
  What holds between an earlier and a later state: the counters grow, a task moves along its
  life until it is pruned, a closed session stays closed, a paused node stays paused, an exercise
  keeps its record.  Each relation to a fixed earlier state \<open>s0\<close> is an interpretation of
  \<open>ledger_extra_closed\<close>.  Identifiers are random hexadecimal digits, so the statements about one
  object ask that its identifier is not drawn a second time.
\<close>

section \<open>Counters\<close>

definition later :: "lab_state \<Rightarrow> lab_state \<Rightarrow> bool" where
  "later s0 s \<longleftrightarrow> s_env s = s_env s0 \<and> s_stream_id s = s_stream_id s0 \<and> s_draws s0 \<le> s_draws s \<and>
     s_event_seq s0 \<le> s_event_seq s \<and> s_audit_seq s0 \<le> s_audit_seq s \<and> s_task_seq s0 \<le> s_task_seq s"

lemma draws_grow [simp]:
  "s_draws (tick s) = Suc (s_draws s)" "s_draws (record_event a s) = Suc (s_draws s)"
  "s_draws (record_audit b s) = Suc (s_draws s)" "s_draws (add_task t s) = Suc (Suc (s_draws s))"
  by (simp_all add: tick_def record_event_def record_audit_def add_task_def)

lemma remember_stream [simp]:
  "s_stream_id (remember_operation k ev r s) = s_stream_id s"
  "s_stream_id (remember_tombstone t s) = s_stream_id s"
  by (simp_all add: remember_operation_def remember_tombstone_def split: option.split)

lemma new_task_sequence [simp]: "t_sequence (new_task q now s) = Suc (s_task_seq s)"
  by (simp add: new_task_def)

interpretation counters: ledger_extra_closed "later s0" for s0
  by unfold_locales (auto simp: later_def new_task_def)

lemma later_refl [simp]: "later s s"
  by (simp add: later_def)

section \<open>Tasks\<close>

text \<open>The task identifier \<open>tid\<close> is not drawn in \<open>s\<close> or later.\<close>

definition task_id_settled :: "string \<Rightarrow> lab_state \<Rightarrow> bool" where
  "task_id_settled tid s \<longleftrightarrow> (\<forall>n\<ge>s_draws s. ''task-'' @ take 12 (env_uuid (s_env s) n) \<noteq> tid)"

definition task_history :: "lab_state \<Rightarrow> string \<Rightarrow> task \<Rightarrow> lab_state \<Rightarrow> bool" where
  "task_history s0 tid t0 s \<longleftrightarrow> later s0 s \<and> (task_id_settled tid s0 \<longrightarrow>
     (case map_of (s_tasks s) tid of
        Some t \<Rightarrow> life\<^sup>*\<^sup>* t0 t
      | None \<Rightarrow> \<exists>t. life\<^sup>*\<^sup>* t0 t \<and> t_status t \<in> TERMINAL_TASK_STATUSES))"

lemma settled_new_task:
  "task_id_settled tid s0 \<Longrightarrow> later s0 s \<Longrightarrow> t_id (new_task q now s) \<noteq> tid"
  by (auto simp: task_id_settled_def later_def new_task_def uuid_hex_def)

lemma task_history_later: "task_history s0 tid t0 s \<Longrightarrow> later s0 s"
  by (simp add: task_history_def)

interpretation tasks_over_time: ledger_extra_closed "task_history s0 tid t0" for s0 tid t0
proof unfold_locales
  fix s k t t'
  assume h: "task_history s0 tid t0 s" and r: "records_ok s" and t: "map_of (s_tasks s) k = Some t"
    and l: "life_step s t t'"
  have "later s0 (modify_task k (\<lambda>_. t') s)"
    by (rule counters.x_life [OF r task_history_later [OF h] t l])
  with h t l show "task_history s0 tid t0 (modify_task k (\<lambda>_. t') s)"
    by (auto simp: task_history_def map_of_dmod life_step_def
        intro: rtranclp.rtrancl_into_rtrancl split: option.splits)
next
  fix s q now
  assume h: "task_history s0 tid t0 s" and r: "records_ok s" and a: "admitted q s"
  have "later s0 (add_task (new_task q now s) s)"
    by (rule counters.x_add_task [OF r task_history_later [OF h] a])
  with h settled_new_task [of tid s0 s q now] show "task_history s0 tid t0 (add_task (new_task q now s) s)"
    by (auto simp: task_history_def update_conv')
next
  fix s t
  assume h: "task_history s0 tid t0 s" and r: "records_ok s" and t: "map_of (s_tasks s) (t_id t) = Some t"
    and p: "prunable s t"
  have "later s0 ((remember_tombstone t s)\<lparr>s_tasks := AList.delete (t_id t) (s_tasks s)\<rparr>)"
    by (rule counters.x_drop_task [OF r task_history_later [OF h] t p])
  with h t p show "task_history s0 tid t0 ((remember_tombstone t s)\<lparr>s_tasks := AList.delete (t_id t) (s_tasks s)\<rparr>)"
    by (cases "tid = t_id t") (auto simp: task_history_def delete_conv' prunable_def)
qed (simp_all add: task_history_def later_def)

section \<open>Sessions\<close>

definition node_id_settled :: "string \<Rightarrow> lab_state \<Rightarrow> bool" where
  "node_id_settled nid s \<longleftrightarrow> (\<forall>n\<ge>s_draws s. ''node-'' @ take 10 (env_uuid (s_env s) n) \<noteq> nid)"

definition node_history :: "lab_state \<Rightarrow> string \<Rightarrow> node \<Rightarrow> lab_state \<Rightarrow> bool" where
  "node_history s0 nid n0 s \<longleftrightarrow> later s0 s \<and> (node_id_settled nid s0 \<longrightarrow>
     (case map_of (s_nodes s) nid of
        Some n \<Rightarrow> (n_session_active n \<longrightarrow> n_session_active n0 \<and> n_session_token n = n_session_token n0) \<and>
          (n_tasking_paused n0 \<longrightarrow> n_tasking_paused n) \<and> n_profile n = n_profile n0 \<and>
          n_capabilities n = n_capabilities n0 \<and> n_tasks_completed n0 \<le> n_tasks_completed n \<and>
          n_tasks_failed n0 \<le> n_tasks_failed n
      | None \<Rightarrow> True))"

lemma node_history_later: "node_history s0 nid n0 s \<Longrightarrow> later s0 s"
  by (simp add: node_history_def)

lemma settled_new_node:
  "node_id_settled nid s0 \<Longrightarrow> later s0 s \<Longrightarrow> n_id (new_node nm v pr cs i j now s) \<noteq> nid"
  by (auto simp: node_id_settled_def later_def new_node_def uuid_hex_def)

interpretation nodes_over_time: ledger_extra_closed "node_history s0 nid n0" for s0 nid n0
proof unfold_locales
  fix s k and f :: "node \<Rightarrow> node"
  assume h: "node_history s0 nid n0 s" and r: "records_ok s" and f: "\<And>n. node_keep n (f n)"
  have "later s0 (modify_node k f s)"
    by (rule counters.x_node [OF r node_history_later [OF h] f])
  with h show "node_history s0 nid n0 (modify_node k f s)"
    using f by (force simp: node_history_def map_of_dmod node_keep_def split: option.splits
        intro: order.trans)
next
  fix s k tok
  assume h: "node_history s0 nid n0 s" and r: "records_ok s" and i: "idle_node k s"
  have "later s0 (modify_node k (\<lambda>n. n\<lparr>n_session_active := False, n_session_token := tok\<rparr>) s)"
    by (rule counters.x_close [OF r node_history_later [OF h] i])
  with h show "node_history s0 nid n0 (modify_node k (\<lambda>n. n\<lparr>n_session_active := False, n_session_token := tok\<rparr>) s)"
    by (auto simp: node_history_def map_of_dmod split: option.splits)
next
  fix s k n
  assume h: "node_history s0 nid n0 s" and r: "records_ok s" and "map_of (s_nodes s) k = Some n"
    "\<not> n_session_active n"
  then have "later s0 (s\<lparr>s_nodes := AList.delete k (s_nodes s)\<rparr>)"
    using counters.x_drop_node node_history_later by blast
  with h show "node_history s0 nid n0 (s\<lparr>s_nodes := AList.delete k (s_nodes s)\<rparr>)"
    by (auto simp: node_history_def delete_conv' split: option.splits)
next
  fix n s
  assume h: "node_history s0 nid n0 s" and r: "records_ok s" and e: "enrollable n s"
  have "later s0 (s\<lparr>s_nodes := AList.update (n_id n) n (s_nodes s)\<rparr>)"
    by (rule counters.x_add_node [OF r node_history_later [OF h] e])
  moreover have "node_id_settled nid s0 \<Longrightarrow> n_id n \<noteq> nid"
    using e settled_new_node [OF _ node_history_later [OF h]] unfolding enrollable_def by blast
  ultimately show "node_history s0 nid n0 (s\<lparr>s_nodes := AList.update (n_id n) n (s_nodes s)\<rparr>)"
    using h by (auto simp: node_history_def update_conv')
qed (simp_all add: node_history_def later_def)

section \<open>Exercises\<close>

definition exercise_id_settled :: "string \<Rightarrow> lab_state \<Rightarrow> bool" where
  "exercise_id_settled xid s \<longleftrightarrow> (\<forall>n\<ge>s_draws s. ''exercise-'' @ take 12 (env_uuid (s_env s) n) \<noteq> xid)"

definition exercise_history :: "lab_state \<Rightarrow> string \<Rightarrow> exercise \<Rightarrow> lab_state \<Rightarrow> bool" where
  "exercise_history s0 xid x0 s \<longleftrightarrow> later s0 s \<and> (exercise_id_settled xid s0 \<longrightarrow>
     (\<exists>x. map_of (s_exercises s) xid = Some x \<and> exercise_rel x0 x))"

lemma exercise_history_later: "exercise_history s0 xid x0 s \<Longrightarrow> later s0 s"
  by (simp add: exercise_history_def)

interpretation exercises_over_time: ledger_extra_closed "exercise_history s0 xid x0" for s0 xid x0
proof unfold_locales
  fix s k x x'
  assume h: "exercise_history s0 xid x0 s" and r: "records_ok s" and x: "map_of (s_exercises s) k = Some x"
    and l: "exercise_rel x x'"
  have "later s0 (modify_exercise k (\<lambda>_. x') s)"
    by (rule counters.x_exercise [OF r exercise_history_later [OF h] x l])
  with h x l show "exercise_history s0 xid x0 (modify_exercise k (\<lambda>_. x') s)"
    by (auto simp: exercise_history_def map_of_dmod intro: exercise_rel_trans)
next
  fix s x u
  assume h: "exercise_history s0 xid x0 s" and r: "records_ok s" and a: "exercise_started x"
    "length (s_exercises s) < MAX_EXERCISES" "exercise_history s0 xid x0 u" "s_env u = s_env s"
    and i: "x_id x = ''exercise-'' @ uuid_hex 12 u"
  have "later s0 (s\<lparr>s_exercises := AList.update (x_id x) x (s_exercises s)\<rparr>)"
    using exercise_history_later [OF h] by (simp add: later_def)
  moreover have "exercise_id_settled xid s0 \<Longrightarrow> x_id x \<noteq> xid"
    using exercise_history_later [OF a(3)] i
    by (auto simp: exercise_id_settled_def later_def uuid_hex_def)
  ultimately show "exercise_history s0 xid x0 (s\<lparr>s_exercises := AList.update (x_id x) x (s_exercises s)\<rparr>)"
    using h by (auto simp: exercise_history_def update_conv')
qed (simp_all add: exercise_history_def later_def)

section \<open>Runs without a reset\<close>

fun run_ops :: "lab_op list \<Rightarrow> lab_state \<Rightarrow> lab_state" where
  "run_ops [] s = s"
| "run_ops (op # ops) s = run_ops ops (run_op op s)"

definition no_reset :: "lab_op list \<Rightarrow> bool" where
  "no_reset ops = list_all (\<lambda>op. case op of Reset _ \<Rightarrow> False | _ \<Rightarrow> True) ops"

context ledger_closed begin

lemma run_preserves: "P s \<Longrightarrow> no_reset ops \<Longrightarrow> P (run_ops ops s)"
proof (induction ops arbitrary: s)
  case (Cons op ops)
  have "P (run_op op s)"
    by (rule preserved [OF Cons.prems(1)]) (use Cons.prems(2) in \<open>auto simp: no_reset_def\<close>)
  with Cons show ?case by (simp add: no_reset_def)
qed simp

end

lemma reachable_run_op: "reachable s \<Longrightarrow> reachable (run_op op s)"
  by (rule reachable.step) (simp_all add: lab_step_run_op)

lemma reachable_run: "reachable s \<Longrightarrow> reachable (run_ops ops s)"
  by (induction ops arbitrary: s) (simp_all add: reachable_run_op)

lemma records_reachable: "reachable s \<Longrightarrow> records_ok s"
  by (rule records.always)

lemma life_star_identity: "life\<^sup>*\<^sup>* t u \<Longrightarrow> same_identity t u"
  by (induction rule: rtranclp_induct) (auto intro: same_identity_trans dest: life_identity)

lemma run_history:
  assumes "reachable s" "map_of (s_tasks s) tid = Some t" "task_id_settled tid s" "no_reset ops"
  shows "case map_of (s_tasks (run_ops ops s)) tid of Some u \<Rightarrow> life\<^sup>*\<^sup>* t u
    | None \<Rightarrow> \<exists>u. life\<^sup>*\<^sup>* t u \<and> t_status u \<in> TERMINAL_TASK_STATUSES"
proof -
  have "records_ok s \<and> task_history s tid t s"
    using records_reachable [OF assms(1)] assms(2) by (simp add: task_history_def)
  from tasks_over_time.run_preserves [OF this assms(4)] assms(3) show ?thesis
    by (auto simp: task_history_def split: option.splits)
qed

lemma run_task:
  "reachable s \<Longrightarrow> map_of (s_tasks s) tid = Some t \<Longrightarrow> task_id_settled tid s \<Longrightarrow> no_reset ops \<Longrightarrow>
   map_of (s_tasks (run_ops ops s)) tid = Some u \<Longrightarrow> life\<^sup>*\<^sup>* t u"
  using run_history [of s tid t ops] by simp

end
