(* ===== verification/Core_Demo.thy ===== *)
theory Core_Demo
  imports Core_History
begin

text \<open>
  A short concrete session, for evaluating the model: one \<open>purple_lab\<close> node, a \<open>PING\<close> task
  that is dispatched, answered and acknowledged, and an exercise.
\<close>

definition demo_uuid :: "nat \<Rightarrow> string" where
  "demo_uuid n = (if n < 100 then pad_nat 10 n @ ''ab'' else ''ffffffffffff'')"

definition demo_env :: env where
  "demo_env = \<lparr>env_utc = (\<lambda>n. ''2026-01-01T00:00:'' @ pad_nat 4 n), env_uuid = demo_uuid,
     env_token = (\<lambda>n. ''token-'' @ nat_str n), env_float_repr = (\<lambda>_. ''8.0'')\<rparr>"

definition demo_request :: enrollment_request where
  "demo_request = \<lparr>er_name = JStr ''alpha'', er_version = JStr ''1.0'', er_profile = JStr ''purple_lab'',
     er_capabilities = JList (map (\<lambda>t. JStr (task_type_str t)) TASK_TYPES),
     er_poll_interval_ms = JInt 1000, er_jitter_percent = JInt 10\<rparr>"

definition demo_node :: string where "demo_node = ''node-0000000000''"
definition demo_token :: string where "demo_token = ''token-0''"
definition demo_task :: string where "demo_task = ''task-0000000003ab''"

definition demo_start :: lab_state where "demo_start = init_state ''demo'' demo_env"

definition demo_enroll :: lab_op where "demo_enroll = Enroll demo_request 0"
definition demo_queue :: lab_op where
  "demo_queue = QueueTask (JStr demo_node) (JStr ''PING'') (JObj []) None (JStr ''demo-key-1'') (JStr ''operator'') 1"
definition demo_poll :: lab_op where "demo_poll = Poll (JStr demo_node) (JStr demo_token) 2"
definition demo_result :: json where "demo_result = JObj [(''reply'', JStr ''PONG'')]"
definition demo_submit :: lab_op where
  "demo_submit = Submit (JStr demo_node) (JStr demo_token) (JStr demo_task) (JStr ''completed'') demo_result 3"

definition demo_enrolled :: lab_state where "demo_enrolled = run_op demo_enroll demo_start"
definition demo_queued :: lab_state where "demo_queued = run_op demo_queue demo_enrolled"
definition demo_dispatched :: lab_state where "demo_dispatched = run_op demo_poll demo_queued"
definition demo_completed :: lab_state where "demo_completed = run_op demo_submit demo_dispatched"

lemma demo_reachable:
  "reachable demo_start" "reachable demo_enrolled" "reachable demo_queued" "reachable demo_dispatched"
  "reachable demo_completed"
  unfolding demo_completed_def demo_dispatched_def demo_queued_def demo_enrolled_def demo_start_def
  by (intro reachable_run_op reachable.start)+

lemma run_op_env: "reachable s \<Longrightarrow> (\<And>act. op \<noteq> Reset act) \<Longrightarrow> s_env (run_op op s) = s_env s"
  using counters.preserved [of s s op] records.always [of s] by (simp add: later_def)

lemma demo_env_kept:
  "s_env demo_start = demo_env" "s_env demo_enrolled = demo_env" "s_env demo_queued = demo_env"
  "s_env demo_dispatched = demo_env" "s_env demo_completed = demo_env"
proof -
  show s: "s_env demo_start = demo_env" by (simp add: demo_start_def init_state_def)
  show e: "s_env demo_enrolled = demo_env"
    unfolding demo_enrolled_def by (subst run_op_env) (simp_all add: demo_reachable s demo_enroll_def)
  show q: "s_env demo_queued = demo_env"
    unfolding demo_queued_def by (subst run_op_env) (simp_all add: demo_reachable e demo_queue_def)
  show d: "s_env demo_dispatched = demo_env"
    unfolding demo_dispatched_def by (subst run_op_env) (simp_all add: demo_reachable q demo_poll_def)
  show "s_env demo_completed = demo_env"
    unfolding demo_completed_def by (subst run_op_env) (simp_all add: demo_reachable d demo_submit_def)
qed

text \<open>The identifiers of the demonstration environment beyond the hundredth are all the same, so
  an identifier is settled when none of the finitely many before is equal to it.\<close>

lemma demo_settled:
  assumes "s_env s = demo_env" and "list_all (\<lambda>n. ''task-'' @ take 12 (demo_uuid n) \<noteq> tid) [s_draws s..<100]"
    and "tid \<noteq> ''task-ffffffffffff''"
  shows "task_id_settled tid s"
  unfolding task_id_settled_def
proof (intro allI impI)
  fix n assume "s_draws s \<le> n"
  show "''task-'' @ take 12 (env_uuid (s_env s) n) \<noteq> tid"
  proof (cases "n < 100")
    case True
    with assms(1,2) \<open>s_draws s \<le> n\<close> show ?thesis by (simp add: demo_env_def list_all_iff del: upt_Suc)
  next
    case False
    with assms(1,3) show ?thesis by (simp add: demo_env_def demo_uuid_def)
  qed
qed

lemma demo_tasks:
  "map_option t_status (map_of (s_tasks demo_queued) demo_task) = Some Queued"
  "map_option t_status (map_of (s_tasks demo_dispatched) demo_task) = Some Dispatched"
  "map_option t_status (map_of (s_tasks demo_completed) demo_task) = Some Completed"
  by code_simp+

text \<open>A second task behind the first.\<close>

definition demo_task2 :: string where "demo_task2 = ''task-0000000007ab''"
definition demo_queue2 :: lab_op where
  "demo_queue2 = QueueTask (JStr demo_node) (JStr ''PING'') (JObj []) None (JStr ''demo-key-2'') (JStr ''operator'') 1"
definition demo_two_queued :: lab_state where "demo_two_queued = run_op demo_queue2 demo_queued"

lemma demo_two_reachable: "reachable demo_two_queued"
  unfolding demo_two_queued_def by (intro reachable_run_op demo_reachable)

lemma demo_two_tasks:
  "map_option t_sequence (map_of (s_tasks demo_two_queued) demo_task) = Some 1"
  "map_option t_sequence (map_of (s_tasks demo_two_queued) demo_task2) = Some 2"
  by code_simp+

lemma demo_task_settled: "task_id_settled demo_task demo_queued" "task_id_settled demo_task demo_completed"
proof -
  have d: "s_draws demo_queued = 7" "s_draws demo_completed = 16" by code_simp+
  have "list_all (\<lambda>n. ''task-'' @ take 12 (demo_uuid n) \<noteq> demo_task) [7..<100]" by code_simp
  then show "task_id_settled demo_task demo_queued"
    by (intro demo_settled) (simp_all only: demo_env_kept d, simp add: demo_task_def)
  have "list_all (\<lambda>n. ''task-'' @ take 12 (demo_uuid n) \<noteq> demo_task) [16..<100]" by code_simp
  then show "task_id_settled demo_task demo_completed"
    by (intro demo_settled) (simp_all only: demo_env_kept d, simp add: demo_task_def)
qed

section \<open>An exercise\<close>

definition demo_start_exercise :: lab_op where
  "demo_start_exercise = StartExercise (JStr demo_node) (JStr ''DISCOVERY_COLLECTION'') (JStr ''operator'')
     (JStr ''exercise-key-1'') 1"

definition demo_xid :: string where "demo_xid = ''exercise-0000000003ab''"
definition demo_step1 :: string where "demo_step1 = ''task-0000000005ab''"
definition demo_step2 :: string where "demo_step2 = ''task-0000000010ab''"

definition demo_discovery :: json where
  "demo_discovery = playbook_result DISCOVERY_FIXTURES (map discovery_entry FIXTURE_DEFINITIONS)"

definition demo_report :: lab_op where
  "demo_report = Submit (JStr demo_node) (JStr demo_token) (JStr demo_step1) (JStr ''completed'') demo_discovery 3"

definition demo_contain :: lab_op where
  "demo_contain = ContainExercise (JStr demo_xid) (JStr ''PAUSE_NODE_TASKING'') (JStr ''operator'')"

definition demo_started :: lab_state where "demo_started = run_op demo_start_exercise demo_enrolled"
definition demo_running :: lab_state where "demo_running = run_op demo_poll demo_started"
definition demo_detected :: lab_state where "demo_detected = run_op demo_report demo_running"
definition demo_contained :: lab_state where "demo_contained = run_op demo_contain demo_detected"

lemma demo_exercise_reachable:
  "reachable demo_started" "reachable demo_running" "reachable demo_detected" "reachable demo_contained"
  unfolding demo_contained_def demo_detected_def demo_running_def demo_started_def
  by (intro reachable_run_op demo_reachable)+

end
