(* ===== verification/Ledger_Properties.thy ===== *)
theory Ledger_Properties
  imports Core_Demo
begin

text \<open>
  The properties of the ledger as a state machine: what holds in every reachable state and
  between an earlier and a later one.
\<close>

section \<open>Every reachable state\<close>



text \<open>C2: In every reachable state a node has at most one dispatched task, at most 50 queued
  tasks and at most 3 queued playbooks, whichever of \<open>queue_task\<close>, \<open>queue_operation\<close> and
  \<open>start_exercise\<close> queued them.\<close>

theorem reachable_queue_limits:
  "reachable s \<Longrightarrow> running_for nid s \<le> 1 \<and> queued_for nid s \<le> MAX_QUEUED_TASKS_PER_NODE \<and>
     queued_playbooks_for nid s \<le> MAX_QUEUED_PLAYBOOKS_PER_NODE"
  using queues.always by (auto simp: queues_bounded_def)

theorem reachable_queue_limits_witness:
  "running_for demo_node demo_dispatched \<le> 1 \<and> queued_for demo_node demo_dispatched \<le> 50"
  using reachable_queue_limits [OF demo_reachable(4), of demo_node]
  by (simp add: MAX_QUEUED_TASKS_PER_NODE_def)

text \<open>In every reachable state a queued or dispatched task belongs to a node record whose
  session is open; closing or expiring a session leaves no unfinished task behind.\<close>

theorem reachable_sessions_open:
  assumes "reachable s" and "map_of (s_tasks s) tid = Some t" and "unfinished t"
  shows "\<exists>n. map_of (s_nodes s) (t_node_id t) = Some n \<and> n_session_active n"
  using sessions.always [OF assms(1)] map_of_in_vals [OF assms(2)] assms(3)
  unfolding sessions_open_def by blast

theorem reachable_sessions_open_witness:
  "\<exists>t n. map_of (s_tasks demo_dispatched) demo_task = Some t \<and>
     map_of (s_nodes demo_dispatched) (t_node_id t) = Some n \<and> n_session_active n"
proof -
  obtain t where t: "map_of (s_tasks demo_dispatched) demo_task = Some t" "t_status t = Dispatched"
    using demo_tasks(2) by auto
  with reachable_sessions_open [OF demo_reachable(4) t(1)] show ?thesis by (auto simp: unfinished_def)
qed

text \<open>C3: In every reachable state each task is stored under its own identifier and is
  well-formed: a queue deadline exactly while queued, an execution deadline exactly while
  dispatched, a result and a completion time exactly once terminal, a payload within the bounds of
  its type, and an accepted result that some report could have produced under the contract of the
  task.\<close>

theorem reachable_task_wf:
  assumes "reachable s" and "map_of (s_tasks s) tid = Some t"
  shows "t_id t = tid \<and> task_wf t"
  using records_task [OF records.always [OF assms(1)] assms(2)] .

theorem reachable_task_wf_witness:
  "\<exists>t. map_of (s_tasks demo_completed) demo_task = Some t \<and> t_status t = Completed \<and> task_wf t"
proof -
  obtain t where t: "map_of (s_tasks demo_completed) demo_task = Some t" "t_status t = Completed"
    using demo_tasks(3) by auto
  with reachable_task_wf [OF demo_reachable(5) t(1)] show ?thesis by blast
qed

text \<open>In every reachable state two different task records never share a queue position or
  an idempotency key.\<close>

theorem reachable_tasks_identified:
  assumes "reachable s" and "map_of (s_tasks s) i = Some t" and "map_of (s_tasks s) j = Some u"
    and "i \<noteq> j"
  shows "t_sequence t \<noteq> t_sequence u \<and>
    (t_idempotency_key t = None \<or> t_idempotency_key t \<noteq> t_idempotency_key u)"
proof -
  have inj: "\<not> (p t \<and> p u)" if "count_if p (vals (s_tasks s)) \<le> 1" for p
    using one_holder [OF that assms(2) _ assms(3)] assms(4) by blast
  have q: "tasks_identified s" using identified.always [OF assms(1)] ..
  show ?thesis
    using inj [of "\<lambda>v. t_sequence v = t_sequence t"] inj [of "\<lambda>v. t_idempotency_key v = t_idempotency_key t"] q
    by (cases "t_idempotency_key t") (auto simp: tasks_identified_def)
qed

theorem reachable_tasks_identified_witness:
  "\<exists>t u. map_of (s_tasks demo_two_queued) demo_task = Some t \<and>
     map_of (s_tasks demo_two_queued) demo_task2 = Some u \<and> t_sequence t \<noteq> t_sequence u"
proof -
  obtain t u where t: "map_of (s_tasks demo_two_queued) demo_task = Some t"
    and u: "map_of (s_tasks demo_two_queued) demo_task2 = Some u" using demo_two_tasks by auto
  have "demo_task \<noteq> demo_task2" by (simp add: demo_task_def demo_task2_def)
  from reachable_tasks_identified [OF demo_two_reachable t u this] t u show ?thesis by blast
qed

section \<open>The life of a task\<close>

text \<open>C4: Whatever operations follow (short of a reset), a task only moves along its life:
  queued, dispatched, redelivered, then one final state; its identity, payload and queue position
  never change, and it disappears only after it became terminal.  The identifier must not be drawn
  again by \<open>uuid4\<close>.\<close>

theorem task_moves_forward:
  assumes "reachable s" and "map_of (s_tasks s) tid = Some t" and "task_id_settled tid s" and "no_reset ops"
  shows "case map_of (s_tasks (run_ops ops s)) tid of
      Some u \<Rightarrow> life\<^sup>*\<^sup>* t u \<and> same_identity t u
    | None \<Rightarrow> \<exists>u. life\<^sup>*\<^sup>* t u \<and> t_status u \<in> TERMINAL_TASK_STATUSES"
  using run_history [OF assms] by (auto intro: life_star_identity split: option.splits)

theorem task_moves_forward_witness:
  "\<exists>t u. map_of (s_tasks demo_queued) demo_task = Some t \<and>
     map_of (s_tasks (run_ops [demo_poll, demo_submit] demo_queued)) demo_task = Some u \<and>
     t_status t = Queued \<and> t_status u = Completed \<and> life\<^sup>*\<^sup>* t u"
proof -
  obtain t where t: "map_of (s_tasks demo_queued) demo_task = Some t" "t_status t = Queued"
    using demo_tasks(1) by auto
  have r: "run_ops [demo_poll, demo_submit] demo_queued = demo_completed"
    by (simp add: demo_dispatched_def demo_completed_def)
  obtain u where u: "map_of (s_tasks demo_completed) demo_task = Some u" "t_status u = Completed"
    using demo_tasks(3) by auto
  have "no_reset [demo_poll, demo_submit]" by (simp add: no_reset_def demo_poll_def demo_submit_def)
  from task_moves_forward [OF demo_reachable(3) t(1) demo_task_settled(1) this] r t u show ?thesis by auto
qed

text \<open>C5: A terminal task is frozen: after any operations short of a reset its record is exactly
  what it was, or it has been pruned.\<close>

theorem terminal_task_frozen:
  assumes "reachable s" and "map_of (s_tasks s) tid = Some t" and "task_id_settled tid s" and "no_reset ops"
    and "t_status t \<in> TERMINAL_TASK_STATUSES"
  shows "map_of (s_tasks (run_ops ops s)) tid \<in> {Some t, None}"
proof -
  have stuck: "life\<^sup>*\<^sup>* t u \<Longrightarrow> u = t" for u
    using assms(5) life_unfinished by (metis converse_rtranclpE unfinished_iff)
  have "records_ok s \<and> task_history s tid t s"
    using records.always [OF assms(1)] assms(2) by (simp add: task_history_def)
  from tasks_over_time.run_preserves [OF this assms(4)] assms(3) stuck show ?thesis
    by (auto simp: task_history_def split: option.splits)
qed

theorem terminal_task_frozen_witness:
  "\<exists>t. map_of (s_tasks demo_completed) demo_task = Some t \<and>
     map_of (s_tasks (run_ops [demo_submit, demo_poll] demo_completed)) demo_task \<in> {Some t, None}"
proof -
  obtain t where t: "map_of (s_tasks demo_completed) demo_task = Some t" "t_status t = Completed"
    using demo_tasks(3) by auto
  have "no_reset [demo_submit, demo_poll]" by (simp add: no_reset_def demo_poll_def demo_submit_def)
  from terminal_task_frozen [OF demo_reachable(5) t(1) demo_task_settled(2) this] t show ?thesis
    by (auto simp: TERMINAL_TASK_STATUSES_def)
qed

end
