(* ===== verification/Core_Expiry.thy ===== *)
theory Core_Expiry
  imports Core_History
begin

text \<open>
  What the expiry pass guarantees: it keeps final tasks as they are, and it leaves no queued task
  past its queue deadline and no dispatched task past its execution deadline.
\<close>

section \<open>Final tasks\<close>

definition keeps_final :: "string \<Rightarrow> task \<Rightarrow> lab_state \<Rightarrow> bool" where
  "keeps_final tid t s \<longleftrightarrow> records_ok s \<and> map_of (s_tasks s) tid = Some t \<and> \<not> unfinished t"

interpretation final_tasks: expiry_closed "keeps_final tid t" for tid t
proof unfold_locales
  fix s k u u' assume "keeps_final tid t s" and u: "map_of (s_tasks s) k = Some u" "life u u'" "\<not> unfinished u'"
  then show "keeps_final tid t (modify_task k (\<lambda>_. u') s)"
    using records.finish [of s k u u'] life_unfinished [of u u']
    by (auto simp: keeps_final_def map_of_dmod)
qed (auto simp: keeps_final_def records.tick records.event records.audit records.node records.close
    records.exercise)

lemma expire_keeps_final:
  "records_ok s \<Longrightarrow> map_of (s_tasks s) tid = Some t \<Longrightarrow> \<not> unfinished t \<Longrightarrow>
   map_of (s_tasks (expire_locked now s)) tid = Some t"
  using final_tasks.expire [of tid t s now] by (simp add: keeps_final_def)

section \<open>Deadlines\<close>

definition overdue :: "rat \<Rightarrow> task \<Rightarrow> bool" where
  "overdue now t \<longleftrightarrow> (t_status t = Queued \<and> (\<exists>d. t_queue_deadline t = Some d \<and> d \<le> now)) \<or>
     (t_status t = Dispatched \<and> (\<exists>d. t_deadline t = Some d \<and> d \<le> now))"

definition none_overdue :: "task_status \<Rightarrow> rat \<Rightarrow> lab_state \<Rightarrow> bool" where
  "none_overdue st now s \<longleftrightarrow> records_ok s \<and>
     (\<forall>k t. map_of (s_tasks s) k = Some t \<longrightarrow> t_status t = st \<longrightarrow> \<not> overdue now t)"

interpretation deadlines: expiry_closed "none_overdue st now" for st now
proof unfold_locales
  fix s k u u' assume "none_overdue st now s" and u: "map_of (s_tasks s) k = Some u" "life u u'" "\<not> unfinished u'"
  moreover have "\<not> overdue now u'" using u(3) by (auto simp: overdue_def unfinished_def)
  ultimately show "none_overdue st now (modify_task k (\<lambda>_. u') s)"
    using records.finish [of s k u u'] by (auto simp: none_overdue_def map_of_dmod)
qed (auto simp: none_overdue_def records.tick records.event records.audit records.node records.close
    records.exercise)

lemma expire_queued_task_lookup:
  "map_of (s_tasks (expire_queued_task now j s)) k =
     (case map_of (s_tasks s) k of
        Some t \<Rightarrow> Some (if k = j \<and> t_status t = Queued \<and> (\<exists>d. t_queue_deadline t = Some d \<and> d \<le> now)
          then t\<lparr>t_status := Expired, t_completed_at := Some (utc_now s),
                t_result := Some [(''reason'', JStr ''queue_ttl_exceeded'')], t_queue_deadline := None\<rparr>
          else t)
      | None \<Rightarrow> None)"
  by (auto simp: expire_queued_task_def Let_def map_of_dmod not_less split: option.splits)

lemma expire_dispatched_task_lookup:
  "map_of (s_tasks (expire_dispatched_task now j s)) k =
     (case map_of (s_tasks s) k of
        Some t \<Rightarrow> Some (if k = j \<and> t_status t = Dispatched \<and> (\<exists>d. t_deadline t = Some d \<and> d \<le> now)
          then t\<lparr>t_status := Timeout, t_completed_at := Some (utc_now s),
                t_result := Some [(''error'', JStr ''node did not return before the task deadline'')],
                t_deadline := None\<rparr>
          else t)
      | None \<Rightarrow> None)"
  by (auto simp: expire_dispatched_task_def Let_def map_of_dmod not_less split: option.splits)

definition on_time :: "task_status \<Rightarrow> rat \<Rightarrow> string \<Rightarrow> lab_state \<Rightarrow> bool" where
  "on_time st now k s \<longleftrightarrow> (\<forall>t. map_of (s_tasks s) k = Some t \<longrightarrow> t_status t = st \<longrightarrow> \<not> overdue now t)"

lemma queued_fold_on_time:
  "k \<in> set ks \<Longrightarrow> on_time Queued now k (fold (expire_queued_task now) ks s)"
  by (rule fold_each [where I = "\<lambda>_. True" and R = "on_time Queued now"])
    (auto simp: on_time_def expire_queued_task_lookup overdue_def split: option.splits if_splits)

lemma dispatched_fold_on_time:
  "k \<in> set ks \<Longrightarrow> on_time Dispatched now k (fold (expire_dispatched_task now) ks s)"
  by (rule fold_each [where I = "\<lambda>_. True" and R = "on_time Dispatched now"])
    (auto simp: on_time_def expire_dispatched_task_lookup overdue_def split: option.splits if_splits)

lemma expire_fold_keys:
  "map_of (s_tasks (fold (expire_queued_task now) ks s)) k = None \<longleftrightarrow> map_of (s_tasks s) k = None"
  "map_of (s_tasks (fold (expire_dispatched_task now) ks s)) k = None \<longleftrightarrow> map_of (s_tasks s) k = None"
  by (induction ks arbitrary: s)
    (simp_all add: expire_queued_task_lookup expire_dispatched_task_lookup split: option.split)

lemma expire_none_overdue:
  assumes "records_ok s"
  shows "none_overdue Queued now (expire_locked now s)" "none_overdue Dispatched now (expire_locked now s)"
proof -
  let ?s1 = "fold (expire_queued_task now) (keys (s_tasks s)) s"
  let ?s2 = "fold (expire_dispatched_task now) (keys (s_tasks ?s1)) ?s1"
  have dom: "k \<in> set (keys (s_tasks u))" if "map_of (s_tasks u) k \<noteq> None" for k u
    using that by (simp add: map_of_eq_None_iff)
  have r1: "records_ok ?s1" by (rule records.fold_closed [OF assms records.expire_queued])
  have q1: "none_overdue Queued now ?s1"
    using queued_fold_on_time dom [of s] expire_fold_keys(1) [of now _ s] r1
    unfolding none_overdue_def on_time_def by (metis option.distinct(1))
  have q2: "none_overdue Queued now ?s2"
    by (rule deadlines.fold_closed [OF q1 deadlines.expire_dispatched])
  have r2: "records_ok ?s2" using q2 by (simp add: none_overdue_def)
  have d2: "none_overdue Dispatched now ?s2"
    using dispatched_fold_on_time dom [of ?s1] expire_fold_keys(2) [of now _ ?s1] r2
    unfolding none_overdue_def on_time_def by (metis option.distinct(1))
  have "none_overdue st now (refresh_exercises (fold (expire_node now) (keys (s_nodes ?s2)) ?s2))"
    if "none_overdue st now ?s2" for st
    unfolding expire_node_def
    by (intro deadlines.refresh deadlines.fold_closed deadlines.stale deadlines.expired_session that)
  with q2 d2 show "none_overdue Queued now (expire_locked now s)" "none_overdue Dispatched now (expire_locked now s)"
    by (simp_all add: expire_locked_def Let_def)
qed

end
