(* ===== verification/Report_Retry.thy ===== *)
theory Report_Retry
  imports Task_Result
begin

text \<open>
  What the Teamserver stores is equal, in the sense of \<open>_type_strict_equal\<close>, to what was reported:
  the comparison that decides whether a repeated report is acknowledged.  The one exception is the
  version of a \<open>RUNTIME_STATUS\<close> report, which is stripped before it is stored.
\<close>

lemma same_type_strict:
  "wf_json l \<Longrightarrow> wf_json r \<Longrightarrow> same_json_value r l \<Longrightarrow> type_strict_equal l r"
proof (induction l r rule: type_strict_equal.induct)
  case (1 left right)
  then obtain rv where rv: "right = JObj rv" by (cases right) auto
  have ks: "set (keys left) = set (keys rv)" using "1.prems"(3) rv by simp
  have sub: "\<exists>w. map_of rv k = Some w \<and> type_strict_equal v w" if kv: "(k, v) \<in> set left" for k v
  proof -
    from "1.prems"(3) rv kv obtain w where w: "map_of rv k = Some w" "same_json_value w v"
      by (fastforce simp: list_all_iff split: option.splits)
    moreover have "wf_json v" "wf_json w"
      using "1.prems"(1,2) rv kv w(1) by (auto simp: list_all_iff dest!: map_of_SomeD)
    ultimately show ?thesis using "1.IH" [OF rv kv refl w(1)] by blast
  qed
  have "length left = length rv" using "1.prems"(1,2) rv ks by (intro same_keys_length) auto
  with sub show ?case by (fastforce simp: rv list_all_iff)
next
  case (2 left right)
  then obtain rl where rl: "right = JList rl" by (cases right) auto
  have "type_strict_equal a b" if "(a, b) \<in> set (zip left rl)" for a b
  proof -
    have "(b, a) \<in> set (zip rl left)" using that by (auto simp: set_zip)
    with "2.prems" rl that have "same_json_value b a" "wf_json a" "wf_json b"
      by (auto simp: list_all_iff dest: set_zip_leftD set_zip_rightD)
    then show ?thesis using "2.IH" [OF rl that refl] by blast
  qed
  with "2.prems"(3) rl show ?case by (auto simp: list_all_iff)
next
  case (6 f right)
  then show ?case by (cases right) (auto simp: float_eq_sym)
qed auto

lemma type_strict_refl: "wf_json v \<Longrightarrow> nan_free v \<Longrightarrow> type_strict_equal v v"
  by (simp add: type_strict_equal_same same_json_value_refl)

lemma type_strict_rebuilt:
  assumes "wf_json (JObj r)" and "distinct (keys r')" and "set (keys r) = set (keys r')"
    and "\<And>k v. (k, v) \<in> set r' \<Longrightarrow> map_of r k = Some v \<and> nan_free v"
  shows "type_strict_equal (JObj r') (JObj r)"
proof -
  have "length r' = length r" using assms(1-3) by (intro same_keys_length) auto
  moreover have "type_strict_equal v v" if "(k, v) \<in> set r'" for k v
    using assms(1) assms(4) [OF that] by (intro type_strict_refl) (auto simp: list_all_iff dest!: map_of_SomeD)
  ultimately show ?thesis using assms(4) by (fastforce simp: list_all_iff)
qed

lemma dumps_nan_free:
  "dumps j = Some x \<Longrightarrow> nan_free j"
  "dump_items js = Some xs \<Longrightarrow> list_all nan_free js"
  "dump_members kvs = Some xs \<Longrightarrow> list_all (\<lambda>(k, v). nan_free v) kvs"
  by (induction j and js and kvs arbitrary: x and xs and xs rule: dumps_dump_items_dump_members.induct)
    (auto split: option.splits pyfloat.splits)

lemma get_key_map_of:
  "set (keys r) = set ks \<Longrightarrow> k \<in> set ks \<Longrightarrow> get_key r k = v \<Longrightarrow> map_of r k = Some v"
  using get_key_present by fastforce

section \<open>Each contract\<close>

definition version_unpadded :: "(string \<times> json) list \<Rightarrow> bool" where
  "version_unpadded r \<longleftrightarrow> (\<forall>v. map_of r ''version'' = Some (JStr v) \<longrightarrow> py_strip v = v)"

lemma fixed_stored:
  "fixed_result r e m = Inr r' \<Longrightarrow> wf_json (JObj e) \<Longrightarrow> wf_json (JObj r) \<Longrightarrow> type_strict_equal (JObj r') (JObj r)"
  by (auto simp: fixed_result_Inr intro!: same_type_strict simp del: type_strict_equal.simps wf_json.simps)

lemma failed_stored:
  assumes "failed_result r = Inr r'" and "wf_json (JObj r)"
  shows "type_strict_equal (JObj r') (JObj r)"
proof -
  obtain c where ks: "set (keys r) = set [''error_code'']" and c: "get_key r ''error_code'' = JStr c"
    and r': "r' = [(''error_code'', JStr c)]"
    using assms(1) unfolding failed_result_Inr by auto
  have m: "map_of r ''error_code'' = Some (JStr c)" by (rule get_key_map_of [OF ks _ c]) simp
  show ?thesis
  proof (rule type_strict_rebuilt [OF assms(2)])
    show "set (keys r) = set (keys r')" unfolding ks r' by simp
    show "map_of r k = Some x \<and> nan_free x" if "(k, x) \<in> set r'" for k x
      using that m unfolding r' by auto
  qed (simp add: r')
qed

lemma sleep_stored:
  assumes "sleep_result r i j e = Inr r'" and "wf_json (JObj r)"
  shows "type_strict_equal (JObj r') (JObj r)"
proof -
  let ?ks = "[''previous_interval_ms'', ''new_interval_ms'', ''jitter_percent'']"
  obtain p n q u where ex: "exact_keys r ?ks = Inr u"
    and v: "get_key r ''previous_interval_ms'' = JInt p" "get_key r ''new_interval_ms'' = JInt n"
      "get_key r ''jitter_percent'' = JInt q"
    and r': "r' = [(''previous_interval_ms'', JInt p), (''new_interval_ms'', JInt n), (''jitter_percent'', JInt q)]"
    using assms(1) unfolding sleep_result_def rbind_eq_Inr
    by (elim exE conjE)
      (simp only: int_between_Some sum.inject sum.distinct split: option.split_asm if_split_asm;
        elim conjE; rule that; (assumption | rule sym, assumption))
  have ks: "set (keys r) = set ?ks" using ex unfolding exact_keys_Inr .
  have m: "map_of r k = Some w" if "k \<in> set ?ks" "get_key r k = w" for k w
    using get_key_map_of [OF ks that] .
  show ?thesis
  proof (rule type_strict_rebuilt [OF assms(2)])
    show "set (keys r) = set (keys r')" unfolding ks r' by simp
    have "list_all (\<lambda>(k, w). map_of r k = Some w \<and> nan_free w) r'" using m v by (simp add: r')
    then show "map_of r k = Some w \<and> nan_free w" if "(k, w) \<in> set r'" for k w
      using that by (auto simp: list_all_iff)
  qed (simp add: r')
qed

lemma runtime_status_stored:
  assumes "runtime_status_result r e = Inr r'" and "wf_json (JObj r)" and "version_unpadded r"
  shows "type_strict_equal (JObj r') (JObj r)"
proof -
  let ?ks = "[''version'', ''profile'', ''uptime_ms'', ''tasks_completed'', ''poll_interval_ms'', ''jitter_percent'']"
  obtain ver prof poll jit up n u where ex: "exact_keys r ?ks = Inr u"
    and ver: "clean_text (get_key r ''version'') ''version'' 1 32 = Inr ver"
    and prof: "validate_profile (get_key r ''profile'') = Inr prof"
    and poll: "validate_poll_interval (get_key r ''poll_interval_ms'') = Inr poll"
    and jit: "validate_jitter_percent (get_key r ''jitter_percent'') = Inr jit"
    and up: "get_key r ''uptime_ms'' = JInt up" and n: "get_key r ''tasks_completed'' = JInt n"
    and r': "r' = [(''version'', JStr ver), (''profile'', JStr (profile_str prof)), (''uptime_ms'', JInt up),
        (''tasks_completed'', JInt n), (''poll_interval_ms'', JInt poll), (''jitter_percent'', JInt jit)]"
    using assms(1) unfolding runtime_status_result_def rbind_eq_Inr
    by (elim exE conjE)
      (simp only: int_between_Some sum.inject sum.distinct split: option.split_asm if_split_asm;
        elim conjE; rule that; (assumption | rule sym, assumption))
  have ks: "set (keys r) = set ?ks" using ex unfolding exact_keys_Inr .
  obtain w where w: "get_key r ''version'' = JStr w" "ver = py_strip w"
    using ver by (auto simp: clean_text_Inr)
  have "map_of r ''version'' = Some (JStr w)" by (rule get_key_map_of [OF ks _ w(1)]) simp
  with assms(3) w have "get_key r ''version'' = JStr ver" by (simp add: version_unpadded_def)
  moreover have "get_key r ''profile'' = JStr (profile_str prof)" using prof by (simp add: validate_profile_Inr)
  moreover have "get_key r ''poll_interval_ms'' = JInt poll" using poll by (simp add: validate_poll_interval_Inr)
  moreover have "get_key r ''jitter_percent'' = JInt jit" using jit by (simp add: validate_jitter_percent_Inr)
  moreover have "map_of r k = Some w" if "k \<in> set ?ks" "get_key r k = w" for k w
    using get_key_map_of [OF ks that] .
  ultimately have v: "list_all (\<lambda>(k, x). map_of r k = Some x \<and> nan_free x) r'"
    using up n by (simp add: r')
  show ?thesis
  proof (rule type_strict_rebuilt [OF assms(2)])
    show "set (keys r) = set (keys r')" unfolding ks r' by simp
    show "map_of r k = Some x \<and> nan_free x" if "(k, x) \<in> set r'" for k x
      using v that by (auto simp: list_all_iff)
  qed (simp add: r')
qed

lemma playbook_stored:
  assumes "playbook_task_result r p = Inr r'" and "wf_json (JObj r)" and "encoded_size (JObj r) = Some n"
  shows "type_strict_equal (JObj r') (JObj r)"
proof -
  have "r' = r" using playbook_task_result_Inr [OF assms(1)] by blast
  moreover have "nan_free (JObj r)"
    using assms(3) dumps_nan_free(1) by (auto simp: encoded_size_def simp del: nan_free.simps)
  ultimately show ?thesis using type_strict_refl assms(2) by blast
qed

lemma stored_equals_report:
  assumes v: "validate_task_result ty p status (JObj r) e = Inr (st, r')" and ok: "payload_ok ty p"
    and wf: "wf_json (JObj r)" and ver: "ty = RUNTIME_STATUS \<Longrightarrow> version_unpadded r"
  shows "type_strict_equal (JObj r') (JObj r)"
proof (cases "st = Failed")
  case True
  with v have "failed_result r = Inr r'" by (auto simp: validate_task_result_Inr validate_result_Inr)
  then show ?thesis using wf by (rule failed_stored)
next
  case False
  with v have c: "completed_result ty p r e = Inr r'" and "\<exists>n. encoded_size (JObj r) = Some n"
    by (auto simp: validate_task_result_Inr validate_result_Inr)
  then obtain n where n: "encoded_size (JObj r) = Some n" by blast
  show ?thesis
    using c ok
    by (cases ty; cases p)
      (auto intro: fixed_stored sleep_stored runtime_status_stored playbook_stored wf n ver
        simp del: type_strict_equal.simps)
qed

section \<open>The two comparisons\<close>

text \<open>C33: The comparison of \<open>core.py\<close>, which decides whether a repeated report is the stored one, and the
  comparison of \<open>protocol.py\<close> and \<open>lab_runtime.py\<close>, which decides whether a report is acceptable, are
  written differently but agree on all JSON values, in both directions: neither depends on the order of
  the keys, and both tell \<open>True\<close> from \<open>1\<close> and \<open>1\<close> from \<open>1.0\<close>.\<close>

theorem comparisons_agree:
  assumes "wf_json l" and "wf_json r"
  shows "type_strict_equal l r = same_json_value l r \<and> type_strict_equal r l = same_json_value r l"
  using type_strict_equal_same assms by blast

theorem comparisons_agree_witness:
  "type_strict_equal (JObj [(''a'', JInt 1), (''b'', JBool True)]) (JObj [(''b'', JBool True), (''a'', JInt 1)]) \<and>
   \<not> type_strict_equal (JObj [(''a'', JInt 1)]) (JObj [(''a'', JBool True)])"
proof -
  have "wf_json (JObj [(''a'', JInt 1), (''b'', JBool True)])" "wf_json (JObj [(''b'', JBool True), (''a'', JInt 1)])"
    "wf_json (JObj [(''a'', JInt 1)])" "wf_json (JObj [(''a'', JBool True)])" by simp_all
  from comparisons_agree [OF this(1,2)] comparisons_agree [OF this(3,4)] show ?thesis by auto
qed

end
