(* ===== verification/Auth.thy ===== *)
theory Auth
  imports Core_State
begin

text \<open>
  \<open>c2lab/auth.py\<close>: the registry of operator sessions.  A session keeps the SHA-256 digest of its
  token, never the token; what the registry hands out is the public projection.  Time is the
  monotonic clock as a rational number (rounding of floats is not modelled), and the successive
  values of \<open>secrets.token_hex(12)\<close> are a sequence the registry reads by counting its draws.
\<close>

section \<open>Roles and permissions\<close>

datatype role = Admin | Operator | Viewer

fun role_str :: "role \<Rightarrow> string" where
  "role_str Admin = ''admin''"
| "role_str Operator = ''operator''"
| "role_str Viewer = ''viewer''"

datatype permission =
  Read | TaskWrite | ExerciseWrite | ContainmentWrite | NoteWrite | ResetPermission | OperatorAdmin

fun permission_str :: "permission \<Rightarrow> string" where
  "permission_str Read = ''read''"
| "permission_str TaskWrite = ''task_write''"
| "permission_str ExerciseWrite = ''exercise_write''"
| "permission_str ContainmentWrite = ''containment_write''"
| "permission_str NoteWrite = ''note_write''"
| "permission_str ResetPermission = ''reset''"
| "permission_str OperatorAdmin = ''operator_admin''"

fun ROLE_PERMISSIONS :: "role \<Rightarrow> permission list" where
  "ROLE_PERMISSIONS Admin =
     [Read, TaskWrite, ExerciseWrite, ContainmentWrite, NoteWrite, ResetPermission, OperatorAdmin]"
| "ROLE_PERMISSIONS Operator = [Read, TaskWrite, ExerciseWrite, NoteWrite]"
| "ROLE_PERMISSIONS Viewer = [Read]"

definition ROLES :: "role list" where "ROLES = [Admin, Operator, Viewer]"

definition role_of_str :: "string \<Rightarrow> role option" where
  "role_of_str s = map_of (map (\<lambda>r. (role_str r, r)) ROLES) s"

definition PERMISSIONS :: "permission list" where
  "PERMISSIONS = concat (map ROLE_PERMISSIONS ROLES)"

definition permission_of_str :: "string \<Rightarrow> permission option" where
  "permission_of_str s = map_of (map (\<lambda>p. (permission_str p, p)) PERMISSIONS) s"

definition DEFAULT_SESSION_TTL_SECONDS :: int where "DEFAULT_SESSION_TTL_SECONDS = 8 * 60 * 60"
definition MAX_SESSION_TTL_SECONDS :: int where "MAX_SESSION_TTL_SECONDS = 30 * 24 * 60 * 60"
definition MAX_OPERATOR_SESSIONS :: nat where "MAX_OPERATOR_SESSIONS = 64"
definition MIN_TOKEN_LENGTH :: nat where "MIN_TOKEN_LENGTH = 24"
definition MAX_TOKEN_LENGTH :: nat where "MAX_TOKEN_LENGTH = 512"
definition MIN_PRINCIPAL_ID_LENGTH :: nat where "MIN_PRINCIPAL_ID_LENGTH = 3"
definition MAX_PRINCIPAL_ID_LENGTH :: nat where "MAX_PRINCIPAL_ID_LENGTH = 48"

definition lower_letters :: string where "lower_letters = ''abcdefghijklmnopqrstuvwxyz''"
definition decimal_digits :: string where "decimal_digits = ''0123456789''"
definition separators :: string where "separators = ''_-''"
definition hex_characters :: string where "hex_characters = ''0123456789abcdef''"

section \<open>Validators\<close>

text \<open>\<open>AuthError(message, code, status)\<close>; \<open>AuthCrash\<close> is an exception the module does not expect.\<close>

datatype auth_error = AuthError string string nat | AuthCrash string

abbreviation invalid_auth :: "string \<Rightarrow> auth_error" where
  "invalid_auth m \<equiv> AuthError m ''invalid_request'' 400"

text \<open>A numeric argument of type \<open>Any\<close>: \<open>OtherValue\<close> is any value that is not an \<open>int\<close> or
  \<open>float\<close>, or is a \<open>bool\<close>.  \<open>math.isfinite\<close> raises \<open>OverflowError\<close> on an integer that does not
  fit a double.\<close>

datatype number = IntValue int | FloatValue rat | NaNValue | InfValue | OtherValue

definition float_overflow :: "int \<Rightarrow> bool" where
  "float_overflow i \<longleftrightarrow> \<bar>i\<bar> \<ge> 2 ^ 1024 - 2 ^ 970"

fun finite_number :: "number \<Rightarrow> string \<Rightarrow> auth_error + rat" where
  "finite_number (IntValue i) m = (if float_overflow i then Inl (AuthCrash ''OverflowError'') else Inr (of_int i))"
| "finite_number (FloatValue x) m = Inr x"
| "finite_number _ m = Inl (invalid_auth m)"

definition validate_ttl :: "number \<Rightarrow> auth_error + rat" where
  "validate_ttl value =
    (let m = ''ttl_seconds must be greater than zero and at most '' @ int_str MAX_SESSION_TTL_SECONDS
     in rbind (finite_number value m) (\<lambda>x.
       if 0 < x \<and> x \<le> of_int MAX_SESSION_TTL_SECONDS then Inr x else Inl (invalid_auth m)))"

text \<open>\<open>_resolve_now\<close>: without an argument the clock is read.\<close>

definition resolve_now :: "number option \<Rightarrow> rat \<Rightarrow> auth_error + rat" where
  "resolve_now value clock =
    (let m = ''now must be a non-negative finite monotonic timestamp''
     in rbind (finite_number (case value of None \<Rightarrow> FloatValue clock | Some v \<Rightarrow> v) m) (\<lambda>x.
       if x < 0 then Inl (invalid_auth m) else Inr x))"

definition principal_ok :: "string \<Rightarrow> bool" where
  "principal_ok s \<longleftrightarrow> MIN_PRINCIPAL_ID_LENGTH \<le> length s \<and> length s \<le> MAX_PRINCIPAL_ID_LENGTH \<and>
     hd s \<in> set lower_letters \<and> last s \<notin> set separators \<and>
     list_all (\<lambda>c. c \<in> set (lower_letters @ decimal_digits @ separators)) s \<and>
     list_all (\<lambda>(a, b). \<not> (a \<in> set separators \<and> b \<in> set separators)) (zip s (tl s))"

definition validate_principal_id :: "json \<Rightarrow> auth_error + string" where
  "validate_principal_id value =
    (let m = ''principal_id must be a canonical lowercase identifier containing ''
           @ nat_str MIN_PRINCIPAL_ID_LENGTH @ '' to '' @ nat_str MAX_PRINCIPAL_ID_LENGTH @ '' characters''
     in case value of JStr s \<Rightarrow> if principal_ok s then Inr s else Inl (invalid_auth m) | _ \<Rightarrow> Inl (invalid_auth m))"

definition validate_role :: "json \<Rightarrow> auth_error + role" where
  "validate_role value = (case (case value of JStr s \<Rightarrow> role_of_str s | _ \<Rightarrow> None) of
      Some r \<Rightarrow> Inr r
    | None \<Rightarrow> Inl (invalid_auth ''role must be admin, operator, or viewer''))"

definition token_ok :: "string \<Rightarrow> bool" where
  "token_ok s \<longleftrightarrow> MIN_TOKEN_LENGTH \<le> length s \<and> length s \<le> MAX_TOKEN_LENGTH \<and> py_isascii s \<and>
     list_all (\<lambda>c. 33 \<le> code c \<and> code c \<le> 126) s"

fun token_is_valid :: "json \<Rightarrow> bool" where
  "token_is_valid (JStr s) = token_ok s"
| "token_is_valid _ = False"

definition validate_token :: "json \<Rightarrow> auth_error + string" where
  "validate_token value =
    (let m = ''token must be a printable ASCII secret containing '' @ nat_str MIN_TOKEN_LENGTH @ '' to ''
           @ nat_str MAX_TOKEN_LENGTH @ '' characters''
     in case value of JStr s \<Rightarrow> if token_ok s then Inr s else Inl (invalid_auth m) | _ \<Rightarrow> Inl (invalid_auth m))"

definition session_prefix :: string where "session_prefix = ''op-session-''"

definition session_id_ok :: "string \<Rightarrow> bool" where
  "session_id_ok s \<longleftrightarrow> starts_with session_prefix s \<and> length s = length session_prefix + 24 \<and>
     list_all (\<lambda>c. c \<in> set hex_characters) (drop (length session_prefix) s)"

definition validate_session_id :: "json \<Rightarrow> string \<Rightarrow> auth_error + string" where
  "validate_session_id value fld = (case value of
      JStr s \<Rightarrow> if session_id_ok s then Inr s else Inl (invalid_auth (fld @ '' is invalid''))
    | _ \<Rightarrow> Inl (invalid_auth (fld @ '' is invalid'')))"

definition token_digest :: "string \<Rightarrow> string" where
  "token_digest token = sha256 token"

section \<open>Sessions\<close>

record session =
  ss_id :: string
  ss_principal :: string
  ss_role :: role
  ss_digest :: string
  ss_created :: rat
  ss_expires :: rat
  ss_revoked :: "rat option"

record registry =
  rg_sessions :: "session dict"
  rg_hex :: "nat \<Rightarrow> string"
  rg_draws :: nat

definition empty_registry :: "(nat \<Rightarrow> string) \<Rightarrow> registry" where
  "empty_registry h = \<lparr>rg_sessions = [], rg_hex = h, rg_draws = 0\<rparr>"

definition session_active :: "rat \<Rightarrow> session \<Rightarrow> bool" where
  "session_active now s \<longleftrightarrow> ss_revoked s = None \<and> now < ss_expires s"

datatype session_status = ActiveSession | ExpiredSession | RevokedSession

text \<open>\<open>round(x, 3)\<close> on the exact value: to the nearest thousandth, ties to even.\<close>

definition round_half_even :: "rat \<Rightarrow> int" where
  "round_half_even x = (let f = \<lfloor>x\<rfloor>; d = x - of_int f in
     if d < 1 / 2 then f else if 1 / 2 < d then f + 1 else if even f then f else f + 1)"

definition round3 :: "rat \<Rightarrow> rat" where
  "round3 x = of_int (round_half_even (x * 1000)) / 1000"

record public_session =
  ps_id :: string
  ps_principal :: string
  ps_role :: role
  ps_permissions :: "string list"
  ps_created :: rat
  ps_expires :: rat
  ps_expires_in :: rat
  ps_revoked :: "rat option"
  ps_status :: session_status
  ps_active :: bool

definition status_of :: "rat \<Rightarrow> session \<Rightarrow> session_status" where
  "status_of now s = (if ss_revoked s \<noteq> None then RevokedSession
     else if now \<ge> ss_expires s then ExpiredSession else ActiveSession)"

definition public_session_of :: "rat \<Rightarrow> session \<Rightarrow> public_session" where
  "public_session_of now s =
    \<lparr>ps_id = ss_id s, ps_principal = ss_principal s, ps_role = ss_role s,
     ps_permissions = sort (map permission_str (ROLE_PERMISSIONS (ss_role s))),
     ps_created = ss_created s, ps_expires = ss_expires s,
     ps_expires_in = round3 (max 0 (ss_expires s - now)), ps_revoked = ss_revoked s,
     ps_status = status_of now s, ps_active = (status_of now s = ActiveSession)\<rparr>"

section \<open>Operations\<close>

text \<open>\<open>_new_session_id_locked\<close>: draw until the identifier is free.  The loop has no bound, so the
  result is \<open>None\<close> when every draw collides.\<close>

definition candidate_id :: "registry \<Rightarrow> nat \<Rightarrow> string" where
  "candidate_id g n = session_prefix @ rg_hex g n"

partial_function (option) new_session_id :: "registry \<Rightarrow> nat \<Rightarrow> (string \<times> nat) option" where
  "new_session_id g n =
    (if map_of (rg_sessions g) (candidate_id g n) = None then Some (candidate_id g n, Suc n)
     else new_session_id g (Suc n))"

type_synonym 'a auth_result = "((auth_error + 'a) \<times> registry) option"

definition inactive_id :: "rat \<Rightarrow> registry \<Rightarrow> string option" where
  "inactive_id now g = map_option fst (find (\<lambda>(k, s). \<not> session_active now s) (rg_sessions g))"

definition add_session :: "string \<Rightarrow> role \<Rightarrow> string \<Rightarrow> rat \<Rightarrow> rat \<Rightarrow> registry \<Rightarrow> public_session auth_result" where
  "add_session pid rl digest ttl now g =
    (case new_session_id g (rg_draws g) of
      None \<Rightarrow> None
    | Some (sid, n) \<Rightarrow>
        let s = \<lparr>ss_id = sid, ss_principal = pid, ss_role = rl, ss_digest = digest,
                 ss_created = now, ss_expires = now + ttl, ss_revoked = None\<rparr>
        in Some (Inr (public_session_of now s),
             g\<lparr>rg_sessions := AList.update sid s (rg_sessions g), rg_draws := n\<rparr>))"

definition register_locked :: "string \<Rightarrow> role \<Rightarrow> string \<Rightarrow> rat \<Rightarrow> rat \<Rightarrow> registry \<Rightarrow> public_session auth_result" where
  "register_locked pid rl digest ttl now g =
    (if list_ex (\<lambda>s. ss_digest s = digest) (vals (rg_sessions g))
     then Some (Inl (AuthError ''token is already registered'' ''token_conflict'' 409), g)
     else if length (rg_sessions g) \<ge> MAX_OPERATOR_SESSIONS then
       (case inactive_id now g of
          None \<Rightarrow> Some (Inl (AuthError ''operator session limit reached'' ''session_limit'' 429), g)
        | Some k \<Rightarrow> add_session pid rl digest ttl now (g\<lparr>rg_sessions := AList.delete k (rg_sessions g)\<rparr>))
     else add_session pid rl digest ttl now g)"

definition register_session ::
  "json \<Rightarrow> json \<Rightarrow> json \<Rightarrow> number \<Rightarrow> number option \<Rightarrow> rat \<Rightarrow> registry \<Rightarrow> public_session auth_result" where
  "register_session principal_id rl token ttl now clock g =
    (case rbind (validate_principal_id principal_id) (\<lambda>p.
          rbind (validate_role rl) (\<lambda>r.
          rbind (validate_token token) (\<lambda>t.
          rbind (validate_ttl ttl) (\<lambda>ttl.
          rbind (resolve_now now clock) (\<lambda>instant. Inr (p, r, token_digest t, ttl, instant)))))) of
      Inl e \<Rightarrow> Some (Inl e, g)
    | Inr (p, r, d, ttl, instant) \<Rightarrow> register_locked p r d ttl instant g)"

text \<open>The loop over the sessions keeps the last one whose digest matches.\<close>

definition matching_session :: "string \<Rightarrow> registry \<Rightarrow> session option" where
  "matching_session digest g =
     fold (\<lambda>s m. if ss_digest s = digest then Some s else m) (vals (rg_sessions g)) None"

definition authenticate ::
  "json \<Rightarrow> string option \<Rightarrow> number option \<Rightarrow> rat \<Rightarrow> registry \<Rightarrow> auth_error + public_session option" where
  "authenticate token perm now clock g =
    (if (case perm of None \<Rightarrow> False | Some p \<Rightarrow> permission_of_str p = None)
     then Inl (AuthError ''permission is not recognized'' ''invalid_permission'' 400)
     else (case token of
         JStr t \<Rightarrow>
           if \<not> token_ok t then Inr None
           else rbind (resolve_now now clock) (\<lambda>instant.
             Inr (case matching_session (token_digest t) g of
                 None \<Rightarrow> None
               | Some s \<Rightarrow>
                   if \<not> session_active instant s then None
                   else if (case perm of None \<Rightarrow> False
                       | Some p \<Rightarrow> p \<notin> set (map permission_str (ROLE_PERMISSIONS (ss_role s)))) then None
                   else Some (public_session_of instant s)))
       | _ \<Rightarrow> Inr None))"

definition has_registered_token :: "json \<Rightarrow> registry \<Rightarrow> bool" where
  "has_registered_token token g = (case token of
      JStr t \<Rightarrow> token_ok t \<and> fold (\<lambda>s m. if ss_digest s = token_digest t then True else m) (vals (rg_sessions g)) False
    | _ \<Rightarrow> False)"

definition active_admin :: "rat \<Rightarrow> session \<Rightarrow> bool" where
  "active_admin now s \<longleftrightarrow> ss_role s = Admin \<and> session_active now s"

definition revoke_locked :: "string \<Rightarrow> string \<Rightarrow> rat \<Rightarrow> registry \<Rightarrow> (auth_error + public_session) \<times> registry" where
  "revoke_locked sid actor now g =
    (case map_of (rg_sessions g) sid of
      None \<Rightarrow> (Inl (AuthError ''session was not found'' ''session_not_found'' 404), g)
    | Some target \<Rightarrow>
        if ss_revoked target \<noteq> None \<and> actor = sid then (Inr (public_session_of now target), g)
        else (case map_of (rg_sessions g) actor of
            None \<Rightarrow> (Inl (AuthError ''an active actor session is required'' ''unauthorized'' 401), g)
          | Some a \<Rightarrow>
              if \<not> session_active now a
              then (Inl (AuthError ''an active actor session is required'' ''unauthorized'' 401), g)
              else if actor \<noteq> sid \<and> OperatorAdmin \<notin> set (ROLE_PERMISSIONS (ss_role a))
              then (Inl (AuthError ''operator_admin permission is required'' ''forbidden'' 403), g)
              else if ss_revoked target \<noteq> None then (Inr (public_session_of now target), g)
              else if actor = sid \<and> ss_role target = Admin \<and>
                count_if (active_admin now) (vals (rg_sessions g)) \<le> 1
              then (Inl (AuthError ''the last active admin session cannot revoke itself''
                     ''last_admin_session'' 409), g)
              else (Inr (public_session_of now (target\<lparr>ss_revoked := Some now\<rparr>)),
                    g\<lparr>rg_sessions := dmod sid (\<lambda>s. s\<lparr>ss_revoked := Some now\<rparr>) (rg_sessions g)\<rparr>)))"

definition revoke_session ::
  "json \<Rightarrow> json option \<Rightarrow> number option \<Rightarrow> rat \<Rightarrow> registry \<Rightarrow> (auth_error + public_session) \<times> registry" where
  "revoke_session session_id actor_session_id now clock g =
    (case rbind (validate_session_id session_id ''session_id'') (\<lambda>sid.
          rbind (case actor_session_id of None \<Rightarrow> Inr sid
                 | Some a \<Rightarrow> validate_session_id a ''actor_session_id'') (\<lambda>actor.
          rbind (resolve_now now clock) (\<lambda>instant. Inr (sid, actor, instant)))) of
      Inl e \<Rightarrow> (Inl e, g)
    | Inr (sid, actor, instant) \<Rightarrow> revoke_locked sid actor instant g)"

definition list_sessions :: "number option \<Rightarrow> rat \<Rightarrow> registry \<Rightarrow> auth_error + public_session list" where
  "list_sessions now clock g =
     rbind (resolve_now now clock) (\<lambda>instant. Inr (map (public_session_of instant) (vals (rg_sessions g))))"

end
