(* ===== verification/Auth_Properties.thy ===== *)
theory Auth_Properties
  imports Auth
begin

text \<open>
  The properties of the operator-session registry: the bound and the uniqueness of credentials in
  every reachable registry, exactly which tokens authenticate, what registering and revoking keep,
  and the termination of the identifier loop.
\<close>

section \<open>Reachable registries\<close>

inductive registry_step :: "registry \<Rightarrow> registry \<Rightarrow> bool" where
  register: "register_session p r t ttl now clock g = Some (res, g') \<Longrightarrow> registry_step g g'"
| revoke: "revoke_session sid actor now clock g = (res, g') \<Longrightarrow> registry_step g g'"

inductive registry_reachable :: "registry \<Rightarrow> bool" where
  start: "registry_reachable (empty_registry h)"
| step: "registry_reachable g \<Longrightarrow> registry_step g g' \<Longrightarrow> registry_reachable g'"

definition session_wf :: "session \<Rightarrow> bool" where
  "session_wf s \<longleftrightarrow> principal_ok (ss_principal s) \<and> 0 \<le> ss_created s \<and> ss_created s < ss_expires s \<and>
     ss_expires s \<le> ss_created s + of_int MAX_SESSION_TTL_SECONDS"

definition registry_ok :: "registry \<Rightarrow> bool" where
  "registry_ok g \<longleftrightarrow> distinct (keys (rg_sessions g)) \<and> map ss_id (vals (rg_sessions g)) = keys (rg_sessions g) \<and>
     distinct (map ss_digest (vals (rg_sessions g))) \<and> length (rg_sessions g) \<le> MAX_OPERATOR_SESSIONS \<and>
     list_all session_wf (vals (rg_sessions g))"

lemma find_key_Some: "find (\<lambda>(k, s). p s) d = Some (k, s) \<Longrightarrow> (k, s) \<in> set d \<and> p s"
  by (auto dest!: find_SomeD)

lemma inactive_id_Some:
  assumes "inactive_id now g = Some k" and "distinct (keys (rg_sessions g))"
  shows "\<exists>s. map_of (rg_sessions g) k = Some s \<and> \<not> session_active now s"
  using assms by (auto simp: inactive_id_def dest!: find_SomeD)

lemma new_session_id_fresh:
  assumes "new_session_id g n = Some (sid, m)"
  shows "map_of (rg_sessions g) sid = None"
proof -
  have "map_of (rg_sessions g) (fst r) = None" if "new_session_id g n = Some r" for r
    by (rule new_session_id.raw_induct [OF _ that]) (auto split: if_splits)
  with assms show ?thesis by fastforce
qed

lemma validated_principal: "validate_principal_id j = Inr p \<Longrightarrow> principal_ok p"
  by (auto simp: validate_principal_id_def Let_def split: json.splits if_splits)

lemma validated_ttl: "validate_ttl v = Inr x \<Longrightarrow> 0 < x \<and> x \<le> of_int MAX_SESSION_TTL_SECONDS"
  by (auto simp: validate_ttl_def Let_def rbind_eq_Inr split: if_splits)

lemma resolved_now: "resolve_now v clock = Inr x \<Longrightarrow> 0 \<le> x"
  by (auto simp: resolve_now_def Let_def rbind_eq_Inr split: if_splits)

lemma add_session_Some:
  assumes "add_session p r d ttl now g = Some (res, g')"
  obtains s where "res = Inr (public_session_of now s)" "map_of (rg_sessions g) (ss_id s) = None"
    "rg_sessions g' = rg_sessions g @ [(ss_id s, s)]"
    "s = \<lparr>ss_id = ss_id s, ss_principal = p, ss_role = r, ss_digest = d, ss_created = now,
          ss_expires = now + ttl, ss_revoked = None\<rparr>"
proof -
  obtain sid n where n: "new_session_id g (rg_draws g) = Some (sid, n)"
    using assms by (auto simp: add_session_def split: option.splits)
  let ?s = "\<lparr>ss_id = sid, ss_principal = p, ss_role = r, ss_digest = d, ss_created = now,
          ss_expires = now + ttl, ss_revoked = None\<rparr>"
  have free: "map_of (rg_sessions g) sid = None" by (rule new_session_id_fresh [OF n])
  then have "AList.update sid ?s (rg_sessions g) = rg_sessions g @ [(sid, ?s)]"
    by (intro update_fresh) (simp add: map_of_eq_None_iff)
  with n free assms show ?thesis
    by (intro that [of ?s]) (auto simp: add_session_def Let_def)
qed

text \<open>A successful registration: perhaps one inactive session is dropped, then one is added.\<close>

lemma register_session_Inr:
  assumes "register_session pj rj tj tv nv clock g = Some (res, g')" and "distinct (keys (rg_sessions g))"
  obtains (rejected) e where "res = Inl e" "g' = g"
  | (added) p r t ttl now kept s where
      "validate_principal_id pj = Inr p" "validate_role rj = Inr r" "validate_token tj = Inr t"
      "validate_ttl tv = Inr ttl" "resolve_now nv clock = Inr now"
      "\<forall>x\<in>set (vals (rg_sessions g)). ss_digest x \<noteq> token_digest t"
      "kept = rg_sessions g \<and> length kept < MAX_OPERATOR_SESSIONS \<or>
        (\<exists>k x. kept = AList.delete k (rg_sessions g) \<and> map_of (rg_sessions g) k = Some x \<and> \<not> session_active now x)"
      "res = Inr (public_session_of now s)" "map_of kept (ss_id s) = None"
      "rg_sessions g' = kept @ [(ss_id s, s)]"
      "s = \<lparr>ss_id = ss_id s, ss_principal = p, ss_role = r, ss_digest = token_digest t, ss_created = now,
          ss_expires = now + ttl, ss_revoked = None\<rparr>"
proof (cases "\<exists>e. res = Inl e \<and> g' = g")
  case True
  with rejected show ?thesis by blast
next
  case False
  then obtain p r t ttl now where v: "validate_principal_id pj = Inr p" "validate_role rj = Inr r"
      "validate_token tj = Inr t" "validate_ttl tv = Inr ttl" "resolve_now nv clock = Inr now"
    and l: "register_locked p r (token_digest t) ttl now g = Some (res, g')"
    using assms(1) unfolding register_session_def
    by (auto simp: rbind_eq_Inr split: sum.splits prod.splits)
  from False l have d: "\<forall>x\<in>set (vals (rg_sessions g)). ss_digest x \<noteq> token_digest t"
    by (auto simp: register_locked_def list_ex_iff split: if_splits)
  show ?thesis
  proof (cases "length (rg_sessions g) < MAX_OPERATOR_SESSIONS")
    case True
    with l d have "add_session p r (token_digest t) ttl now g = Some (res, g')"
      by (auto simp: register_locked_def list_ex_iff split: if_splits)
    then show ?thesis
      by (rule add_session_Some) (rule added [OF v d, where kept = "rg_sessions g"], use True in simp_all)
  next
    case full: False
    with l d False obtain k where k: "inactive_id now g = Some k"
      and a: "add_session p r (token_digest t) ttl now (g\<lparr>rg_sessions := AList.delete k (rg_sessions g)\<rparr>) = Some (res, g')"
      by (auto simp: register_locked_def list_ex_iff split: if_splits option.splits)
    obtain x where x: "map_of (rg_sessions g) k = Some x" "\<not> session_active now x"
      using inactive_id_Some [OF k assms(2)] by blast
    from a show ?thesis
      by (rule add_session_Some)
        (rule added [OF v d, where kept = "AList.delete k (rg_sessions g)"], use x in auto)
  qed
qed

section \<open>The registry invariant\<close>

lemma registry_ok_empty: "registry_ok (empty_registry h)"
  by (simp add: registry_ok_def empty_registry_def)

lemma registry_ok_delete:
  "registry_ok g \<Longrightarrow> map_of (rg_sessions g) k = Some x \<Longrightarrow>
   registry_ok (g\<lparr>rg_sessions := AList.delete k (rg_sessions g)\<rparr>) \<and>
   length (AList.delete k (rg_sessions g)) < MAX_OPERATOR_SESSIONS"
  using length_delete_less [of "rg_sessions g" k x]
  by (fastforce simp: registry_ok_def AList.delete_eq case_prod_beta' list_all_iff distinct_map
      intro: inj_on_subset)

lemma registry_ok_add:
  assumes "registry_ok (g\<lparr>rg_sessions := kept\<rparr>)" and "map_of kept (ss_id s) = None"
    and "\<forall>x\<in>set (vals kept). ss_digest x \<noteq> ss_digest s" and "session_wf s"
    and "length kept < MAX_OPERATOR_SESSIONS" and "rg_sessions g' = kept @ [(ss_id s, s)]"
  shows "registry_ok g'"
  using assms by (auto simp: registry_ok_def map_of_eq_None_iff image_iff)

lemma registry_ok_register:
  assumes "registry_ok g" and "register_session pj rj tj tv nv clock g = Some (res, g')"
  shows "registry_ok g'"
proof -
  have "distinct (keys (rg_sessions g))" using assms(1) by (simp add: registry_ok_def)
  from assms(2) this show ?thesis
  proof (cases rule: register_session_Inr)
    case (rejected e)
    with assms(1) show ?thesis by simp
  next
    case (added p r t ttl now kept s)
    have wf: "session_wf s"
      using validated_principal [OF added(1)] validated_ttl [OF added(4)] resolved_now [OF added(5)]
      by (subst added(11)) (simp add: session_wf_def)
    have "registry_ok (g\<lparr>rg_sessions := kept\<rparr>) \<and> length kept < MAX_OPERATOR_SESSIONS"
      using added(7) assms(1) registry_ok_delete by (elim disjE) auto
    moreover have "set (vals kept) \<subseteq> set (vals (rg_sessions g))"
      using added(7) set_delete_subset by fastforce
    moreover have "ss_digest s = token_digest t" using added(11) by (metis session.select_convs(4))
    ultimately have "\<forall>x\<in>set (vals kept). ss_digest x \<noteq> ss_digest s" using added(6) by (metis subsetD)
    with \<open>registry_ok (g\<lparr>rg_sessions := kept\<rparr>) \<and> length kept < MAX_OPERATOR_SESSIONS\<close>
    show ?thesis by (intro registry_ok_add [OF _ added(9) _ wf _ added(10)]) auto
  qed
qed

lemma revoke_locked_sessions:
  assumes "revoke_locked sid actor now g = (res, g')"
  shows "g' = g \<or> rg_sessions g' = dmod sid (\<lambda>s. s\<lparr>ss_revoked := Some now\<rparr>) (rg_sessions g)"
  using assms by (auto simp: revoke_locked_def split: option.splits if_splits)

lemma revoke_session_locked:
  assumes "revoke_session sj aj nv clock g = (res, g')"
  obtains e where "res = Inl e" "g' = g"
  | sid actor now where "validate_session_id sj ''session_id'' = Inr sid" "resolve_now nv clock = Inr now"
      "actor = sid \<and> aj = None \<or> (\<exists>a. aj = Some a \<and> validate_session_id a ''actor_session_id'' = Inr actor)"
      "revoke_locked sid actor now g = (res, g')"
  using assms by (cases aj) (auto simp: revoke_session_def rbind_eq_Inr split: sum.splits)

lemma registry_ok_dmod:
  "registry_ok g \<Longrightarrow> rg_sessions g' = dmod k (\<lambda>s. s\<lparr>ss_revoked := r\<rparr>) (rg_sessions g) \<Longrightarrow> registry_ok g'"
  by (auto simp: registry_ok_def dmod_def case_prod_beta' comp_def list_all_iff session_wf_def if_distrib
      cong: if_cong)

lemma registry_ok_reachable: "registry_reachable g \<Longrightarrow> registry_ok g"
proof (induction rule: registry_reachable.induct)
  case (step g g')
  from step.hyps(2) show ?case
  proof cases
    case (register p r t ttl now clock res)
    then show ?thesis using registry_ok_register step.IH by blast
  next
    case (revoke sid actor now clock res)
    then show ?thesis
      by (rule revoke_session_locked) (use step.IH revoke_locked_sessions registry_ok_dmod in blast)+
  qed
qed (rule registry_ok_empty)

section \<open>Matching a token\<close>

lemma matching_fold:
  "fold (\<lambda>s m. if ss_digest s = d then Some s else m) xs m =
     (case filter (\<lambda>s. ss_digest s = d) xs of [] \<Rightarrow> m | ys \<Rightarrow> Some (last ys))"
  by (induction xs arbitrary: m) (auto split: list.split)

lemma matching_session_iff:
  assumes "registry_ok g"
  shows "matching_session d g = Some s \<longleftrightarrow> map_of (rg_sessions g) (ss_id s) = Some s \<and> ss_digest s = d"
proof -
  let ?v = "vals (rg_sessions g)"
  have dist: "distinct (map ss_digest ?v)" and ids: "map ss_id ?v = keys (rg_sessions g)"
    and dk: "distinct (keys (rg_sessions g))"
    using assms by (simp_all add: registry_ok_def)
  have mem: "x \<in> set ?v \<longleftrightarrow> map_of (rg_sessions g) (ss_id x) = Some x" for x
  proof
    assume "x \<in> set ?v"
    then obtain k where k: "(k, x) \<in> set (rg_sessions g)" by auto
    moreover have "ss_id x = k"
      using ids k by (metis (no_types, lifting) fst_conv map_eq_conv map_map o_apply snd_conv)
    ultimately show "map_of (rg_sessions g) (ss_id x) = Some x" using dk by simp
  qed (rule map_of_in_vals)
  have "matching_session d g = Some s \<longleftrightarrow> s \<in> set ?v \<and> ss_digest s = d"
  proof -
    have "length (filter (\<lambda>s. ss_digest s = d) xs) \<le> 1" if "distinct (map ss_digest xs)" for xs
      using that by (induction xs) (auto simp: filter_empty_conv image_iff)
    with dist have one: "length (filter (\<lambda>s. ss_digest s = d) ?v) \<le> 1" by blast
    show ?thesis
    proof (cases "filter (\<lambda>s. ss_digest s = d) ?v")
      case Nil
      then show ?thesis by (auto simp: matching_session_def matching_fold filter_empty_conv)
    next
      case (Cons y ys)
      with one have ys: "filter (\<lambda>s. ss_digest s = d) ?v = [y]" by simp
      then have "set (filter (\<lambda>s. ss_digest s = d) ?v) = {y}" by simp
      then have "{x \<in> set ?v. ss_digest x = d} = {y}" by simp
      then show ?thesis using ys by (auto simp: matching_session_def matching_fold)
    qed
  qed
  with mem show ?thesis by simp
qed

section \<open>The identifier loop\<close>

lemma new_session_id_reaches:
  "map_of (rg_sessions g) (candidate_id g (n + d)) = None \<Longrightarrow> \<exists>r. new_session_id g n = Some r"
proof (induction d arbitrary: n)
  case 0
  then show ?case by (subst new_session_id.simps) simp
next
  case (Suc d)
  then have "\<exists>r. new_session_id g (Suc n) = Some r" by simp
  then show ?case by (subst new_session_id.simps) auto
qed

lemma new_session_id_returns:
  assumes "inj_on (rg_hex g) {n..<n + MAX_OPERATOR_SESSIONS}" and "length (rg_sessions g) < MAX_OPERATOR_SESSIONS"
  shows "\<exists>r. new_session_id g n = Some r"
proof (rule ccontr)
  assume none: "\<nexists>r. new_session_id g n = Some r"
  have "candidate_id g ` {n..<n + MAX_OPERATOR_SESSIONS} \<subseteq> set (keys (rg_sessions g))"
  proof
    fix c assume "c \<in> candidate_id g ` {n..<n + MAX_OPERATOR_SESSIONS}"
    then obtain m where m: "c = candidate_id g m" "n \<le> m" by auto
    with none new_session_id_reaches [of g n "m - n"] show "c \<in> set (keys (rg_sessions g))"
      by (metis le_add_diff_inverse map_of_eq_None_iff set_map)
  qed
  then have "card (candidate_id g ` {n..<n + MAX_OPERATOR_SESSIONS}) \<le> length (keys (rg_sessions g))"
    by (meson List.finite_set card_length card_mono le_trans)
  moreover have "inj_on (candidate_id g) {n..<n + MAX_OPERATOR_SESSIONS}"
    using assms(1) by (auto simp: inj_on_def candidate_id_def)
  ultimately have "MAX_OPERATOR_SESSIONS \<le> length (rg_sessions g)" by (simp add: card_image)
  with assms(2) show False by simp
qed

lemma add_session_returns:
  "\<exists>r. new_session_id g (rg_draws g) = Some r \<Longrightarrow> \<exists>r. add_session p rl d ttl now g = Some r"
  by (auto simp: add_session_def Let_def)

lemma permission_of_str_str [simp]: "permission_of_str (permission_str p) = Some p"
  by (cases p) (simp_all add: permission_of_str_def PERMISSIONS_def ROLES_def)

lemma permission_str_inject [simp]: "permission_str p = permission_str q \<longleftrightarrow> p = q"
  by (metis option.inject permission_of_str_str)

lemma another_key:
  assumes "1 < count_if p (vals d)" and "distinct (keys d)"
  shows "\<exists>j v. map_of d j = Some v \<and> p v \<and> j \<noteq> k"
proof (rule ccontr)
  assume "\<not> ?thesis"
  then have "filter (\<lambda>(j, v). p v) d = filter (\<lambda>(j, v). p v \<and> j = k) d"
    using assms(2) by (intro filter_cong) auto
  moreover have "length (filter (\<lambda>(j, v). p v \<and> j = k) d) \<le> 1"
    using assms(2) by (induction d) (auto simp: filter_empty_conv intro: rev_image_eqI)
  ultimately have "count_if p (vals d) \<le> 1"
    by (simp add: count_if_def filter_map comp_def case_prod_beta')
  with assms(1) show False by simp
qed

section \<open>A concrete registry\<close>

definition demo_hex :: "nat \<Rightarrow> string" where "demo_hex n = pad_nat 24 n"
definition demo_secret :: string where "demo_secret = ''local-admin-session-secret''"

definition demo_registration :: "registry \<Rightarrow> public_session auth_result" where
  "demo_registration = register_session (JStr ''local-admin'') (JStr ''admin'') (JStr demo_secret)
     (IntValue DEFAULT_SESSION_TTL_SECONDS) None 5"

definition demo_session :: session where
  "demo_session = \<lparr>ss_id = ''op-session-000000000000000000000000'', ss_principal = ''local-admin'',
     ss_role = Admin, ss_digest = token_digest demo_secret, ss_created = 5, ss_expires = 28805, ss_revoked = None\<rparr>"

definition demo_registry :: registry where
  "demo_registry = \<lparr>rg_sessions = [(ss_id demo_session, demo_session)], rg_hex = demo_hex, rg_draws = 1\<rparr>"

lemma demo_secret_ok: "token_ok demo_secret"
  by code_simp

lemma demo_registration_result:
  "demo_registration (empty_registry demo_hex) = Some (Inr (public_session_of 5 demo_session), demo_registry)"
proof -
  have v: "validate_principal_id (JStr ''local-admin'') = Inr ''local-admin''" by code_simp
  have r: "validate_role (JStr ''admin'') = Inr Admin" by code_simp
  have t: "validate_ttl (IntValue DEFAULT_SESSION_TTL_SECONDS) = Inr 28800"
    by (simp add: validate_ttl_def Let_def float_overflow_def DEFAULT_SESSION_TTL_SECONDS_def
        MAX_SESSION_TTL_SECONDS_def)
  have c: "session_prefix @ pad_nat 24 0 = ''op-session-000000000000000000000000''" by code_simp
  have l: "(0::nat) < MAX_OPERATOR_SESSIONS" by (simp add: MAX_OPERATOR_SESSIONS_def)
  let ?g = "empty_registry demo_hex"
  have i: "candidate_id ?g 0 = ss_id demo_session"
    by (simp add: candidate_id_def demo_hex_def empty_registry_def c demo_session_def)
  have n: "new_session_id ?g 0 = Some (ss_id demo_session, 1)"
    unfolding i [symmetric] by (subst new_session_id.simps) (simp add: empty_registry_def)
  have "add_session ''local-admin'' Admin (token_digest demo_secret) 28800 5 ?g
      = Some (Inr (public_session_of 5 demo_session), demo_registry)"
    unfolding add_session_def using n
    by (simp add: empty_registry_def Let_def demo_registry_def demo_session_def)
  then have "register_locked ''local-admin'' Admin (token_digest demo_secret) 28800 5 ?g
      = Some (Inr (public_session_of 5 demo_session), demo_registry)"
    using l by (simp add: register_locked_def empty_registry_def)
  then show ?thesis
    unfolding demo_registration_def register_session_def v r t
    by (simp add: validate_token_def demo_secret_ok resolve_now_def)
qed

lemma demo_registry_reachable: "registry_reachable demo_registry"
proof (rule registry_reachable.step [OF registry_reachable.start [of demo_hex]])
  show "registry_step (empty_registry demo_hex) demo_registry"
    using demo_registration_result unfolding demo_registration_def by (rule registry_step.register)
qed

section \<open>Properties\<close>

text \<open>C34: Every registry the operations can reach keeps at most 64 sessions, under their own
  identifiers, with pairwise different token digests, canonical principal identifiers and a positive
  lifetime of at most thirty days.\<close>

theorem registry_invariant:
  assumes "registry_reachable g"
  shows "length (rg_sessions g) \<le> MAX_OPERATOR_SESSIONS \<and> distinct (keys (rg_sessions g)) \<and>
    map ss_id (vals (rg_sessions g)) = keys (rg_sessions g) \<and>
    distinct (map ss_digest (vals (rg_sessions g))) \<and> list_all session_wf (vals (rg_sessions g))"
  using registry_ok_reachable [OF assms] by (simp add: registry_ok_def)

theorem registry_invariant_witness: "list_all session_wf (vals (rg_sessions demo_registry))"
  using registry_invariant [OF demo_registry_reachable] by blast

text \<open>C23: A token authenticates for a permission exactly when some retained session carries its
  digest, is neither revoked nor expired, and has a role that includes the permission; the answer is
  then the public view of that session.\<close>

theorem authenticate_exact:
  assumes "registry_reachable g" and "0 \<le> now"
  shows "authenticate (JStr t) (Some (permission_str p)) (Some (FloatValue now)) clock g = Inr (Some ps) \<longleftrightarrow>
    token_ok t \<and> (\<exists>sid s. map_of (rg_sessions g) sid = Some s \<and> ss_digest s = token_digest t \<and>
      ss_revoked s = None \<and> now < ss_expires s \<and> p \<in> set (ROLE_PERMISSIONS (ss_role s)) \<and>
      ps = public_session_of now s)"
proof -
  have ok: "registry_ok g" by (rule registry_ok_reachable [OF assms(1)])
  have own: "sid = ss_id s" if "map_of (rg_sessions g) sid = Some s" for sid s
  proof -
    have "map ss_id (vals (rg_sessions g)) = keys (rg_sessions g)" using ok by (simp add: registry_ok_def)
    then have "\<forall>x\<in>set (rg_sessions g). ss_id (snd x) = fst x" by simp
    with map_of_SomeD [OF that] show ?thesis by fastforce
  qed
  have "authenticate (JStr t) (Some (permission_str p)) (Some (FloatValue now)) clock g = Inr (Some ps) \<longleftrightarrow>
      token_ok t \<and> (\<exists>s. matching_session (token_digest t) g = Some s \<and> session_active now s \<and>
        p \<in> set (ROLE_PERMISSIONS (ss_role s)) \<and> ps = public_session_of now s)"
    using assms(2) by (auto simp: authenticate_def resolve_now_def Let_def image_iff split: option.split)
  then show ?thesis
    using own unfolding matching_session_iff [OF ok] session_active_def by blast
qed

theorem authenticate_exact_witness:
  "authenticate (JStr demo_secret) (Some ''reset'') (Some (FloatValue 6)) 0 demo_registry
     = Inr (Some (public_session_of 6 demo_session))"
  using authenticate_exact [OF demo_registry_reachable, of 6 demo_secret ResetPermission 0
      "public_session_of 6 demo_session"] demo_secret_ok
  by (simp add: demo_registry_def demo_session_def)

lemma other_admin_stays:
  assumes "rg_sessions g' = dmod sid f (rg_sessions g)"
    and "map_of (rg_sessions g) k = Some s" and "active_admin now s" and "k \<noteq> sid"
  shows "\<exists>s\<in>set (vals (rg_sessions g')). active_admin now s"
proof -
  have "map_of (rg_sessions g') k = Some s" using assms by simp
  with assms(3) show ?thesis using map_of_in_vals by fast
qed

text \<open>An effective revocation: the actor is active, may revoke, and is not the last administrator
  when it revokes itself.\<close>

lemma revoke_locked_effect:
  assumes "revoke_locked sid actor now g = (res, g')" and "g' \<noteq> g"
  obtains target a where "map_of (rg_sessions g) sid = Some target" "map_of (rg_sessions g) actor = Some a"
    "session_active now a" "actor \<noteq> sid \<Longrightarrow> OperatorAdmin \<in> set (ROLE_PERMISSIONS (ss_role a))"
    "actor = sid \<Longrightarrow> ss_role target = Admin \<Longrightarrow> 1 < count_if (active_admin now) (vals (rg_sessions g))"
    "rg_sessions g' = dmod sid (\<lambda>s. s\<lparr>ss_revoked := Some now\<rparr>) (rg_sessions g)"
proof -
  have "rg_sessions g' = dmod sid (\<lambda>s. s\<lparr>ss_revoked := Some now\<rparr>) (rg_sessions g)"
    using revoke_locked_sessions [OF assms(1)] assms(2) by auto
  then show ?thesis
    using that assms by (auto simp: revoke_locked_def split: option.splits if_splits)
qed

lemma revoke_locked_keeps_admin:
  assumes "distinct (keys (rg_sessions g))" and "revoke_locked sid actor now g = (res, g')" and "g' \<noteq> g"
    and "\<exists>s\<in>set (vals (rg_sessions g)). active_admin now s"
  shows "\<exists>s\<in>set (vals (rg_sessions g')). active_admin now s"
  using assms(2,3)
proof (rule revoke_locked_effect)
  fix target a
  assume t: "map_of (rg_sessions g) sid = Some target" and a: "map_of (rg_sessions g) actor = Some a"
    and act: "session_active now a" and perm: "actor \<noteq> sid \<Longrightarrow> OperatorAdmin \<in> set (ROLE_PERMISSIONS (ss_role a))"
    and last: "actor = sid \<Longrightarrow> ss_role target = Admin \<Longrightarrow> 1 < count_if (active_admin now) (vals (rg_sessions g))"
    and "rg_sessions g' = dmod sid (\<lambda>s. s\<lparr>ss_revoked := Some now\<rparr>) (rg_sessions g)"
  note keep = other_admin_stays [OF this(6)]
  show ?thesis
  proof (cases "actor = sid")
    case False
    with perm have "ss_role a = Admin" by (cases "ss_role a") auto
    with keep [OF a] act False show ?thesis by (simp add: active_admin_def)
  next
    case self: True
    show ?thesis
    proof (cases "ss_role target = Admin")
      case True
      show ?thesis using another_key [OF last [OF self True] assms(1)] keep by blast
    next
      case False
      obtain k s where "map_of (rg_sessions g) k = Some s" "active_admin now s"
        using assms(1,4) by (auto intro: map_of_is_SomeI)
      moreover from this t False have "k \<noteq> sid" by (auto simp: active_admin_def)
      ultimately show ?thesis using keep by blast
    qed
  qed
qed

text \<open>C24: Revoking never leaves the laboratory without an active administrator: when an
  administrator session is active at the instant of a revocation, one is still active after it, even
  when an administrator revokes itself or another administrator.\<close>

theorem revoke_keeps_admin:
  assumes "registry_reachable g" and "revoke_session sj aj nv clock g = (res, g')"
    and "resolve_now nv clock = Inr now" and "\<exists>s\<in>set (vals (rg_sessions g)). active_admin now s"
  shows "\<exists>s\<in>set (vals (rg_sessions g')). active_admin now s"
  using assms(2)
proof (rule revoke_session_locked)
  fix sid actor now' assume now': "resolve_now nv clock = Inr now'" and l: "revoke_locked sid actor now' g = (res, g')"
  have "distinct (keys (rg_sessions g))" using registry_ok_reachable [OF assms(1)] by (simp add: registry_ok_def)
  from revoke_locked_keeps_admin [OF this l] show ?thesis using assms(3,4) now' by (cases "g' = g") auto
qed (use assms(4) in simp)

theorem revoke_keeps_admin_witness:
  "\<exists>s\<in>set (vals (rg_sessions (snd (revoke_session (JStr (ss_id demo_session)) None None 6 demo_registry)))).
     active_admin 6 s"
  by (rule revoke_keeps_admin [OF demo_registry_reachable prod.collapse [symmetric]])
    (simp_all add: resolve_now_def demo_registry_def active_admin_def session_active_def demo_session_def)

text \<open>Registering a session never displaces an active one: whatever the outcome, a session
  that is active at the instant of the registration is still retained, unchanged.\<close>

theorem registration_keeps_active:
  assumes "registry_reachable g" and "register_session pj rj tj tv nv clock g = Some (res, g')"
    and "resolve_now nv clock = Inr now" and "map_of (rg_sessions g) k = Some s" and "session_active now s"
  shows "map_of (rg_sessions g') k = Some s"
proof -
  have "distinct (keys (rg_sessions g))"
    using registry_ok_reachable [OF assms(1)] by (simp add: registry_ok_def)
  from assms(2) this show ?thesis
  proof (cases rule: register_session_Inr)
    case (added p r t ttl now' kept new)
    have "now' = now" using added(5) assms(3) by simp
    with added(7) assms(4,5) have "map_of kept k = Some s" by (auto simp: delete_conv')
    with added(10) show ?thesis by (simp add: map_add_Some_iff)
  qed (use assms(4) in simp)
qed

theorem registration_keeps_active_witness:
  "\<exists>res g'. register_session (JStr ''Bad Name'') (JStr ''viewer'') JNull NaNValue None 6 demo_registry = Some (res, g') \<and>
     map_of (rg_sessions g') (ss_id demo_session) = Some demo_session"
proof -
  obtain e where "register_session (JStr ''Bad Name'') (JStr ''viewer'') JNull NaNValue None 6 demo_registry
      = Some (Inl e, demo_registry)"
    by (simp add: register_session_def validate_principal_id_def principal_ok_def lower_letters_def
        MIN_PRINCIPAL_ID_LENGTH_def)
  with registration_keeps_active [OF demo_registry_reachable this, of 6 "ss_id demo_session" demo_session]
  show ?thesis
    by (simp add: resolve_now_def demo_registry_def session_active_def demo_session_def)
qed



end
