(* ===== verification/Observability.thy ===== *)
theory Observability
  imports Auth
begin

text \<open>
  \<open>c2lab/observability.py\<close>: the labels of request paths and the aggregate request counters.  A
  \<open>Counter\<close> is a dictionary of counts; durations are rational numbers (rounding of float additions
  is not modelled).
\<close>

section \<open>Route labels\<close>

definition EXACT_ROUTES :: "string list" where
  "EXACT_ROUTES =
    [''/'', ''/index.html'', ''/static/app.js'', ''/static/styles.css'', ''/healthz'', ''/readyz'',
     ''/lab/session'', ''/lab/sync'', ''/lab/overview'', ''/lab/nodes'', ''/lab/tasks'',
     ''/lab/operations'', ''/lab/scenarios'', ''/lab/exercises'', ''/lab/notes'', ''/lab/events'',
     ''/lab/audit'', ''/lab/report'', ''/lab/metrics'', ''/lab/operators'', ''/lab/reset'',
     ''/node/v1/enroll'', ''/node/v1/poll'', ''/node/v1/disconnect'']"

definition path_parts :: "string \<Rightarrow> string list" where
  "path_parts path = py_split (CHR ''/'') (strip_char (CHR ''/'') path)"

definition is_result_path :: "string list \<Rightarrow> bool" where
  "is_result_path parts \<longleftrightarrow> length parts = 5 \<and> take 3 parts = [''node'', ''v1'', ''tasks''] \<and> parts ! 4 = ''result''"

text \<open>\<open>/lab/<collection>/<id>/<verb>\<close>\<close>

definition is_lab_path :: "string \<Rightarrow> string \<Rightarrow> string list \<Rightarrow> bool" where
  "is_lab_path collection verb parts \<longleftrightarrow>
     length parts = 4 \<and> take 2 parts = [''lab'', collection] \<and> parts ! 3 = verb"

definition normalized_route :: "json \<Rightarrow> string" where
  "normalized_route value = (case value of
      JStr path \<Rightarrow>
        if path \<in> set EXACT_ROUTES then path
        else (let parts = path_parts path in
          if is_result_path parts then ''/node/v1/tasks/:task_id/result''
          else if is_lab_path ''tasks'' ''cancel'' parts then ''/lab/tasks/:task_id/cancel''
          else if is_lab_path ''operators'' ''revoke'' parts then ''/lab/operators/:session_id/revoke''
          else if is_lab_path ''exercises'' ''contain'' parts then ''/lab/exercises/:exercise_id/contain''
          else ''unmatched'')
    | _ \<Rightarrow> ''unmatched'')"

section \<open>Counters\<close>

type_synonym counter = "nat dict"

definition bump :: "string \<Rightarrow> counter \<Rightarrow> counter" where
  "bump k c = AList.update k (Suc (case map_of c k of Some n \<Rightarrow> n | None \<Rightarrow> 0)) c"

record metrics =
  m_started :: rat
  m_requests :: nat
  m_rejections :: nat
  m_log_drops :: nat
  m_methods :: counter
  m_routes :: counter
  m_statuses :: counter
  m_total_ms :: rat
  m_max_ms :: rat

definition new_metrics :: "rat \<Rightarrow> metrics" where
  "new_metrics clock = \<lparr>m_started = clock, m_requests = 0, m_rejections = 0, m_log_drops = 0,
     m_methods = [], m_routes = [], m_statuses = [], m_total_ms = 0, m_max_ms = 0\<rparr>"

definition method_label :: "string \<Rightarrow> string" where
  "method_label m = (if m \<in> {''GET'', ''POST''} then m else ''OTHER'')"

definition status_label :: "int \<Rightarrow> string" where
  "status_label st = (if 100 \<le> st \<and> st \<le> 599 then int_str (st div 100) @ ''xx'' else ''other'')"

text \<open>\<open>float(duration_ms)\<close> where it raises \<open>TypeError\<close> or \<open>ValueError\<close> (\<open>OtherValue\<close>), is not
  finite or is negative counts as zero; the \<open>OverflowError\<close> of a huge integer is not caught.\<close>

definition safe_duration :: "number \<Rightarrow> auth_error + rat" where
  "safe_duration d = (case d of
      IntValue i \<Rightarrow> if float_overflow i then Inl (AuthCrash ''OverflowError'') else Inr (if i \<ge> 0 then of_int i else 0)
    | FloatValue x \<Rightarrow> Inr (if x \<ge> 0 then x else 0)
    | _ \<Rightarrow> Inr 0)"

definition record_request :: "string \<Rightarrow> json \<Rightarrow> int \<Rightarrow> number \<Rightarrow> metrics \<Rightarrow> auth_error + metrics" where
  "record_request verb route st duration m =
     rbind (safe_duration duration) (\<lambda>d. Inr (m\<lparr>m_requests := Suc (m_requests m),
       m_methods := bump (method_label verb) (m_methods m),
       m_routes := bump (normalized_route route) (m_routes m),
       m_statuses := bump (status_label st) (m_statuses m),
       m_total_ms := m_total_ms m + d, m_max_ms := max (m_max_ms m) d\<rparr>))"

definition record_worker_rejection :: "metrics \<Rightarrow> metrics" where
  "record_worker_rejection m = m\<lparr>m_rejections := Suc (m_rejections m)\<rparr>"

definition record_access_log_drop :: "metrics \<Rightarrow> metrics" where
  "record_access_log_drop m = m\<lparr>m_log_drops := Suc (m_log_drops m)\<rparr>"

record metrics_snapshot =
  ms_uptime :: rat
  ms_requests :: nat
  ms_rejections :: nat
  ms_log_drops :: nat
  ms_methods :: counter
  ms_routes :: counter
  ms_statuses :: counter
  ms_average :: rat
  ms_maximum :: rat

definition metrics_snapshot_of :: "rat \<Rightarrow> metrics \<Rightarrow> metrics_snapshot" where
  "metrics_snapshot_of clock m =
    \<lparr>ms_uptime = max 0 (clock - m_started m), ms_requests = m_requests m, ms_rejections = m_rejections m,
     ms_log_drops = m_log_drops m, ms_methods = sort_key fst (m_methods m),
     ms_routes = sort_key fst (m_routes m), ms_statuses = sort_key fst (m_statuses m),
     ms_average = round3 (if m_requests m \<noteq> 0 then m_total_ms m / of_nat (m_requests m) else 0),
     ms_maximum = round3 (m_max_ms m)\<rparr>"

section \<open>Labels are few\<close>

definition ROUTE_LABELS :: "string list" where
  "ROUTE_LABELS = EXACT_ROUTES @ [''/node/v1/tasks/:task_id/result'', ''/lab/tasks/:task_id/cancel'',
     ''/lab/operators/:session_id/revoke'', ''/lab/exercises/:exercise_id/contain'', ''unmatched'']"

definition METHOD_LABELS :: "string list" where "METHOD_LABELS = [''GET'', ''POST'', ''OTHER'']"
definition STATUS_LABELS :: "string list" where
  "STATUS_LABELS = [''1xx'', ''2xx'', ''3xx'', ''4xx'', ''5xx'', ''other'']"

lemma normalized_route_label: "normalized_route v \<in> set ROUTE_LABELS"
  by (auto simp: normalized_route_def ROUTE_LABELS_def Let_def split: json.split)

lemma method_label_in: "method_label m \<in> set METHOD_LABELS"
  by (simp add: method_label_def METHOD_LABELS_def)

lemma status_label_in: "status_label st \<in> set STATUS_LABELS"
proof (cases "100 \<le> st \<and> st \<le> 599")
  case True
  then have "st div 100 \<in> {1, 2, 3, 4, 5}" by auto
  moreover have "int_str 1 = ''1''" "int_str 2 = ''2''" "int_str 3 = ''3''" "int_str 4 = ''4''" "int_str 5 = ''5''"
    by code_simp+
  ultimately show ?thesis using True by (auto simp: status_label_def STATUS_LABELS_def)
qed (auto simp: status_label_def STATUS_LABELS_def)

definition total_count :: "counter \<Rightarrow> nat" where
  "total_count c = sum_list (vals c)"

lemma total_count_update:
  "total_count (AList.update k v c) + (case map_of c k of Some n \<Rightarrow> n | None \<Rightarrow> 0) = total_count c + v"
  by (induction c) (auto simp: total_count_def split: option.splits)

lemma total_count_bump [simp]: "total_count (bump k c) = Suc (total_count c)"
  using total_count_update [of k "Suc (case map_of c k of Some n \<Rightarrow> n | None \<Rightarrow> 0)" c] by (simp add: bump_def)

lemma keys_bump: "set (keys (bump k c)) = insert k (set (keys c))"
  by (induction c) (auto simp: bump_def)

lemma distinct_bump: "distinct (keys c) \<Longrightarrow> distinct (keys (bump k c))"
  by (simp add: bump_def distinct_keys_update)

section \<open>The counters agree\<close>

inductive metrics_step :: "metrics \<Rightarrow> metrics \<Rightarrow> bool" where
  request: "record_request verb route st d m = Inr m' \<Longrightarrow> metrics_step m m'"
| rejection: "metrics_step m (record_worker_rejection m)"
| drop: "metrics_step m (record_access_log_drop m)"

inductive metrics_reachable :: "metrics \<Rightarrow> bool" where
  start: "metrics_reachable (new_metrics clock)"
| step: "metrics_reachable m \<Longrightarrow> metrics_step m m' \<Longrightarrow> metrics_reachable m'"

definition metrics_ok :: "metrics \<Rightarrow> bool" where
  "metrics_ok m \<longleftrightarrow>
     total_count (m_methods m) = m_requests m \<and> total_count (m_routes m) = m_requests m \<and>
     total_count (m_statuses m) = m_requests m \<and>
     set (keys (m_methods m)) \<subseteq> set METHOD_LABELS \<and> set (keys (m_routes m)) \<subseteq> set ROUTE_LABELS \<and>
     set (keys (m_statuses m)) \<subseteq> set STATUS_LABELS \<and>
     distinct (keys (m_methods m)) \<and> distinct (keys (m_routes m)) \<and> distinct (keys (m_statuses m)) \<and>
     0 \<le> m_max_ms m \<and> 0 \<le> m_total_ms m \<and> m_total_ms m \<le> of_nat (m_requests m) * m_max_ms m"

lemma metrics_ok_request: "metrics_ok m \<Longrightarrow> record_request verb route st d m = Inr m' \<Longrightarrow> metrics_ok m'"
proof -
  assume ok: "metrics_ok m" and "record_request verb route st d m = Inr m'"
  then obtain x where x: "safe_duration d = Inr x" and m': "m' = m\<lparr>m_requests := Suc (m_requests m),
       m_methods := bump (method_label verb) (m_methods m),
       m_routes := bump (normalized_route route) (m_routes m),
       m_statuses := bump (status_label st) (m_statuses m),
       m_total_ms := m_total_ms m + x, m_max_ms := max (m_max_ms m) x\<rparr>"
    by (auto simp: record_request_def rbind_eq_Inr)
  have x0: "0 \<le> x" using x by (auto simp: safe_duration_def split: number.splits if_splits)
  have "m_total_ms m + x \<le> of_nat (m_requests m) * max (m_max_ms m) x + max (m_max_ms m) x"
  proof (rule add_mono)
    have "of_nat (m_requests m) * m_max_ms m \<le> of_nat (m_requests m) * max (m_max_ms m) x"
      by (intro mult_left_mono) auto
    with ok show "m_total_ms m \<le> of_nat (m_requests m) * max (m_max_ms m) x" by (simp add: metrics_ok_def)
  qed simp
  with ok x0 show ?thesis
    unfolding metrics_ok_def m'
    by (simp add: keys_bump distinct_bump normalized_route_label method_label_in status_label_in
        algebra_simps del: set_map)
qed

lemma metrics_ok_reachable: "metrics_reachable m \<Longrightarrow> metrics_ok m"
proof (induction rule: metrics_reachable.induct)
  case (start clock)
  then show ?case by (simp add: metrics_ok_def new_metrics_def total_count_def)
next
  case (step m m')
  from step.hyps(2) show ?case
  proof cases
    case (request verb route st d)
    with step.IH show ?thesis by (rule metrics_ok_request)
  qed (use step.IH in \<open>simp_all add: record_worker_rejection_def record_access_log_drop_def metrics_ok_def\<close>)
qed

section \<open>Properties\<close>

text \<open>A request path, whatever the caller sends, is recorded under one of 29 fixed labels, and a
  label is its own label: the path of a request is never retained.\<close>

theorem route_labels_fixed:
  "normalized_route v \<in> set ROUTE_LABELS \<and> length ROUTE_LABELS = 29 \<and>
   normalized_route (JStr (normalized_route v)) = normalized_route v"
proof -
  have "list_all (\<lambda>l. normalized_route (JStr l) = l) ROUTE_LABELS" by code_simp
  then have "normalized_route (JStr l) = l" if "l \<in> set ROUTE_LABELS" for l
    using that unfolding list_all_iff by blast
  moreover have "length ROUTE_LABELS = 29" by (simp add: ROUTE_LABELS_def EXACT_ROUTES_def)
  ultimately show ?thesis using normalized_route_label by blast
qed

text \<open>In every reachable state of the request metrics the three breakdowns add up to the number
  of requests, their labels are among the fixed ones, and the average duration is at most the
  maximum.\<close>

theorem metrics_consistent:
  assumes "metrics_reachable m"
  shows "total_count (m_methods m) = m_requests m \<and> total_count (m_routes m) = m_requests m \<and>
    total_count (m_statuses m) = m_requests m \<and> set (keys (m_routes m)) \<subseteq> set ROUTE_LABELS \<and>
    length (m_methods m) \<le> 3 \<and> length (m_routes m) \<le> 29 \<and> length (m_statuses m) \<le> 6 \<and>
    m_total_ms m / of_nat (m_requests m) \<le> m_max_ms m"
proof -
  have ok: "metrics_ok m" by (rule metrics_ok_reachable [OF assms])
  have bound: "length c \<le> length ls" if "distinct (keys c)" "set (keys c) \<subseteq> set ls" for c :: counter and ls
    using that by (metis List.finite_set card_length card_mono distinct_card le_trans length_map)
  have "length (m_methods m) \<le> length METHOD_LABELS" "length (m_routes m) \<le> length ROUTE_LABELS"
    "length (m_statuses m) \<le> length STATUS_LABELS"
    using ok by (simp_all add: metrics_ok_def bound del: set_map)
  moreover have "m_total_ms m / of_nat (m_requests m) \<le> m_max_ms m"
    using ok by (cases "m_requests m = 0") (auto simp: metrics_ok_def field_simps)
  ultimately show ?thesis
    using ok by (simp add: metrics_ok_def METHOD_LABELS_def ROUTE_LABELS_def EXACT_ROUTES_def STATUS_LABELS_def)
qed

definition demo_metrics :: metrics where
  "demo_metrics = (case record_request ''PUT'' (JStr ''/lab/tasks/task-1/cancel'') 404 (FloatValue 2) (new_metrics 0) of
     Inr m \<Rightarrow> m | Inl _ \<Rightarrow> new_metrics 0)"

theorem metrics_consistent_witness: "total_count (m_routes demo_metrics) = m_requests demo_metrics"
proof -
  have "metrics_reachable demo_metrics"
    unfolding demo_metrics_def
    by (auto split: sum.split intro: metrics_reachable.intros metrics_step.intros)
  from metrics_consistent [OF this] show ?thesis by simp
qed

end
