(* ===== verification/Workspace.thy ===== *)
theory Workspace
  imports Playbook_Result
begin

text \<open>
  \<open>EphemeralLabWorkspace\<close> of \<open>c2lab/lab_runtime.py\<close>: the Node's private temporary directory and
  the four playbooks that run in it.  The operating system is explicit: \<open>filesystem\<close> holds the root
  directory with its entries and the files behind them, identified by device and inode number, so
  that a file another process puts there, links, replaces or removes is visible to the checks of the
  source.  Not modelled: a full disk, and the reuse of an inode number.
\<close>

section \<open>The directory and its files\<close>

type_synonym file_id = "nat \<times> nat"

datatype entry_kind = RegularFile | SymbolicLink | DirectoryEntry

record dir_entry =
  de_kind :: entry_kind
  de_file :: file_id

record file_data =
  fd_links :: nat
  fd_bytes :: string

record filesystem =
  fs_root_link :: bool
  fs_root_dir :: bool
  fs_root_real :: string
  fs_entries :: "dir_entry dict"
  fs_files :: "(file_id \<times> file_data) list"
  fs_next :: file_id
  fs_read_only :: bool

record handle =
  h_file :: file_id
  h_open :: bool

text \<open>\<open>ws_names\<close> is the random part \<open>tempfile\<close> puts between prefix and suffix: it is given the
  names present, which it avoids.\<close>

record workspace =
  ws_root_real :: string
  ws_closed :: bool
  ws_artifacts :: "string dict"
  ws_handles :: "handle dict"
  ws_fs :: filesystem
  ws_names :: "string list \<Rightarrow> string \<Rightarrow> string \<Rightarrow> string"

datatype workspace_error = RuntimeFailure runtime_error | OsFailure string

abbreviation safety_error :: workspace_error where
  "safety_error \<equiv> RuntimeFailure WorkspaceSafetyError"

type_synonym 'a ws_result = "(workspace_error + 'a) \<times> workspace"

fun wbind :: "'a ws_result \<Rightarrow> ('a \<Rightarrow> workspace \<Rightarrow> 'b ws_result) \<Rightarrow> 'b ws_result" where
  "wbind (Inl e, w) f = (Inl e, w)"
| "wbind (Inr x, w) f = f x w"

definition wguard :: "bool \<Rightarrow> workspace_error \<Rightarrow> workspace \<Rightarrow> unit ws_result" where
  "wguard b e w = ((if b then Inr () else Inl e), w)"

section \<open>Checks\<close>

definition require_open :: "workspace \<Rightarrow> unit ws_result" where
  "require_open w = wguard (\<not> ws_closed w)
     (RuntimeFailure (LabRuntimeError ''ephemeral workspace is closed'' ''workspace_closed'')) w"

definition root_ok :: "workspace \<Rightarrow> bool" where
  "root_ok w \<longleftrightarrow> \<not> ws_closed w \<and> \<not> fs_root_link (ws_fs w) \<and> fs_root_dir (ws_fs w) \<and>
     fs_root_real (ws_fs w) = ws_root_real w"

text \<open>\<open>_safe_member_path\<close>: a plain name the workspace holds a handle for, present in the directory
  and not a symbolic link.  The real path of such an entry lies below the real root, so the
  \<open>commonpath\<close> comparison adds nothing once the root has been checked.\<close>

definition plain_name :: "string \<Rightarrow> bool" where
  "plain_name m \<longleftrightarrow> m \<noteq> ''.'' \<and> m \<noteq> ''..'' \<and> list_all (\<lambda>c. c \<noteq> CHR ''/'' \<and> c \<noteq> CHR 0x5C) m"

definition safe_member :: "workspace \<Rightarrow> string \<Rightarrow> bool" where
  "safe_member w m \<longleftrightarrow> root_ok w \<and> map_of (ws_handles w) m \<noteq> None \<and> plain_name m \<and>
     (case map_of (fs_entries (ws_fs w)) m of None \<Rightarrow> False | Some e \<Rightarrow> de_kind e \<noteq> SymbolicLink)"

definition file_of :: "workspace \<Rightarrow> file_id \<Rightarrow> file_data option" where
  "file_of w i = map_of (fs_files (ws_fs w)) i"

text \<open>One turn of the loop of \<open>_assert_workspace\<close>: the size of the entry's file.\<close>

definition check_entry :: "workspace \<Rightarrow> string \<times> dir_entry \<Rightarrow> workspace_error + nat" where
  "check_entry w ne = (case ne of (m, e) \<Rightarrow>
     if \<not> safe_member w m then Inl safety_error
     else (case map_of (ws_handles w) m of
         None \<Rightarrow> Inl safety_error
       | Some h \<Rightarrow>
           if \<not> h_open h \<or> de_kind e \<noteq> RegularFile then Inl safety_error
           else (case (file_of w (de_file e), file_of w (h_file h)) of
               (Some fe, Some fh) \<Rightarrow>
                 if de_file e \<noteq> h_file h \<or> fd_links fe \<noteq> 1 \<or> fd_links fh \<noteq> 1 \<or>
                   length (fd_bytes fh) > MAX_ARTIFACT_BYTES
                 then Inl safety_error else Inr (length (fd_bytes fh))
             | _ \<Rightarrow> Inl (OsFailure ''FileNotFoundError''))))"

fun check_entries_from :: "workspace \<Rightarrow> nat \<Rightarrow> (string \<times> dir_entry) list \<Rightarrow> workspace_error + nat" where
  "check_entries_from w acc [] = Inr acc"
| "check_entries_from w acc (e # es) =
     rbind (check_entry w e) (\<lambda>n. check_entries_from w (acc + n) es)"

definition assert_workspace :: "workspace \<Rightarrow> unit ws_result" where
  "assert_workspace w =
    (let entries = fs_entries (ws_fs w) in
     if \<not> root_ok w then (Inl safety_error, w)
     else if length entries > MAX_WORKSPACE_FILES \<or> set (keys entries) \<noteq> set (keys (ws_handles w))
     then (Inl safety_error, w)
     else (case check_entries_from w 0 entries of
         Inl e \<Rightarrow> (Inl e, w)
       | Inr sz \<Rightarrow> wguard (sz \<le> MAX_WORKSPACE_BYTES) safety_error w))"

section \<open>Members\<close>

definition member_chars :: string where
  "member_chars = ''abcdefghijklmnopqrstuvwxyzABCDEFGHIJKLMNOPQRSTUVWXYZ0123456789._-''"

definition member_ok :: "string \<Rightarrow> bool" where
  "member_ok m \<longleftrightarrow> py_isascii m \<and> m \<noteq> [] \<and> list_all (\<lambda>c. c \<in> set member_chars) m"

text \<open>\<open>sum(os.fstat(handle.fileno()).st_size ...)\<close>; a closed handle raises \<open>ValueError\<close>.\<close>

fun handle_sizes :: "workspace \<Rightarrow> handle list \<Rightarrow> workspace_error + nat" where
  "handle_sizes w [] = Inr 0"
| "handle_sizes w (h # hs) =
     (if \<not> h_open h then Inl (OsFailure ''ValueError'')
      else (case file_of w (h_file h) of
          None \<Rightarrow> Inl (OsFailure ''OSError'')
        | Some f \<Rightarrow> rbind (handle_sizes w hs) (\<lambda>n. Inr (length (fd_bytes f) + n))))"

definition delete_entry :: "string \<Rightarrow> workspace \<Rightarrow> workspace" where
  "delete_entry m w =
    (let fs = ws_fs w;
         fs' = fs\<lparr>fs_entries := AList.delete m (fs_entries fs)\<rparr>
     in w\<lparr>ws_fs := (case map_of (fs_entries fs) m of
          None \<Rightarrow> fs'
        | Some e \<Rightarrow> fs'\<lparr>fs_files := dmod (de_file e) (\<lambda>f. f\<lparr>fd_links := fd_links f - 1\<rparr>) (fs_files fs)\<rparr>)\<rparr>)"

text \<open>\<open>NamedTemporaryFile\<close>, \<open>write\<close> and \<open>flush\<close>: a new regular file with one link.\<close>

definition write_file :: "string \<Rightarrow> string \<Rightarrow> workspace \<Rightarrow> workspace" where
  "write_file m contents w =
    (let fs = ws_fs w; i = fs_next fs in
     w\<lparr>ws_fs := fs\<lparr>fs_entries := fs_entries fs @ [(m, \<lparr>de_kind = RegularFile, de_file = i\<rparr>)],
         fs_files := (i, \<lparr>fd_links = 1, fd_bytes = contents\<rparr>) # fs_files fs,
         fs_next := (fst i, Suc (snd i))\<rparr>\<rparr>)"

definition close_handle :: "string \<Rightarrow> workspace \<Rightarrow> workspace" where
  "close_handle m w = w\<lparr>ws_handles := dmod m (\<lambda>h. h\<lparr>h_open := False\<rparr>) (ws_handles w)\<rparr>"

definition track_member :: "string \<Rightarrow> string \<Rightarrow> file_id \<Rightarrow> workspace \<Rightarrow> workspace" where
  "track_member logical m i w = w\<lparr>ws_artifacts := AList.update logical m (ws_artifacts w),
     ws_handles := AList.update m \<lparr>h_file = i, h_open = True\<rparr> (ws_handles w)\<rparr>"

definition create_member :: "string \<Rightarrow> string \<Rightarrow> string \<Rightarrow> string \<Rightarrow> workspace \<Rightarrow> unit ws_result" where
  "create_member logical pre suf contents w =
     wbind (require_open w) (\<lambda>_ w.
     if \<not> root_ok w then (Inl safety_error, w)
     else if map_of (ws_artifacts w) logical \<noteq> None \<or> length (ws_artifacts w) \<ge> MAX_WORKSPACE_FILES \<or>
       length contents > MAX_ARTIFACT_BYTES then (Inl safety_error, w)
     else (case handle_sizes w (vals (ws_handles w)) of
         Inl e \<Rightarrow> (Inl e, w)
       | Inr current \<Rightarrow>
           if current + length contents > MAX_WORKSPACE_BYTES then (Inl safety_error, w)
           else if fs_read_only (ws_fs w) then (Inl (OsFailure ''OSError''), w)
           else
             let m = pre @ ws_names w (keys (fs_entries (ws_fs w))) pre suf @ suf;
                 i = fs_next (ws_fs w);
                 w' = write_file m contents w
             in if \<not> member_ok m then (Inl safety_error, delete_entry m w')
                else
                  let w' = track_member logical m i w'
                  in if safe_member w' m then (Inr (), w')
                     else (Inl safety_error, delete_entry m (close_handle m w'))))"

definition read_artifact :: "string \<Rightarrow> workspace \<Rightarrow> string ws_result" where
  "read_artifact logical w = (case map_of (ws_artifacts w) logical of
      None \<Rightarrow> (Inl safety_error, w)
    | Some m \<Rightarrow>
        if \<not> safe_member w m then (Inl safety_error, w)
        else (case map_of (ws_handles w) m of
            None \<Rightarrow> (Inl (OsFailure ''KeyError''), w)
          | Some h \<Rightarrow>
              if \<not> h_open h then (Inl (OsFailure ''ValueError''), w)
              else (case file_of w (h_file h) of
                  None \<Rightarrow> (Inl (OsFailure ''OSError''), w)
                | Some f \<Rightarrow>
                    if length (take (MAX_ARTIFACT_BYTES + 1) (fd_bytes f)) > MAX_ARTIFACT_BYTES
                    then (Inl safety_error, w)
                    else (Inr (take (MAX_ARTIFACT_BYTES + 1) (fd_bytes f)), w))))"

definition remove_artifact :: "string \<Rightarrow> workspace \<Rightarrow> bool ws_result" where
  "remove_artifact logical w = (case map_of (ws_artifacts w) logical of
      None \<Rightarrow> (Inr False, w)
    | Some m \<Rightarrow>
        if \<not> safe_member w m then (Inl safety_error, w)
        else
          let w = close_handle m w
          in if fs_read_only (ws_fs w) \<or> (case map_of (fs_entries (ws_fs w)) m of
                 Some e \<Rightarrow> de_kind e \<noteq> RegularFile | None \<Rightarrow> True)
             then (Inl (RuntimeFailure (LabRuntimeError ''lab artifact cleanup failed'' ''artifact_failure'')), w)
             else (Inr True, (delete_entry m w)\<lparr>ws_handles := AList.delete m (ws_handles w),
                    ws_artifacts := AList.delete logical (ws_artifacts w)\<rparr>))"

section \<open>Playbooks\<close>

fun discover_from :: "fixture list \<Rightarrow> workspace \<Rightarrow> json list ws_result" where
  "discover_from [] w = (Inr [], w)"
| "discover_from (d # ds) w =
     wbind (read_artifact (fx_artifact d) w) (\<lambda>contents w.
     wbind (discover_from ds w) (\<lambda>rest w.
       (Inr (JObj [(''artifact'', JStr (fx_artifact d)), (''observation'', JStr ''fixture-enumerated''),
              (''bytes'', JInt (int (length contents)))] # rest), w)))"

definition discover_fixtures :: "workspace \<Rightarrow> json list ws_result" where
  "discover_fixtures = discover_from FIXTURE_DEFINITIONS"

text \<open>The loop of \<open>_collect_and_stage\<close>: the evidence and the manifest entries.\<close>

fun collect_from :: "fixture list \<Rightarrow> workspace \<Rightarrow> (json list \<times> json list) ws_result" where
  "collect_from [] w = (Inr ([], []), w)"
| "collect_from (d # ds) w =
     wbind (read_artifact (fx_artifact d) w) (\<lambda>contents w.
     let digest = sha256_hex contents in
     wbind (collect_from ds w) (\<lambda>(evidence, entries) w.
       (Inr (JObj [(''artifact'', JStr (fx_artifact d)), (''observation'', JStr ''content-hashed''),
               (''bytes'', JInt (int (length contents))), (''sha256'', JStr digest)] # evidence,
             JObj [(''artifact'', JStr (fx_artifact d)), (''bytes'', JInt (int (length contents))),
               (''sha256'', JStr digest)] # entries), w)))"

text \<open>\<open>json.dumps({"synthetic": True, "entries": ...})\<close>; every character of it is ASCII.\<close>

definition manifest_text :: "json list \<Rightarrow> string option" where
  "manifest_text entries = dumps (JObj [(''synthetic'', JBool True), (''entries'', JList entries)])"

definition collect_and_stage :: "workspace \<Rightarrow> json list ws_result" where
  "collect_and_stage w =
     wbind (remove_artifact MANIFEST_ARTIFACT w) (\<lambda>_ w.
     wbind (collect_from FIXTURE_DEFINITIONS w) (\<lambda>(evidence, entries) w.
     case manifest_text entries of
       None \<Rightarrow> (Inl (OsFailure ''ValueError''), w)
     | Some manifest \<Rightarrow>
         wbind (create_member MANIFEST_ARTIFACT ''stage-manifest-'' ''.json'' manifest w) (\<lambda>_ w.
           (Inr (evidence @ [JObj [(''artifact'', JStr MANIFEST_ARTIFACT),
              (''observation'', JStr ''manifest-written''), (''entries'', JInt (int (length entries)))]]), w))))"

definition create_canary :: "workspace \<Rightarrow> json list ws_result" where
  "create_canary w =
     wbind (if map_of (ws_artifacts w) CANARY_ARTIFACT = None
       then wbind (create_member CANARY_ARTIFACT ''marker-canary-'' ''.json'' CANARY_BYTES w)
              (\<lambda>_ w. (Inr ''canary-created'', w))
       else wbind (read_artifact CANARY_ARTIFACT w) (\<lambda>_ w. (Inr ''canary-already-present'', w)))
     (\<lambda>observation w. (Inr [JObj [(''artifact'', JStr CANARY_ARTIFACT), (''observation'', JStr observation),
        (''bytes'', JInt (int (length CANARY_BYTES)))]], w))"

fun cleanup_from :: "string list \<Rightarrow> workspace \<Rightarrow> json list ws_result" where
  "cleanup_from [] w = (Inr [], w)"
| "cleanup_from (a # as) w =
     wbind (remove_artifact a w) (\<lambda>removed w.
     wbind (cleanup_from as w) (\<lambda>rest w.
       (Inr (JObj [(''artifact'', JStr a),
          (''observation'', JStr (if removed then ''artifact-removed'' else ''artifact-absent''))] # rest), w)))"

definition cleanup_artifacts :: "workspace \<Rightarrow> json list ws_result" where
  "cleanup_artifacts = cleanup_from [MANIFEST_ARTIFACT, CANARY_ARTIFACT]"

fun run_playbook :: "playbook \<Rightarrow> workspace \<Rightarrow> json list ws_result" where
  "run_playbook DISCOVERY_FIXTURES w = discover_fixtures w"
| "run_playbook COLLECT_AND_STAGE w = collect_and_stage w"
| "run_playbook CREATE_CANARY w = create_canary w"
| "run_playbook CLEANUP w = cleanup_artifacts w"

definition execute_playbook :: "json \<Rightarrow> workspace \<Rightarrow> json ws_result" where
  "execute_playbook name w = (case parse_playbook name of
      None \<Rightarrow> (Inl (RuntimeFailure UnknownPlaybookError), w)
    | Some p \<Rightarrow>
        wbind (require_open w) (\<lambda>_ w.
        wbind (assert_workspace w) (\<lambda>_ w.
        wbind (run_playbook p w) (\<lambda>evidence w.
        wbind (assert_workspace w) (\<lambda>_ w.
          (map_error RuntimeFailure (validate_playbook_result name
             (JObj [(''playbook'', name), (''scope'', RUNTIME_SCOPE), (''attack_techniques'', TECHNIQUES p),
               (''steps'', STEPS p), (''evidence'', JList evidence)])), w))))))"

section \<open>Opening and closing\<close>

definition close_workspace :: "workspace \<Rightarrow> workspace" where
  "close_workspace w = (if ws_closed w then w
     else w\<lparr>ws_closed := True, ws_handles := [], ws_artifacts := [],
       ws_fs := (ws_fs w)\<lparr>fs_entries := [], fs_root_dir := False\<rparr>\<rparr>)"

text \<open>\<open>TemporaryDirectory()\<close> gives an empty directory of its own.\<close>

definition fresh_workspace :: "string \<Rightarrow> (string list \<Rightarrow> string \<Rightarrow> string \<Rightarrow> string) \<Rightarrow> workspace" where
  "fresh_workspace dir names =
    \<lparr>ws_root_real = dir, ws_closed = False, ws_artifacts = [], ws_handles = [],
     ws_fs = \<lparr>fs_root_link = False, fs_root_dir = True, fs_root_real = dir, fs_entries = [], fs_files = [],
              fs_next = (0, 0), fs_read_only = False\<rparr>, ws_names = names\<rparr>"

fun create_fixtures :: "fixture list \<Rightarrow> workspace \<Rightarrow> unit ws_result" where
  "create_fixtures [] w = (Inr (), w)"
| "create_fixtures (d # ds) w =
     wbind (create_member (fx_artifact d) (fx_prefix d) (fx_suffix d) (fx_contents d) w) (\<lambda>_ w.
       create_fixtures ds w)"

definition open_workspace :: "workspace \<Rightarrow> unit ws_result" where
  "open_workspace w0 = (case wbind (create_fixtures FIXTURE_DEFINITIONS w0) (\<lambda>_ w. assert_workspace w) of
      (Inl e, w) \<Rightarrow> (Inl e, close_workspace w)
    | (Inr u, w) \<Rightarrow> (Inr u, w))"

end
