(* ===== verification/Workspace_Rep.thy ===== *)
theory Workspace_Rep
  imports Workspace "HOL-Library.Multiset"
begin

text \<open>
  The representation of a workspace by the artifacts it stores.  \<open>ws_rep w rs\<close> says that the
  logical names, the open handles, the directory entries and the files of \<open>w\<close> are those of the
  artifacts \<open>rs\<close>, in the same order; each member operation is then an operation on the list.
\<close>

section \<open>Artifacts\<close>

record artifact =
  a_name :: string
  a_member :: string
  a_file :: file_id
  a_bytes :: string

definition tempfile_chars :: string where
  "tempfile_chars = ''abcdefghijklmnopqrstuvwxyz0123456789_''"

text \<open>What \<open>tempfile\<close> documents: the random part uses lower-case letters, digits and underscores,
  and the name does not exist yet.\<close>

definition tempfile_ok :: "(string list \<Rightarrow> string \<Rightarrow> string \<Rightarrow> string) \<Rightarrow> bool" where
  "tempfile_ok names \<longleftrightarrow> (\<forall>present pre suf.
     list_all (\<lambda>c. c \<in> set tempfile_chars) (names present pre suf) \<and>
     pre @ names present pre suf @ suf \<notin> set present)"

definition stored_file :: "filesystem \<Rightarrow> artifact \<Rightarrow> bool" where
  "stored_file fs r \<longleftrightarrow> map_of (fs_files fs) (a_file r) = Some \<lparr>fd_links = 1, fd_bytes = a_bytes r\<rparr> \<and>
     plain_name (a_member r) \<and> length (a_bytes r) \<le> MAX_ARTIFACT_BYTES"

definition ws_rep :: "workspace \<Rightarrow> artifact list \<Rightarrow> bool" where
  "ws_rep w rs \<longleftrightarrow> root_ok w \<and> \<not> fs_read_only (ws_fs w) \<and> tempfile_ok (ws_names w) \<and>
     ws_artifacts w = map (\<lambda>r. (a_name r, a_member r)) rs \<and>
     ws_handles w = map (\<lambda>r. (a_member r, \<lparr>h_file = a_file r, h_open = True\<rparr>)) rs \<and>
     fs_entries (ws_fs w) = map (\<lambda>r. (a_member r, \<lparr>de_kind = RegularFile, de_file = a_file r\<rparr>)) rs \<and>
     list_all (stored_file (ws_fs w)) rs \<and>
     distinct (map a_name rs) \<and> distinct (map a_member rs) \<and> distinct (map a_file rs) \<and>
     (\<forall>i\<in>set (keys (fs_files (ws_fs w))). fst i = fst (fs_next (ws_fs w)) \<and> snd i < snd (fs_next (ws_fs w)))"

lemma map_of_by:
  "distinct (map f rs) \<Longrightarrow> r \<in> set rs \<Longrightarrow> map_of (map (\<lambda>r. (f r, g r)) rs) (f r) = Some (g r)"
  by (simp add: map_of_eq_Some_iff comp_def image_iff)
    (metis)

lemma map_of_by_None: "k \<notin> f ` set rs \<Longrightarrow> map_of (map (\<lambda>r. (f r, g r)) rs) k = None"
  by (auto simp: map_of_eq_None_iff)

lemma delete_by: "AList.delete k (map (\<lambda>r. (f r, g r)) rs) = map (\<lambda>r. (f r, g r)) (filter (\<lambda>r. f r \<noteq> k) rs)"
  by (induction rs) auto

definition total_bytes :: "artifact list \<Rightarrow> nat" where
  "total_bytes rs = sum_list (map (\<lambda>r. length (a_bytes r)) rs)"

section \<open>Reading the representation\<close>

lemma rep_file: "ws_rep w rs \<Longrightarrow> r \<in> set rs \<Longrightarrow> file_of w (a_file r) = Some \<lparr>fd_links = 1, fd_bytes = a_bytes r\<rparr>"
  unfolding ws_rep_def by (auto simp: file_of_def stored_file_def list_all_iff)

lemma rep_bytes: "ws_rep w rs \<Longrightarrow> r \<in> set rs \<Longrightarrow> length (a_bytes r) \<le> MAX_ARTIFACT_BYTES"
  unfolding ws_rep_def by (auto simp: stored_file_def list_all_iff)

lemma rep_handle:
  "ws_rep w rs \<Longrightarrow> r \<in> set rs \<Longrightarrow> map_of (ws_handles w) (a_member r) = Some \<lparr>h_file = a_file r, h_open = True\<rparr>"
  using map_of_by [of a_member rs r "\<lambda>r. \<lparr>h_file = a_file r, h_open = True\<rparr>"] by (simp add: ws_rep_def)

lemma rep_artifact: "ws_rep w rs \<Longrightarrow> r \<in> set rs \<Longrightarrow> map_of (ws_artifacts w) (a_name r) = Some (a_member r)"
  using map_of_by [of a_name rs r a_member] by (simp add: ws_rep_def)

lemma rep_entry:
  "ws_rep w rs \<Longrightarrow> r \<in> set rs \<Longrightarrow>
   map_of (fs_entries (ws_fs w)) (a_member r) = Some \<lparr>de_kind = RegularFile, de_file = a_file r\<rparr>"
  using map_of_by [of a_member rs r "\<lambda>r. \<lparr>de_kind = RegularFile, de_file = a_file r\<rparr>"] by (simp add: ws_rep_def)

lemma rep_safe_member:
  assumes "ws_rep w rs" and "r \<in> set rs"
  shows "safe_member w (a_member r)"
  using rep_handle [OF assms] rep_entry [OF assms] assms
  by (auto simp: safe_member_def ws_rep_def stored_file_def list_all_iff)

lemma rep_no_artifact: "ws_rep w rs \<Longrightarrow> k \<notin> a_name ` set rs \<Longrightarrow> map_of (ws_artifacts w) k = None"
  using map_of_by_None [of k a_name rs a_member] by (simp add: ws_rep_def)

lemma rep_check_entries:
  assumes "ws_rep w rs" and "set es \<subseteq> set rs"
  shows "check_entries_from w n (map (\<lambda>r. (a_member r, \<lparr>de_kind = RegularFile, de_file = a_file r\<rparr>)) es)
    = Inr (n + total_bytes es)"
  using assms(2)
proof (induction es arbitrary: n)
  case (Cons r es)
  then have "r \<in> set rs" by simp
  note facts = rep_safe_member [OF assms(1) this] rep_handle [OF assms(1) this] rep_file [OF assms(1) this]
    rep_bytes [OF assms(1) this]
  with Cons show ?case by (simp add: check_entry_def total_bytes_def)
qed (simp add: total_bytes_def)

lemma rep_keys:
  assumes "ws_rep w rs"
  shows "keys (fs_entries (ws_fs w)) = map a_member rs" "keys (ws_handles w) = map a_member rs"
    "length (fs_entries (ws_fs w)) = length rs"
  using assms by (simp_all add: ws_rep_def comp_def)

lemma rep_assert:
  assumes "ws_rep w rs" and "length rs \<le> MAX_WORKSPACE_FILES" and "total_bytes rs \<le> MAX_WORKSPACE_BYTES"
  shows "assert_workspace w = (Inr (), w)"
proof -
  have "check_entries_from w 0 (fs_entries (ws_fs w)) = Inr (total_bytes rs)"
    using rep_check_entries [OF assms(1) subset_refl, of 0] assms(1) by (simp add: ws_rep_def)
  moreover have "root_ok w" using assms(1) by (simp add: ws_rep_def)
  ultimately show ?thesis
    using assms(2,3) by (simp add: assert_workspace_def Let_def wguard_def rep_keys [OF assms(1)] del: set_map)
qed

lemma rep_open: "ws_rep w rs \<Longrightarrow> require_open w = (Inr (), w)"
  by (simp add: ws_rep_def root_ok_def require_open_def wguard_def)

lemma rep_sizes:
  assumes "ws_rep w rs" and "set es \<subseteq> set rs"
  shows "handle_sizes w (map (\<lambda>r. \<lparr>h_file = a_file r, h_open = True\<rparr>) es) = Inr (total_bytes es)"
  using assms(2)
proof (induction es)
  case (Cons r es)
  then have "r \<in> set rs" by simp
  from rep_file [OF assms(1) this] Cons show ?case by (simp add: total_bytes_def)
qed (simp add: total_bytes_def)

lemma rep_read:
  assumes "ws_rep w rs" and "r \<in> set rs"
  shows "read_artifact (a_name r) w = (Inr (a_bytes r), w)"
  using rep_artifact [OF assms] rep_safe_member [OF assms] rep_handle [OF assms] rep_file [OF assms]
    rep_bytes [OF assms]
  by (simp add: read_artifact_def)

section \<open>Removing and creating\<close>

definition dropped :: "artifact \<Rightarrow> workspace \<Rightarrow> workspace" where
  "dropped r w = (delete_entry (a_member r) (close_handle (a_member r) w))
     \<lparr>ws_handles := AList.delete (a_member r) (ws_handles (close_handle (a_member r) w)),
      ws_artifacts := AList.delete (a_name r) (ws_artifacts w)\<rparr>"

lemma delete_dmod_same: "AList.delete k (dmod k f d) = AList.delete k d"
  by (induction d) (auto simp: dmod_def)

lemma rep_remove:
  assumes "ws_rep w rs" and "r \<in> set rs"
  shows "remove_artifact (a_name r) w = (Inr True, dropped r w)"
    and "ws_rep (dropped r w) (filter (\<lambda>x. x \<noteq> r) rs)"
proof -
  have e: "map_of (fs_entries (ws_fs w)) (a_member r) = Some \<lparr>de_kind = RegularFile, de_file = a_file r\<rparr>"
    by (rule rep_entry [OF assms])
  have ro: "\<not> fs_read_only (ws_fs w)" using assms(1) by (simp add: ws_rep_def)
  show "remove_artifact (a_name r) w = (Inr True, dropped r w)"
    using rep_artifact [OF assms] rep_safe_member [OF assms] e ro
    by (simp add: remove_artifact_def dropped_def Let_def close_handle_def delete_entry_def)
  have names: "filter (\<lambda>x. a_name x \<noteq> a_name r) rs = filter (\<lambda>x. x \<noteq> r) rs"
    "filter (\<lambda>x. a_member x \<noteq> a_member r) rs = filter (\<lambda>x. x \<noteq> r) rs"
    using assms unfolding ws_rep_def by (auto intro!: filter_cong dest: distinct_map [THEN iffD1] inj_onD)
  have files: "a_file x \<noteq> a_file r" if "x \<in> set rs" "x \<noteq> r" for x
    using assms that unfolding ws_rep_def by (auto dest: distinct_map [THEN iffD1] inj_onD)
  let ?w = "dropped r w"
  have fs: "fs_entries (ws_fs ?w) = AList.delete (a_member r) (fs_entries (ws_fs w))"
    "fs_files (ws_fs ?w) = dmod (a_file r) (\<lambda>f. f\<lparr>fd_links := fd_links f - 1\<rparr>) (fs_files (ws_fs w))"
    "fs_next (ws_fs ?w) = fs_next (ws_fs w)" "fs_read_only (ws_fs ?w) = fs_read_only (ws_fs w)"
    "ws_names ?w = ws_names w" "root_ok ?w = root_ok w"
    "ws_handles ?w = AList.delete (a_member r) (ws_handles w)"
    "ws_artifacts ?w = AList.delete (a_name r) (ws_artifacts w)"
    using e by (simp_all add: dropped_def delete_entry_def close_handle_def Let_def root_ok_def delete_dmod_same)
  have "list_all (stored_file (ws_fs ?w)) (filter (\<lambda>x. x \<noteq> r) rs)"
    using assms(1) files unfolding ws_rep_def by (auto simp: list_all_iff stored_file_def fs)
  then show "ws_rep ?w (filter (\<lambda>x. x \<noteq> r) rs)"
    using assms(1) unfolding ws_rep_def fs
    by (auto simp: delete_by names distinct_map_filter simp del: set_map)
qed

lemma rep_absent: "ws_rep w rs \<Longrightarrow> k \<notin> a_name ` set rs \<Longrightarrow> remove_artifact k w = (Inr False, w)"
  by (simp add: remove_artifact_def rep_no_artifact)

lemma tempfile_member:
  assumes "tempfile_ok names" and "member_ok pre" and "list_all (\<lambda>c. c \<in> set member_chars) suf"
    and "length pre > 2"
  shows "member_ok (pre @ names present pre suf @ suf)" and "plain_name (pre @ names present pre suf @ suf)"
proof -
  have sub: "set tempfile_chars \<subseteq> set member_chars"
    by (simp add: tempfile_chars_def member_chars_def)
  have "list_all (\<lambda>c. c \<in> set member_chars) (names present pre suf)"
    using assms(1) sub by (auto simp: tempfile_ok_def list_all_iff)
  with assms have all: "list_all (\<lambda>c. c \<in> set member_chars) (pre @ names present pre suf @ suf)"
    by (simp add: member_ok_def)
  moreover have asc: "list_all (\<lambda>c. code c < 128 \<and> c \<noteq> CHR ''/'' \<and> c \<noteq> CHR 0x5C) member_chars" by code_simp
  ultimately have chars: "list_all (\<lambda>c. code c < 128 \<and> c \<noteq> CHR ''/'' \<and> c \<noteq> CHR 0x5C)
      (pre @ names present pre suf @ suf)"
    unfolding list_all_iff by blast
  have len: "length (pre @ names present pre suf @ suf) > 2" using assms(4) by simp
  show "member_ok (pre @ names present pre suf @ suf)"
    using all chars len unfolding member_ok_def py_isascii_def list_all_iff by fastforce
  have "x \<noteq> ''.'' \<and> x \<noteq> ''..''" if "length x > 2" for x :: string using that by auto
  with len chars show "plain_name (pre @ names present pre suf @ suf)"
    unfolding plain_name_def list_all_iff by blast
qed

lemma rep_create:
  assumes rep: "ws_rep w rs" and "k \<notin> a_name ` set rs" and "length rs < MAX_WORKSPACE_FILES"
    and "length contents \<le> MAX_ARTIFACT_BYTES" and "total_bytes rs + length contents \<le> MAX_WORKSPACE_BYTES"
    and "member_ok pre" and "list_all (\<lambda>c. c \<in> set member_chars) suf" and "length pre > 2"
  obtains w' r where "create_member k pre suf contents w = (Inr (), w')" "ws_rep w' (rs @ [r])"
    "a_name r = k" "a_bytes r = contents"
proof -
  define m where "m = pre @ ws_names w (keys (fs_entries (ws_fs w))) pre suf @ suf"
  define i where "i = fs_next (ws_fs w)"
  define r where "r = \<lparr>a_name = k, a_member = m, a_file = i, a_bytes = contents\<rparr>"
  define w' where "w' = track_member k m i (write_file m contents w)"
  have tmp: "tempfile_ok (ws_names w)" using rep by (simp add: ws_rep_def)
  note member = tempfile_member [OF tmp assms(6-8), of "keys (fs_entries (ws_fs w))", folded m_def]
  have "m \<notin> set (keys (fs_entries (ws_fs w)))" using tmp unfolding tempfile_ok_def m_def by blast
  then have new: "m \<notin> a_member ` set rs" by (simp only: rep_keys [OF rep] set_map not_False_eq_True)
  have next_new: "i \<notin> set (keys (fs_files (ws_fs w)))"
    using rep unfolding ws_rep_def i_def by (metis less_irrefl)
  have old: "a_file x \<noteq> i" if "x \<in> set rs" for x
    using rep_file [OF rep that] next_new by (force simp: file_of_def dest: map_of_SomeD)
  then have old_all: "\<forall>x\<in>set rs. a_file x \<noteq> i" by blast
  have fs: "fs_entries (ws_fs w') = fs_entries (ws_fs w) @ [(m, \<lparr>de_kind = RegularFile, de_file = i\<rparr>)]"
    "fs_files (ws_fs w') = (i, \<lparr>fd_links = 1, fd_bytes = contents\<rparr>) # fs_files (ws_fs w)"
    "fs_next (ws_fs w') = (fst i, Suc (snd i))" "fs_read_only (ws_fs w') = fs_read_only (ws_fs w)"
    "ws_names w' = ws_names w" "root_ok w' = root_ok w"
    "ws_handles w' = AList.update m \<lparr>h_file = i, h_open = True\<rparr> (ws_handles w)"
    "ws_artifacts w' = AList.update k m (ws_artifacts w)"
    by (simp_all add: w'_def i_def track_member_def write_file_def Let_def root_ok_def)
  have upd: "AList.update m h (ws_handles w) = ws_handles w @ [(m, h)]" for h
    using rep new by (intro update_fresh) (auto simp: ws_rep_def)
  have upd': "AList.update k m (ws_artifacts w) = ws_artifacts w @ [(k, m)]"
    using rep assms(2) by (intro update_fresh) (auto simp: ws_rep_def)
  have stored: "list_all (stored_file (ws_fs w')) (rs @ [r])"
    using rep old member(2) assms(4) unfolding ws_rep_def by (auto simp: list_all_iff stored_file_def fs r_def)
  have rep': "ws_rep w' (rs @ [r])"
    using rep stored new old_all assms(2) unfolding ws_rep_def fs upd upd' by (auto simp: less_Suc_eq r_def i_def)
  have "safe_member w' m" using rep_safe_member [OF rep', of r] by (simp add: r_def)
  moreover have "handle_sizes w (vals (ws_handles w)) = Inr (total_bytes rs)"
    using rep_sizes [OF rep subset_refl] rep by (simp add: ws_rep_def comp_def)
  moreover have "root_ok w" "\<not> fs_read_only (ws_fs w)" "length (ws_artifacts w) = length rs"
    using rep by (simp_all add: ws_rep_def)
  ultimately have "create_member k pre suf contents w = (Inr (), w')"
    using rep_open [OF rep] rep_no_artifact [OF rep assms(2)] assms(3-5) member(1)
    by (simp add: create_member_def Let_def flip: m_def i_def w'_def)
  then show ?thesis using rep' by (rule that) (simp_all add: r_def)
qed

end
