(* ===== verification/Playbook_Complete.thy ===== *)
theory Playbook_Complete
  imports Playbook_Result
begin

text \<open>
  Completeness of the playbook result validator: every result with one of the allowed evidence
  lists is accepted.  The size limit is checked on the JSON text, so this theory also bounds the
  text of plain JSON values without computing it.
\<close>

section \<open>The size of plain JSON\<close>

definition plain_char :: "char \<Rightarrow> bool" where
  "plain_char c \<longleftrightarrow> 32 \<le> code c \<and> code c < 127 \<and> code c \<noteq> 34 \<and> code c \<noteq> 92"

fun plain_json :: "json \<Rightarrow> bool" where
  "plain_json (JStr s) = list_all plain_char s"
| "plain_json (JInt i) = (length (nat_str (nat \<bar>i\<bar>)) \<le> MAX_INT_DIGITS)"
| "plain_json (JFloat f) = False"
| "plain_json (JList xs) = list_all plain_json xs"
| "plain_json (JObj kvs) = list_all (\<lambda>(k, v). list_all plain_char k \<and> plain_json v) kvs"
| "plain_json _ = True"

fun text_bound :: "json \<Rightarrow> nat" where
  "text_bound (JStr s) = length s + 2"
| "text_bound (JInt i) = length (int_str i)"
| "text_bound (JList xs) = sum_list (map (\<lambda>x. text_bound x + 1) xs) + 2"
| "text_bound (JObj kvs) = sum_list (map (\<lambda>(k, v). length k + text_bound v + 4) kvs) + 2"
| "text_bound _ = 5"

lemma escape_plain:
  assumes "plain_char c"
  shows "escape_char c = [c]"
proof -
  have n: "code c \<noteq> 34" "code c \<noteq> 92" "\<not> code c < 32" using assms unfolding plain_char_def by linarith+
  then have "code c \<noteq> 10" "code c \<noteq> 13" "code c \<noteq> 9" "code c \<noteq> 12" "code c \<noteq> 8" by linarith+
  moreover have "c \<noteq> quote" "c \<noteq> CHR 0x5C" using n(1,2) by (auto simp: quote_def)
  ultimately show ?thesis using n(3) by (simp only: escape_char_def if_False)
qed

lemma plain_ascii: "plain_char c \<Longrightarrow> code c < 128"
  unfolding plain_char_def by linarith

lemma dump_plain: "list_all plain_char s \<Longrightarrow> dump_string s = [quote] @ s @ [quote]"
proof -
  assume "list_all plain_char s"
  then have "concat (map escape_char s) = s" by (induction s) (simp_all add: escape_plain)
  then show ?thesis by (simp add: dump_string_def)
qed

lemma ascii_plain: "list_all plain_char s \<Longrightarrow> py_isascii s"
  unfolding py_isascii_def list_all_iff using plain_ascii by blast

lemma ascii_append [simp]: "py_isascii (a @ b) \<longleftrightarrow> py_isascii a \<and> py_isascii b"
  by (simp add: py_isascii_def)

lemma ascii_Cons [simp]: "py_isascii (c # s) \<longleftrightarrow> code c < 128 \<and> py_isascii s"
  by (simp add: py_isascii_def)

lemma ascii_Nil [simp]: "py_isascii []"
  by (simp add: py_isascii_def)

lemma digit_char_ascii: "n < 10 \<Longrightarrow> code (digit_char n) < 128"
  by (simp add: digit_char_def of_char_of)

lemma nat_str_ascii: "py_isascii (nat_str n)"
  by (induction n rule: nat_str.induct) (subst nat_str.simps, simp add: digit_char_ascii)

lemma int_str_ascii: "py_isascii (int_str i)"
  by (simp add: int_str_def nat_str_ascii)

lemma quote_ascii: "code quote < 128"
  by (simp add: quote_def)

lemma utf8_ascii: "py_isascii s \<Longrightarrow> utf8_encode s = s"
  by (induction s) (simp_all add: utf8_encode_def utf8_char_def)

lemma join_ascii: "py_isascii sep \<Longrightarrow> list_all py_isascii ps \<Longrightarrow> py_isascii (join sep ps)"
  by (induction sep ps rule: join.induct) simp_all

lemma length_join: "length (join '','' ps) \<le> sum_list (map (\<lambda>p. length p + 1) ps)"
  by (induction "'',''" ps rule: join.induct) simp_all

lemma dumps_plain:
  "plain_json j \<Longrightarrow> \<exists>t. dumps j = Some t \<and> length t \<le> text_bound j \<and> py_isascii t"
  "list_all plain_json js \<Longrightarrow> \<exists>ts. dump_items js = Some ts \<and>
     sum_list (map (\<lambda>t. length t + 1) ts) \<le> sum_list (map (\<lambda>x. text_bound x + 1) js) \<and> list_all py_isascii ts"
  "list_all (\<lambda>(k, v). list_all plain_char k \<and> plain_json v) kvs \<Longrightarrow> \<exists>ts. dump_members kvs = Some ts \<and>
     sum_list (map (\<lambda>t. length t + 1) ts) \<le> sum_list (map (\<lambda>(k, v). length k + text_bound v + 4) kvs) \<and>
     list_all py_isascii ts"
proof (induction j and js and kvs rule: dumps_dump_items_dump_members.induct)
  case (6 xs)
  then obtain ts where ts: "dump_items xs = Some ts" "list_all py_isascii ts"
    "sum_list (map (\<lambda>t. length t + 1) ts) \<le> sum_list (map (\<lambda>x. text_bound x + 1) xs)" by auto
  with length_join [of ts] show ?case by (simp add: join_ascii)
next
  case (7 kvs)
  then obtain ts where ts: "dump_members kvs = Some ts" "list_all py_isascii ts"
    "sum_list (map (\<lambda>t. length t + 1) ts) \<le> sum_list (map (\<lambda>(k, v). length k + text_bound v + 4) kvs)" by auto
  with length_join [of ts] show ?case by (simp add: join_ascii)
qed (auto simp: dump_plain ascii_plain quote_ascii int_str_ascii)

lemma encoded_size_plain: "plain_json j \<Longrightarrow> \<exists>n. encoded_size j = Some n \<and> n \<le> text_bound j"
  using dumps_plain(1) [of j] by (auto simp: encoded_size_def utf8_ascii)

section \<open>Hexadecimal digests\<close>

definition hex_char :: "char \<Rightarrow> bool" where
  "hex_char c \<longleftrightarrow> 48 \<le> code c \<and> code c \<le> 57 \<or> 97 \<le> code c \<and> code c \<le> 102"

lemma hex_digit_char: "n < 16 \<Longrightarrow> hex_char (hex_digit n)"
  by (auto simp: hex_char_def hex_digit_def digit_char_def of_char_of)

lemma digest_hex: "list_all hex_char (sha256_hex s)"
proof -
  have c: "code b div 16 < 16" for b :: char using nat_of_char_less_256 [of b] by linarith
  have "list_all hex_char (hex bs)" for bs
    by (induction bs) (auto simp: hex_def intro!: hex_digit_char c)
  then show ?thesis by (simp add: sha256_hex_def)
qed

lemma hex_char_plain: "hex_char c \<Longrightarrow> plain_char c \<and> \<not> is_sep c \<and> c \<noteq> CHR '':''"
  by (auto simp: hex_char_def plain_char_def is_sep_def)

lemma digest_plain [simp]: "list_all plain_char (sha256_hex s)"
  using digest_hex [of s] hex_char_plain by (auto simp: list_all_iff)

lemma digest_not_path [simp]: "\<not> is_absolute_path_string (sha256_hex s)"
proof -
  have "\<not> is_absolute_path_string t" if "list_all hex_char t" for t
    using that hex_char_plain by (auto simp: is_absolute_path_string_def split: list.split)
  then show ?thesis using digest_hex by blast
qed

section \<open>Every allowed result is accepted\<close>

lemmas evidence_data =
  discovery_entry_def collection_entry_def manifest_entry_def canary_entry_def removal_entry_def
  MANIFEST_ARTIFACT_def CANARY_ARTIFACT_def FIXTURE_DEFINITIONS_def CANARY_BYTES_def

definition json_ok :: "nat \<Rightarrow> json \<Rightarrow> bool" where
  "json_ok n j \<longleftrightarrow> wf_json j \<and> nan_free j \<and> plain_json j \<and> \<not> contains_absolute_path j \<and> text_bound j \<le> n"

lemma json_ok_fixed:
  "json_ok 300 RUNTIME_SCOPE" "json_ok 400 (TECHNIQUES p)" "json_ok 400 (STEPS p)"
proof -
  show "json_ok 300 RUNTIME_SCOPE" by code_simp
  have "list_all (\<lambda>p. json_ok 400 (TECHNIQUES p) \<and> json_ok 400 (STEPS p))
      [DISCOVERY_FIXTURES, COLLECT_AND_STAGE, CREATE_CANARY, CLEANUP]" by code_simp
  then show "json_ok 400 (TECHNIQUES p)" "json_ok 400 (STEPS p)" by (cases p; simp)+
qed

lemma plain_char_of [simp]: "plain_char (Char a b c d e f g h) \<longleftrightarrow>
    (let n = code (Char a b c d e f g h) in 32 \<le> n \<and> n < 127 \<and> n \<noteq> 34 \<and> n \<noteq> 92)"
  by (simp only: plain_char_def Let_def)

lemma length_nat_str: "n < 10 ^ k \<Longrightarrow> 0 < k \<Longrightarrow> length (nat_str n) \<le> k"
proof (induction n arbitrary: k rule: nat_str.induct)
  case (1 n)
  then obtain j where j: "k = Suc j" by (cases k) auto
  show ?case
  proof (cases "n < 10")
    case False
    with 1(2) j have "0 < j" "n div 10 < 10 ^ j" by (cases j; simp add: less_mult_imp_div_less)+
    with 1(1) [OF False this(2)] j False show ?thesis by (subst nat_str.simps) simp
  qed (use j in \<open>subst nat_str.simps, simp\<close>)
qed

lemma length_int_str: "\<bar>i\<bar> < 10 ^ k \<Longrightarrow> 0 < k \<Longrightarrow>
    length (nat_str (nat \<bar>i\<bar>)) \<le> k \<and> length (int_str i) \<le> Suc k"
proof -
  assume b: "\<bar>i\<bar> < 10 ^ k" "0 < k"
  then have "nat \<bar>i\<bar> < 10 ^ k" by (simp add: nat_less_iff)
  from length_nat_str [OF this b(2)] show ?thesis by (auto simp: int_str_def abs_if split: if_splits)
qed

lemma small_int: "\<bar>i\<bar> < 10000 \<Longrightarrow> length (nat_str (nat \<bar>i\<bar>)) \<le> 4 \<and> length (int_str i) \<le> 5"
  using length_int_str [of i 4] by simp

lemma absolute_path_prefix:
  "is_absolute_path_string (c # d # e # s) \<longleftrightarrow> is_sep c \<or> d = CHR '':'' \<and> is_sep e"
  by (simp add: is_absolute_path_string_def)

lemma json_ok_evidence: "ev \<in> set (allowed_evidence p) \<Longrightarrow> json_ok 1500 (JList ev)"
  using small_int [of 70] small_int [of 68] small_int [of 46] small_int [of 43] small_int [of 3]
  by (cases p) (auto simp: json_ok_def evidence_data MAX_INT_DIGITS_def length_sha256_hex
      absolute_path_prefix is_sep_def)

lemma check_evidence_complete: "ev \<in> set (allowed_evidence p) \<Longrightarrow> check_evidence p ev = Inr ()"
proof (cases p)
  case DISCOVERY_FIXTURES
  assume "ev \<in> set (allowed_evidence p)"
  moreover have "same_json_value (discovery_entry d) (discovery_entry d)" for d
    by (rule same_json_value_refl) (simp_all add: discovery_entry_def)
  ultimately show ?thesis using DISCOVERY_FIXTURES
    by (simp add: FIXTURE_DEFINITIONS_def require_exact_keys_def discovery_entry_def)
next
  case COLLECT_AND_STAGE
  assume "ev \<in> set (allowed_evidence p)"
  moreover have "same_json_value (collection_entry d) (collection_entry d)" for d
    by (rule same_json_value_refl) (simp_all add: collection_entry_def)
  ultimately show ?thesis using COLLECT_AND_STAGE
    by (simp add: FIXTURE_DEFINITIONS_def require_exact_keys_def collection_entry_def manifest_entry_def)
next
  case CREATE_CANARY
  assume "ev \<in> set (allowed_evidence p)"
  with CREATE_CANARY show ?thesis
    by (auto simp: canary_entry_def require_exact_keys_def get_key_def CANARY_ARTIFACT_def)
next
  case CLEANUP
  assume "ev \<in> set (allowed_evidence p)"
  with CLEANUP show ?thesis
    by (auto simp: removal_entry_def require_exact_keys_def get_key_def)
qed

lemma validate_playbook_complete:
  assumes "ev \<in> set (allowed_evidence p)"
  shows "validate_playbook_result (JStr (playbook_str p)) (playbook_result p ev) = Inr (playbook_result p ev)"
proof -
  let ?kvs = "[(''playbook'', JStr (playbook_str p)), (''scope'', RUNTIME_SCOPE),
     (''attack_techniques'', TECHNIQUES p), (''steps'', STEPS p), (''evidence'', JList ev)]"
  have r: "playbook_result p ev = JObj ?kvs" by (simp add: playbook_result_def)
  have name: "list_all plain_char (playbook_str p)" "\<not> is_absolute_path_string (playbook_str p)"
    "length (playbook_str p) \<le> 20"
    by (cases p; simp add: absolute_path_prefix is_sep_def)+
  note ok = json_ok_fixed(1) json_ok_fixed(2,3) [of p] json_ok_evidence [OF assms]
  have plain: "plain_json (JObj ?kvs)" and path: "\<not> contains_absolute_path (JObj ?kvs)"
    and sz: "text_bound (JObj ?kvs) \<le> MAX_PLAYBOOK_RESULT_BYTES"
    using ok name
    by (simp_all add: json_ok_def absolute_path_prefix is_sep_def MAX_PLAYBOOK_RESULT_BYTES_def
        del: plain_json.simps(4) contains_absolute_path.simps(2) text_bound.simps(3) TECHNIQUES.simps STEPS.simps)
  obtain n where n: "encoded_size (JObj ?kvs) = Some n" "n \<le> MAX_PLAYBOOK_RESULT_BYTES"
    using encoded_size_plain [OF plain] sz by auto
  have same: "same_json_value RUNTIME_SCOPE RUNTIME_SCOPE" "same_json_value (TECHNIQUES p) (TECHNIQUES p)"
    "same_json_value (STEPS p) (STEPS p)"
    using ok by (auto intro!: same_json_value_refl simp: json_ok_def simp del: TECHNIQUES.simps STEPS.simps)
  show ?thesis
    using n path check_evidence_complete [OF assms] same
    unfolding validate_playbook_result_def r
    by (simp add: require_exact_keys_def RESULT_FIELDS_def get_key_def
        del: contains_absolute_path.simps TECHNIQUES.simps STEPS.simps same_json_value.simps)
qed

end
