(* ===== verification/Workspace_Properties.thy ===== *)
theory Workspace_Properties
  imports Workspace_Rep Playbook_Complete
begin

text \<open>
  What the workspace promises: left alone, it behaves as a two-bit machine (is the staging manifest
  there, is the canary there) whose every playbook succeeds with the evidence the Teamserver accepts;
  disturbed from outside, it reports nothing unless the directory holds exactly its own files.
\<close>

section \<open>The abstract machine\<close>

fun playbook_spec :: "playbook \<Rightarrow> bool \<times> bool \<Rightarrow> json list \<times> (bool \<times> bool)" where
  "playbook_spec DISCOVERY_FIXTURES (m, c) = (map discovery_entry FIXTURE_DEFINITIONS, (m, c))"
| "playbook_spec COLLECT_AND_STAGE (m, c) = (map collection_entry FIXTURE_DEFINITIONS @ [manifest_entry], (True, c))"
| "playbook_spec CREATE_CANARY (m, c) =
     ([canary_entry (if c then ''canary-already-present'' else ''canary-created'')], (m, True))"
| "playbook_spec CLEANUP (m, c) = ([removal_entry MANIFEST_ARTIFACT m, removal_entry CANARY_ARTIFACT c], (False, False))"

lemma playbook_spec_allowed: "fst (playbook_spec p mc) \<in> set (allowed_evidence p)"
  by (cases p; cases "fst mc"; cases "snd mc"; cases mc) auto

section \<open>Stored artifacts\<close>

definition manifest_item :: "fixture \<Rightarrow> json" where
  "manifest_item d = JObj [(''artifact'', JStr (fx_artifact d)), (''bytes'', JInt (int (length (fx_contents d)))),
     (''sha256'', JStr (sha256_hex (fx_contents d)))]"

definition manifest_bytes :: string where
  "manifest_bytes = the (manifest_text (map manifest_item FIXTURE_DEFINITIONS))"

lemma manifest_text_Some:
  "manifest_text (map manifest_item FIXTURE_DEFINITIONS) = Some manifest_bytes"
  "length manifest_bytes \<le> 1000"
proof -
  let ?j = "JObj [(''synthetic'', JBool True), (''entries'', JList (map manifest_item FIXTURE_DEFINITIONS))]"
  have "plain_json ?j" "text_bound ?j \<le> 1000"
    using small_int [of 70] small_int [of 68] small_int [of 46]
    by (simp_all add: manifest_item_def FIXTURE_DEFINITIONS_def MAX_INT_DIGITS_def length_sha256_hex)
  then obtain t where "dumps ?j = Some t" "length t \<le> 1000"
    using dumps_plain(1) [of ?j] by (meson le_trans)
  then show "manifest_text (map manifest_item FIXTURE_DEFINITIONS) = Some manifest_bytes"
    "length manifest_bytes \<le> 1000"
    unfolding manifest_text_def manifest_bytes_def by (simp_all only: option.sel)
qed

definition fixture_pairs :: "(string \<times> string) list" where
  "fixture_pairs = map (\<lambda>d. (fx_artifact d, fx_contents d)) FIXTURE_DEFINITIONS"

definition stored :: "bool \<times> bool \<Rightarrow> (string \<times> string) list" where
  "stored mc = fixture_pairs @ (if fst mc then [(MANIFEST_ARTIFACT, manifest_bytes)] else [])
     @ (if snd mc then [(CANARY_ARTIFACT, CANARY_BYTES)] else [])"

definition pairs :: "artifact list \<Rightarrow> (string \<times> string) list" where
  "pairs rs = map (\<lambda>r. (a_name r, a_bytes r)) rs"

definition ws_holds :: "workspace \<Rightarrow> bool \<times> bool \<Rightarrow> bool" where
  "ws_holds w mc \<longleftrightarrow> (\<exists>rs. ws_rep w rs \<and> mset (pairs rs) = mset (stored mc))"

lemma names_distinct: "distinct (map fst (stored mc))"
  by (cases mc) (simp add: stored_def fixture_pairs_def FIXTURE_DEFINITIONS_def MANIFEST_ARTIFACT_def CANARY_ARTIFACT_def)

lemma stored_names:
  "MANIFEST_ARTIFACT \<in> fst ` set (stored (m, c)) \<longleftrightarrow> m"
  "CANARY_ARTIFACT \<in> fst ` set (stored (m, c)) \<longleftrightarrow> c"
  by (cases m; cases c; simp add: stored_def fixture_pairs_def FIXTURE_DEFINITIONS_def MANIFEST_ARTIFACT_def
      CANARY_ARTIFACT_def)+

lemma stored_bounds:
  "length (stored mc) \<le> MAX_WORKSPACE_FILES"
  "sum_list (map (\<lambda>p. length (snd p)) (stored mc)) \<le> 184 + length manifest_bytes + length CANARY_BYTES"
  by (simp_all add: stored_def fixture_pairs_def FIXTURE_DEFINITIONS_def MAX_WORKSPACE_FILES_def)

lemma canary_size: "length CANARY_BYTES = 43"
  by (simp add: CANARY_BYTES_def)

lemma pairs_facts:
  assumes "mset (pairs rs) = mset ps"
  shows "length rs = length ps" "total_bytes rs = sum_list (map (\<lambda>p. length (snd p)) ps)"
    "a_name ` set rs = fst ` set ps"
    "\<And>k b. (k, b) \<in> set ps \<Longrightarrow> \<exists>r\<in>set rs. a_name r = k \<and> a_bytes r = b"
proof -
  have s: "set (pairs rs) = set ps" by (rule mset_eq_setD [OF assms])
  show "length rs = length ps" using mset_eq_length [OF assms] by (simp add: pairs_def)
  have "sum_mset (image_mset (\<lambda>p. length (snd p)) (mset (pairs rs))) =
      sum_mset (image_mset (\<lambda>p. length (snd p)) (mset ps))" using assms by simp
  then show "total_bytes rs = sum_list (map (\<lambda>p. length (snd p)) ps)"
    by (simp add: total_bytes_def pairs_def comp_def flip: mset_map sum_mset_sum_list)
  have "fst ` set (pairs rs) = a_name ` set rs" by (simp add: pairs_def image_image)
  with s show "a_name ` set rs = fst ` set ps" by simp
  show "\<exists>r\<in>set rs. a_name r = k \<and> a_bytes r = b" if "(k, b) \<in> set ps" for k b
    using that unfolding s [symmetric] by (auto simp: pairs_def)
qed

lemma holds_assert: "ws_holds w mc \<Longrightarrow> assert_workspace w = (Inr (), w)"
proof -
  assume "ws_holds w mc"
  then obtain rs where rs: "ws_rep w rs" "mset (pairs rs) = mset (stored mc)" by (auto simp: ws_holds_def)
  show ?thesis
    using stored_bounds [of mc] manifest_text_Some(2) pairs_facts(1,2) [OF rs(2)]
    by (intro rep_assert [OF rs(1)]) (simp_all add: canary_size MAX_WORKSPACE_BYTES_def)
qed

lemma holds_open: "ws_holds w mc \<Longrightarrow> require_open w = (Inr (), w)"
  by (auto simp: ws_holds_def rep_open)

lemma holds_read: "ws_holds w mc \<Longrightarrow> (k, b) \<in> set (stored mc) \<Longrightarrow> read_artifact k w = (Inr b, w)"
  using pairs_facts(4) rep_read by (fastforce simp: ws_holds_def)

lemma holds_absent: "ws_holds w mc \<Longrightarrow> k \<notin> fst ` set (stored mc) \<Longrightarrow> map_of (ws_artifacts w) k = None"
  using pairs_facts(3) rep_no_artifact by (metis ws_holds_def)

lemma holds_present: "ws_holds w mc \<Longrightarrow> k \<in> fst ` set (stored mc) \<Longrightarrow> map_of (ws_artifacts w) k \<noteq> None"
proof -
  assume "ws_holds w mc" and k: "k \<in> fst ` set (stored mc)"
  then obtain rs where rs: "ws_rep w rs" "mset (pairs rs) = mset (stored mc)" by (auto simp: ws_holds_def)
  with k pairs_facts(3) [OF rs(2)] obtain r where "r \<in> set rs" "k = a_name r" by blast
  with rep_artifact [OF rs(1)] show ?thesis by auto
qed

lemma holds_remove:
  assumes "ws_rep w rs" "mset (pairs rs) = mset ps" "distinct (map fst ps)" "(k, b) \<in> set ps"
  shows "\<exists>w' rs'. remove_artifact k w = (Inr True, w') \<and> ws_rep w' rs' \<and>
    mset (pairs rs') = mset (filter (\<lambda>p. fst p \<noteq> k) ps)"
proof -
  obtain r where r: "r \<in> set rs" "a_name r = k" using pairs_facts(4) [OF assms(2,4)] by blast
  have dist: "distinct (map a_name rs)" using assms(1) by (simp add: ws_rep_def)
  then have same: "x \<noteq> r \<longleftrightarrow> a_name x \<noteq> k" if "x \<in> set rs" for x
    using that r by (auto simp: distinct_map dest: inj_onD)
  have "filter (\<lambda>x. x \<noteq> r) rs = filter (\<lambda>x. a_name x \<noteq> k) rs" using same by (intro filter_cong) auto
  then have "pairs (filter (\<lambda>x. x \<noteq> r) rs) = filter (\<lambda>p. fst p \<noteq> k) (pairs rs)"
    by (simp add: pairs_def filter_map comp_def)
  then have "mset (pairs (filter (\<lambda>x. x \<noteq> r) rs)) = mset (filter (\<lambda>p. fst p \<noteq> k) ps)"
    using assms(2) by simp
  with rep_remove [OF assms(1) r(1)] r(2) show ?thesis by blast
qed

lemma holds_remove_manifest:
  assumes "ws_holds w (m, c)"
  obtains w' where "remove_artifact MANIFEST_ARTIFACT w = (Inr m, w')" "ws_holds w' (False, c)"
proof (cases m)
  case False
  have "remove_artifact MANIFEST_ARTIFACT w = (Inr False, w)"
    using holds_absent [OF assms, of MANIFEST_ARTIFACT] False by (simp add: remove_artifact_def stored_names)
  with that [of w] assms False show ?thesis by simp
next
  case True
  obtain rs where rs: "ws_rep w rs" "mset (pairs rs) = mset (stored (m, c))" using assms by (auto simp: ws_holds_def)
  have "(MANIFEST_ARTIFACT, manifest_bytes) \<in> set (stored (m, c))" using True by (simp add: stored_def)
  from holds_remove [OF rs names_distinct this] obtain w' rs' where
    w': "remove_artifact MANIFEST_ARTIFACT w = (Inr True, w')" "ws_rep w' rs'"
    "mset (pairs rs') = mset (filter (\<lambda>p. fst p \<noteq> MANIFEST_ARTIFACT) (stored (m, c)))" by blast
  moreover have "filter (\<lambda>p. fst p \<noteq> MANIFEST_ARTIFACT) (stored (m, c)) = stored (False, c)"
    by (simp add: stored_def fixture_pairs_def FIXTURE_DEFINITIONS_def MANIFEST_ARTIFACT_def CANARY_ARTIFACT_def)
  ultimately have "mset (pairs rs') = mset (stored (False, c))" by simp
  with w'(1,2) show ?thesis using that [of w'] True by (auto simp: ws_holds_def)
qed

lemma holds_remove_canary:
  assumes "ws_holds w (m, c)"
  obtains w' where "remove_artifact CANARY_ARTIFACT w = (Inr c, w')" "ws_holds w' (m, False)"
proof (cases c)
  case False
  have "remove_artifact CANARY_ARTIFACT w = (Inr False, w)"
    using holds_absent [OF assms, of CANARY_ARTIFACT] False by (simp add: remove_artifact_def stored_names)
  with that [of w] assms False show ?thesis by simp
next
  case True
  obtain rs where rs: "ws_rep w rs" "mset (pairs rs) = mset (stored (m, c))" using assms by (auto simp: ws_holds_def)
  have "(CANARY_ARTIFACT, CANARY_BYTES) \<in> set (stored (m, c))" using True by (simp add: stored_def)
  from holds_remove [OF rs names_distinct this] obtain w' rs' where
    w': "remove_artifact CANARY_ARTIFACT w = (Inr True, w')" "ws_rep w' rs'"
    "mset (pairs rs') = mset (filter (\<lambda>p. fst p \<noteq> CANARY_ARTIFACT) (stored (m, c)))" by blast
  moreover have "filter (\<lambda>p. fst p \<noteq> CANARY_ARTIFACT) (stored (m, c)) = stored (m, False)"
    by (simp add: stored_def fixture_pairs_def FIXTURE_DEFINITIONS_def MANIFEST_ARTIFACT_def CANARY_ARTIFACT_def)
  ultimately have "mset (pairs rs') = mset (stored (m, False))" by simp
  with w'(1,2) show ?thesis using that [of w'] True by (auto simp: ws_holds_def)
qed

section \<open>Each playbook follows the machine\<close>

lemma holds_create:
  assumes "ws_holds w mc" and "mset (stored mc) + {#(k, b)#} = mset (stored mc')"
    and "length b \<le> MAX_ARTIFACT_BYTES" and "member_ok pre" and "length pre > 2"
    and "list_all (\<lambda>c. c \<in> set member_chars) suf"
  obtains w' where "create_member k pre suf b w = (Inr (), w')" "ws_holds w' mc'"
proof -
  obtain rs where rs: "ws_rep w rs" "mset (pairs rs) = mset (stored mc)" using assms(1) by (auto simp: ws_holds_def)
  note f = pairs_facts(1-3) [OF rs(2)]
  have perm: "mset ((k, b) # stored mc) = mset (stored mc')" using assms(2) by simp
  have "distinct (map fst ((k, b) # stored mc))"
    using names_distinct [of mc'] mset_map [of fst] perm by (metis mset_eq_imp_distinct_iff)
  then have new: "k \<notin> a_name ` set rs" using f(3) by simp
  have "length ((k, b) # stored mc) = length (stored mc')" by (rule mset_eq_length [OF perm])
  then have len: "length rs < MAX_WORKSPACE_FILES" using f(1) stored_bounds(1) [of mc'] by simp
  have "sum_mset (image_mset (\<lambda>p. length (snd p)) (mset ((k, b) # stored mc))) =
      sum_mset (image_mset (\<lambda>p. length (snd p)) (mset (stored mc')))" by (simp only: perm)
  then have "length b + total_bytes rs = sum_list (map (\<lambda>p. length (snd p)) (stored mc'))"
    using f(2) by (simp flip: mset_map sum_mset_sum_list)
  then have sz: "total_bytes rs + length b \<le> MAX_WORKSPACE_BYTES"
    using stored_bounds(2) [of mc'] manifest_text_Some(2) by (simp add: canary_size MAX_WORKSPACE_BYTES_def)
  obtain w' r where "create_member k pre suf b w = (Inr (), w')" "ws_rep w' (rs @ [r])" "a_name r = k" "a_bytes r = b"
    by (rule rep_create [OF rs(1) new len assms(3) sz assms(4) assms(6) assms(5)])
  moreover from this have "mset (pairs (rs @ [r])) = mset (stored mc')"
    using rs(2) assms(2) by (simp add: pairs_def)
  ultimately show ?thesis using that [of w'] by (auto simp: ws_holds_def)
qed

lemma discover_holds:
  "ws_holds w mc \<Longrightarrow> set ds \<subseteq> set FIXTURE_DEFINITIONS \<Longrightarrow>
   discover_from ds w = (Inr (map discovery_entry ds), w)"
proof (induction ds)
  case (Cons d ds)
  then have "(fx_artifact d, fx_contents d) \<in> set (stored mc)" by (auto simp: stored_def fixture_pairs_def)
  with Cons holds_read [OF Cons.prems(1) this] show ?case by (simp add: discovery_entry_def)
qed simp

lemma collect_holds:
  "ws_holds w mc \<Longrightarrow> set ds \<subseteq> set FIXTURE_DEFINITIONS \<Longrightarrow>
   collect_from ds w = (Inr (map collection_entry ds, map manifest_item ds), w)"
proof (induction ds)
  case (Cons d ds)
  then have "(fx_artifact d, fx_contents d) \<in> set (stored mc)" by (auto simp: stored_def fixture_pairs_def)
  with Cons holds_read [OF Cons.prems(1) this] show ?case by (simp add: collection_entry_def manifest_item_def Let_def)
qed simp

lemma run_playbook_holds:
  assumes "ws_holds w mc" and "playbook_spec p mc = (ev, mc')"
  shows "\<exists>w'. run_playbook p w = (Inr ev, w') \<and> ws_holds w' mc'"
proof -
  obtain m c where mc: "mc = (m, c)" by (cases mc)
  note holds = assms(1) [unfolded mc]
  show ?thesis
  proof (cases p)
    case DISCOVERY_FIXTURES
    with assms mc show ?thesis by (simp add: discover_fixtures_def discover_holds [OF holds])
  next
    case COLLECT_AND_STAGE
    obtain w1 where w1: "remove_artifact MANIFEST_ARTIFACT w = (Inr m, w1)" "ws_holds w1 (False, c)"
      by (rule holds_remove_manifest [OF holds])
    have pre: "member_ok ''stage-manifest-''" "list_all (\<lambda>c. c \<in> set member_chars) ''.json''" by code_simp+
    have sz: "length manifest_bytes \<le> MAX_ARTIFACT_BYTES"
      using manifest_text_Some(2) by (simp add: MAX_ARTIFACT_BYTES_def)
    obtain w2 where w2: "create_member MANIFEST_ARTIFACT ''stage-manifest-'' ''.json'' manifest_bytes w1 = (Inr (), w2)"
      "ws_holds w2 (True, c)"
      by (rule holds_create [OF w1(2) _ sz pre(1) _ pre(2), where mc' = "(True, c)"]) (simp_all add: stored_def)
    have "collect_and_stage w = (Inr (map collection_entry FIXTURE_DEFINITIONS @ [manifest_entry]), w2)"
      unfolding collect_and_stage_def
      by (simp add: w1(1) collect_holds [OF w1(2)] manifest_text_Some(1) w2(1) manifest_entry_def)
    with COLLECT_AND_STAGE assms mc w2(2) show ?thesis by simp
  next
    case CREATE_CANARY
    show ?thesis
    proof (cases c)
      case True
      have "map_of (ws_artifacts w) CANARY_ARTIFACT \<noteq> None"
        by (rule holds_present [OF holds]) (simp add: True stored_names)
      moreover have "read_artifact CANARY_ARTIFACT w = (Inr CANARY_BYTES, w)"
        by (rule holds_read [OF holds]) (simp add: True stored_def)
      ultimately show ?thesis using CREATE_CANARY True assms mc
        by (auto simp: create_canary_def canary_entry_def)
    next
      case False
      have pre: "member_ok ''marker-canary-''" "list_all (\<lambda>c. c \<in> set member_chars) ''.json''" by code_simp+
      have csz: "length CANARY_BYTES \<le> MAX_ARTIFACT_BYTES" by (simp add: canary_size MAX_ARTIFACT_BYTES_def)
      have absent: "map_of (ws_artifacts w) CANARY_ARTIFACT = None"
        by (rule holds_absent [OF holds]) (simp add: False stored_names)
      obtain w1 where w1: "create_member CANARY_ARTIFACT ''marker-canary-'' ''.json'' CANARY_BYTES w = (Inr (), w1)"
        "ws_holds w1 (m, True)"
        by (rule holds_create [OF holds _ csz pre(1) _ pre(2), where mc' = "(m, True)"])
          (simp_all add: False stored_def)
      with absent CREATE_CANARY False assms mc show ?thesis
        by (auto simp: create_canary_def canary_entry_def)
    qed
  next
    case CLEANUP
    obtain w1 where w1: "remove_artifact MANIFEST_ARTIFACT w = (Inr m, w1)" "ws_holds w1 (False, c)"
      by (rule holds_remove_manifest [OF holds])
    obtain w2 where w2: "remove_artifact CANARY_ARTIFACT w1 = (Inr c, w2)" "ws_holds w2 (False, False)"
      by (rule holds_remove_canary [OF w1(2)])
    with w1 CLEANUP assms mc show ?thesis
      by (simp add: cleanup_artifacts_def removal_entry_def)
  qed
qed

lemma execute_holds:
  assumes "ws_holds w mc" and "playbook_spec p mc = (ev, mc')"
  shows "\<exists>w'. execute_playbook (JStr (playbook_str p)) w = (Inr (playbook_result p ev), w') \<and> ws_holds w' mc'"
proof -
  obtain w' where w': "run_playbook p w = (Inr ev, w')" "ws_holds w' mc'"
    using run_playbook_holds [OF assms] by blast
  have "ev \<in> set (allowed_evidence p)" using playbook_spec_allowed [of p mc] assms(2) by simp
  from validate_playbook_complete [OF this]
  have "validate_playbook_result (JStr (playbook_str p)) (JObj [(''playbook'', JStr (playbook_str p)),
      (''scope'', RUNTIME_SCOPE), (''attack_techniques'', TECHNIQUES p), (''steps'', STEPS p),
      (''evidence'', JList ev)]) = Inr (playbook_result p ev)"
    by (simp only: playbook_result_def)
  with w' holds_open [OF assms(1)] holds_assert [OF assms(1)] holds_assert [OF w'(2)] show ?thesis
    by (simp add: execute_playbook_def del: TECHNIQUES.simps STEPS.simps)
qed

section \<open>A new workspace\<close>

lemma rep_fresh: "tempfile_ok names \<Longrightarrow> ws_rep (fresh_workspace dir names) []"
  by (simp add: ws_rep_def fresh_workspace_def root_ok_def)

lemma fixtures_created:
  assumes "ws_rep w rs" and "length rs + length ds \<le> MAX_WORKSPACE_FILES"
    and "total_bytes rs + sum_list (map (\<lambda>d. length (fx_contents d)) ds) \<le> MAX_WORKSPACE_BYTES"
    and "distinct (map a_name rs @ map fx_artifact ds)"
    and "list_all (\<lambda>d. length (fx_contents d) \<le> MAX_ARTIFACT_BYTES \<and> member_ok (fx_prefix d) \<and>
      length (fx_prefix d) > 2 \<and> list_all (\<lambda>c. c \<in> set member_chars) (fx_suffix d)) ds"
  shows "\<exists>w' rs'. create_fixtures ds w = (Inr (), w') \<and> ws_rep w' rs' \<and>
    pairs rs' = pairs rs @ map (\<lambda>d. (fx_artifact d, fx_contents d)) ds"
  using assms
proof (induction ds arbitrary: w rs)
  case (Cons d ds)
  obtain w1 r where w1: "create_member (fx_artifact d) (fx_prefix d) (fx_suffix d) (fx_contents d) w = (Inr (), w1)"
    "ws_rep w1 (rs @ [r])" "a_name r = fx_artifact d" "a_bytes r = fx_contents d"
    by (rule rep_create [OF Cons.prems(1), of "fx_artifact d" "fx_contents d" "fx_prefix d" "fx_suffix d"])
      (use Cons.prems in auto)
  have "\<exists>w' rs'. create_fixtures ds w1 = (Inr (), w') \<and> ws_rep w' rs' \<and>
      pairs rs' = pairs (rs @ [r]) @ map (\<lambda>d. (fx_artifact d, fx_contents d)) ds"
    using Cons.prems w1 by (intro Cons.IH) (auto simp: total_bytes_def)
  with w1 show ?case by (auto simp: pairs_def)
qed auto

lemma open_holds:
  assumes "tempfile_ok names"
  shows "\<exists>w. open_workspace (fresh_workspace dir names) = (Inr (), w) \<and> ws_holds w (False, False)"
proof -
  have "list_all (\<lambda>d. length (fx_contents d) \<le> MAX_ARTIFACT_BYTES \<and> member_ok (fx_prefix d) \<and>
      length (fx_prefix d) > 2 \<and> list_all (\<lambda>c. c \<in> set member_chars) (fx_suffix d)) FIXTURE_DEFINITIONS"
    by code_simp
  then obtain w rs where w: "create_fixtures FIXTURE_DEFINITIONS (fresh_workspace dir names) = (Inr (), w)"
    "ws_rep w rs" "pairs rs = pairs [] @ fixture_pairs"
    using fixtures_created [OF rep_fresh [OF assms], of FIXTURE_DEFINITIONS dir]
    by (auto simp: fixture_pairs_def total_bytes_def FIXTURE_DEFINITIONS_def MAX_WORKSPACE_FILES_def
        MAX_WORKSPACE_BYTES_def)
  have h: "ws_holds w (False, False)"
    unfolding ws_holds_def
  proof (intro exI conjI)
    show "mset (pairs rs) = mset (stored (False, False))" by (simp only: w(3)) (simp add: stored_def pairs_def)
  qed (rule w(2))
  with holds_assert [OF h] w(1) show ?thesis by (simp add: open_workspace_def)
qed

section \<open>Interference\<close>

definition file_size :: "workspace \<Rightarrow> dir_entry \<Rightarrow> nat" where
  "file_size w e = (case file_of w (de_file e) of None \<Rightarrow> 0 | Some f \<Rightarrow> length (fd_bytes f))"

definition own_entry :: "workspace \<Rightarrow> string \<times> dir_entry \<Rightarrow> bool" where
  "own_entry w me \<longleftrightarrow> (\<exists>h f. map_of (ws_handles w) (fst me) = Some h \<and> h_open h \<and>
     de_kind (snd me) = RegularFile \<and> de_file (snd me) = h_file h \<and> file_of w (h_file h) = Some f \<and>
     fd_links f = 1 \<and> length (fd_bytes f) \<le> MAX_ARTIFACT_BYTES)"

text \<open>The directory is the original one and holds exactly the files the workspace has open, none of
  them linked from elsewhere, within the limits.\<close>

definition intact :: "workspace \<Rightarrow> bool" where
  "intact w \<longleftrightarrow> root_ok w \<and> length (fs_entries (ws_fs w)) \<le> MAX_WORKSPACE_FILES \<and>
     set (keys (fs_entries (ws_fs w))) = set (keys (ws_handles w)) \<and>
     list_all (own_entry w) (fs_entries (ws_fs w)) \<and>
     sum_list (map (\<lambda>me. file_size w (snd me)) (fs_entries (ws_fs w))) \<le> MAX_WORKSPACE_BYTES"

lemma check_entry_Inr: "check_entry w me = Inr n \<Longrightarrow> own_entry w me \<and> file_size w (snd me) = n"
  by (auto simp: check_entry_def own_entry_def file_size_def split: prod.splits option.splits if_splits)

lemma check_entries_from_Inr:
  "check_entries_from w n es = Inr k \<Longrightarrow>
   list_all (own_entry w) es \<and> n + sum_list (map (\<lambda>me. file_size w (snd me)) es) = k"
proof (induction es arbitrary: n)
  case (Cons me es)
  then obtain i where "check_entry w me = Inr i" "check_entries_from w (n + i) es = Inr k"
    by (auto simp: rbind_eq_Inr)
  with Cons.IH [of "n + i"] check_entry_Inr [of w me i] show ?case by auto
qed simp

lemma assert_workspace_Inr: "assert_workspace w = (Inr (), w') \<Longrightarrow> w' = w \<and> intact w"
  by (auto simp: assert_workspace_def Let_def wguard_def intact_def simp del: set_map
      dest!: check_entries_from_Inr split: if_splits sum.splits)

lemma wbind_Inr: "wbind m f = (Inr y, w') \<longleftrightarrow> (\<exists>x w. m = (Inr x, w) \<and> f x w = (Inr y, w'))"
  by (cases m; cases "fst m") auto

section \<open>Properties\<close>

fun run_playbooks :: "playbook list \<Rightarrow> workspace \<Rightarrow> (workspace_error + json) list" where
  "run_playbooks [] w = []"
| "run_playbooks (p # ps) w = (case execute_playbook (JStr (playbook_str p)) w of
     (r, w') \<Rightarrow> r # run_playbooks ps w')"

fun spec_results :: "playbook list \<Rightarrow> bool \<times> bool \<Rightarrow> json list" where
  "spec_results [] mc = []"
| "spec_results (p # ps) mc = (case playbook_spec p mc of
     (ev, mc') \<Rightarrow> playbook_result p ev # spec_results ps mc')"

lemma run_playbooks_holds: "ws_holds w mc \<Longrightarrow> run_playbooks ps w = map Inr (spec_results ps mc)"
proof (induction ps arbitrary: w mc)
  case (Cons p ps)
  obtain ev mc' where spec: "playbook_spec p mc = (ev, mc')" by (cases "playbook_spec p mc")
  from execute_holds [OF Cons.prems this] obtain w' where
    "execute_playbook (JStr (playbook_str p)) w = (Inr (playbook_result p ev), w')" "ws_holds w' mc'" by blast
  with Cons.IH [of w' mc'] spec show ?case by (simp del: playbook_str.simps)
qed simp

text \<open>C29: A workspace that nothing else touches refines a machine with two bits, \<open>is the manifest
  staged\<close> and \<open>is the canary there\<close>: opening it succeeds, and every sequence of playbooks then succeeds
  with exactly the results the machine gives, whatever names the temporary files get.\<close>

theorem workspace_refines_machine:
  assumes "tempfile_ok names"
  shows "\<exists>w. open_workspace (fresh_workspace dir names) = (Inr (), w) \<and>
    run_playbooks ps w = map Inr (spec_results ps (False, False))"
  using open_holds [OF assms] run_playbooks_holds by blast

definition demo_names :: "string list \<Rightarrow> string \<Rightarrow> string \<Rightarrow> string" where
  "demo_names present pre suf = replicate (Suc (foldr max (map length present) 0)) (CHR ''a'')"

lemma demo_names_ok: "tempfile_ok demo_names"
proof -
  have l: "x \<in> set present \<Longrightarrow> length x \<le> foldr max (map length present) 0" for x :: string and present
    by (induction present) (auto simp: le_max_iff_disj)
  show ?thesis
    unfolding tempfile_ok_def
  proof (intro allI conjI notI)
    fix present :: "string list" and pre suf
    assume "pre @ demo_names present pre suf @ suf \<in> set present"
    from l [OF this] show False by (simp add: demo_names_def)
  qed (simp add: demo_names_def tempfile_chars_def list_all_iff)
qed

theorem workspace_refines_machine_witness:
  "\<exists>w. open_workspace (fresh_workspace ''/tmp/c2lab-node-x'' demo_names) = (Inr (), w) \<and>
     run_playbooks [CREATE_CANARY, CREATE_CANARY, CLEANUP] w =
       [Inr (playbook_result CREATE_CANARY [canary_entry ''canary-created'']),
        Inr (playbook_result CREATE_CANARY [canary_entry ''canary-already-present'']),
        Inr (playbook_result CLEANUP [removal_entry MANIFEST_ARTIFACT False, removal_entry CANARY_ARTIFACT True])]"
  using workspace_refines_machine [OF demo_names_ok, of _ "[CREATE_CANARY, CREATE_CANARY, CLEANUP]"] by simp

text \<open>C30: Whatever another process does to the directory, a playbook reports a result only if, before
  and after it ran, the directory was the original one and held exactly the files the workspace has
  open: no added, missing, replaced, linked or oversized file; and the result is one of the few the
  protocol allows for that playbook.\<close>

theorem workspace_reports_intact:
  assumes "execute_playbook name w = (Inr r, w')"
  shows "intact w \<and> intact w' \<and>
    (\<exists>p. name = JStr (playbook_str p) \<and> (\<exists>ev\<in>set (allowed_evidence p). same_json_value r (playbook_result p ev)))"
proof -
  obtain p where p: "parse_playbook name = Some p" using assms by (auto simp: execute_playbook_def split: option.splits)
  then have name: "name = JStr (playbook_str p)" by (rule parse_playbook_SomeD)
  from assms p obtain w1 w2 ev j where
    "require_open w = (Inr (), w1)" "assert_workspace w1 = (Inr (), w2)"
    and a: "assert_workspace w' = (Inr (), w')" and v: "validate_playbook_result name j = Inr r"
    by (auto simp: execute_playbook_def wbind_Inr dest: assert_workspace_Inr)
  moreover from this have "w1 = w" by (simp add: require_open_def wguard_def)
  ultimately show ?thesis
    using assert_workspace_Inr validate_playbook_result_Inr [of p j r] name by blast
qed

theorem workspace_reports_intact_witness:
  "\<exists>w w' r. open_workspace (fresh_workspace ''/tmp/c2lab-node-x'' demo_names) = (Inr (), w) \<and>
     execute_playbook (JStr ''CLEANUP'') w = (Inr r, w') \<and> intact w \<and> intact w'"
proof -
  obtain w where w: "open_workspace (fresh_workspace ''/tmp/c2lab-node-x'' demo_names) = (Inr (), w)"
    "ws_holds w (False, False)" using open_holds [OF demo_names_ok] by blast
  from execute_holds [OF w(2), of CLEANUP] obtain w' r where
    e: "execute_playbook (JStr (playbook_str CLEANUP)) w = (Inr r, w')" by auto
  from workspace_reports_intact [OF e] have "intact w \<and> intact w'" by blast
  moreover have "playbook_str CLEANUP = ''CLEANUP''" by simp
  ultimately show ?thesis using w(1) e by metis
qed

end
