(* ===== verification/Node_Executor.thy ===== *)
theory Node_Executor
  imports Workspace Task_Result
begin

text \<open>
  \<open>NodeExecutor\<close> of \<open>c2lab/node.py\<close>: the fixed action registry of a node and the runtime state it
  commits only after the Teamserver has accepted a result.  The purple-lab profile owns a
  \<open>Workspace\<close>.  The monotonic clock is the argument \<open>now\<close>; \<open>fresh\<close> is the empty directory the next
  \<open>TemporaryDirectory()\<close> gives.
\<close>

record executor =
  ex_version :: string
  ex_profile :: profile
  ex_poll_interval_ms :: int
  ex_jitter_percent :: int
  ex_started :: rat
  ex_tasks_completed :: nat
  ex_workspace :: "workspace option"

datatype executor_error = BadSetting protocol_error | WorkspaceFailed workspace_error

section \<open>Life of the workspace\<close>

definition open_lab_workspace :: "profile \<Rightarrow> workspace \<Rightarrow> executor_error + workspace option" where
  "open_lab_workspace p fresh = (if p \<noteq> Purple_lab then Inr None
     else (case open_workspace fresh of
         (Inl e, _) \<Rightarrow> Inl (WorkspaceFailed e)
       | (Inr _, w) \<Rightarrow> Inr (Some w)))"

definition new_executor ::
  "string \<Rightarrow> json \<Rightarrow> json \<Rightarrow> json \<Rightarrow> rat \<Rightarrow> workspace \<Rightarrow> executor_error + executor" where
  "new_executor version prof interval jitter now fresh =
    rbind (map_error BadSetting (validate_profile prof)) (\<lambda>p.
    rbind (map_error BadSetting (validate_poll_interval interval)) (\<lambda>i.
    rbind (map_error BadSetting (validate_jitter_percent jitter)) (\<lambda>j.
    rbind (open_lab_workspace p fresh) (\<lambda>w.
      Inr \<lparr>ex_version = version, ex_profile = p, ex_poll_interval_ms = i, ex_jitter_percent = j,
           ex_started = now, ex_tasks_completed = 0, ex_workspace = w\<rparr>))))"

text \<open>\<open>close\<close>: the second component is the workspace whose directory is removed.\<close>

definition close_executor :: "executor \<Rightarrow> executor \<times> workspace option" where
  "close_executor ex = (ex\<lparr>ex_workspace := None\<rparr>, map_option close_workspace (ex_workspace ex))"

definition reset_lab_workspace :: "workspace \<Rightarrow> executor \<Rightarrow> (executor_error + unit) \<times> executor" where
  "reset_lab_workspace fresh ex =
    (let (ex, _) = close_executor ex
     in case open_lab_workspace (ex_profile ex) fresh of
          Inl e \<Rightarrow> (Inl e, ex)
        | Inr w \<Rightarrow> (Inr (), ex\<lparr>ex_workspace := w\<rparr>))"

section \<open>Executing a task\<close>

text \<open>\<open>int(x)\<close> of a float drops the fraction.\<close>

definition py_trunc :: "rat \<Rightarrow> int" where
  "py_trunc x = (if x < 0 then \<lceil>x\<rceil> else \<lfloor>x\<rfloor>)"

text \<open>What an action raises: a \<open>ProtocolError\<close> or any other exception.\<close>

datatype action_error = InvalidTask | HandlerFailed

fun error_code_of :: "action_error \<Rightarrow> string" where
  "error_code_of InvalidTask = ''INVALID_TASK''"
| "error_code_of HandlerFailed = ''HANDLER_FAILED''"

fun run_action :: "rat \<Rightarrow> task_type \<Rightarrow> payload \<Rightarrow> executor \<Rightarrow> (action_error + json) \<times> executor" where
  "run_action now PING _ ex = (Inr (JObj [(''reply'', JStr ''PONG'')]), ex)"
| "run_action now RUNTIME_STATUS _ ex = (Inr (JObj
     [(''version'', JStr (ex_version ex)), (''profile'', JStr (profile_str (ex_profile ex))),
      (''uptime_ms'', JInt (py_trunc ((now - ex_started ex) * 1000))),
      (''tasks_completed'', JInt (int (ex_tasks_completed ex))),
      (''poll_interval_ms'', JInt (ex_poll_interval_ms ex)),
      (''jitter_percent'', JInt (ex_jitter_percent ex))]), ex)"
| "run_action now ECHO_TEXT (TextField t) ex = (Inr (JObj [(''echo'', JStr t)]), ex)"
| "run_action now HASH_TEXT (TextField t) ex = (Inr (JObj
     [(''algorithm'', JStr ''sha256''), (''digest'', JStr (sha256_hex (utf8_encode t)))]), ex)"
| "run_action now WAIT (WaitFields ms) ex = (Inr (JObj [(''waited_ms'', JInt ms)]), ex)"
| "run_action now SLEEP (SleepFields i j) ex = (Inr (JObj
     [(''previous_interval_ms'', JInt (ex_poll_interval_ms ex)), (''new_interval_ms'', JInt i),
      (''jitter_percent'', JInt j)]), ex)"
| "run_action now EXIT _ ex = (Inr (JObj [(''acknowledged'', JBool True)]), ex)"
| "run_action now RUN_PLAYBOOK (PlaybookField p) ex = (case ex_workspace ex of
       None \<Rightarrow> (Inl InvalidTask, ex)
     | Some w \<Rightarrow> (case execute_playbook (JStr (playbook_str p)) w of
         (Inl e, w') \<Rightarrow> (Inl HandlerFailed, ex\<lparr>ex_workspace := Some w'\<rparr>)
       | (Inr r, w') \<Rightarrow> (Inr r, ex\<lparr>ex_workspace := Some w'\<rparr>)))"
| "run_action now GENERATE_EVENT (EventFields c s m) ex = (Inr (JObj
     [(''recorded'', JBool True), (''category'', JStr c), (''severity'', JStr s), (''message'', JStr m)]), ex)"
| "run_action now _ _ ex = (Inl HandlerFailed, ex)"

definition failed_report :: "action_error \<Rightarrow> string \<times> json" where
  "failed_report e = (''failed'', JObj [(''error_code'', JStr (error_code_of e))])"

definition execute_task :: "json \<Rightarrow> rat \<Rightarrow> executor \<Rightarrow> (string \<times> json) \<times> executor" where
  "execute_task task now ex = (case task of
      JObj kvs \<Rightarrow>
        (case validate_task_payload (get_key kvs ''type'') (get_key kvs ''payload'') of
          Inl (ProtocolError _) \<Rightarrow> (failed_report InvalidTask, ex)
        | Inl (PyException _) \<Rightarrow> (failed_report HandlerFailed, ex)
        | Inr (t, p) \<Rightarrow>
            if t \<notin> set (NODE_PROFILES (ex_profile ex)) then (failed_report InvalidTask, ex)
            else (case run_action now t p ex of
                (Inl e, ex') \<Rightarrow> (failed_report e, ex')
              | (Inr r, ex') \<Rightarrow> ((''completed'', r), ex')))
    | _ \<Rightarrow> (failed_report InvalidTask, ex))"

section \<open>Committing an accepted result\<close>

text \<open>\<open>value == i\<close> for an \<open>int\<close>: \<open>True\<close> is 1 and \<open>500.0\<close> is 500.\<close>

fun py_equals_int :: "json \<Rightarrow> int \<Rightarrow> bool" where
  "py_equals_int (JInt k) i = (k = i)"
| "py_equals_int (JBool b) i = (i = (if b then 1 else 0))"
| "py_equals_int (JFloat (FRepr r)) i = (r = int_str i @ ''.0'' \<or> i = 0 \<and> r = ''-0.0'')"
| "py_equals_int _ i = False"

definition outside_profile :: protocol_error where
  "outside_profile = ProtocolError ''acknowledged task is outside the node profile''"

definition commit_sleep :: "(string \<times> json) list \<Rightarrow> executor \<Rightarrow> (protocol_error + unit) \<times> executor" where
  "commit_sleep kvs ex =
    (if set (keys kvs) \<noteq> {''previous_interval_ms'', ''new_interval_ms'', ''jitter_percent''} \<or>
        \<not> py_equals_int (get_key kvs ''previous_interval_ms'') (ex_poll_interval_ms ex)
     then (Inl (ProtocolError ''acknowledged sleep result does not match runtime state''), ex)
     else (case validate_poll_interval (get_key kvs ''new_interval_ms'') of
         Inl e \<Rightarrow> (Inl e, ex)
       | Inr i \<Rightarrow>
           (case validate_jitter_percent (get_key kvs ''jitter_percent'') of
             Inl e \<Rightarrow> (Inl e, ex\<lparr>ex_poll_interval_ms := i\<rparr>)
           | Inr j \<Rightarrow> (Inr (), ex\<lparr>ex_poll_interval_ms := i, ex_jitter_percent := j\<rparr>))))"

definition acknowledge :: "json \<Rightarrow> json \<Rightarrow> json \<Rightarrow> executor \<Rightarrow> (protocol_error + unit) \<times> executor" where
  "acknowledge tt status result ex =
    (if status \<noteq> JStr ''completed'' then (Inr (), ex)
     else (case parse_task_type tt of
         None \<Rightarrow> (Inl outside_profile, ex)
       | Some t \<Rightarrow>
           if t \<notin> set (NODE_PROFILES (ex_profile ex)) then (Inl outside_profile, ex)
           else (case result of
               JObj kvs \<Rightarrow>
                 (case (if t = SLEEP then commit_sleep kvs ex else (Inr (), ex)) of
                   (Inl e, ex) \<Rightarrow> (Inl e, ex)
                 | (Inr _, ex) \<Rightarrow> (Inr (), ex\<lparr>ex_tasks_completed := Suc (ex_tasks_completed ex)\<rparr>))
             | _ \<Rightarrow> (Inl (ProtocolError ''acknowledged result must be an object''), ex))))"

section \<open>Waiting\<close>

text \<open>\<open>_jittered_wait\<close>: the number of seconds waited; \<open>uniform a b\<close> is the value
  \<open>random.uniform(a, b)\<close> returns.\<close>

definition jittered_delay :: "(rat \<Rightarrow> rat \<Rightarrow> rat) \<Rightarrow> int \<Rightarrow> int \<Rightarrow> rat" where
  "jittered_delay uniform base_ms jitter =
    (let base = of_int base_ms / 1000
     in if jitter > 0 then
          (let offset = base * of_int jitter / 100
           in max (of_int MIN_POLL_INTERVAL_MS / 1000)
                (min (of_int MAX_POLL_INTERVAL_MS / 1000) (base + uniform (- offset) offset)))
        else base)"

end
