(* ===== verification/Url.thy ===== *)
theory Url
  imports Protocol
begin

text \<open>
  What the program takes from the standard library to read URLs, query strings and decimal numbers
  (\<open>urllib.parse\<close> and \<open>int\<close> of CPython 3.11), on Latin-1 text.  Decoded query text may hold any
  code point and is a list of numbers.  The test of \<open>urlsplit\<close> on the text between square brackets,
  which belongs to \<open>ipaddress\<close>, is the parameter \<open>bracket_ok\<close>.
\<close>

section \<open>String methods\<close>

definition py_lower_char :: "char \<Rightarrow> char" where
  "py_lower_char c = (if 65 \<le> code c \<and> code c \<le> 90 \<or> 192 \<le> code c \<and> code c \<le> 222 \<and> code c \<noteq> 215
     then char_of (code c + 32) else c)"

definition py_lower :: "string \<Rightarrow> string" where
  "py_lower s = map py_lower_char s"

definition is_digit :: "char \<Rightarrow> bool" where
  "is_digit c \<longleftrightarrow> 48 \<le> code c \<and> code c \<le> 57"

definition ascii_alpha :: "char \<Rightarrow> bool" where
  "ascii_alpha c \<longleftrightarrow> 65 \<le> code c \<and> code c \<le> 90 \<or> 97 \<le> code c \<and> code c \<le> 122"

text \<open>\<open>s.partition(c)\<close> and \<open>s.rpartition(c)\<close>, with the middle part as a flag.\<close>

definition py_partition :: "char \<Rightarrow> string \<Rightarrow> string \<times> bool \<times> string" where
  "py_partition c s = (takeWhile (\<lambda>d. d \<noteq> c) s, c \<in> set s, drop 1 (dropWhile (\<lambda>d. d \<noteq> c) s))"

definition py_rpartition :: "char \<Rightarrow> string \<Rightarrow> string \<times> bool \<times> string" where
  "py_rpartition c s = (if c \<notin> set s then ([], False, s)
     else (rev (drop 1 (dropWhile (\<lambda>d. d \<noteq> c) (rev s))), True, rev (takeWhile (\<lambda>d. d \<noteq> c) (rev s))))"

definition dec_value :: "string \<Rightarrow> nat" where
  "dec_value s = foldl (\<lambda>n c. 10 * n + (code c - 48)) 0 s"

text \<open>\<open>int(text)\<close>: surrounding white space, a sign, and digits with single underscores between them;
  more than 4300 digits are an error like any other.\<close>

definition py_int :: "string \<Rightarrow> int option" where
  "py_int s =
    (let t = py_strip s;
         signed = (t \<noteq> [] \<and> hd t \<in> {CHR ''+'', CHR ''-''});
         body = (if signed then tl t else t);
         digits = filter is_digit body
     in if list_all (\<lambda>p. p \<noteq> [] \<and> list_all is_digit p) (py_split (CHR ''_'') body) \<and> length digits \<le> MAX_INT_DIGITS
        then Some (if signed \<and> hd t = CHR ''-'' then - int (dec_value digits) else int (dec_value digits))
        else None)"

section \<open>\<open>urlsplit\<close>\<close>

record split_url =
  su_scheme :: string
  su_netloc :: string
  su_path :: string
  su_query :: string
  su_fragment :: string

definition scheme_char :: "char \<Rightarrow> bool" where
  "scheme_char c \<longleftrightarrow> ascii_alpha c \<or> is_digit c \<or> c \<in> set ''+-.''"

definition split_scheme :: "string \<Rightarrow> string \<times> string" where
  "split_scheme url =
    (let (before, found, after) = py_partition (CHR '':'') url
     in if found \<and> before \<noteq> [] \<and> ascii_alpha (hd url) \<and> list_all scheme_char before
        then (py_lower before, after) else ([], url))"

definition netloc_end :: "char \<Rightarrow> bool" where
  "netloc_end c \<longleftrightarrow> c \<in> set ''/?#''"

definition split_netloc :: "string \<Rightarrow> string \<times> string" where
  "split_netloc url = (if take 2 url = ''//''
     then (takeWhile (\<lambda>c. \<not> netloc_end c) (drop 2 url), dropWhile (\<lambda>c. \<not> netloc_end c) (drop 2 url))
     else ([], url))"

definition bracketed :: "string \<Rightarrow> string" where
  "bracketed netloc = fst (py_partition (CHR '']'') (snd (snd (py_partition (CHR ''['') netloc))))"

definition urlsplit :: "(string \<Rightarrow> bool) \<Rightarrow> string \<Rightarrow> split_url option" where
  "urlsplit bracket_ok url =
    (let url = filter (\<lambda>c. code c \<notin> {9, 10, 13}) (dropWhile (\<lambda>c. code c \<le> 32) url);
         (scheme, url) = split_scheme url;
         (netloc, url) = split_netloc url
     in if (CHR ''['' \<in> set netloc) \<noteq> (CHR '']'' \<in> set netloc) then None
        else if CHR ''['' \<in> set netloc \<and> \<not> bracket_ok (bracketed netloc) then None
        else
          let (url, _, fragment) = py_partition (CHR ''#'') url;
              (path, _, query) = py_partition (CHR ''?'') url
          in Some \<lparr>su_scheme = scheme, su_netloc = netloc, su_path = path, su_query = query,
                   su_fragment = fragment\<rparr>)"

text \<open>The properties of a split result.  \<open>None\<close> is Python's \<open>None\<close>; a port that is not a number from
  0 to 65535 raises.\<close>

definition host_port :: "split_url \<Rightarrow> string \<times> string" where
  "host_port u =
    (let hostinfo = snd (snd (py_rpartition (CHR ''@'') (su_netloc u)));
         (_, have_open_br, inside) = py_partition (CHR ''['') hostinfo
     in if have_open_br
        then (let (hostname, _, rest) = py_partition (CHR '']'') inside
              in (hostname, snd (snd (py_partition (CHR '':'') rest))))
        else (let (hostname, _, port) = py_partition (CHR '':'') hostinfo in (hostname, port)))"

definition url_hostname :: "split_url \<Rightarrow> string option" where
  "url_hostname u =
    (let h = fst (host_port u); (name, percent, zone) = py_partition (CHR ''%'') h
     in if h = [] then None else Some (py_lower name @ (if percent then ''%'' else []) @ zone))"

definition url_port :: "split_url \<Rightarrow> (int option) option" where
  "url_port u =
    (let p = snd (host_port u)
     in if p = [] then Some None
        else if list_all is_digit p then
          (case py_int p of None \<Rightarrow> None
           | Some n \<Rightarrow> if 0 \<le> n \<and> n \<le> 65535 then Some (Some n) else None)
        else None)"

definition url_username :: "split_url \<Rightarrow> string option" where
  "url_username u = (let (userinfo, have, _) = py_rpartition (CHR ''@'') (su_netloc u)
     in if have then Some (fst (py_partition (CHR '':'') userinfo)) else None)"

definition url_password :: "split_url \<Rightarrow> string option" where
  "url_password u = (let (userinfo, have, _) = py_rpartition (CHR ''@'') (su_netloc u);
                         (_, have_password, password) = py_partition (CHR '':'') userinfo
     in if have \<and> have_password then Some password else None)"

section \<open>\<open>parse_qsl\<close>\<close>

definition utf8_cont :: "nat \<Rightarrow> bool" where
  "utf8_cont b \<longleftrightarrow> 128 \<le> b \<and> b \<le> 191"

text \<open>Strict UTF-8 decoding: no overlong forms, no surrogates, nothing above U+10FFFF.\<close>

fun utf8_decode :: "nat list \<Rightarrow> nat list option" where
  "utf8_decode [] = Some []"
| "utf8_decode (b # bs) =
    (if b < 128 then map_option ((#) b) (utf8_decode bs)
     else if 194 \<le> b \<and> b \<le> 223 then
       (case bs of c # bs' \<Rightarrow> if utf8_cont c then map_option ((#) ((b - 192) * 64 + (c - 128))) (utf8_decode bs') else None
        | _ \<Rightarrow> None)
     else if 224 \<le> b \<and> b \<le> 239 then
       (case bs of c # d # bs' \<Rightarrow>
            let p = (b - 224) * 4096 + (c - 128) * 64 + (d - 128) in
            if utf8_cont c \<and> utf8_cont d \<and> 2048 \<le> p \<and> \<not> (55296 \<le> p \<and> p \<le> 57343)
            then map_option ((#) p) (utf8_decode bs') else None
        | _ \<Rightarrow> None)
     else if 240 \<le> b \<and> b \<le> 244 then
       (case bs of c # d # e # bs' \<Rightarrow>
            let p = (b - 240) * 262144 + (c - 128) * 4096 + (d - 128) * 64 + (e - 128) in
            if utf8_cont c \<and> utf8_cont d \<and> utf8_cont e \<and> 65536 \<le> p \<and> p \<le> 1114111
            then map_option ((#) p) (utf8_decode bs') else None
        | _ \<Rightarrow> None)
     else None)"

definition hex_value :: "char \<Rightarrow> nat option" where
  "hex_value c = (if is_digit c then Some (code c - 48)
     else if 65 \<le> code c \<and> code c \<le> 70 then Some (code c - 55)
     else if 97 \<le> code c \<and> code c \<le> 102 then Some (code c - 87) else None)"

fun unquote_bytes :: "string \<Rightarrow> nat list" where
  "unquote_bytes [] = []"
| "unquote_bytes (c # cs) =
    (case (c = CHR ''%'', cs) of
       (True, a # b # rest) \<Rightarrow> (case (hex_value a, hex_value b) of
           (Some m, Some n) \<Rightarrow> (16 * m + n) # unquote_bytes rest
         | _ \<Rightarrow> code c # unquote_bytes cs)
     | _ \<Rightarrow> code c # unquote_bytes cs)"

text \<open>\<open>unquote\<close> decodes each run of ASCII characters and keeps the characters between them.\<close>

function unquote_runs :: "string \<Rightarrow> nat list option" where
  "unquote_runs [] = Some []"
| "unquote_runs (c # cs) =
    (if code c \<ge> 128 then map_option ((#) (code c)) (unquote_runs cs)
     else (case utf8_decode (unquote_bytes (takeWhile (\<lambda>d. code d < 128) (c # cs))) of
         None \<Rightarrow> None
       | Some d \<Rightarrow> map_option ((@) d) (unquote_runs (dropWhile (\<lambda>d. code d < 128) (c # cs)))))"
  by pat_completeness auto
termination
  by (relation "measure length") (auto simp: length_dropWhile_le le_imp_less_Suc)

definition unquote :: "string \<Rightarrow> nat list option" where
  "unquote s = (if CHR ''%'' \<in> set s then unquote_runs s else Some (map code s))"

definition unquote_plus :: "string \<Rightarrow> nat list option" where
  "unquote_plus s = unquote (map (\<lambda>c. if c = CHR ''+'' then CHR '' '' else c) s)"

fun query_pairs :: "string list \<Rightarrow> (nat list \<times> nat list) list option" where
  "query_pairs [] = Some []"
| "query_pairs (f # fs) =
    (let (name, has_eq, val) = py_partition (CHR ''='') f
     in if \<not> has_eq then None
        else (case (unquote_plus name, unquote_plus val, query_pairs fs) of
            (Some n, Some v, Some rest) \<Rightarrow> Some ((n, v) # rest) | _ \<Rightarrow> None))"

text \<open>\<open>parse_qsl(qs, keep_blank_values=True, strict_parsing=True, encoding="utf-8", errors="strict",
  max_num_fields=n)\<close>; \<open>None\<close> is a \<open>ValueError\<close> (\<open>UnicodeDecodeError\<close> is one).\<close>

definition parse_qsl :: "nat \<Rightarrow> string \<Rightarrow> (nat list \<times> nat list) list option" where
  "parse_qsl max_fields qs =
    (if qs = [] then Some []
     else if max_fields < length (py_split (CHR ''&'') qs) then None
     else query_pairs (py_split (CHR ''&'') qs))"

end
