(* ===== verification/Node_Client.thy ===== *)
theory Node_Client
  imports Node_Executor Url
begin

text \<open>
  \<open>NodeClient\<close> of \<open>c2lab/node.py\<close>: the checks on the controller URL and on everything the controller
  answers.  A request is the record \<open>http_request\<close>; what the transport gives back for it is a \<open>wire\<close>
  value.  \<open>loads\<close> is \<open>json.loads\<close> on the bytes of a body (\<open>None\<close> where it raises): a parameter,
  because JSON text may denote characters outside the model's Latin-1 strings.
\<close>

definition MAX_RESPONSE_BYTES :: nat where "MAX_RESPONSE_BYTES = 32 * 1024"

section \<open>Identifiers and the controller URL\<close>

definition lower_hex :: string where "lower_hex = ''0123456789abcdef''"

definition is_hex_identifier :: "json \<Rightarrow> string \<Rightarrow> nat \<Rightarrow> bool" where
  "is_hex_identifier value pre digits = (case value of
      JStr s \<Rightarrow> starts_with pre s \<and> length s = length pre + digits \<and>
        list_all (\<lambda>c. c \<in> set lower_hex) (drop (length pre) s)
    | _ \<Rightarrow> False)"

text \<open>A \<open>ValueError\<close> of this module or of \<open>urlsplit\<close>.\<close>

datatype url_error = UrlError string | SplitError

definition truthy :: "string option \<Rightarrow> bool" where
  "truthy v = (case v of None \<Rightarrow> False | Some s \<Rightarrow> s \<noteq> [])"

definition validate_controller_url :: "(string \<Rightarrow> bool) \<Rightarrow> json \<Rightarrow> url_error + string" where
  "validate_controller_url bracket_ok value = (case value of
      JStr s \<Rightarrow>
        (case urlsplit bracket_ok s of
          None \<Rightarrow> Inl SplitError
        | Some parsed \<Rightarrow>
            if su_scheme parsed \<noteq> ''http'' then Inl (UrlError ''controller URL must use http on loopback'')
            else if url_hostname parsed \<noteq> Some ''127.0.0.1'' \<and> url_hostname parsed \<noteq> Some ''localhost''
            then Inl (UrlError ''controller URL must use 127.0.0.1 or localhost'')
            else if truthy (url_username parsed) \<or> truthy (url_password parsed) \<or>
              su_query parsed \<noteq> [] \<or> su_fragment parsed \<noteq> []
            then Inl (UrlError ''controller URL must not contain credentials, query, or fragment'')
            else if su_path parsed \<noteq> [] \<and> su_path parsed \<noteq> ''/''
            then Inl (UrlError ''controller URL must not contain a path'')
            else (case url_port parsed of
                None \<Rightarrow> Inl (UrlError ''controller URL contains an invalid port'')
              | Some port \<Rightarrow> Inr (''http://127.0.0.1:'' @ int_str (case port of None \<Rightarrow> 80 | Some n \<Rightarrow> n))))
    | _ \<Rightarrow> Inl (UrlError ''controller URL must be a string''))"

section \<open>The client\<close>

record client =
  cl_controller_url :: string
  cl_enrollment_token :: string
  cl_node_id :: "string option"
  cl_session_token :: "string option"

definition new_client :: "(string \<Rightarrow> bool) \<Rightarrow> json \<Rightarrow> json \<Rightarrow> url_error + client" where
  "new_client bracket_ok url token =
    rbind (validate_controller_url bracket_ok url) (\<lambda>u.
      case token of
        JStr t \<Rightarrow> if length t < 16 then Inl (UrlError ''enrollment token must contain at least 16 characters'')
          else Inr \<lparr>cl_controller_url = u, cl_enrollment_token = t, cl_node_id = None, cl_session_token = None\<rparr>
      | _ \<Rightarrow> Inl (UrlError ''enrollment token must contain at least 16 characters''))"

definition clear_session :: "client \<Rightarrow> client" where
  "clear_session c = c\<lparr>cl_node_id := None, cl_session_token := None\<rparr>"

record http_request =
  hr_url :: string
  hr_body :: json
  hr_authorization :: string
  hr_node :: "string option"

text \<open>What comes back: a body, an HTTP error status with a body, or no answer (\<open>URLError\<close>,
  \<open>OSError\<close> or \<open>HTTPException\<close>).  Redirects are not followed and arrive as error statuses.\<close>

datatype wire = Answer string | HttpFailure int string | NoAnswer

text \<open>\<open>NodeClientError(message, status, code)\<close>; the message and the code of an API error are whatever
  JSON the controller sent.\<close>

datatype client_error = NodeClientError (ce_message: json) (ce_status: "int option") (ce_code: json)

abbreviation client_failure :: "string \<Rightarrow> client_error" where
  "client_failure m \<equiv> NodeClientError (JStr m) None (JStr ''client_error'')"

definition http_text :: "int \<Rightarrow> string" where
  "http_text status = ''teamserver returned HTTP '' @ int_str status"

definition get_default :: "(string \<times> json) list \<Rightarrow> string \<Rightarrow> json \<Rightarrow> json" where
  "get_default kvs k d = (case map_of kvs k of Some v \<Rightarrow> v | None \<Rightarrow> d)"

definition error_reply :: "(string \<Rightarrow> json option) \<Rightarrow> int \<Rightarrow> string \<Rightarrow> client_error" where
  "error_reply loads status body =
    (let raw = take (MAX_RESPONSE_BYTES + 1) body;
         plain = NodeClientError (JStr (http_text status)) (Some status) (JStr ''http_error'')
     in if length raw > MAX_RESPONSE_BYTES
        then NodeClientError (JStr ''teamserver error response exceeded the size limit'') (Some status)
               (JStr ''client_error'')
        else (case loads raw of
            Some (JObj payload) \<Rightarrow>
              (case get_key payload ''error'' of
                JObj api_error \<Rightarrow> NodeClientError (get_default api_error ''message'' (JStr (http_text status)))
                    (Some status) (get_default api_error ''code'' (JStr ''http_error''))
              | _ \<Rightarrow> plain)
          | _ \<Rightarrow> plain))"

definition read_reply :: "(string \<Rightarrow> json option) \<Rightarrow> wire \<Rightarrow> client_error + (string \<times> json) list" where
  "read_reply loads w = (case w of
      NoAnswer \<Rightarrow> Inl (NodeClientError (JStr ''teamserver is unavailable'') None (JStr ''connection_error''))
    | HttpFailure status body \<Rightarrow> Inl (error_reply loads status body)
    | Answer body \<Rightarrow>
        (let raw = take (MAX_RESPONSE_BYTES + 1) body
         in if length raw > MAX_RESPONSE_BYTES
            then Inl (client_failure ''teamserver response exceeded the size limit'')
            else (case loads raw of
                None \<Rightarrow> Inl (client_failure ''teamserver returned invalid JSON'')
              | Some (JObj payload) \<Rightarrow> Inr payload
              | Some _ \<Rightarrow> Inl (client_failure ''teamserver returned an invalid response''))))"

section \<open>Calls\<close>

definition enroll_request :: "string \<Rightarrow> string \<Rightarrow> profile \<Rightarrow> int \<Rightarrow> int \<Rightarrow> client \<Rightarrow> http_request" where
  "enroll_request name version p interval jitter c =
    \<lparr>hr_url = cl_controller_url c @ ''/node/v1/enroll'',
     hr_body = JObj [(''name'', JStr name), (''version'', JStr version), (''profile'', JStr (profile_str p)),
       (''capabilities'', JList (map (\<lambda>t. JStr (task_type_str t)) (NODE_PROFILES p))),
       (''poll_interval_ms'', JInt interval), (''jitter_percent'', JInt jitter)],
     hr_authorization = ''Enroll '' @ cl_enrollment_token c, hr_node = None\<rparr>"

definition accept_enrollment :: "(string \<times> json) list \<Rightarrow> client \<Rightarrow> (client_error + json) \<times> client" where
  "accept_enrollment payload c =
    (case (get_key payload ''node'', get_key payload ''session_token'') of
      (JObj node, JStr token) \<Rightarrow>
        if \<not> is_hex_identifier (get_key node ''id'') ''node-'' 10 \<or> length token < 16
        then (Inl (client_failure ''teamserver returned an invalid enrollment response''), c)
        else (case get_key node ''id'' of
            JStr nid \<Rightarrow> (Inr (JObj node), c\<lparr>cl_node_id := Some nid, cl_session_token := Some token\<rparr>)
          | _ \<Rightarrow> (Inl (client_failure ''teamserver returned an invalid enrollment response''), c))
    | _ \<Rightarrow> (Inl (client_failure ''teamserver returned an invalid enrollment response''), c))"

definition enroll ::
  "(string \<Rightarrow> json option) \<Rightarrow> (http_request \<Rightarrow> wire) \<Rightarrow> string \<Rightarrow> string \<Rightarrow> profile \<Rightarrow> int \<Rightarrow> int \<Rightarrow> client
    \<Rightarrow> (client_error + json) \<times> client" where
  "enroll loads send name version p interval jitter c =
    (case read_reply loads (send (enroll_request name version p interval jitter c)) of
      Inl e \<Rightarrow> (Inl e, c)
    | Inr payload \<Rightarrow> accept_enrollment payload c)"

definition node_request :: "string \<Rightarrow> json \<Rightarrow> client \<Rightarrow> client_error + http_request" where
  "node_request path body c =
    (case (cl_node_id c, cl_session_token c) of
      (Some nid, Some tok) \<Rightarrow>
        if nid = [] \<or> tok = []
        then Inl (NodeClientError (JStr ''node is not enrolled'') (Some 401) (JStr ''not_enrolled''))
        else Inr \<lparr>hr_url = cl_controller_url c @ path, hr_body = body, hr_authorization = ''Node '' @ tok,
                  hr_node = Some nid\<rparr>
    | _ \<Rightarrow> Inl (NodeClientError (JStr ''node is not enrolled'') (Some 401) (JStr ''not_enrolled'')))"

definition node_call ::
  "(string \<Rightarrow> json option) \<Rightarrow> (http_request \<Rightarrow> wire) \<Rightarrow> string \<Rightarrow> json \<Rightarrow> client
    \<Rightarrow> client_error + (string \<times> json) list" where
  "node_call loads send path body c =
    rbind (node_request path body c) (\<lambda>q. read_reply loads (send q))"

definition check_envelope :: "client \<Rightarrow> json \<Rightarrow> client_error + unit" where
  "check_envelope c task = (case task of
      JNull \<Rightarrow> Inr ()
    | JObj kvs \<Rightarrow>
        if \<not> is_hex_identifier (get_key kvs ''id'') ''task-'' 12 \<or>
           \<not> is_hex_identifier (get_key kvs ''correlation_id'') ''corr-'' 12 \<or>
           get_key kvs ''node_id'' \<noteq> (case cl_node_id c of None \<Rightarrow> JNull | Some nid \<Rightarrow> JStr nid) \<or>
           get_key kvs ''status'' \<noteq> JStr ''dispatched''
        then Inl (client_failure ''teamserver returned an invalid task envelope'')
        else (case validate_task_payload (get_key kvs ''type'') (get_key kvs ''payload'') of
            Inl _ \<Rightarrow> Inl (client_failure ''teamserver returned an invalid task payload'')
          | Inr _ \<Rightarrow> Inr ())
    | _ \<Rightarrow> Inl (client_failure ''teamserver returned an invalid task envelope''))"

definition poll_controller ::
  "(string \<Rightarrow> json option) \<Rightarrow> (http_request \<Rightarrow> wire) \<Rightarrow> client \<Rightarrow> client_error + (string \<times> json) list" where
  "poll_controller loads send c =
    rbind (node_call loads send ''/node/v1/poll'' (JObj []) c) (\<lambda>response.
    rbind (check_envelope c (get_key response ''task'')) (\<lambda>_. Inr response))"

definition send_result ::
  "(string \<Rightarrow> json option) \<Rightarrow> (http_request \<Rightarrow> wire) \<Rightarrow> json \<Rightarrow> json \<Rightarrow> json \<Rightarrow> client
    \<Rightarrow> client_error + (string \<times> json) list" where
  "send_result loads send task_id status result c =
    (case task_id of
      JStr tid \<Rightarrow>
        if \<not> is_hex_identifier task_id ''task-'' 12 then Inl (client_failure ''invalid task identifier'')
        else (case validate_result status result of
            Inl _ \<Rightarrow> Inl (client_failure ''invalid task result'')
          | Inr (st, kvs) \<Rightarrow>
              node_call loads send (''/node/v1/tasks/'' @ tid @ ''/result'')
                (JObj [(''status'', JStr (status_str st)), (''result'', JObj kvs)]) c)
    | _ \<Rightarrow> Inl (client_failure ''invalid task identifier''))"

definition disconnect ::
  "(string \<Rightarrow> json option) \<Rightarrow> (http_request \<Rightarrow> wire) \<Rightarrow> client \<Rightarrow> client_error + (string \<times> json) list" where
  "disconnect loads send c = node_call loads send ''/node/v1/disconnect'' (JObj []) c"

end
