(* ===== verification/Node_Loop.thy ===== *)
theory Node_Loop
  imports Node_Client
begin

text \<open>
  \<open>run_node\<close> of \<open>c2lab/node.py\<close>: one turn of its loop as a function of what the outside does in that
  turn, the record \<open>surroundings\<close>.  A turn sends at most two requests (an enrollment, then a
  check-in or a result) and ends with the seconds the node waits, or with an exception the loop does
  not catch.  A loop run is the fold of its turns; printing and the signal handler are left out.
\<close>

record pending_result =
  pd_task_id :: json
  pd_task_type :: json
  pd_status :: string
  pd_result :: json

record node_config =
  nc_name :: string
  nc_version :: string
  nc_profile :: profile

record node_state =
  nd_client :: client
  nd_executor :: executor
  nd_pending :: "pending_result option"
  nd_stop :: bool

text \<open>\<open>sr_fresh\<close> is the directory a new workspace would get, \<open>sr_uniform\<close> is \<open>random.uniform\<close>.\<close>

record surroundings =
  sr_loads :: "string \<Rightarrow> json option"
  sr_send :: "http_request \<Rightarrow> wire"
  sr_now :: rat
  sr_fresh :: workspace
  sr_uniform :: "rat \<Rightarrow> rat \<Rightarrow> rat"

datatype node_exit = NodeProtocolError protocol_error | NodeWorkspaceError executor_error | NodeKeyError

type_synonym turn = "(node_exit + rat) \<times> node_state"

definition turn_delay :: "surroundings \<Rightarrow> node_state \<Rightarrow> rat" where
  "turn_delay r st = jittered_delay (sr_uniform r) (ex_poll_interval_ms (nd_executor st))
     (ex_jitter_percent (nd_executor st))"

definition waited :: "surroundings \<Rightarrow> node_state \<Rightarrow> turn" where
  "waited r st = (Inr (turn_delay r st), st)"

section \<open>Errors of a call\<close>

definition is_permanent :: "client_error \<Rightarrow> bool" where
  "is_permanent e \<longleftrightarrow> (case ce_status e of None \<Rightarrow> False | Some s \<Rightarrow> 400 \<le> s \<and> s < 500)"

definition handle_client_error :: "surroundings \<Rightarrow> bool \<Rightarrow> client_error \<Rightarrow> node_state \<Rightarrow> turn" where
  "handle_client_error r submitting e st =
    (if ce_status e = Some 401 then
       (let st = st\<lparr>nd_client := clear_session (nd_client st), nd_pending := None\<rparr>
        in case reset_lab_workspace (sr_fresh r) (nd_executor st) of
             (Inl x, ex) \<Rightarrow> (Inl (NodeWorkspaceError x), st\<lparr>nd_executor := ex\<rparr>)
           | (Inr _, ex) \<Rightarrow> waited r (st\<lparr>nd_executor := ex\<rparr>))
     else if submitting \<and> is_permanent e then waited r (st\<lparr>nd_pending := None\<rparr>)
     else waited r st)"

section \<open>The two halves of a turn\<close>

definition submit_turn :: "surroundings \<Rightarrow> pending_result \<Rightarrow> node_state \<Rightarrow> turn" where
  "submit_turn r p st =
    (case send_result (sr_loads r) (sr_send r) (pd_task_id p) (JStr (pd_status p)) (pd_result p) (nd_client st) of
      Inl e \<Rightarrow> handle_client_error r True e st
    | Inr _ \<Rightarrow>
        (case acknowledge (pd_task_type p) (JStr (pd_status p)) (pd_result p) (nd_executor st) of
          (Inl e, ex) \<Rightarrow> (Inl (NodeProtocolError e), st\<lparr>nd_executor := ex\<rparr>)
        | (Inr _, ex) \<Rightarrow>
            waited r (st\<lparr>nd_executor := ex, nd_pending := None,
              nd_stop := (nd_stop st \<or> pd_task_type p = JStr ''EXIT'' \<and> pd_status p = ''completed'')\<rparr>)))"

text \<open>A task is executed in the turn that fetched it; its result is sent in the next one, at once.\<close>

definition poll_turn :: "surroundings \<Rightarrow> node_state \<Rightarrow> turn" where
  "poll_turn r st =
    (case poll_controller (sr_loads r) (sr_send r) (nd_client st) of
      Inl e \<Rightarrow> handle_client_error r False e st
    | Inr response \<Rightarrow>
        (case get_key response ''task'' of
          JObj kvs \<Rightarrow>
            (case execute_task (JObj kvs) (sr_now r) (nd_executor st) of
              ((status, result), ex) \<Rightarrow>
                (case (map_of kvs ''id'', map_of kvs ''type'') of
                  (Some tid, Some tt) \<Rightarrow>
                    (Inr 0, st\<lparr>nd_executor := ex,
                       nd_pending := Some \<lparr>pd_task_id = tid, pd_task_type = tt, pd_status = status,
                                           pd_result = result\<rparr>\<rparr>)
                | _ \<Rightarrow> (Inl NodeKeyError, st\<lparr>nd_executor := ex\<rparr>)))
        | _ \<Rightarrow> waited r st))"

definition work_turn :: "surroundings \<Rightarrow> node_state \<Rightarrow> turn" where
  "work_turn r st = (case nd_pending st of Some p \<Rightarrow> submit_turn r p st | None \<Rightarrow> poll_turn r st)"

definition node_turn :: "node_config \<Rightarrow> surroundings \<Rightarrow> node_state \<Rightarrow> turn" where
  "node_turn cf r st =
    (if truthy (cl_node_id (nd_client st)) then work_turn r st
     else (case enroll (sr_loads r) (sr_send r) (nc_name cf) (nc_version cf) (nc_profile cf)
              (ex_poll_interval_ms (nd_executor st)) (ex_jitter_percent (nd_executor st)) (nd_client st) of
         (Inl e, c) \<Rightarrow> (Inr 1, st\<lparr>nd_client := c\<rparr>)
       | (Inr _, c) \<Rightarrow> work_turn r (st\<lparr>nd_client := c\<rparr>)))"

section \<open>The loop\<close>

text \<open>The \<open>finally\<close> block: say goodbye, then remove the workspace.\<close>

definition node_exit_block :: "node_state \<Rightarrow> node_state" where
  "node_exit_block st = st\<lparr>nd_executor := fst (close_executor (nd_executor st))\<rparr>"

fun node_turns :: "node_config \<Rightarrow> surroundings list \<Rightarrow> node_state \<Rightarrow> (node_exit + unit) \<times> node_state" where
  "node_turns cf [] st = (Inr (), st)"
| "node_turns cf (r # rs) st =
    (if nd_stop st then (Inr (), node_exit_block st)
     else (case node_turn cf r st of
         (Inl e, st') \<Rightarrow> (Inl e, node_exit_block st')
       | (Inr _, st') \<Rightarrow> node_turns cf rs st'))"

datatype node_start_error = BadClient url_error | BadExecutor executor_error

definition start_node ::
  "(string \<Rightarrow> bool) \<Rightarrow> json \<Rightarrow> json \<Rightarrow> string \<Rightarrow> string \<Rightarrow> json \<Rightarrow> json \<Rightarrow> json \<Rightarrow> rat \<Rightarrow> workspace
    \<Rightarrow> node_start_error + node_config \<times> node_state" where
  "start_node bracket_ok url token name version prof interval jitter now fresh =
    rbind (map_error BadClient (new_client bracket_ok url token)) (\<lambda>c.
    rbind (map_error BadExecutor (new_executor version prof interval jitter now fresh)) (\<lambda>ex.
      Inr (\<lparr>nc_name = name, nc_version = version, nc_profile = ex_profile ex\<rparr>,
           \<lparr>nd_client = c, nd_executor = ex, nd_pending = None, nd_stop = False\<rparr>)))"

end
