(* ===== verification/Http_Request.thy ===== *)
theory Http_Request
  imports Core_Read Url
begin

text \<open>
  The request side of \<open>LabRequestHandler\<close> in \<open>c2lab/server.py\<close>: what a handler reads from the
  request and the checks it makes before it touches any state.  \<open>hm_peer_loopback\<close> is
  \<open>ip_address(client_address[0]).is_loopback\<close>, false where that raises; \<open>hm_body n\<close> is what
  \<open>json.loads\<close> makes of the first \<open>n\<close> bytes of the body, \<open>None\<close> where it raises.
\<close>

record http_message =
  hm_method :: string
  hm_peer_loopback :: bool
  hm_target :: string
  hm_headers :: "(string \<times> string) list"
  hm_body :: "nat \<Rightarrow> json option"

definition MAX_BODY_BYTES :: int where "MAX_BODY_BYTES = 16 * 1024"
definition MAX_SYNC_QUERY_LENGTH :: nat where "MAX_SYNC_QUERY_LENGTH = 256"
definition SYNC_QUERY_FIELDS :: "string list" where
  "SYNC_QUERY_FIELDS = [''events_after'', ''audit_after'', ''limit'']"
definition LOOPBACK_HOST :: string where "LOOPBACK_HOST = ''127.0.0.1''"

text \<open>\<open>self.headers.get(name)\<close>: the first header of that name, whatever its case.\<close>

definition header_get :: "string \<Rightarrow> http_message \<Rightarrow> string option" where
  "header_get name q = map_option snd (find (\<lambda>(n, v). py_lower n = py_lower name) (hm_headers q))"

definition header_or_empty :: "string \<Rightarrow> http_message \<Rightarrow> string" where
  "header_or_empty name q = (case header_get name q of Some v \<Rightarrow> v | None \<Rightarrow> [])"

section \<open>Where a request comes from\<close>

definition request_is_local :: "int \<Rightarrow> http_message \<Rightarrow> bool" where
  "request_is_local port q \<longleftrightarrow> hm_peer_loopback q \<and>
     py_lower (header_or_empty ''Host'' q) \<in>
       {''localhost'', LOOPBACK_HOST, ''localhost:'' @ int_str port, LOOPBACK_HOST @ '':'' @ int_str port}"

definition origin_is_local :: "int \<Rightarrow> http_message \<Rightarrow> bool" where
  "origin_is_local port q \<longleftrightarrow> (case header_get ''Origin'' q of
      None \<Rightarrow> True
    | Some origin \<Rightarrow> py_lower origin \<in>
        {''http://localhost:'' @ int_str port, ''http://'' @ LOOPBACK_HOST @ '':'' @ int_str port})"

text \<open>\<open>_parse_request_target\<close>: the path and the query of the target.\<close>

definition parse_request_target :: "(string \<Rightarrow> bool) \<Rightarrow> http_message \<Rightarrow> (string \<times> string) option" where
  "parse_request_target bracket_ok q =
    map_option (\<lambda>u. (su_path u, su_query u)) (urlsplit bracket_ok (hm_target q))"

text \<open>The token after a scheme such as \<open>Bearer\<close>; empty when the header is missing or of another
  scheme.\<close>

definition supplied_token :: "string \<Rightarrow> http_message \<Rightarrow> string" where
  "supplied_token scheme q =
    (let authorization = header_or_empty ''Authorization'' q
     in if starts_with scheme authorization then drop (length scheme) authorization else [])"

section \<open>The body\<close>

definition content_type :: "http_message \<Rightarrow> string" where
  "content_type q = py_lower (py_strip (fst (py_partition (CHR '';'') (header_or_empty ''Content-Type'' q))))"

definition read_json_object :: "http_message \<Rightarrow> lab_error + (string \<times> json) list" where
  "read_json_object q = (case header_get ''Content-Length'' q of
      None \<Rightarrow> Inl (invalid_request ''Content-Length is required'')
    | Some raw \<Rightarrow>
        (case py_int raw of
          None \<Rightarrow> Inl (invalid_request ''invalid Content-Length'')
        | Some n \<Rightarrow>
            if n < 0 \<or> n > MAX_BODY_BYTES
            then Inl (LabError (''request body must be at most '' @ int_str MAX_BODY_BYTES @ '' bytes'')
                       ''invalid_request'' 413)
            else if content_type q \<noteq> ''application/json''
            then Inl (LabError ''Content-Type must be application/json'' ''invalid_request'' 415)
            else (case hm_body q (nat n) of
                None \<Rightarrow> Inl (invalid_request ''request body must be valid UTF-8 JSON'')
              | Some (JObj body) \<Rightarrow> Inr body
              | Some _ \<Rightarrow> Inl (invalid_request ''request body must be a JSON object''))))"

definition require_body_keys ::
  "(string \<times> json) list \<Rightarrow> string list \<Rightarrow> string list \<Rightarrow> lab_error + unit" where
  "require_body_keys body required optional =
    (let missing = sort (filter (\<lambda>k. k \<notin> set (keys body)) (remdups required));
         unexpected = sort (filter (\<lambda>k. k \<notin> set required \<and> k \<notin> set optional) (remdups (keys body)))
     in if missing \<noteq> [] then Inl (invalid_request (''missing fields: '' @ join '', '' missing))
        else if unexpected \<noteq> [] then Inl (invalid_request (''unexpected fields: '' @ join '', '' unexpected))
        else Inr ())"

definition idempotency_header_chars :: string where
  "idempotency_header_chars = ''abcdefghijklmnopqrstuvwxyzABCDEFGHIJKLMNOPQRSTUVWXYZ0123456789-_.:''"

definition read_idempotency_key :: "http_message \<Rightarrow> lab_error + json" where
  "read_idempotency_key q = (case header_get ''Idempotency-Key'' q of
      None \<Rightarrow> Inr JNull
    | Some v \<Rightarrow>
        if \<not> (MIN_IDEMPOTENCY_KEY_LENGTH \<le> length v \<and> length v \<le> MAX_IDEMPOTENCY_KEY_LENGTH)
        then Inl (invalid_request (''Idempotency-Key must be '' @ nat_str MIN_IDEMPOTENCY_KEY_LENGTH @ '' to ''
               @ nat_str MAX_IDEMPOTENCY_KEY_LENGTH @ '' characters''))
        else if \<not> list_all (\<lambda>c. c \<in> set idempotency_header_chars) v
        then Inl (invalid_request ''Idempotency-Key contains unsupported characters'')
        else Inr (JStr v))"

section \<open>The sync query\<close>

definition code_points :: "string \<Rightarrow> nat list" where
  "code_points s = map code s"

definition sync_field :: "nat list \<Rightarrow> string option" where
  "sync_field name = find (\<lambda>f. code_points f = name) SYNC_QUERY_FIELDS"

definition sync_maximum :: "string \<Rightarrow> int" where
  "sync_maximum f = (if f = ''limit'' then MAX_SYNC_PAGE_SIZE else MAX_SYNC_CURSOR)"

definition digits_value :: "nat list \<Rightarrow> nat" where
  "digits_value ds = foldl (\<lambda>n d. 10 * n + (d - 48)) 0 ds"

text \<open>One value: an unsigned decimal number in the range of its field.  Leading zeros are dropped
  before the length is compared with that of the maximum.\<close>

definition sync_value :: "string \<Rightarrow> nat list \<Rightarrow> lab_error + int" where
  "sync_value f raw =
    (if raw = [] \<or> \<not> list_all (\<lambda>d. 48 \<le> d \<and> d \<le> 57) raw
     then Inl (invalid_request (f @ '' must be an unsigned decimal integer''))
     else
       let stripped = dropWhile (\<lambda>d. d = 48) raw;
           significant = (if stripped = [] then [48] else stripped);
           maximum = sync_maximum f;
           n = int (digits_value significant);
           minimum = (if f = ''limit'' then 1 else 0)
       in if length significant > length (int_str maximum) \<or> \<not> (minimum \<le> n \<and> n \<le> maximum)
          then Inl (invalid_request (f @ '' is outside the supported range''))
          else Inr n)"

fun sync_pairs ::
  "(nat list \<times> nat list) list \<Rightarrow> string list \<Rightarrow> int dict \<Rightarrow> lab_error + int dict" where
  "sync_pairs [] seen d = Inr d"
| "sync_pairs ((name, raw) # ps) seen d =
    (case sync_field name of
      None \<Rightarrow> Inl (invalid_request ''sync query contains unsupported parameters'')
    | Some f \<Rightarrow>
        if f \<in> set seen then Inl (invalid_request ''sync query parameters must not be repeated'')
        else rbind (sync_value f raw) (\<lambda>n. sync_pairs ps (f # seen) (AList.update f n d)))"

definition sync_defaults :: "int dict" where
  "sync_defaults = [(''events_after'', 0), (''audit_after'', 0), (''limit'', MAX_SYNC_PAGE_SIZE)]"

definition read_sync_query :: "string \<Rightarrow> lab_error + int dict" where
  "read_sync_query raw =
    (if raw = [] then Inr sync_defaults
     else if length raw > MAX_SYNC_QUERY_LENGTH then Inl (invalid_request ''sync query is too large'')
     else (case parse_qsl (length SYNC_QUERY_FIELDS) raw of
         None \<Rightarrow> Inl (invalid_request ''sync query must contain valid key=value parameters'')
       | Some pairs \<Rightarrow> sync_pairs pairs [] sync_defaults))"

end
