(* ===== verification/Lab_Runtime.thy ===== *)
theory Lab_Runtime
  imports Core_Machine Auth
begin

text \<open>
  \<open>LabRuntime\<close> of \<open>c2lab/core.py\<close>: the monitor thread that expires the ledger, and the readiness
  answer \<open>LabHTTPServer.readiness\<close> of \<open>c2lab/server.py\<close> derives from it.  The threads interleave
  between the critical sections of the runtime lock, so each critical section, and each action of the
  monitor outside one, is a step of its own.
\<close>

section \<open>State\<close>

datatype runtime_status = RuntimeRunning | RuntimeStopped

text \<open>Where the monitor thread is: about to wait on the stop event, with a tick to record, with an
  exception to record, about to set the stop event after that, in its \<open>finally\<close> block, or dead.\<close>

datatype monitor = MonitorWaiting | MonitorTicked rat | MonitorFailing string | MonitorFailed | MonitorFinishing | MonitorDead

record lab_runtime =
  lr_tick_seconds :: rat
  lr_stop :: bool
  lr_thread :: "monitor option"
  lr_status :: runtime_status
  lr_ready :: bool
  lr_last_tick :: "rat option"
  lr_last_error :: "string option"

definition new_runtime :: "rat \<Rightarrow> lab_runtime" where
  "new_runtime tick_seconds = \<lparr>lr_tick_seconds = tick_seconds, lr_stop = False, lr_thread = None,
     lr_status = RuntimeStopped, lr_ready = False, lr_last_tick = None, lr_last_error = None\<rparr>"

definition name_char :: "char \<Rightarrow> bool" where
  "name_char c \<longleftrightarrow> code c < 128 \<and> (48 \<le> code c \<and> code c \<le> 57 \<or> 65 \<le> code c \<and> code c \<le> 90 \<or>
     97 \<le> code c \<and> code c \<le> 122 \<or> c = CHR ''_'')"

definition safe_name :: "string \<Rightarrow> bool" where
  "safe_name n \<longleftrightarrow> 1 \<le> length n \<and> length n \<le> 64 \<and> list_all name_char n"

definition safe_error_type :: "string \<Rightarrow> string" where
  "safe_error_type n = (if safe_name n then n else ''Exception'')"

definition thread_alive :: "lab_runtime \<Rightarrow> bool" where
  "thread_alive r \<longleftrightarrow> (case lr_thread r of None \<Rightarrow> False | Some m \<Rightarrow> m \<noteq> MonitorDead)"

section \<open>Operations\<close>

text \<open>\<open>start\<close>; \<open>failure\<close> is the name of the exception \<open>Thread.start\<close> raises, if it raises.  The flag of
  the result says whether \<open>start\<close> raised.\<close>

definition start_runtime :: "string option \<Rightarrow> lab_runtime \<Rightarrow> bool \<times> lab_runtime" where
  "start_runtime failure r =
    (if thread_alive r then (False, r)
     else
       let r = r\<lparr>lr_stop := False, lr_status := RuntimeRunning, lr_ready := False, lr_last_tick := None,
                 lr_last_error := None, lr_thread := Some MonitorWaiting\<rparr>
       in (case failure of
            None \<Rightarrow> (False, r)
          | Some name \<Rightarrow> (True, r\<lparr>lr_thread := None, lr_status := RuntimeStopped,
                lr_last_error := Some (safe_error_type name), lr_stop := True\<rparr>)))"

definition stop_runtime :: "lab_runtime \<Rightarrow> lab_runtime" where
  "stop_runtime r = r\<lparr>lr_stop := True, lr_status := RuntimeStopped, lr_ready := False\<rparr>"

record health =
  hl_status :: runtime_status
  hl_ready :: bool
  hl_last_tick_age :: "rat option"
  hl_last_error :: "string option"

definition runtime_health :: "rat \<Rightarrow> lab_runtime \<Rightarrow> health" where
  "runtime_health clock r =
    (let age = map_option (\<lambda>t. round3 (max 0 (clock - t))) (lr_last_tick r);
         fresh = (case age of None \<Rightarrow> False | Some a \<Rightarrow> a \<le> max 1 (lr_tick_seconds r * 4))
     in \<lparr>hl_status = lr_status r, hl_ready = (lr_status r = RuntimeRunning \<and> lr_ready r \<and> fresh),
         hl_last_tick_age = age, hl_last_error = lr_last_error r\<rparr>)"

text \<open>The critical sections of \<open>_run\<close>.\<close>

definition commit_tick :: "rat \<Rightarrow> lab_runtime \<Rightarrow> lab_runtime" where
  "commit_tick t r = r\<lparr>lr_last_tick := Some t,
     lr_ready := (lr_ready r \<or> \<not> lr_stop r \<and> lr_status r = RuntimeRunning), lr_thread := Some MonitorWaiting\<rparr>"

definition record_failure :: "string \<Rightarrow> lab_runtime \<Rightarrow> lab_runtime" where
  "record_failure name r = r\<lparr>lr_last_error := Some (safe_error_type name), lr_status := RuntimeStopped,
     lr_ready := False, lr_thread := Some MonitorFailed\<rparr>"

definition finish_monitor :: "lab_runtime \<Rightarrow> lab_runtime" where
  "finish_monitor r = r\<lparr>lr_status := RuntimeStopped, lr_ready := False, lr_thread := Some MonitorDead\<rparr>"

inductive runtime_step :: "lab_runtime \<times> lab_state \<Rightarrow> lab_runtime \<times> lab_state \<Rightarrow> bool" where
  starts: "start_runtime failure r = (b, r') \<Longrightarrow> runtime_step (r, s) (r', s)"
| stops: "runtime_step (r, s) (stop_runtime r, s)"
| expires: "lr_thread r = Some MonitorWaiting \<Longrightarrow> \<not> lr_stop r \<Longrightarrow>
    runtime_step (r, s) (r\<lparr>lr_thread := Some (MonitorTicked t)\<rparr>, expire_locked now s)"
| raises: "lr_thread r = Some MonitorWaiting \<Longrightarrow> \<not> lr_stop r \<Longrightarrow>
    runtime_step (r, s) (r\<lparr>lr_thread := Some (MonitorFailing name)\<rparr>, s)"
| leaves: "lr_thread r = Some MonitorWaiting \<Longrightarrow> lr_stop r \<Longrightarrow>
    runtime_step (r, s) (r\<lparr>lr_thread := Some MonitorFinishing\<rparr>, s)"
| commits: "lr_thread r = Some (MonitorTicked t) \<Longrightarrow> runtime_step (r, s) (commit_tick t r, s)"
| records: "lr_thread r = Some (MonitorFailing name) \<Longrightarrow> runtime_step (r, s) (record_failure name r, s)"
| halts: "lr_thread r = Some MonitorFailed \<Longrightarrow>
    runtime_step (r, s) (r\<lparr>lr_stop := True, lr_thread := Some MonitorFinishing\<rparr>, s)"
| finishes: "lr_thread r = Some MonitorFinishing \<Longrightarrow> runtime_step (r, s) (finish_monitor r, s)"
| lab: "lab_step s op s' \<Longrightarrow> runtime_step (r, s) (r, s')"

inductive runtime_reachable :: "lab_runtime \<times> lab_state \<Rightarrow> bool" where
  begin_run: "runtime_reachable (new_runtime tick_seconds, init_state h e)"
| run: "runtime_reachable c \<Longrightarrow> runtime_step c c' \<Longrightarrow> runtime_reachable c'"

section \<open>Readiness\<close>

text \<open>What \<open>runtime.health()\<close> gives: the four entries it is asked for, or nothing usable.\<close>

record raw_health =
  rh_status :: json
  rh_ready :: json
  rh_age :: "number option"
  rh_error :: json

datatype health_answer = NoRuntime | NoHealth | Answers raw_health

record readiness =
  rd_status :: string
  rd_ready :: bool
  rd_age :: "number option"
  rd_error :: "string option"

definition clean_age :: "number option \<Rightarrow> number option option" where
  "clean_age a = (case a of
      Some (IntValue i) \<Rightarrow> if float_overflow i then None else Some (if 0 \<le> i then Some (IntValue i) else None)
    | Some (FloatValue x) \<Rightarrow> Some (if 0 \<le> x then Some (FloatValue x) else None)
    | _ \<Rightarrow> Some None)"

definition clean_error :: "json \<Rightarrow> string option" where
  "clean_error e = (case e of JNull \<Rightarrow> None | JStr n \<Rightarrow> Some (safe_error_type n) | _ \<Rightarrow> Some ''Exception'')"

definition hashable :: "json \<Rightarrow> bool" where
  "hashable j = (case j of JList _ \<Rightarrow> False | JObj _ \<Rightarrow> False | _ \<Rightarrow> True)"

text \<open>\<open>None\<close>: an exception the function does not catch (a status that cannot be hashed, an age that
  does not fit a double).\<close>

definition monitor_projection :: "raw_health \<Rightarrow> readiness option" where
  "monitor_projection h =
    (if \<not> hashable (rh_status h) then None
     else (case clean_age (rh_age h) of
         None \<Rightarrow> None
       | Some age \<Rightarrow>
           let status = (if rh_status h = JStr ''running'' then ''running''
                         else if rh_status h = JStr ''stopped'' then ''stopped'' else ''error'')
           in Some \<lparr>rd_status = status, rd_ready = (status = ''running'' \<and> rh_ready h = JBool True),
                    rd_age = age, rd_error = clean_error (rh_error h)\<rparr>))"

definition readiness_of :: "health_answer \<Rightarrow> (nat \<times> string \<times> readiness) option" where
  "readiness_of a =
    map_option (\<lambda>h. if rd_ready h then (200, ''ready'', h) else (503, ''not_ready'', h))
     (case a of
        NoRuntime \<Rightarrow> Some \<lparr>rd_status = ''unmanaged'', rd_ready = False, rd_age = None, rd_error = None\<rparr>
      | NoHealth \<Rightarrow> monitor_projection \<lparr>rh_status = JNull, rh_ready = JNull, rh_age = None, rh_error = JNull\<rparr>
      | Answers h \<Rightarrow> monitor_projection h)"

fun runtime_status_str :: "runtime_status \<Rightarrow> string" where
  "runtime_status_str RuntimeRunning = ''running''"
| "runtime_status_str RuntimeStopped = ''stopped''"

definition answer_of :: "health \<Rightarrow> health_answer" where
  "answer_of h = Answers \<lparr>rh_status = JStr (runtime_status_str (hl_status h)), rh_ready = JBool (hl_ready h),
     rh_age = map_option FloatValue (hl_last_tick_age h),
     rh_error = (case hl_last_error h of None \<Rightarrow> JNull | Some n \<Rightarrow> JStr n)\<rparr>"

end
