(* ===== verification/Server.thy ===== *)
theory Server
  imports Http_Request Observability Lab_Runtime
begin

text \<open>
  \<open>LabRequestHandler\<close> of \<open>c2lab/server.py\<close>: routing, authorization and dispatch.  A \<open>POST\<close> is handled
  in two parts, \<open>post_begin\<close> up to the reading of the body and \<open>post_finish\<close> from there: the body may
  arrive long after the headers, and other requests run in between.  Each part reads the clock where
  the code does.  A reply is a status with typed content (\<open>Http_Reply\<close> gives its JSON text and the
  response headers), or \<open>Dropped\<close> when an exception ends the handler.
\<close>

section \<open>State and replies\<close>

record server =
  sv_lab :: lab_state
  sv_operators :: registry
  sv_enroll_digest :: string
  sv_metrics :: metrics
  sv_port :: int
  sv_static :: "string \<Rightarrow> string option"

datatype content =
    ErrorContent string string
  | FileContent string string
  | HealthContent
  | ReadyContent string readiness
  | SessionContent public_session
  | SessionsContent "public_session list"
  | MetricsContent metrics_snapshot counts readiness
  | SyncContent sync_response
  | OverviewContent overview
  | NodesContent "public_node list"
  | TasksContent "public_task list"
  | ScenariosContent "scenario list"
  | ExercisesContent "public_exercise list"
  | EventsContent "event list"
  | AuditContent "audit_entry list"
  | ReportContent report
  | EnrolledContent public_node string
  | PollContent poll_response
  | NodeContent public_node
  | ResultContent node_task
  | TaskContent public_task
  | OperationContent operation_summary
  | NoteContent event
  | ExerciseContent public_exercise
  | ResetContent

datatype reply = Reply nat content | Dropped

fun lab_error_reply :: "lab_error \<Rightarrow> reply" where
  "lab_error_reply (LabError m c st) = Reply st (ErrorContent c m)"
| "lab_error_reply (Uncaught x) = Dropped"

fun auth_error_reply :: "auth_error \<Rightarrow> reply" where
  "auth_error_reply (AuthError m c st) = Reply st (ErrorContent c m)"
| "auth_error_reply (AuthCrash x) = Dropped"

definition lab_reply :: "nat \<Rightarrow> ('a \<Rightarrow> content) \<Rightarrow> lab_error + 'a \<Rightarrow> reply" where
  "lab_reply st f r = (case r of Inl e \<Rightarrow> lab_error_reply e | Inr x \<Rightarrow> Reply st (f x))"

definition not_found_reply :: reply where
  "not_found_reply = Reply 404 (ErrorContent ''not_found'' ''route not found'')"

definition local_only_reply :: reply where
  "local_only_reply = Reply 403 (ErrorContent ''local_only'' ''this lab accepts localhost requests only'')"

definition bad_target_reply :: reply where
  "bad_target_reply = Reply 400 (ErrorContent ''invalid_request_target'' ''request target is invalid'')"

section \<open>Authorization\<close>

text \<open>\<open>_authorize_operator\<close>: a session that may do \<open>permission\<close>, or the reply that refuses.  The
  exception of a bad clock reading is the first component of the sum.\<close>

definition authorize_operator ::
  "permission \<Rightarrow> http_message \<Rightarrow> rat \<Rightarrow> registry \<Rightarrow> auth_error + (reply \<times> string option + public_session)" where
  "authorize_operator perm q clock g =
     rbind (authenticate (JStr (supplied_token ''Bearer '' q)) None None clock g) (\<lambda>found.
       Inr (case found of
           None \<Rightarrow> Inl (Reply 401 (ErrorContent ''unauthorized'' ''a valid operator session is required''), None)
         | Some session \<Rightarrow>
             if permission_str perm \<notin> set (ps_permissions session)
             then Inl (Reply 403 (ErrorContent ''forbidden'' (permission_str perm @ '' permission is required'')),
                       Some (ps_principal session))
             else Inr session))"

definition authorize_enrollment :: "http_message \<Rightarrow> server \<Rightarrow> bool" where
  "authorize_enrollment q s =
    (let supplied = supplied_token ''Enroll '' q
     in supplied \<noteq> [] \<and> sha256 (utf8_encode supplied) = sv_enroll_digest s)"

definition authorize_node :: "http_message \<Rightarrow> server \<Rightarrow> (string \<times> string) option" where
  "authorize_node q s =
    (let nid = header_or_empty ''X-C2Lab-Node'' q; tok = supplied_token ''Node '' q
     in if authenticate_node (JStr nid) (JStr tok) (sv_lab s) then Some (nid, tok) else None)"

section \<open>GET\<close>

definition STATIC_FILES :: "(string \<times> string \<times> string) list" where
  "STATIC_FILES =
    [(''/'', ''index.html'', ''text/html; charset=utf-8''),
     (''/index.html'', ''index.html'', ''text/html; charset=utf-8''),
     (''/static/app.js'', ''app.js'', ''text/javascript; charset=utf-8''),
     (''/static/styles.css'', ''styles.css'', ''text/css; charset=utf-8'')]"

definition serve_static :: "string \<Rightarrow> string \<Rightarrow> server \<Rightarrow> reply" where
  "serve_static filename ctype s = (case sv_static s filename of
      None \<Rightarrow> Reply 404 (ErrorContent ''not_found'' ''dashboard asset not found'')
    | Some file \<Rightarrow> Reply 200 (FileContent ctype file))"

definition read_lab :: "(lab_state \<Rightarrow> content) \<Rightarrow> server \<Rightarrow> reply \<times> server" where
  "read_lab view s = (Reply 200 (view (sv_lab s)), s)"

definition get_sync :: "string \<Rightarrow> server \<Rightarrow> reply \<times> server" where
  "get_sync query s = (case read_sync_query query of
      Inl e \<Rightarrow> (lab_error_reply e, s)
    | Inr d \<Rightarrow>
        (case sync_lab (JInt (the (map_of d ''events_after''))) (JInt (the (map_of d ''audit_after'')))
                (JInt (the (map_of d ''limit''))) (sv_lab s) of
          (r, l) \<Rightarrow> (lab_reply 200 SyncContent r, s\<lparr>sv_lab := l\<rparr>)))"

definition get_metrics :: "health_answer \<Rightarrow> rat \<Rightarrow> server \<Rightarrow> reply" where
  "get_metrics a now s = (case readiness_of a of
      None \<Rightarrow> Dropped
    | Some (_, _, h) \<Rightarrow> Reply 200 (MetricsContent (metrics_snapshot_of now (sv_metrics s)) (ov_counts (overview_of (sv_lab s))) h))"

text \<open>The routes that need a session; only \<open>/lab/sync\<close> and \<open>/lab/report\<close> read the wall clock.\<close>

definition get_authorized ::
  "string \<Rightarrow> string \<Rightarrow> health_answer \<Rightarrow> rat \<Rightarrow> public_session \<Rightarrow> server \<Rightarrow> reply \<times> server" where
  "get_authorized path query a now session s =
    (if path = ''/lab/session'' then (Reply 200 (SessionContent session), s)
     else if path = ''/lab/operators'' then
       (case list_sessions None now (sv_operators s) of
         Inl e \<Rightarrow> (Dropped, s) | Inr xs \<Rightarrow> (Reply 200 (SessionsContent xs), s))
     else if path = ''/lab/metrics'' then (get_metrics a now s, s)
     else if path = ''/lab/sync'' then get_sync query s
     else if path = ''/lab/overview'' then read_lab (OverviewContent \<circ> overview_of) s
     else if path = ''/lab/nodes'' then read_lab (NodesContent \<circ> nodes_view) s
     else if path = ''/lab/tasks'' then read_lab (TasksContent \<circ> tasks_view) s
     else if path = ''/lab/scenarios'' then read_lab (\<lambda>_. ScenariosContent scenario_catalog) s
     else if path = ''/lab/exercises'' then read_lab (ExercisesContent \<circ> exercises_view) s
     else if path = ''/lab/events'' then read_lab (EventsContent \<circ> events_view) s
     else if path = ''/lab/audit'' then read_lab (AuditContent \<circ> audit_view) s
     else if path = ''/lab/report'' then
       (Reply 200 (ReportContent (report_of (sv_lab s))), s\<lparr>sv_lab := tick (sv_lab s)\<rparr>)
     else (not_found_reply, s))"

definition get_permission :: "string \<Rightarrow> permission" where
  "get_permission path = (if path = ''/lab/operators'' then OperatorAdmin else Read)"

text \<open>The reply, the actor noted for the log, and the server after it.\<close>

type_synonym handled = "reply \<times> string option \<times> server"

definition do_GET :: "(string \<Rightarrow> bool) \<Rightarrow> http_message \<Rightarrow> health_answer \<Rightarrow> rat \<Rightarrow> rat \<Rightarrow> server \<Rightarrow> handled" where
  "do_GET bracket_ok q a clock now s =
    (if \<not> request_is_local (sv_port s) q then (local_only_reply, None, s)
     else (case parse_request_target bracket_ok q of
         None \<Rightarrow> (bad_target_reply, None, s)
       | Some (path, query) \<Rightarrow>
           (case map_of STATIC_FILES path of
             Some (filename, ctype) \<Rightarrow> (serve_static filename ctype s, None, s)
           | None \<Rightarrow>
               if path = ''/healthz'' then (Reply 200 HealthContent, None, s)
               else if path = ''/readyz'' then
                 ((case readiness_of a of None \<Rightarrow> Dropped | Some (st, text, h) \<Rightarrow> Reply st (ReadyContent text h)), None, s)
               else (case authorize_operator (get_permission path) q clock (sv_operators s) of
                   Inl e \<Rightarrow> (Dropped, None, s)
                 | Inr (Inl (r, actor)) \<Rightarrow> (r, actor, s)
                 | Inr (Inr session) \<Rightarrow>
                     (case get_authorized path query a now session s of
                       (r, s') \<Rightarrow> (r, Some (ps_principal session), s'))))))"

end
