(* ===== verification/Server_Post.thy ===== *)
theory Server_Post
  imports Server Core_Machine
begin

text \<open>
  \<open>do_POST\<close> of \<open>c2lab/server.py\<close>.  \<open>post_begin\<close> ends with a reply or with the route whose body is to
  be read; \<open>post_finish\<close> reads the body and dispatches on the state it then finds, which for an
  operator route includes authorizing the session a second time.
\<close>

section \<open>Routes\<close>

datatype operator_route =
  QueueRoute | OperationRoute | NoteRoute | ExerciseRoute | CancelRoute string | ResetRoute | ContainRoute string | RevokeRoute string

datatype post_route = EnrollRoute | NodeRoute string string string | OperatorRoute operator_route

fun route_permission :: "operator_route option \<Rightarrow> permission" where
  "route_permission (Some QueueRoute) = TaskWrite"
| "route_permission (Some OperationRoute) = TaskWrite"
| "route_permission (Some (CancelRoute _)) = TaskWrite"
| "route_permission (Some ExerciseRoute) = ExerciseWrite"
| "route_permission (Some (ContainRoute _)) = ContainmentWrite"
| "route_permission (Some NoteRoute) = NoteWrite"
| "route_permission (Some ResetRoute) = ResetPermission"
| "route_permission (Some (RevokeRoute _)) = OperatorAdmin"
| "route_permission None = Read"

text \<open>The operator route of a path; \<open>None\<close> is an unknown route.\<close>

definition operator_route_of :: "string \<Rightarrow> operator_route option" where
  "operator_route_of path =
    (let parts = path_parts path
     in if path = ''/lab/tasks'' then Some QueueRoute
        else if path = ''/lab/operations'' then Some OperationRoute
        else if path = ''/lab/notes'' then Some NoteRoute
        else if path = ''/lab/exercises'' then Some ExerciseRoute
        else if is_lab_path ''tasks'' ''cancel'' parts then Some (CancelRoute (parts ! 2))
        else if path = ''/lab/reset'' then Some ResetRoute
        else if is_lab_path ''exercises'' ''contain'' parts then Some (ContainRoute (parts ! 2))
        else if is_lab_path ''operators'' ''revoke'' parts then Some (RevokeRoute (parts ! 2))
        else None)"

section \<open>Before the body\<close>

definition post_begin ::
  "(string \<Rightarrow> bool) \<Rightarrow> http_message \<Rightarrow> rat \<Rightarrow> server \<Rightarrow> (reply \<times> string option) + (post_route \<times> string option)" where
  "post_begin bracket_ok q clock s =
    (if \<not> request_is_local (sv_port s) q then Inl (local_only_reply, None)
     else (case parse_request_target bracket_ok q of
         None \<Rightarrow> Inl (bad_target_reply, None)
       | Some (path, _) \<Rightarrow>
           if path = ''/node/v1/enroll'' then
             (if authorize_enrollment q s then Inr (EnrollRoute, Some ''enrollment'')
              else Inl (Reply 401 (ErrorContent ''unauthorized'' ''a valid enrollment token is required''), None))
           else if starts_with ''/node/v1/'' path then
             (case authorize_node q s of
               None \<Rightarrow> Inl (Reply 401 (ErrorContent ''invalid_node_session'' ''invalid node session''), None)
             | Some (nid, tok) \<Rightarrow> Inr (NodeRoute nid tok path, Some ''node''))
           else if \<not> origin_is_local (sv_port s) q then
             Inl (Reply 403 (ErrorContent ''invalid_origin'' ''cross-origin requests are disabled''), None)
           else (case authorize_operator (route_permission (operator_route_of path)) q clock (sv_operators s) of
               Inl e \<Rightarrow> Inl (auth_error_reply e, None)
             | Inr (Inl (r, actor)) \<Rightarrow> Inl (r, actor)
             | Inr (Inr session) \<Rightarrow>
                 (case operator_route_of path of
                   None \<Rightarrow> Inl (not_found_reply, Some (ps_principal session))
                 | Some route \<Rightarrow> Inr (OperatorRoute route, Some (ps_principal session))))))"

section \<open>After the body\<close>

definition on_lab :: "nat \<Rightarrow> ('a \<Rightarrow> content) \<Rightarrow> (lab_state \<Rightarrow> 'a op_result) \<Rightarrow> server \<Rightarrow> reply \<times> server" where
  "on_lab st f operation s = (case operation (sv_lab s) of (r, l) \<Rightarrow> (lab_reply st f r, s\<lparr>sv_lab := l\<rparr>))"

definition finish_enroll :: "(string \<times> json) list \<Rightarrow> rat \<Rightarrow> server \<Rightarrow> reply \<times> server" where
  "finish_enroll body now s =
    (case require_body_keys body [''name'', ''version'', ''profile'', ''capabilities'', ''poll_interval_ms'']
            [''jitter_percent''] of
      Inl e \<Rightarrow> (lab_error_reply e, s)
    | Inr _ \<Rightarrow> on_lab 201 (\<lambda>(n, tok). EnrolledContent n tok)
        (enroll_node \<lparr>er_name = get_key body ''name'', er_version = get_key body ''version'',
           er_profile = get_key body ''profile'', er_capabilities = get_key body ''capabilities'',
           er_poll_interval_ms = get_key body ''poll_interval_ms'',
           er_jitter_percent = (case map_of body ''jitter_percent'' of Some v \<Rightarrow> v | None \<Rightarrow> JInt 0)\<rparr> now) s)"

definition finish_node ::
  "string \<Rightarrow> string \<Rightarrow> string \<Rightarrow> (string \<times> json) list \<Rightarrow> rat \<Rightarrow> server \<Rightarrow> reply \<times> server" where
  "finish_node nid tok path body now s =
    (let parts = path_parts path
     in if path = ''/node/v1/poll'' then
          (case require_body_keys body [] [] of
            Inl e \<Rightarrow> (lab_error_reply e, s)
          | Inr _ \<Rightarrow> on_lab 200 PollContent (poll_node (JStr nid) (JStr tok) now) s)
        else if path = ''/node/v1/disconnect'' then
          (case require_body_keys body [] [] of
            Inl e \<Rightarrow> (lab_error_reply e, s)
          | Inr _ \<Rightarrow> on_lab 200 NodeContent (disconnect_node (JStr nid) (JStr tok)) s)
        else if is_result_path parts then
          (case require_body_keys body [''status'', ''result''] [] of
            Inl e \<Rightarrow> (lab_error_reply e, s)
          | Inr _ \<Rightarrow> on_lab 200 ResultContent (submit_result (JStr nid) (JStr tok) (JStr (parts ! 3))
              (get_key body ''status'') (get_key body ''result'') now) s)
        else (not_found_reply, s))"

text \<open>An operator route, with the session that was found after the body arrived.\<close>

definition with_key :: "http_message \<Rightarrow> (json \<Rightarrow> server \<Rightarrow> reply \<times> server) \<Rightarrow> server \<Rightarrow> reply \<times> server" where
  "with_key q f s = (case read_idempotency_key q of Inl e \<Rightarrow> (lab_error_reply e, s) | Inr key \<Rightarrow> f key s)"

definition checked_body ::
  "(string \<times> json) list \<Rightarrow> string list \<Rightarrow> string list \<Rightarrow> (server \<Rightarrow> reply \<times> server) \<Rightarrow> server \<Rightarrow> reply \<times> server" where
  "checked_body body required optional f s = (case require_body_keys body required optional of
      Inl e \<Rightarrow> (lab_error_reply e, s) | Inr _ \<Rightarrow> f s)"

fun finish_operator ::
  "operator_route \<Rightarrow> public_session \<Rightarrow> http_message \<Rightarrow> (string \<times> json) list \<Rightarrow> rat \<Rightarrow> server \<Rightarrow> reply \<times> server" where
  "finish_operator QueueRoute session q body now s =
     checked_body body [''node_id'', ''type'', ''payload''] [''queue_ttl_seconds''] (with_key q (\<lambda>key.
       on_lab 201 TaskContent (queue_task (get_key body ''node_id'') (get_key body ''type'') (get_key body ''payload'')
         (map_of body ''queue_ttl_seconds'') key (JStr (ps_principal session)) now))) s"
| "finish_operator OperationRoute session q body now s =
     checked_body body [''node_id'', ''steps''] [''queue_ttl_seconds''] (with_key q (\<lambda>key.
       on_lab 201 OperationContent (queue_operation (get_key body ''node_id'') (get_key body ''steps'')
         (map_of body ''queue_ttl_seconds'') key (JStr (ps_principal session)) now))) s"
| "finish_operator NoteRoute session q body now s =
     checked_body body [''message''] [] (with_key q (\<lambda>key.
       on_lab 201 NoteContent (post_operator_note (get_key body ''message'') (JStr (ps_principal session)) key))) s"
| "finish_operator ExerciseRoute session q body now s =
     checked_body body [''node_id'', ''scenario_id''] [] (with_key q (\<lambda>key.
       on_lab 201 ExerciseContent (start_exercise (get_key body ''node_id'') (get_key body ''scenario_id'')
         (JStr (ps_principal session)) key now))) s"
| "finish_operator (CancelRoute tid) session q body now s =
     checked_body body [] [] (on_lab 200 TaskContent (cancel_task (JStr tid) (JStr (ps_principal session)))) s"
| "finish_operator ResetRoute session q body now s =
     checked_body body [] [] (on_lab 200 (\<lambda>_. ResetContent) (reset_lab (JStr (ps_principal session)))) s"
| "finish_operator (ContainRoute xid) session q body now s =
     checked_body body [''action''] [] (on_lab 200 ExerciseContent
       (contain_exercise (JStr xid) (get_key body ''action'') (JStr (ps_principal session)))) s"
| "finish_operator (RevokeRoute sid) session q body now s =
     checked_body body [] [] (\<lambda>s. case revoke_session (JStr sid) (Some (JStr (ps_id session))) None now (sv_operators s) of
         (Inl e, g) \<Rightarrow> (auth_error_reply e, s\<lparr>sv_operators := g\<rparr>)
       | (Inr r, g) \<Rightarrow> (Reply 200 (SessionContent r), s\<lparr>sv_operators := g\<rparr>)) s"

definition post_finish ::
  "post_route \<Rightarrow> string option \<Rightarrow> http_message \<Rightarrow> rat \<Rightarrow> rat \<Rightarrow> server \<Rightarrow> handled" where
  "post_finish route actor q clock now s =
    (case read_json_object q of
      Inl e \<Rightarrow> (lab_error_reply e, actor, s)
    | Inr body \<Rightarrow>
        (case route of
          EnrollRoute \<Rightarrow> (case finish_enroll body now s of (r, s') \<Rightarrow> (r, actor, s'))
        | NodeRoute nid tok path \<Rightarrow> (case finish_node nid tok path body now s of (r, s') \<Rightarrow> (r, actor, s'))
        | OperatorRoute op \<Rightarrow>
            (case authorize_operator (route_permission (Some op)) q clock (sv_operators s) of
              Inl e \<Rightarrow> (auth_error_reply e, actor, s)
            | Inr (Inl (r, actor')) \<Rightarrow> (r, (case actor' of None \<Rightarrow> actor | Some a \<Rightarrow> Some a), s)
            | Inr (Inr session) \<Rightarrow>
                (case finish_operator op session q body now s of
                  (r, s') \<Rightarrow> (r, Some (ps_principal session), s')))))"

text \<open>A request nobody interferes with.\<close>

definition do_POST :: "(string \<Rightarrow> bool) \<Rightarrow> http_message \<Rightarrow> rat \<Rightarrow> rat \<Rightarrow> rat \<Rightarrow> server \<Rightarrow> handled" where
  "do_POST bracket_ok q clock clock' now s = (case post_begin bracket_ok q clock s of
      Inl (r, actor) \<Rightarrow> (r, actor, s)
    | Inr (route, actor) \<Rightarrow> post_finish route actor q clock' now s)"

section \<open>Recording the answer\<close>

text \<open>\<open>record_response\<close>, as far as the metrics go: the label of the path, or \<open>unmatched\<close> while the
  target has not been parsed.\<close>

definition recorded_path :: "(string \<Rightarrow> bool) \<Rightarrow> http_message \<Rightarrow> server \<Rightarrow> string" where
  "recorded_path bracket_ok q s =
    (if \<not> request_is_local (sv_port s) q then ''unmatched''
     else (case parse_request_target bracket_ok q of None \<Rightarrow> ''unmatched'' | Some (path, _) \<Rightarrow> path))"

definition record_reply :: "string \<Rightarrow> http_message \<Rightarrow> rat \<Rightarrow> reply \<Rightarrow> server \<Rightarrow> server" where
  "record_reply path q duration r s = (case r of
      Dropped \<Rightarrow> s
    | Reply st _ \<Rightarrow>
        (case record_request (hm_method q) (JStr path) (int st) (FloatValue duration) (sv_metrics s) of
          Inl _ \<Rightarrow> s | Inr m \<Rightarrow> s\<lparr>sv_metrics := m\<rparr>))"

end
