(* ===== verification/Server_Setup.thy ===== *)
theory Server_Setup
  imports Server_Post
begin

text \<open>
  Around the handlers in \<open>c2lab/server.py\<close>: \<open>create_server\<close> with its checks, the bounded worker
  slots, and the bounded access log with its writer thread.  A put, a get and a close of the log queue
  are atomic steps.
\<close>

section \<open>create\_server\<close>

datatype setup_error = SetupError string | SetupAuthError auth_error

definition server_token_ok :: "nat \<Rightarrow> json \<Rightarrow> bool" where
  "server_token_ok minimum token = (case token of
      JStr t \<Rightarrow> minimum \<le> length t \<and> length t \<le> 512 \<and> py_isascii t \<and> list_all (\<lambda>c. 33 \<le> code c \<and> code c \<le> 126) t
    | _ \<Rightarrow> False)"

definition token_error :: "string \<Rightarrow> nat \<Rightarrow> setup_error" where
  "token_error label minimum = SetupError (label @ '' token must contain '' @ nat_str minimum
     @ '' to 512 printable ASCII characters'')"

definition tokens_differ :: setup_error where
  "tokens_differ = SetupError ''operator and enrollment tokens must be different''"

text \<open>What \<open>create_server\<close> checks of the arguments the model does not look into: \<open>runtime\<close> is absent or
  has a callable \<open>health\<close>, the log stream is absent or has \<open>write\<close> and \<open>flush\<close>.\<close>

record server_options =
  so_port :: json
  so_runtime_ok :: bool
  so_access_log :: json
  so_stream_ok :: bool

text \<open>The registry to serve: the given one if it knows the operator token, or a new one.\<close>

definition setup_registry ::
  "json \<Rightarrow> registry option \<Rightarrow> rat \<Rightarrow> (nat \<Rightarrow> string) \<Rightarrow> (setup_error + registry) option" where
  "setup_registry operator_token reg clock h = (case reg of
      None \<Rightarrow>
        map_option (\<lambda>(r, g). case r of Inl e \<Rightarrow> Inl (SetupAuthError e) | Inr _ \<Rightarrow> Inr g)
          (register_session (JStr ''local-admin'') (JStr ''admin'') operator_token (IntValue DEFAULT_SESSION_TTL_SECONDS)
             None clock (empty_registry h))
    | Some g \<Rightarrow> Some (case authenticate operator_token None None clock g of
          Inl e \<Rightarrow> Inl (SetupAuthError e)
        | Inr None \<Rightarrow> Inl (SetupError ''operator token must identify an active registered session'')
        | Inr (Some _) \<Rightarrow> Inr g))"

definition check_options :: "server_options \<Rightarrow> setup_error + int" where
  "check_options opts = (case int_between (so_port opts) 0 65535 of
      None \<Rightarrow> Inl (SetupError ''port must be an integer from 0 to 65535'')
    | Some port \<Rightarrow> Inr port)"

text \<open>\<open>None\<close>: the registration of the operator token does not return (see \<open>new_session_id\<close>).  The
  bound port of a request for port 0 is whatever the system gives; the model keeps the argument.\<close>

definition create_server ::
  "lab_state \<Rightarrow> json \<Rightarrow> json \<Rightarrow> server_options \<Rightarrow> registry option \<Rightarrow> rat \<Rightarrow> (nat \<Rightarrow> string) \<Rightarrow>
   (string \<Rightarrow> string option) \<Rightarrow> (setup_error + server) option" where
  "create_server state operator_token enrollment_token opts reg clock h files =
    (if \<not> server_token_ok 24 operator_token then Some (Inl (token_error ''operator'' 24))
     else if \<not> server_token_ok 16 enrollment_token then Some (Inl (token_error ''enrollment'' 16))
     else if operator_token = enrollment_token then Some (Inl tokens_differ)
     else (case check_options opts of
         Inl e \<Rightarrow> Some (Inl e)
       | Inr port \<Rightarrow>
           map_option (\<lambda>r. rbind r (\<lambda>g.
             if has_registered_token enrollment_token g then Inl tokens_differ
             else if \<not> so_runtime_ok opts then Inl (SetupError ''runtime must provide health()'')
             else if (case so_access_log opts of JBool _ \<Rightarrow> False | _ \<Rightarrow> True)
             then Inl (SetupError ''access_log must be a boolean'')
             else if \<not> so_stream_ok opts then Inl (SetupError ''access_log_stream must be writable and flushable'')
             else Inr \<lparr>sv_lab = state, sv_operators = g,
               sv_enroll_digest = sha256 (case enrollment_token of JStr t \<Rightarrow> t | _ \<Rightarrow> []),
               sv_metrics = new_metrics clock, sv_port = port, sv_static = files\<rparr>))
           (setup_registry operator_token reg clock h)))"

section \<open>Worker slots\<close>

definition MAX_HTTP_WORKERS :: nat where "MAX_HTTP_WORKERS = 16"

record workers =
  wk_free :: nat
  wk_running :: nat

definition new_workers :: workers where
  "new_workers = \<lparr>wk_free = MAX_HTTP_WORKERS, wk_running = 0\<rparr>"

text \<open>\<open>process_request\<close>: a connection without a free slot is closed and counted; one whose thread does
  not start gives its slot back.\<close>

definition accept_connection :: "bool \<Rightarrow> workers \<times> metrics \<Rightarrow> workers \<times> metrics" where
  "accept_connection starts wm = (case wm of (w, m) \<Rightarrow>
     if wk_free w = 0 then (w, record_worker_rejection m)
     else if starts then (w\<lparr>wk_free := wk_free w - 1, wk_running := Suc (wk_running w)\<rparr>, m)
     else (w, m))"

definition finish_connection :: "workers \<Rightarrow> workers" where
  "finish_connection w = (if wk_running w = 0 then w
     else w\<lparr>wk_free := Suc (wk_free w), wk_running := wk_running w - 1\<rparr>)"

section \<open>The access log\<close>

definition ACCESS_LOG_QUEUE_SIZE :: nat where "ACCESS_LOG_QUEUE_SIZE = 256"

record log_entry =
  le_method :: string
  le_route :: string
  le_status :: int
  le_duration :: rat
  le_actor :: "string option"

text \<open>The queue of lines; \<open>None\<close> tells the writer to stop.\<close>

record access_log =
  al_enabled :: bool
  al_closed :: bool
  al_queue :: "log_entry option list"
  al_written :: "log_entry list"
  al_writer_done :: bool

definition new_access_log :: "bool \<Rightarrow> access_log" where
  "new_access_log enabled = \<lparr>al_enabled = enabled, al_closed = False, al_queue = [], al_written = [], al_writer_done = False\<rparr>"

definition log_entry_of :: "string \<Rightarrow> string \<Rightarrow> int \<Rightarrow> rat \<Rightarrow> string option \<Rightarrow> log_entry" where
  "log_entry_of verb path st duration actor =
    \<lparr>le_method = method_label verb, le_route = normalized_route (JStr path), le_status = st,
     le_duration = round3 (max 0 duration), le_actor = actor\<rparr>"

text \<open>\<open>record_response\<close>: count the response, then queue its line or count a drop.\<close>

definition record_response ::
  "string \<Rightarrow> string \<Rightarrow> int \<Rightarrow> rat \<Rightarrow> string option \<Rightarrow> access_log \<times> metrics \<Rightarrow> access_log \<times> metrics" where
  "record_response verb path st duration actor lm = (case lm of (l, m) \<Rightarrow>
     (case record_request verb (JStr path) st (FloatValue duration) m of
       Inl _ \<Rightarrow> (l, m)
     | Inr m' \<Rightarrow>
         if \<not> al_enabled l then (l, m')
         else if al_closed l \<or> length (al_queue l) \<ge> ACCESS_LOG_QUEUE_SIZE then (l, record_access_log_drop m')
         else (l\<lparr>al_queue := al_queue l @ [Some (log_entry_of verb path st duration actor)]\<rparr>, m')))"

text \<open>One turn of \<open>_write_access_log\<close>; \<open>ok\<close> says whether the stream took the line.\<close>

definition write_log_line :: "bool \<Rightarrow> access_log \<times> metrics \<Rightarrow> access_log \<times> metrics" where
  "write_log_line ok lm = (case lm of (l, m) \<Rightarrow>
     if al_writer_done l then (l, m)
     else (case al_queue l of
         [] \<Rightarrow> (l, m)
       | None # rest \<Rightarrow> (l\<lparr>al_queue := rest, al_writer_done := True\<rparr>, m)
       | Some e # rest \<Rightarrow>
           if ok then (l\<lparr>al_queue := rest, al_written := al_written l @ [e]\<rparr>, m)
           else (l\<lparr>al_queue := rest\<rparr>, record_access_log_drop m)))"

text \<open>\<open>_close_access_log\<close>: when the queue is full, the oldest line makes room for the stop mark.\<close>

definition close_access_log :: "access_log \<times> metrics \<Rightarrow> access_log \<times> metrics" where
  "close_access_log lm = (case lm of (l, m) \<Rightarrow>
     if \<not> al_enabled l \<or> al_closed l then (l, m)
     else if length (al_queue l) < ACCESS_LOG_QUEUE_SIZE
     then (l\<lparr>al_closed := True, al_queue := al_queue l @ [None]\<rparr>, m)
     else (l\<lparr>al_closed := True, al_queue := tl (al_queue l) @ [None]\<rparr>, record_access_log_drop m))"

text \<open>\<open>flush_access_log\<close> waits until no line is unfinished, at most \<open>timeout\<close> seconds.  \<open>seen\<close> is what the
  turns of its loop find: the number of unfinished lines and the clock.  \<open>None\<close>: it is still waiting;
  an integer \<open>isfinite\<close> cannot convert raises.\<close>

fun flush_wait :: "rat \<Rightarrow> (nat \<times> rat) list \<Rightarrow> bool option" where
  "flush_wait deadline [] = None"
| "flush_wait deadline ((unfinished_lines, now) # seen) =
    (if unfinished_lines = 0 then Some True
     else if deadline - now \<le> 0 then Some False
     else flush_wait deadline seen)"

definition flush_access_log :: "access_log \<Rightarrow> number \<Rightarrow> rat \<Rightarrow> (nat \<times> rat) list \<Rightarrow> string + bool option" where
  "flush_access_log l timeout now seen =
    (if \<not> al_enabled l then Inr (Some True)
     else (case finite_number timeout [] of
         Inl (AuthCrash e) \<Rightarrow> Inl e
       | Inl _ \<Rightarrow> Inr (Some False)
       | Inr t \<Rightarrow> if t < 0 then Inr (Some False) else Inr (flush_wait (now + t) seen)))"

end
