(* ===== verification/Command_Line.thy ===== *)
theory Command_Line
  imports Node_Loop Server_Setup
begin

text \<open>
  \<open>c2lab/__main__.py\<close>: the argument checks of the command line, what \<open>main\<close> hands to \<open>run_node\<close>, and
  the sessions \<open>run_teamserver\<close> registers before it serves.  Option parsing, printing, the signal
  handler and the prompt for the token belong to the standard library or to the terminal.
\<close>

text \<open>An \<open>argparse.ArgumentTypeError\<close>; \<open>int\<close>'s own message is left out.\<close>

datatype argument_error = ArgumentError string | NotAnInteger

definition port_argument :: "string \<Rightarrow> argument_error + int" where
  "port_argument value = (case py_int value of
      None \<Rightarrow> Inl (ArgumentError ''port must be an integer'')
    | Some port \<Rightarrow> if 0 \<le> port \<and> port \<le> 65535 then Inr port
        else Inl (ArgumentError ''port must be from 0 to 65535''))"

fun argument_error_of :: "protocol_error \<Rightarrow> argument_error" where
  "argument_error_of (ProtocolError m) = ArgumentError m"
| "argument_error_of (PyException x) = ArgumentError x"

definition poll_interval_argument :: "string \<Rightarrow> argument_error + int" where
  "poll_interval_argument value = (case py_int value of
      None \<Rightarrow> Inl NotAnInteger
    | Some i \<Rightarrow> map_error argument_error_of (validate_poll_interval (JInt i)))"

definition jitter_argument :: "string \<Rightarrow> argument_error + int" where
  "jitter_argument value = (case py_int value of
      None \<Rightarrow> Inl NotAnInteger
    | Some i \<Rightarrow> map_error argument_error_of (validate_jitter_percent (JInt i)))"

definition VERSION :: string where "VERSION = ''0.7.0''"

datatype usage_error = BadName protocol_error | BadController url_error | BadToken | BadArgument argument_error | BadProfile

record node_arguments =
  na_name :: string
  na_controller :: string
  na_profile :: string
  na_poll_ms :: string
  na_jitter :: string
  na_token :: string

record node_run =
  nu_controller :: string
  nu_token :: string
  nu_name :: string
  nu_profile :: profile
  nu_poll_interval_ms :: int
  nu_jitter_percent :: int

text \<open>The \<open>node\<close> command: the options as \<open>argparse\<close> converts them, then the checks of \<open>main\<close>.  When
  several options are bad, the command line decides which one \<open>argparse\<close> names; here the order is
  fixed.\<close>

definition node_command :: "(string \<Rightarrow> bool) \<Rightarrow> node_arguments \<Rightarrow> usage_error + node_run" where
  "node_command bracket_ok a =
    (case profile_of_str (na_profile a) of
      None \<Rightarrow> Inl BadProfile
    | Some prof \<Rightarrow>
        rbind (map_error BadArgument (poll_interval_argument (na_poll_ms a))) (\<lambda>interval.
        rbind (map_error BadArgument (jitter_argument (na_jitter a))) (\<lambda>jitter.
        rbind (map_error BadName (clean_text (JStr (na_name a)) ''name'' 1 48)) (\<lambda>name.
        rbind (map_error BadController (validate_controller_url bracket_ok (JStr (na_controller a)))) (\<lambda>url.
        if length (na_token a) < 16 then Inl BadToken
        else Inr \<lparr>nu_controller = url, nu_token = na_token a, nu_name = name, nu_profile = prof,
                  nu_poll_interval_ms = interval, nu_jitter_percent = jitter\<rparr>)))))"

definition start_node_run ::
  "(string \<Rightarrow> bool) \<Rightarrow> node_run \<Rightarrow> rat \<Rightarrow> workspace \<Rightarrow> node_start_error + node_config \<times> node_state" where
  "start_node_run bracket_ok u now fresh =
     start_node bracket_ok (JStr (nu_controller u)) (JStr (nu_token u)) (nu_name u) VERSION
       (JStr (profile_str (nu_profile u))) (JInt (nu_poll_interval_ms u)) (JInt (nu_jitter_percent u)) now fresh"

section \<open>The Teamserver\<close>

text \<open>The three sessions, in the order they are registered.\<close>

definition TEAMSERVER_SESSIONS :: "(string \<times> role) list" where
  "TEAMSERVER_SESSIONS = [(''local-admin'', Admin), (''task-operator'', Operator), (''read-viewer'', Viewer)]"

fun register_all ::
  "((string \<times> role) \<times> string) list \<Rightarrow> rat \<Rightarrow> registry \<Rightarrow> (auth_error + registry) option" where
  "register_all [] clock g = Some (Inr g)"
| "register_all (((p, r), token) # rest) clock g =
    (case register_session (JStr p) (JStr (role_str r)) (JStr token) (IntValue DEFAULT_SESSION_TTL_SECONDS) None clock g of
      None \<Rightarrow> None
    | Some (Inl e, g') \<Rightarrow> Some (Inl e)
    | Some (Inr _, g') \<Rightarrow> register_all rest clock g')"

text \<open>\<open>run_teamserver\<close> up to \<open>serve_forever\<close>; the tokens are what \<open>secrets.token_urlsafe\<close> gave.\<close>

definition start_teamserver ::
  "int \<Rightarrow> lab_state \<Rightarrow> string list \<Rightarrow> string \<Rightarrow> rat \<Rightarrow> (nat \<Rightarrow> string) \<Rightarrow> (string \<Rightarrow> string option) \<Rightarrow> (setup_error + server) option" where
  "start_teamserver port state tokens enrollment clock h files =
    (case register_all (zip TEAMSERVER_SESSIONS tokens) clock (empty_registry h) of
      None \<Rightarrow> None
    | Some (Inl e) \<Rightarrow> Some (Inl (SetupAuthError e))
    | Some (Inr g) \<Rightarrow> create_server state (JStr (hd tokens)) (JStr enrollment)
        \<lparr>so_port = JInt port, so_runtime_ok = True, so_access_log = JBool True, so_stream_ok = True\<rparr> (Some g) clock h files)"

end
