(* ===== verification/Node_Accepted.thy ===== *)
theory Node_Accepted
  imports Node_Loop Workspace_Properties
begin

text \<open>
  A node never reports something the Teamserver would refuse: whatever valid task it is given, a
  node in order answers \<open>completed\<close>, and \<open>validate_task_result\<close> accepts the answer unchanged against
  the identity the node enrolled with.  Most of the work is the size limit on the report.
\<close>

section \<open>The size of a report\<close>

definition text_char :: "char \<Rightarrow> bool" where
  "text_char c \<longleftrightarrow> py_isprintable c \<or> code c = 10 \<or> code c = 9"

lemma length_utf8: "length (utf8_encode s) \<le> 2 * length s"
  by (induction s) (auto simp: utf8_encode_def utf8_char_def)

lemma escape_text: "text_char c \<Longrightarrow> length (escape_char c) \<le> 2"
proof -
  assume "text_char c"
  then have "code c = 10 \<or> code c = 9 \<or> \<not> code c < 32"
    unfolding text_char_def py_isprintable_def by linarith
  then show ?thesis by (auto simp: escape_char_def)
qed

lemma dump_text: "list_all text_char s \<Longrightarrow> length (dump_string s) \<le> 2 * length s + 2"
proof -
  assume "list_all text_char s"
  then have "length (concat (map escape_char s)) \<le> 2 * length s"
  proof (induction s)
    case (Cons c s)
    with escape_text [of c] show ?case by simp
  qed simp
  then show ?thesis by (simp add: dump_string_def)
qed

lemma plain_text: "plain_char c \<Longrightarrow> text_char c"
  unfolding plain_char_def text_char_def py_isprintable_def by linarith

fun flat_value :: "json \<Rightarrow> bool" where
  "flat_value (JStr s) = list_all text_char s"
| "flat_value (JInt i) = (\<bar>i\<bar> < 10 ^ 16)"
| "flat_value (JBool b) = True"
| "flat_value _ = False"

fun flat_bound :: "json \<Rightarrow> nat" where
  "flat_bound (JStr s) = 2 * length s + 2"
| "flat_bound (JInt i) = 17"
| "flat_bound _ = 5"

lemma dumps_flat: "flat_value v \<Longrightarrow> \<exists>t. dumps v = Some t \<and> length t \<le> flat_bound v"
  using dump_text length_int_str [where k = 16]
  by (cases v) (auto simp: MAX_INT_DIGITS_def, fastforce+)

lemma members_flat:
  "list_all (\<lambda>(k, v). list_all plain_char k \<and> flat_value v) kvs \<Longrightarrow>
   \<exists>ts. dump_members kvs = Some ts \<and>
     sum_list (map (\<lambda>t. length t + 1) ts) \<le> sum_list (map (\<lambda>(k, v). length k + flat_bound v + 4) kvs)"
proof (induction kvs)
  case (Cons kv kvs)
  obtain k v where kv: "kv = (k, v)" by (cases kv)
  obtain t where "dumps v = Some t" "length t \<le> flat_bound v" using dumps_flat Cons.prems kv by auto
  moreover have "length (dump_string k) = length k + 2" using dump_plain Cons.prems kv by simp
  ultimately show ?case using Cons kv by auto
qed simp

lemma encoded_size_flat:
  assumes "list_all (\<lambda>(k, v). list_all plain_char k \<and> flat_value v) kvs"
    and "sum_list (map (\<lambda>(k, v). length k + flat_bound v + 4) kvs) + 2 \<le> 2048"
  shows "\<exists>n\<le>MAX_RESULT_BYTES. encoded_size (JObj kvs) = Some n"
proof -
  obtain ts where ts: "dump_members kvs = Some ts"
    "sum_list (map (\<lambda>t. length t + 1) ts) \<le> sum_list (map (\<lambda>(k, v). length k + flat_bound v + 4) kvs)"
    using members_flat [OF assms(1)] by blast
  define t where "t = ''{'' @ join '','' ts @ ''}''"
  have "length t \<le> 2048" using length_join [of ts] ts(2) assms(2) by (simp add: t_def)
  with length_utf8 [of t] ts(1) show ?thesis by (simp add: encoded_size_def t_def MAX_RESULT_BYTES_def)
qed

lemma text_ok_chars: "text_ok t \<Longrightarrow> list_all text_char t \<and> length t \<le> 240"
  by (auto simp: text_ok_def clean_text_Inr text_char_def list_all_iff MAX_TEXT_LENGTH_def)

lemma flat_accepted:
  assumes "list_all (\<lambda>(k, v). list_all plain_char k \<and> flat_value v) kvs"
    and "sum_list (map (\<lambda>(k, v). length k + flat_bound v + 4) kvs) + 2 \<le> 2048"
    and "completed_result t p kvs e = Inr kvs"
  shows "validate_task_result t p (JStr ''completed'') (JObj kvs) e = Inr (Completed, kvs)"
  using encoded_size_flat [OF assms(1,2)] assms(3)
  by (simp add: validate_task_result_Inr validate_result_Inr report_status_def)

section \<open>A node in order\<close>

definition executor_fit :: "executor \<Rightarrow> bool" where
  "executor_fit ex \<longleftrightarrow> clean_text (JStr (ex_version ex)) ''version'' 1 32 = Inr (ex_version ex) \<and>
     MIN_POLL_INTERVAL_MS \<le> ex_poll_interval_ms ex \<and> ex_poll_interval_ms ex \<le> MAX_POLL_INTERVAL_MS \<and>
     0 \<le> ex_jitter_percent ex \<and> ex_jitter_percent ex \<le> MAX_JITTER_PERCENT \<and>
     (case ex_workspace ex of None \<Rightarrow> ex_profile ex \<noteq> Purple_lab
      | Some w \<Rightarrow> ex_profile ex = Purple_lab \<and> (\<exists>mc. ws_holds w mc))"

text \<open>The clock has not gone back, the node is younger than 2^53 milliseconds and has completed at
  most a million tasks.\<close>

definition within_counters :: "rat \<Rightarrow> executor \<Rightarrow> bool" where
  "within_counters now ex \<longleftrightarrow> ex_started ex \<le> now \<and> (now - ex_started ex) * 1000 \<le> of_int MAX_SAFE_INTEGER \<and>
     int (ex_tasks_completed ex) \<le> MAX_TASKS_COMPLETED"

definition executor_identity :: "executor \<Rightarrow> runtime_identity" where
  "executor_identity ex = \<lparr>ri_version = ex_version ex, ri_profile = ex_profile ex,
     ri_poll_interval_ms = ex_poll_interval_ms ex, ri_jitter_percent = ex_jitter_percent ex\<rparr>"

lemma uptime_safe:
  assumes "within_counters now ex"
  shows "0 \<le> py_trunc ((now - ex_started ex) * 1000) \<and> py_trunc ((now - ex_started ex) * 1000) \<le> MAX_SAFE_INTEGER"
  using assms unfolding within_counters_def py_trunc_def by (simp add: le_floor_iff floor_le_iff)

lemma version_text: "clean_text (JStr v) ''version'' 1 32 = Inr v \<Longrightarrow> list_all text_char v \<and> length v \<le> 32"
  by (auto simp: clean_text_Inr text_char_def list_all_iff)

lemma runtime_status_accepted:
  assumes "executor_fit ex" "within_counters now ex"
  shows "\<exists>kvs. run_action now RUNTIME_STATUS p ex = (Inr (JObj kvs), ex) \<and>
    validate_task_result RUNTIME_STATUS p (JStr ''completed'') (JObj kvs) (Some (executor_identity ex)) =
      Inr (Completed, kvs)"
proof -
  define up where "up = py_trunc ((now - ex_started ex) * 1000)"
  define kvs where "kvs = [(''version'', JStr (ex_version ex)), (''profile'', JStr (profile_str (ex_profile ex))),
      (''uptime_ms'', JInt up), (''tasks_completed'', JInt (int (ex_tasks_completed ex))),
      (''poll_interval_ms'', JInt (ex_poll_interval_ms ex)), (''jitter_percent'', JInt (ex_jitter_percent ex))]"
  have up: "0 \<le> up" "up \<le> MAX_SAFE_INTEGER" using uptime_safe [OF assms(2)] by (simp_all add: up_def)
  have n: "int (ex_tasks_completed ex) \<le> MAX_TASKS_COMPLETED" using assms(2) by (simp add: within_counters_def)
  note fit = assms(1) [unfolded executor_fit_def]
  have v: "validate_profile (JStr (profile_str (ex_profile ex))) = Inr (ex_profile ex)"
    "validate_poll_interval (JInt (ex_poll_interval_ms ex)) = Inr (ex_poll_interval_ms ex)"
    "validate_jitter_percent (JInt (ex_jitter_percent ex)) = Inr (ex_jitter_percent ex)"
    using fit by (simp_all only: validate_profile_Inr validate_poll_interval_Inr validate_jitter_percent_Inr)
  have prof: "list_all text_char (profile_str (ex_profile ex))" "length (profile_str (ex_profile ex)) \<le> 10"
    by (cases "ex_profile ex"; simp add: text_char_def py_isprintable_def)+
  have "run_action now RUNTIME_STATUS p ex = (Inr (JObj kvs), ex)" by (simp add: kvs_def up_def)
  moreover have "completed_result RUNTIME_STATUS p kvs (Some (executor_identity ex)) = Inr kvs"
    using fit up n v
    by (simp add: runtime_status_result_def kvs_def get_key_def exact_keys_def executor_identity_def int_between_def)
  moreover have "list_all (\<lambda>(k, v). list_all plain_char k \<and> flat_value v) kvs"
    using fit version_text [of "ex_version ex"] prof up n
    by (simp add: kvs_def MAX_SAFE_INTEGER_def MAX_TASKS_COMPLETED_def protocol_bounds)
  moreover have "sum_list (map (\<lambda>(k, v). length k + flat_bound v + 4) kvs) + 2 \<le> 2048"
    using version_text [of "ex_version ex"] fit prof by (simp add: kvs_def)
  ultimately show ?thesis by (blast intro: flat_accepted)
qed

lemma digest_text: "list_all text_char (sha256_hex s)"
  using digest_plain [of s] plain_text by (auto simp: list_all_iff simp del: digest_plain)

lemma category_text: "c \<in> set EVENT_CATEGORIES \<Longrightarrow> list_all text_char c \<and> length c \<le> 10"
  by (auto simp: EVENT_CATEGORIES_def text_char_def py_isprintable_def)

lemma severity_text: "c \<in> set EVENT_SEVERITIES \<Longrightarrow> list_all text_char c \<and> length c \<le> 10"
  by (auto simp: EVENT_SEVERITIES_def text_char_def py_isprintable_def)

lemma fixed_accepted: "wf_json (JObj kvs) \<Longrightarrow> nan_free (JObj kvs) \<Longrightarrow> fixed_result kvs kvs m = Inr kvs"
  by (simp only: fixed_result_Inr same_json_value_refl)

lemma sleep_accepted:
  assumes "executor_fit ex" "payload_ok SLEEP (SleepFields i j)"
  shows "completed_result SLEEP (SleepFields i j) [(''previous_interval_ms'', JInt (ex_poll_interval_ms ex)),
      (''new_interval_ms'', JInt i), (''jitter_percent'', JInt j)] (Some (executor_identity ex)) =
    Inr [(''previous_interval_ms'', JInt (ex_poll_interval_ms ex)), (''new_interval_ms'', JInt i),
      (''jitter_percent'', JInt j)]"
  using assms by (simp add: executor_fit_def sleep_result_def exact_keys_def get_key_def int_between_def
      executor_identity_def)

text \<open>Every action but the playbooks and the status is a function of its payload.\<close>

lemma simple_action_accepted:
  assumes "executor_fit ex" "payload_ok t p" "t \<noteq> RUNTIME_STATUS" "t \<noteq> RUN_PLAYBOOK"
  shows "\<exists>kvs. run_action now t p ex = (Inr (JObj kvs), ex) \<and>
    validate_task_result t p (JStr ''completed'') (JObj kvs) (Some (executor_identity ex)) = Inr (Completed, kvs)"
proof -
  have "\<exists>kvs. run_action now t p ex = (Inr (JObj kvs), ex) \<and>
      list_all (\<lambda>(k, v). list_all plain_char k \<and> flat_value v) kvs \<and>
      sum_list (map (\<lambda>(k, v). length k + flat_bound v + 4) kvs) + 2 \<le> 2048 \<and>
      completed_result t p kvs (Some (executor_identity ex)) = Inr kvs"
  proof (cases t)
    case SLEEP
    with assms(2) obtain i j where p: "p = SleepFields i j" by (cases p) auto
    show ?thesis
      using sleep_accepted [OF assms(1)] assms(1,2)
      by (intro exI [of _ "[(''previous_interval_ms'', JInt (ex_poll_interval_ms ex)),
          (''new_interval_ms'', JInt i), (''jitter_percent'', JInt j)]"])
        (simp add: SLEEP p executor_fit_def protocol_bounds del: completed_result.simps)
  next
    case GENERATE_EVENT
    with assms(2) obtain c s m where p: "p = EventFields c s m" by (cases p) auto
    have "c \<in> set EVENT_CATEGORIES" "s \<in> set EVENT_SEVERITIES" "text_ok m"
      using assms(2) by (simp_all add: GENERATE_EVENT p)
    note ok = category_text [OF this(1)] severity_text [OF this(2)] text_ok_chars [OF this(3)]
    then show ?thesis by (simp add: GENERATE_EVENT p fixed_accepted)
  next
    case ECHO_TEXT
    with assms(2) obtain x where x: "p = TextField x" "text_ok x" by (cases p) auto
    from text_ok_chars [OF x(2)] x(1) ECHO_TEXT show ?thesis by (simp add: fixed_accepted)
  next
    case HASH_TEXT
    with assms(2) obtain x where "p = TextField x" "text_ok x" by (cases p) auto
    with HASH_TEXT show ?thesis
      by (auto simp: fixed_accepted digest_text length_sha256_hex text_char_def py_isprintable_def)
  next
    case WAIT
    with assms(2) obtain ms where "p = WaitFields ms" "0 \<le> ms" "ms \<le> MAX_WAIT_MS" by (cases p) auto
    with WAIT show ?thesis by (auto simp: fixed_accepted protocol_bounds)
  qed (use assms in \<open>auto simp: fixed_accepted text_char_def py_isprintable_def\<close>)
  then show ?thesis using flat_accepted by blast
qed

section \<open>Playbooks\<close>

lemma playbook_size: "ev \<in> set (allowed_evidence p) \<Longrightarrow> \<exists>n\<le>MAX_RESULT_BYTES. encoded_size (playbook_result p ev) = Some n"
proof -
  assume "ev \<in> set (allowed_evidence p)"
  from validate_playbook_complete [OF this] show ?thesis
    by (auto simp: validate_playbook_result_def rbind_eq_Inr require_exact_keys_def MAX_RESULT_BYTES_def
        MAX_PLAYBOOK_RESULT_BYTES_def split: option.splits json.splits if_splits)
qed

lemma playbook_accepted:
  assumes "executor_fit ex" "ex_profile ex = Purple_lab"
  shows "\<exists>kvs ex'. run_action now RUN_PLAYBOOK (PlaybookField p) ex = (Inr (JObj kvs), ex') \<and> executor_fit ex' \<and>
    ex'\<lparr>ex_workspace := None\<rparr> = ex\<lparr>ex_workspace := None\<rparr> \<and>
    validate_task_result RUN_PLAYBOOK (PlaybookField p) (JStr ''completed'') (JObj kvs) e = Inr (Completed, kvs)"
proof -
  from assms obtain w mc where w: "ex_workspace ex = Some w" "ws_holds w mc"
    by (auto simp: executor_fit_def split: option.splits)
  obtain ev mc' where spec: "playbook_spec p mc = (ev, mc')" by (cases "playbook_spec p mc")
  from execute_holds [OF w(2) this] obtain w' where
    w': "execute_playbook (JStr (playbook_str p)) w = (Inr (playbook_result p ev), w')" "ws_holds w' mc'" by blast
  have ev: "ev \<in> set (allowed_evidence p)" using playbook_spec_allowed [of p mc] spec by simp
  obtain kvs where kvs: "playbook_result p ev = JObj kvs" by (simp add: playbook_result_def)
  define ex' where "ex' = ex\<lparr>ex_workspace := Some w'\<rparr>"
  have "\<exists>mc. ws_holds w' mc" using w'(2) by blast
  then have "executor_fit ex'" using assms by (simp add: executor_fit_def ex'_def split: option.splits)
  moreover have "run_action now RUN_PLAYBOOK (PlaybookField p) ex = (Inr (JObj kvs), ex')"
    using w(1) w'(1) by (simp add: kvs ex'_def del: playbook_str.simps)
  moreover have "ex'\<lparr>ex_workspace := None\<rparr> = ex\<lparr>ex_workspace := None\<rparr>" by (simp add: ex'_def)
  moreover have "validate_task_result RUN_PLAYBOOK (PlaybookField p) (JStr ''completed'') (JObj kvs) e = Inr (Completed, kvs)"
    using playbook_size [OF ev] validate_playbook_complete [OF ev]
    by (simp add: validate_task_result_Inr validate_result_Inr report_status_def playbook_task_result_def kvs)
  ultimately show ?thesis by blast
qed

lemma action_accepted:
  assumes "executor_fit ex" "within_counters now ex" "payload_ok t p" "t \<in> set (NODE_PROFILES (ex_profile ex))"
  shows "\<exists>kvs ex'. run_action now t p ex = (Inr (JObj kvs), ex') \<and> executor_fit ex' \<and>
    ex'\<lparr>ex_workspace := None\<rparr> = ex\<lparr>ex_workspace := None\<rparr> \<and>
    validate_task_result t p (JStr ''completed'') (JObj kvs) (Some (executor_identity ex)) = Inr (Completed, kvs)"
proof -
  consider (status) "t = RUNTIME_STATUS" | (playbook) "t = RUN_PLAYBOOK" | (simple) "t \<noteq> RUNTIME_STATUS" "t \<noteq> RUN_PLAYBOOK"
    by blast
  then show ?thesis
  proof cases
    case status
    with runtime_status_accepted [OF assms(1,2)] assms(1) show ?thesis by blast
  next
    case playbook
    then have "ex_profile ex = Purple_lab" using assms(4) playbook_capability by simp
    moreover obtain b where "p = PlaybookField b" using assms(3) playbook by (cases p) auto
    ultimately show ?thesis using playbook_accepted [OF assms(1)] playbook by blast
  next
    case simple
    with simple_action_accepted [OF assms(1,3)] assms(1) show ?thesis by blast
  qed
qed

lemma execute_accepted:
  assumes "executor_fit ex" and "within_counters now ex"
    and "validate_task_payload (get_key kvs ''type'') (get_key kvs ''payload'') = Inr (t, p)"
    and "t \<in> set (NODE_PROFILES (ex_profile ex))"
  shows "\<exists>r ex'. execute_task (JObj kvs) now ex = ((''completed'', JObj r), ex') \<and> executor_fit ex' \<and>
    ex'\<lparr>ex_workspace := None\<rparr> = ex\<lparr>ex_workspace := None\<rparr> \<and>
    validate_task_result t p (JStr ''completed'') (JObj r) (Some (executor_identity ex)) = Inr (Completed, r)"
proof -
  have "payload_ok t p" using assms(3) by (rule validate_task_payload_ok)
  from action_accepted [OF assms(1,2) this assms(4)] obtain r ex' where
    "run_action now t p ex = (Inr (JObj r), ex')" "executor_fit ex'"
    "ex'\<lparr>ex_workspace := None\<rparr> = ex\<lparr>ex_workspace := None\<rparr>"
    "validate_task_result t p (JStr ''completed'') (JObj r) (Some (executor_identity ex)) = Inr (Completed, r)" by blast
  then show ?thesis using assms(3,4) by (simp add: execute_task_def)
qed

section \<open>Properties\<close>

text \<open>C20: A node in order answers every valid task of its profile with \<open>completed\<close>; the answer passes
  \<open>validate_task_result\<close> unchanged against the identity the node enrolled with, and the node is in
  order again, with its settings, counters and identity as before.\<close>

theorem node_report_accepted:
  assumes "executor_fit ex" and "within_counters now ex"
    and "validate_task_payload (get_key kvs ''type'') (get_key kvs ''payload'') = Inr (t, p)"
    and "t \<in> set (NODE_PROFILES (ex_profile ex))"
  shows "\<exists>r ex'. execute_task (JObj kvs) now ex = ((''completed'', JObj r), ex') \<and> executor_fit ex' \<and>
    ex'\<lparr>ex_workspace := None\<rparr> = ex\<lparr>ex_workspace := None\<rparr> \<and>
    validate_task_result t p (JStr ''completed'') (JObj r) (Some (executor_identity ex)) = Inr (Completed, r)"
  using assms by (rule execute_accepted)

definition demo_executor :: executor where
  "demo_executor = \<lparr>ex_version = ''0.7.0'', ex_profile = Training, ex_poll_interval_ms = 1000, ex_jitter_percent = 0,
     ex_started = 10, ex_tasks_completed = 3, ex_workspace = None\<rparr>"

lemma demo_executor_fit: "executor_fit demo_executor" "within_counters 12 demo_executor"
  by (simp add: executor_fit_def demo_executor_def, code_simp) (simp add: within_counters_def demo_executor_def
      MAX_SAFE_INTEGER_def MAX_TASKS_COMPLETED_def)

theorem node_report_accepted_witness:
  "\<exists>r ex'. execute_task (JObj [(''type'', JStr ''PING''), (''payload'', JObj [])]) 12 demo_executor =
     ((''completed'', JObj r), ex') \<and> executor_fit ex'"
proof -
  have "validate_task_payload (get_key [(''type'', JStr ''PING''), (''payload'', JObj [])] ''type'')
      (get_key [(''type'', JStr ''PING''), (''payload'', JObj [])] ''payload'') = Inr (PING, NoFields)" by code_simp
  from node_report_accepted [OF demo_executor_fit this] show ?thesis
    by (auto simp: demo_executor_def TRAINING_TASK_TYPES_def)
qed

end
