(* ===== verification/Url_Facts.thy ===== *)
theory Url_Facts
  imports Url
begin

text \<open>Reading back what was printed: decimal numbers, and URLs and fields without special characters.\<close>

section \<open>Decimal numbers\<close>

lemma code_digit: "n < 10 \<Longrightarrow> code (digit_char n) = 48 + n"
  by (simp add: digit_char_def of_char_of)

lemma dec_value_Nil [simp]: "dec_value [] = 0"
  by (simp add: dec_value_def)

lemma dec_value_snoc [simp]: "dec_value (s @ [c]) = 10 * dec_value s + (code c - 48)"
  by (simp add: dec_value_def)

lemma dec_value_nat_str: "dec_value (nat_str n) = n"
proof (induction n rule: nat_str.induct)
  case (1 n)
  show ?case
  proof (cases "n < 10")
    case True
    then show ?thesis using dec_value_snoc [of "[]" "digit_char n"] by (subst nat_str.simps) (simp add: code_digit)
  next
    case False
    with 1 show ?thesis by (subst nat_str.simps) (simp add: code_digit)
  qed
qed

lemma digits_nat_str: "nat_str n \<noteq> [] \<and> list_all is_digit (nat_str n)"
proof (induction n rule: nat_str.induct)
  case (1 n)
  have d: "is_digit (digit_char k)" if "k < 10" for k using that by (simp add: is_digit_def code_digit)
  have "n < 10 \<or> list_all is_digit (nat_str (n div 10))" using 1 by blast
  with d [of n] d [of "n mod 10"] show ?case by (subst (1 2) nat_str.simps) auto
qed

lemma nat_str_first: "0 < n \<Longrightarrow> code (hd (nat_str n)) \<noteq> 48"
proof (induction n rule: nat_str.induct)
  case (1 n)
  show ?case
  proof (cases "n < 10")
    case True
    with 1 show ?thesis by (subst nat_str.simps) (simp add: code_digit)
  next
    case False
    then have "0 < n div 10" by (simp add: div_greater_zero_iff)
    with 1(1) [OF False this] False digits_nat_str [of "n div 10"] show ?thesis by (subst nat_str.simps) simp
  qed
qed

lemma digit_not_space: "is_digit c \<Longrightarrow> \<not> py_isspace c"
  unfolding is_digit_def py_isspace_def by linarith

lemma py_strip_same: "list_all (\<lambda>c. \<not> py_isspace c) s \<Longrightarrow> py_strip s = s"
proof -
  have d: "list_all (\<lambda>c. \<not> py_isspace c) t \<Longrightarrow> dropWhile py_isspace t = t" for t by (cases t) auto
  assume "list_all (\<lambda>c. \<not> py_isspace c) s"
  then show ?thesis using d [of s] d [of "rev s"] by (simp add: py_strip_def)
qed

lemma py_split_single: "c \<notin> set s \<Longrightarrow> py_split c s = [s]"
  by (induction s) auto

lemma not_digit: "is_digit c \<Longrightarrow> d \<in> {CHR ''_'', CHR ''+'', CHR ''-'', CHR '':'', CHR ''@'', CHR ''['', CHR '']'',
    CHR ''%'', CHR ''='', CHR ''&'', CHR ''/'', CHR ''?'', CHR ''#''} \<Longrightarrow> c \<noteq> d"
  by (auto simp: is_digit_def)

lemma py_int_digits:
  assumes "list_all is_digit s" "s \<noteq> []" "length s \<le> MAX_INT_DIGITS"
  shows "py_int s = Some (int (dec_value s))"
proof -
  have "py_strip s = s"
    using assms(1) digit_not_space by (intro py_strip_same) (auto simp: list_all_iff)
  moreover have "CHR ''_'' \<notin> set s" using assms(1) not_digit by (auto simp: list_all_iff)
  moreover have "hd s \<notin> {CHR ''+'', CHR ''-''}"
    using assms(1,2) not_digit [of "hd s"] by (cases s) auto
  moreover have "filter is_digit s = s" using assms(1) by (simp add: list_all_iff)
  ultimately show ?thesis using assms py_split_single [of "CHR ''_''" s] by (auto simp: py_int_def)
qed

lemma py_int_nat_str: "length (nat_str n) \<le> MAX_INT_DIGITS \<Longrightarrow> py_int (nat_str n) = Some (int n)"
  using py_int_digits [of "nat_str n"] digits_nat_str [of n] dec_value_nat_str [of n] by simp

section \<open>Splitting\<close>

lemma takeWhile_none: "c \<notin> set s \<Longrightarrow> takeWhile (\<lambda>d. d \<noteq> c) (s @ c # t) = s"
  by (induction s) auto

lemma dropWhile_none: "c \<notin> set s \<Longrightarrow> dropWhile (\<lambda>d. d \<noteq> c) (s @ c # t) = c # t"
  by (induction s) auto

lemma py_partition_found: "c \<notin> set s \<Longrightarrow> py_partition c (s @ c # t) = (s, True, t)"
  by (simp add: py_partition_def takeWhile_none dropWhile_none)

lemma py_partition_none: "c \<notin> set s \<Longrightarrow> py_partition c s = (s, False, [])"
proof -
  assume c: "c \<notin> set s"
  then have a: "\<forall>d\<in>set s. d \<noteq> c" by blast
  have "takeWhile (\<lambda>d. d \<noteq> c) s = s" using a by (simp only: takeWhile_eq_all_conv)
  moreover have "dropWhile (\<lambda>d. d \<noteq> c) s = []" using a by (simp only: dropWhile_eq_Nil_conv)
  ultimately show ?thesis using c by (simp only: py_partition_def drop_Nil)
qed

section \<open>URLs of the loopback host\<close>

lemma urlsplit_loopback:
  assumes "list_all is_digit s"
  shows "urlsplit ok (''http://127.0.0.1:'' @ s) = Some \<lparr>su_scheme = ''http'', su_netloc = ''127.0.0.1:'' @ s,
    su_path = [], su_query = [], su_fragment = []\<rparr>"
proof -
  have keep: "filter (\<lambda>c. code c \<notin> {9, 10, 13}) s = s"
    using assms by (auto simp: list_all_iff is_digit_def filter_id_conv)
  have clean: "filter (\<lambda>c. code c \<notin> {9, 10, 13}) (dropWhile (\<lambda>c. code c \<le> 32) (''http://127.0.0.1:'' @ s)) =
      ''http'' @ CHR '':'' # ''//127.0.0.1:'' @ s"
    using keep by simp
  have scheme: "split_scheme (''http'' @ CHR '':'' # t) = (''http'', t)" for t
    using py_partition_found [of "CHR '':''" "''http''" t]
    by (simp add: split_scheme_def ascii_alpha_def scheme_char_def py_lower_def py_lower_char_def)
  define n where "n = ''127.0.0.1:'' @ s"
  have chars: "list_all (\<lambda>c. is_digit c \<or> c = CHR ''.'' \<or> c = CHR '':'') n"
    using assms by (simp add: n_def list_all_iff is_digit_def)
  have avoid: "CHR ''['' \<notin> set n" "CHR '']'' \<notin> set n" using chars by (auto simp: list_all_iff is_digit_def)
  have "\<not> netloc_end c" if "is_digit c \<or> c = CHR ''.'' \<or> c = CHR '':''" for c
    using that by (auto simp: netloc_end_def is_digit_def)
  then have "\<forall>d\<in>set n. \<not> netloc_end d" using chars by (simp add: list_all_iff)
  then have "takeWhile (\<lambda>c. \<not> netloc_end c) n = n" "dropWhile (\<lambda>c. \<not> netloc_end c) n = []"
    by (simp_all only: takeWhile_eq_all_conv dropWhile_eq_Nil_conv)
  then have netloc: "split_netloc (''//'' @ n) = (n, [])" by (simp add: split_netloc_def del: dropWhile_eq_Nil_conv)
  have parts: "py_partition c [] = ([], False, [])" for c by (simp add: py_partition_none)
  show ?thesis
    unfolding urlsplit_def Let_def clean scheme
    using netloc avoid parts by (simp add: n_def)
qed

end
