(* ===== verification/Node_Properties.thy ===== *)
theory Node_Properties
  imports Node_Accepted Url_Facts
begin

text \<open>
  Properties of the node client and of \<open>run_node\<close>: the controller URL stays on the loopback host,
  a result is not lost before the Teamserver has answered for it, the settings change only through
  an acknowledged result, and the loop never dies of an exception of its own.
\<close>

section \<open>The controller URL\<close>

lemma url_port_range: "url_port u = Some (Some n) \<Longrightarrow> 0 \<le> n \<and> n \<le> 65535"
  by (auto simp: url_port_def Let_def split: if_splits option.splits)

lemma controller_url_shape:
  assumes "validate_controller_url ok v = Inr u"
  shows "\<exists>n. 0 \<le> n \<and> n \<le> 65535 \<and> u = ''http://127.0.0.1:'' @ int_str n"
proof -
  from assms obtain p port where "url_port p = Some port"
    "u = ''http://127.0.0.1:'' @ int_str (case port of None \<Rightarrow> 80 | Some n \<Rightarrow> n)"
    by (auto simp: validate_controller_url_def split: json.splits option.splits if_splits)
  then show ?thesis
    using url_port_range [of p] by (intro exI [of _ "case port of None \<Rightarrow> 80 | Some n \<Rightarrow> n"]) (auto split: option.split)
qed

lemma loopback_accepted:
  assumes "0 \<le> n" "n \<le> 65535"
  shows "validate_controller_url ok (JStr (''http://127.0.0.1:'' @ int_str n)) = Inr (''http://127.0.0.1:'' @ int_str n)"
proof -
  obtain k where k: "n = int k" using assms(1) nonneg_int_cases by blast
  have s: "int_str n = nat_str k" by (simp add: k int_str_def)
  have len: "length (nat_str k) \<le> MAX_INT_DIGITS"
    using length_nat_str [of k 5] assms(2) by (simp add: k MAX_INT_DIGITS_def)
  note digits = digits_nat_str [of k]
  define u where "u = \<lparr>su_scheme = ''http'', su_netloc = ''127.0.0.1:'' @ nat_str k, su_path = [],
      su_query = [], su_fragment = []\<rparr>"
  have split: "urlsplit ok (''http://127.0.0.1:'' @ nat_str k) = Some u"
    unfolding u_def by (rule urlsplit_loopback) (use digits in blast)
  have none: "CHR ''@'' \<notin> set (nat_str k)" "CHR ''['' \<notin> set (nat_str k)" "CHR '']'' \<notin> set (nat_str k)"
    using digits by (auto simp: list_all_iff is_digit_def)
  then have info: "py_rpartition (CHR ''@'') (''127.0.0.1:'' @ nat_str k) = ([], False, ''127.0.0.1:'' @ nat_str k)"
    by (simp add: py_rpartition_def)
  have host: "host_port u = (''127.0.0.1'', nat_str k)"
    using info none py_partition_none [of "CHR ''[''" "''127.0.0.1:'' @ nat_str k"]
      py_partition_found [of "CHR '':''" "''127.0.0.1''" "nat_str k"]
    by (simp add: host_port_def u_def)
  have name: "url_hostname u = Some ''127.0.0.1''"
    using py_partition_none [of "CHR ''%''" "''127.0.0.1''"]
    by (simp add: url_hostname_def host py_lower_def py_lower_char_def)
  have port: "url_port u = Some (Some n)"
    using digits py_int_nat_str [OF len] assms by (simp add: url_port_def host k)
  have user: "url_username u = None" "url_password u = None"
    using info by (simp_all add: url_username_def url_password_def u_def split: prod.split)
  show ?thesis
    unfolding s using split name port user
    by (simp add: validate_controller_url_def u_def truthy_def s)
qed

interpretation url_validator: validator "validate_controller_url ok" JStr
  by unfold_locales (metis controller_url_shape loopback_accepted)

text \<open>C39: Whatever URL the operator passes, the node only ever talks to a port of 127.0.0.1; and the
  normalised URL, given to the check again, is accepted unchanged.  This holds for every behaviour of
  the bracketed-host test.\<close>

theorem controller_url_loopback:
  assumes "validate_controller_url ok v = Inr u"
  shows "(\<exists>n. 0 \<le> n \<and> n \<le> 65535 \<and> u = ''http://127.0.0.1:'' @ int_str n) \<and>
    validate_controller_url ok' (JStr u) = Inr u"
  using controller_url_shape [OF assms] loopback_accepted by blast

theorem controller_url_loopback_witness:
  "validate_controller_url (\<lambda>_. False) (JStr (''http://127.0.0.1:'' @ int_str 8765)) =
     Inr (''http://127.0.0.1:'' @ int_str 8765)"
  using controller_url_loopback [OF loopback_accepted [of 8765 "\<lambda>_. True"]] by simp

section \<open>The loop keeps the node in order\<close>

definition report_fits :: "executor \<Rightarrow> pending_result \<Rightarrow> bool" where
  "report_fits ex p \<longleftrightarrow> (pd_status p = ''completed'' \<longrightarrow>
     (\<exists>t kvs. pd_task_type p = JStr (task_type_str t) \<and> t \<in> set (NODE_PROFILES (ex_profile ex)) \<and>
        pd_result p = JObj kvs \<and>
        (t = SLEEP \<longrightarrow> (\<exists>i j. kvs = [(''previous_interval_ms'', JInt (ex_poll_interval_ms ex)),
             (''new_interval_ms'', JInt i), (''jitter_percent'', JInt j)] \<and>
           MIN_POLL_INTERVAL_MS \<le> i \<and> i \<le> MAX_POLL_INTERVAL_MS \<and> 0 \<le> j \<and> j \<le> MAX_JITTER_PERCENT))))"

definition node_fit :: "node_state \<Rightarrow> bool" where
  "node_fit st \<longleftrightarrow> executor_fit (nd_executor st) \<and>
     (case nd_pending st of None \<Rightarrow> True | Some p \<Rightarrow> report_fits (nd_executor st) p)"

definition fresh_ok :: "surroundings \<Rightarrow> bool" where
  "fresh_ok r \<longleftrightarrow> (\<exists>dir names. sr_fresh r = fresh_workspace dir names \<and> tempfile_ok names)"

lemma open_lab_fit: "fresh_ok r \<Longrightarrow> \<exists>w. open_lab_workspace p (sr_fresh r) = Inr w \<and>
    (case w of None \<Rightarrow> p \<noteq> Purple_lab | Some w \<Rightarrow> p = Purple_lab \<and> (\<exists>mc. ws_holds w mc))"
proof -
  assume "fresh_ok r"
  then obtain w where "open_workspace (sr_fresh r) = (Inr (), w)" "ws_holds w (False, False)"
    unfolding fresh_ok_def using open_holds by metis
  then show ?thesis by (auto simp: open_lab_workspace_def)
qed

lemma reset_fit:
  assumes "executor_fit ex" "fresh_ok r"
  shows "\<exists>ex'. reset_lab_workspace (sr_fresh r) ex = (Inr (), ex') \<and> executor_fit ex'"
proof -
  obtain w where w: "open_lab_workspace (ex_profile ex) (sr_fresh r) = Inr w"
    "case w of None \<Rightarrow> ex_profile ex \<noteq> Purple_lab | Some w \<Rightarrow> ex_profile ex = Purple_lab \<and> (\<exists>mc. ws_holds w mc)"
    using open_lab_fit [OF assms(2)] by blast
  then show ?thesis
    using assms(1) by (cases w) (simp_all add: reset_lab_workspace_def close_executor_def executor_fit_def)
qed

lemma waited_eq: "waited r st = (x, st') \<Longrightarrow> st' = st \<and> (\<exists>d. x = Inr d)"
  by (auto simp: waited_def)

lemma client_error_fit:
  assumes "node_fit st" "fresh_ok r" "handle_client_error r b e st = (x, st')"
  shows "node_fit st' \<and> (\<exists>d. x = Inr d)"
proof (cases "ce_status e = Some 401")
  case True
  obtain ex' where "reset_lab_workspace (sr_fresh r) (nd_executor st) = (Inr (), ex')" "executor_fit ex'"
    using reset_fit assms(1,2) by (auto simp: node_fit_def)
  with True assms(3) show ?thesis by (auto simp: handle_client_error_def node_fit_def dest!: waited_eq)
next
  case False
  with assms(1,3) show ?thesis
    by (auto simp: handle_client_error_def node_fit_def dest!: waited_eq split: if_splits option.splits)
qed

lemma acknowledge_fit:
  assumes "executor_fit ex" "report_fits ex p"
    and "acknowledge (pd_task_type p) (JStr (pd_status p)) (pd_result p) ex = (x, ex')"
  shows "x = Inr () \<and> executor_fit ex'"
proof (cases "pd_status p = ''completed''")
  case True
  with assms(2) obtain t kvs where t: "pd_task_type p = JStr (task_type_str t)" "t \<in> set (NODE_PROFILES (ex_profile ex))"
    "pd_result p = JObj kvs" and sl: "t = SLEEP \<Longrightarrow> \<exists>i j. kvs = [(''previous_interval_ms'', JInt (ex_poll_interval_ms ex)),
        (''new_interval_ms'', JInt i), (''jitter_percent'', JInt j)] \<and>
      MIN_POLL_INTERVAL_MS \<le> i \<and> i \<le> MAX_POLL_INTERVAL_MS \<and> 0 \<le> j \<and> j \<le> MAX_JITTER_PERCENT"
    unfolding report_fits_def by blast
  show ?thesis
  proof (cases "t = SLEEP")
    case True
    with sl obtain i j where kvs: "kvs = [(''previous_interval_ms'', JInt (ex_poll_interval_ms ex)),
        (''new_interval_ms'', JInt i), (''jitter_percent'', JInt j)]"
      and b: "MIN_POLL_INTERVAL_MS \<le> i" "i \<le> MAX_POLL_INTERVAL_MS" "0 \<le> j" "j \<le> MAX_JITTER_PERCENT" by blast
    have v: "validate_poll_interval (JInt i) = Inr i" "validate_jitter_percent (JInt j) = Inr j"
      using b by (simp_all only: validate_poll_interval_Inr validate_jitter_percent_Inr)
    have c: "commit_sleep kvs ex = (Inr (), ex\<lparr>ex_poll_interval_ms := i, ex_jitter_percent := j\<rparr>)"
      using v by (simp add: commit_sleep_def kvs get_key_def insert_commute)
    have "ex' = ex\<lparr>ex_poll_interval_ms := i, ex_jitter_percent := j, ex_tasks_completed := Suc (ex_tasks_completed ex)\<rparr> \<and>
        x = Inr ()"
      using assms(3) t \<open>pd_status p = ''completed''\<close> c True by (simp add: acknowledge_def del: task_type_str.simps)
    with assms(1) b show ?thesis by (simp add: executor_fit_def split: option.splits)
  next
    case False
    then have "ex' = ex\<lparr>ex_tasks_completed := Suc (ex_tasks_completed ex)\<rparr> \<and> x = Inr ()"
      using assms(3) t \<open>pd_status p = ''completed''\<close> by (simp add: acknowledge_def del: task_type_str.simps)
    with assms(1) show ?thesis by (simp add: executor_fit_def split: option.splits)
  qed
qed (use assms in \<open>auto simp: acknowledge_def\<close>)

lemma submit_fit:
  assumes "node_fit st" "fresh_ok r" "nd_pending st = Some p" "submit_turn r p st = (x, st')"
  shows "node_fit st' \<and> (\<exists>d. x = Inr d)"
proof (cases "send_result (sr_loads r) (sr_send r) (pd_task_id p) (JStr (pd_status p)) (pd_result p) (nd_client st)")
  case (Inl e)
  with assms client_error_fit show ?thesis by (simp add: submit_turn_def)
next
  case (Inr a)
  obtain y ex where a: "acknowledge (pd_task_type p) (JStr (pd_status p)) (pd_result p) (nd_executor st) = (y, ex)"
    by (cases "acknowledge (pd_task_type p) (JStr (pd_status p)) (pd_result p) (nd_executor st)")
  have "y = Inr () \<and> executor_fit ex"
    by (rule acknowledge_fit [OF _ _ a]) (use assms in \<open>auto simp: node_fit_def\<close>)
  with Inr a assms(4) show ?thesis by (auto simp: submit_turn_def node_fit_def dest!: waited_eq)
qed

text \<open>What a checked envelope gives the executor.\<close>

lemma check_envelope_Inr:
  assumes "check_envelope c (JObj kvs) = Inr u"
  shows "\<exists>tid tt p. map_of kvs ''id'' = Some tid \<and> map_of kvs ''type'' = Some (JStr (task_type_str tt)) \<and>
    validate_task_payload (get_key kvs ''type'') (get_key kvs ''payload'') = Inr (tt, p)"
proof -
  from assms have i: "is_hex_identifier (get_key kvs ''id'') ''task-'' 12"
    and v: "\<exists>tt p. validate_task_payload (get_key kvs ''type'') (get_key kvs ''payload'') = Inr (tt, p)"
    by (auto simp: check_envelope_def split: if_splits sum.splits)
  from i have "get_key kvs ''id'' \<noteq> JNull" by (auto simp: is_hex_identifier_def)
  moreover from v obtain tt p where tp: "validate_task_payload (get_key kvs ''type'') (get_key kvs ''payload'') = Inr (tt, p)" by blast
  then have "get_key kvs ''type'' = JStr (task_type_str tt)" by (simp add: validate_task_payload_Inr)
  ultimately show ?thesis using tp by (auto simp: get_key_def split: option.splits)
qed

lemma execute_fit:
  assumes "executor_fit ex" "execute_task (JObj kvs) now ex = ((status, res), ex')"
    and "map_of kvs ''type'' = Some (JStr (task_type_str tt))"
    and "validate_task_payload (get_key kvs ''type'') (get_key kvs ''payload'') = Inr (tt, p)"
  shows "executor_fit ex' \<and> report_fits ex' \<lparr>pd_task_id = tid, pd_task_type = JStr (task_type_str tt),
    pd_status = status, pd_result = res\<rparr>"
proof (cases "tt \<in> set (NODE_PROFILES (ex_profile ex))")
  case False
  with assms show ?thesis by (auto simp: execute_task_def failed_report_def report_fits_def)
next
  case True
  have ok: "payload_ok tt p" using assms(4) by (rule validate_task_payload_ok)
  show ?thesis
  proof (cases "tt = RUN_PLAYBOOK")
    case pb: True
    with ok obtain b where p: "p = PlaybookField b" by (cases p) auto
    have "ex_profile ex = Purple_lab" using True pb playbook_capability by simp
    from playbook_accepted [OF assms(1) this, of now b None] obtain kvs' ex'' where
      e: "run_action now RUN_PLAYBOOK p ex = (Inr (JObj kvs'), ex'')" "executor_fit ex''"
      "ex''\<lparr>ex_workspace := None\<rparr> = ex\<lparr>ex_workspace := None\<rparr>" unfolding p by blast
    from e(3) have "ex_profile ex'' = ex_profile ex" by (metis executor.select_convs(2) executor.surjective executor.update_convs(7))
    with e True pb assms show ?thesis
      by (auto simp: execute_task_def report_fits_def simp del: task_type_str.simps intro!: exI [of _ RUN_PLAYBOOK])
  next
    case False
    have "\<exists>kvs'. run_action now tt p ex = (Inr (JObj kvs'), ex) \<and> (tt = SLEEP \<longrightarrow> (\<exists>i j. p = SleepFields i j \<and>
        kvs' = [(''previous_interval_ms'', JInt (ex_poll_interval_ms ex)),
          (''new_interval_ms'', JInt i), (''jitter_percent'', JInt j)]))"
      using ok False by (cases tt; cases p) auto
    with True assms ok show ?thesis by (auto simp: execute_task_def report_fits_def)
  qed
qed

lemma poll_fit:
  assumes "node_fit st" "fresh_ok r" "nd_pending st = None" "poll_turn r st = (x, st')"
  shows "node_fit st' \<and> (\<exists>d. x = Inr d)"
proof (cases "poll_controller (sr_loads r) (sr_send r) (nd_client st)")
  case (Inl e)
  with assms client_error_fit show ?thesis by (simp add: poll_turn_def)
next
  case (Inr response)
  then have env: "check_envelope (nd_client st) (get_key response ''task'') = Inr ()"
    by (auto simp: poll_controller_def rbind_eq_Inr)
  show ?thesis
  proof (cases "\<exists>kvs. get_key response ''task'' = JObj kvs")
    case False
    with assms Inr show ?thesis by (auto simp: poll_turn_def dest!: waited_eq split: json.splits)
  next
    case True
    then obtain kvs where kvs: "get_key response ''task'' = JObj kvs" by blast
    from check_envelope_Inr [OF env [unfolded kvs]] obtain tid tt p where
      m: "map_of kvs ''id'' = Some tid" "map_of kvs ''type'' = Some (JStr (task_type_str tt))"
      "validate_task_payload (get_key kvs ''type'') (get_key kvs ''payload'') = Inr (tt, p)" by blast
    obtain status res ex where e: "execute_task (JObj kvs) (sr_now r) (nd_executor st) = ((status, res), ex)"
      by (metis surj_pair)
    have "executor_fit (nd_executor st)" using assms(1) by (simp add: node_fit_def)
    from execute_fit [OF this e m(2,3), of tid] assms(4) show ?thesis
      by (auto simp: poll_turn_def Inr kvs e m(1,2) node_fit_def simp del: task_type_str.simps)
  qed
qed

lemma work_fit:
  assumes "node_fit st" "fresh_ok r" "work_turn r st = (x, st')"
  shows "node_fit st' \<and> (\<exists>d. x = Inr d)"
proof (cases "nd_pending st")
  case None
  with poll_fit [OF assms(1,2) None] assms(3) show ?thesis by (simp add: work_turn_def)
next
  case (Some p)
  with submit_fit [OF assms(1,2) Some] assms(3) show ?thesis by (simp add: work_turn_def)
qed

lemma node_turn_fit:
  assumes "node_fit st" "fresh_ok r" "node_turn cf r st = (x, st')"
  shows "node_fit st' \<and> (\<exists>d. x = Inr d)"
proof -
  have c: "node_fit (st\<lparr>nd_client := c\<rparr>)" for c using assms(1) by (simp add: node_fit_def split: option.splits)
  show ?thesis
    using assms(3) work_fit [OF assms(1,2)] work_fit [OF c assms(2)] c
    by (auto simp: node_turn_def split: if_splits prod.splits sum.splits)
qed

lemma node_turns_fit:
  "node_fit st \<Longrightarrow> list_all fresh_ok rs \<Longrightarrow> fst (node_turns cf rs st) = Inr ()"
proof (induction rs arbitrary: st)
  case (Cons r rs)
  obtain x st' where t: "node_turn cf r st = (x, st')" by (cases "node_turn cf r st")
  with node_turn_fit [OF Cons.prems(1) _ t] Cons.prems(2) obtain d where "x = Inr d" "node_fit st'" by auto
  with Cons t show ?case by simp
qed simp

lemma start_fit:
  assumes "start_node ok url tok name version prof interval jitter now (fresh_workspace dir names) = Inr (cf, st)"
    and "tempfile_ok names" "clean_text (JStr version) ''version'' 1 32 = Inr version"
  shows "node_fit st"
proof -
  obtain w0 where w0: "open_workspace (fresh_workspace dir names) = (Inr (), w0)" "ws_holds w0 (False, False)"
    using open_holds [OF assms(2)] by blast
  from assms(1) obtain p i j w where "validate_profile prof = Inr p" "validate_poll_interval interval = Inr i"
    "validate_jitter_percent jitter = Inr j" and op: "open_lab_workspace p (fresh_workspace dir names) = Inr w"
    and st: "nd_executor st = \<lparr>ex_version = version, ex_profile = p, ex_poll_interval_ms = i, ex_jitter_percent = j,
      ex_started = now, ex_tasks_completed = 0, ex_workspace = w\<rparr>" "nd_pending st = None"
    by (auto simp: start_node_def new_executor_def rbind_eq_Inr)
  moreover from this have "MIN_POLL_INTERVAL_MS \<le> i \<and> i \<le> MAX_POLL_INTERVAL_MS \<and> 0 \<le> j \<and> j \<le> MAX_JITTER_PERCENT"
    by (simp add: validate_poll_interval_Inr validate_jitter_percent_Inr)
  moreover have "case w of None \<Rightarrow> p \<noteq> Purple_lab | Some w \<Rightarrow> p = Purple_lab \<and> (\<exists>mc. ws_holds w mc)"
    using w0 op by (cases w) (auto simp: open_lab_workspace_def simp del: split_paired_Ex split: if_splits)
  ultimately show ?thesis using assms(3) st by (simp add: node_fit_def executor_fit_def split: option.splits)
qed


definition demo_surroundings :: surroundings where
  "demo_surroundings = \<lparr>sr_loads = \<lambda>_. None, sr_send = \<lambda>_. HttpFailure 401 [], sr_now = 1,
     sr_fresh = fresh_workspace ''/tmp/c2lab-node-y'' demo_names, sr_uniform = \<lambda>a b. a\<rparr>"

lemma demo_surroundings_fresh: "list_all fresh_ok [demo_surroundings, demo_surroundings]"
  using demo_names_ok by (auto simp: fresh_ok_def demo_surroundings_def)

definition demo_client :: client where
  "demo_client = \<lparr>cl_controller_url = ''http://127.0.0.1:'' @ int_str 8765,
     cl_enrollment_token = ''0123456789abcdef'', cl_node_id = None, cl_session_token = None\<rparr>"

lemma demo_start: "\<exists>st. start_node (\<lambda>_. True) (JStr (''http://127.0.0.1:'' @ int_str 8765)) (JStr ''0123456789abcdef'')
    ''node-a'' ''0.7.0'' (JStr ''training'') (JInt 1000) (JInt 0) 0 (fresh_workspace ''/tmp/c2lab-node-x'' demo_names) =
    Inr (\<lparr>nc_name = ''node-a'', nc_version = ''0.7.0'', nc_profile = Training\<rparr>, st)"
proof -
  have "validate_profile (JStr ''training'') = Inr Training" by code_simp
  moreover have "validate_poll_interval (JInt 1000) = Inr 1000" "validate_jitter_percent (JInt 0) = Inr 0"
    by (simp_all add: validate_poll_interval_Inr validate_jitter_percent_Inr protocol_bounds)
  moreover have "new_client (\<lambda>_. True) (JStr (''http://127.0.0.1:'' @ int_str 8765)) (JStr ''0123456789abcdef'') =
      Inr demo_client"
    using loopback_accepted [of 8765 "\<lambda>_. True"] by (simp add: new_client_def demo_client_def)
  ultimately show ?thesis by (simp add: start_node_def new_executor_def open_lab_workspace_def)
qed


section \<open>Results\<close>

definition result_answer :: "surroundings \<Rightarrow> pending_result \<Rightarrow> node_state \<Rightarrow> client_error + (string \<times> json) list" where
  "result_answer r p st = send_result (sr_loads r) (sr_send r) (pd_task_id p) (JStr (pd_status p)) (pd_result p) (nd_client st)"

lemma handle_error_pending:
  assumes "handle_client_error r b e st = (x, st')"
  shows "nd_pending st' = nd_pending st \<or> nd_pending st' = None \<and> (b \<and> is_permanent e \<or> ce_status e = Some 401)"
  using assms by (auto simp: handle_client_error_def Let_def dest!: waited_eq split: if_splits prod.splits sum.splits)

lemma handle_error_settings:
  assumes "handle_client_error r b e st = (x, st')"
  shows "(nd_executor st')\<lparr>ex_workspace := None\<rparr> = (nd_executor st)\<lparr>ex_workspace := None\<rparr>"
  using assms
  by (auto simp: handle_client_error_def reset_lab_workspace_def close_executor_def Let_def dest!: waited_eq
      split: if_splits prod.splits sum.splits)

text \<open>C27: A result that waits to be sent stays until the controller has answered for it: after a turn it
  is still there, or the controller accepted it, or it refused it with a client error status.  A lost
  connection, a server error or an unreadable answer never drops it.\<close>

theorem result_not_lost:
  assumes "nd_pending st = Some p" and "truthy (cl_node_id (nd_client st))" and "node_turn cf r st = (Inr d, st')"
  shows "nd_pending st' = Some p \<or> nd_pending st' = None \<and>
    (case result_answer r p st of Inr _ \<Rightarrow> True
     | Inl e \<Rightarrow> (\<exists>s. ce_status e = Some s \<and> 400 \<le> s \<and> s < 500))"
proof -
  have t: "submit_turn r p st = (Inr d, st')" using assms by (simp add: node_turn_def work_turn_def)
  show ?thesis
  proof (cases "result_answer r p st")
    case (Inl e)
    with t have "handle_client_error r True e st = (Inr d, st')" by (simp add: submit_turn_def result_answer_def)
    from handle_error_pending [OF this] assms(1) Inl show ?thesis
      by (auto simp: is_permanent_def split: option.splits)
  next
    case (Inr a)
    with t show ?thesis
      by (auto simp: submit_turn_def result_answer_def dest!: waited_eq split: prod.splits sum.splits)
  qed
qed

definition demo_config :: node_config where
  "demo_config = \<lparr>nc_name = ''node-a'', nc_version = ''0.7.0'', nc_profile = Training\<rparr>"

definition demo_waiting :: node_state where
  "demo_waiting = \<lparr>nd_client = demo_client\<lparr>cl_node_id := Some ''node-0123456789'', cl_session_token := Some ''0123456789abcdef''\<rparr>,
     nd_executor = demo_executor,
     nd_pending = Some \<lparr>pd_task_id = JStr ''task-0123456789ab'', pd_task_type = JStr ''PING'', pd_status = ''completed'',
       pd_result = JObj [(''reply'', JStr ''PONG'')]\<rparr>,
     nd_stop = False\<rparr>"

lemma demo_waiting_turn: "node_turn cf (demo_surroundings\<lparr>sr_send := \<lambda>_. NoAnswer\<rparr>) demo_waiting = (Inr 1, demo_waiting)"
proof -
  have "validate_result (JStr ''completed'') (JObj [(''reply'', JStr ''PONG'')]) = Inr (Completed, [(''reply'', JStr ''PONG'')])"
    "is_hex_identifier (JStr ''task-0123456789ab'') ''task-'' 12" by code_simp+
  then show ?thesis
    by (simp add: node_turn_def work_turn_def demo_waiting_def truthy_def submit_turn_def send_result_def node_call_def
        node_request_def demo_surroundings_def read_reply_def handle_client_error_def is_permanent_def waited_def
        turn_delay_def jittered_delay_def demo_executor_def demo_client_def)
qed

theorem result_not_lost_witness:
  "node_turn demo_config (demo_surroundings\<lparr>sr_send := \<lambda>_. NoAnswer\<rparr>) demo_waiting = (Inr 1, demo_waiting) \<and>
   nd_pending demo_waiting \<noteq> None"
proof -
  obtain p where p: "nd_pending demo_waiting = Some p" by (simp add: demo_waiting_def)
  have "truthy (cl_node_id (nd_client demo_waiting))" by (simp add: demo_waiting_def truthy_def)
  from result_not_lost [OF p this demo_waiting_turn [of demo_config]] p demo_waiting_turn show ?thesis by auto
qed

section \<open>Settings\<close>

lemma execute_keeps_settings:
  "snd (execute_task task now ex)\<lparr>ex_workspace := None\<rparr> = ex\<lparr>ex_workspace := None\<rparr>"
proof -
  have "snd (run_action now t p ex)\<lparr>ex_workspace := None\<rparr> = ex\<lparr>ex_workspace := None\<rparr>" for t p
    by (cases t; cases p) (auto split: option.split prod.split sum.split)
  then show ?thesis
    by (auto simp: execute_task_def split: json.split sum.split protocol_error.split prod.split) (metis snd_conv)+
qed

lemma poll_keeps_settings:
  "poll_turn r st = (x, st') \<Longrightarrow> (nd_executor st')\<lparr>ex_workspace := None\<rparr> = (nd_executor st)\<lparr>ex_workspace := None\<rparr>"
  unfolding poll_turn_def
  using execute_keeps_settings [of _ "sr_now r" "nd_executor st"]
  by (auto dest!: handle_error_settings waited_eq split: sum.splits json.splits prod.splits option.splits) (metis snd_conv)+

text \<open>C28: The interval, the jitter and the number of completed tasks of a node change only in a turn in
  which the controller accepted a \<open>completed\<close> report the node had waiting: never when a task is fetched
  or executed, never on an error, never for a failed task.\<close>

theorem settings_follow_acknowledgement:
  assumes "node_turn cf r st = (Inr d, st')"
    and "(nd_executor st')\<lparr>ex_workspace := None\<rparr> \<noteq> (nd_executor st)\<lparr>ex_workspace := None\<rparr>"
  shows "\<exists>p c a. nd_pending st = Some p \<and> pd_status p = ''completed'' \<and>
    result_answer r p (st\<lparr>nd_client := c\<rparr>) = Inr a \<and> nd_pending st' = None"
proof -
  have "nd_executor st' = nd_executor st \<or> (\<exists>c. work_turn r (st\<lparr>nd_client := c\<rparr>) = (Inr d, st'))"
  proof (cases "truthy (cl_node_id (nd_client st))")
    case True
    with assms(1) have "work_turn r (st\<lparr>nd_client := nd_client st\<rparr>) = (Inr d, st')" by (simp add: node_turn_def)
    then show ?thesis by blast
  next
    case False
    with assms(1) show ?thesis by (auto simp: node_turn_def split: prod.splits sum.splits)
  qed
  then consider (same) "nd_executor st' = nd_executor st" | (work) c where "work_turn r (st\<lparr>nd_client := c\<rparr>) = (Inr d, st')"
    by blast
  then show ?thesis
  proof cases
    case work
    obtain p where p: "nd_pending st = Some p"
      using work assms(2) poll_keeps_settings [of r "st\<lparr>nd_client := c\<rparr>"] by (auto simp: work_turn_def split: option.splits)
    then have t: "submit_turn r p (st\<lparr>nd_client := c\<rparr>) = (Inr d, st')" using work by (simp add: work_turn_def)
    show ?thesis
    proof (cases "result_answer r p (st\<lparr>nd_client := c\<rparr>)")
      case (Inl e)
      with t have "handle_client_error r True e (st\<lparr>nd_client := c\<rparr>) = (Inr d, st')"
        by (simp add: submit_turn_def result_answer_def)
      from handle_error_settings [OF this] assms(2) show ?thesis by simp
    next
      case (Inr a)
      moreover have "pd_status p = ''completed''"
        using t Inr assms(2) by (auto simp: submit_turn_def result_answer_def acknowledge_def dest!: waited_eq split: if_splits)
      moreover have "nd_pending st' = None"
        using t Inr by (auto simp: submit_turn_def result_answer_def dest!: waited_eq split: prod.splits sum.splits)
      ultimately show ?thesis using p by blast
    qed
  qed (use assms(2) in simp)
qed

definition demo_accepting :: surroundings where
  "demo_accepting = demo_surroundings\<lparr>sr_loads := \<lambda>_. Some (JObj []), sr_send := \<lambda>_. Answer ''{}''\<rparr>"

lemma demo_accepting_turn: "\<exists>d st'. node_turn cf demo_accepting demo_waiting = (Inr d, st') \<and>
    (nd_executor st')\<lparr>ex_workspace := None\<rparr> \<noteq> (nd_executor demo_waiting)\<lparr>ex_workspace := None\<rparr>"
proof -
  have "validate_result (JStr ''completed'') (JObj [(''reply'', JStr ''PONG'')]) = Inr (Completed, [(''reply'', JStr ''PONG'')])"
    "is_hex_identifier (JStr ''task-0123456789ab'') ''task-'' 12"
    "parse_task_type (JStr ''PING'') = Some PING" "PING \<in> set (NODE_PROFILES Training)" by code_simp+
  then show ?thesis
    by (simp add: node_turn_def work_turn_def demo_waiting_def truthy_def submit_turn_def send_result_def node_call_def
        node_request_def demo_accepting_def demo_surroundings_def read_reply_def acknowledge_def waited_def
        MAX_RESPONSE_BYTES_def demo_executor_def demo_client_def)
qed

theorem settings_follow_acknowledgement_witness:
  "\<exists>p c a. nd_pending demo_waiting = Some p \<and>
    result_answer demo_accepting p (demo_waiting\<lparr>nd_client := c\<rparr>) = Inr a"
proof -
  obtain d st' where "node_turn demo_config demo_accepting demo_waiting = (Inr d, st')"
    "(nd_executor st')\<lparr>ex_workspace := None\<rparr> \<noteq> (nd_executor demo_waiting)\<lparr>ex_workspace := None\<rparr>"
    using demo_accepting_turn by blast
  from settings_follow_acknowledgement [OF this] show ?thesis by blast
qed

text \<open>The wait between check-ins stays within 250 to 3000 milliseconds, whatever \<open>random.uniform\<close> returns.\<close>

theorem delay_bounded:
  assumes "MIN_POLL_INTERVAL_MS \<le> base" and "base \<le> MAX_POLL_INTERVAL_MS"
  shows "1 / 4 \<le> jittered_delay uniform base jitter \<and> jittered_delay uniform base jitter \<le> 3"
  using assms by (auto simp: jittered_delay_def protocol_bounds Let_def field_simps)

theorem delay_bounded_witness: "1 / 4 \<le> jittered_delay (\<lambda>a b. 1000000) 250 50 \<and> jittered_delay (\<lambda>a b. 1000000) 250 50 \<le> 3"
  using delay_bounded [of 250 "\<lambda>a b. 1000000" 50] by (simp add: protocol_bounds)

end
