(* ===== verification/Server_Properties.thy ===== *)
theory Server_Properties
  imports Server_Post Auth_Properties Core_Demo
begin

text \<open>
  Properties of the request handlers that hold however requests interleave: what a write needs, that
  reads do not write, and that the server drives the ledger and the session registry only through
  their own operations, so that every invariant of theirs is one of the server.
\<close>

section \<open>The server as a machine\<close>

text \<open>The two halves of a \<open>POST\<close> are steps of their own; the first changes nothing.\<close>

inductive server_step :: "server \<Rightarrow> server \<Rightarrow> bool" where
  get: "do_GET ok q a clock now s = (r, actor, s') \<Longrightarrow> server_step s s'"
| post: "post_finish route actor q clock now s = (r, actor', s') \<Longrightarrow> server_step s s'"
| recorded: "server_step s (record_reply path q duration r s)"
| rejected: "server_step s (s\<lparr>sv_metrics := record_worker_rejection (sv_metrics s)\<rparr>)"
| dropped: "server_step s (s\<lparr>sv_metrics := record_access_log_drop (sv_metrics s)\<rparr>)"
| monitor: "server_step s (s\<lparr>sv_lab := expire_locked now (sv_lab s)\<rparr>)"
| registered: "register_session p rl tok ttl nv clock (sv_operators s) = Some (r, g) \<Longrightarrow>
    server_step s (s\<lparr>sv_operators := g\<rparr>)"

inductive server_reachable :: "server \<Rightarrow> bool" where
  start: "reachable l \<Longrightarrow> registry_reachable g \<Longrightarrow>
    server_reachable \<lparr>sv_lab = l, sv_operators = g, sv_enroll_digest = d, sv_metrics = new_metrics clock,
      sv_port = port, sv_static = files\<rparr>"
| step: "server_reachable s \<Longrightarrow> server_step s s' \<Longrightarrow> server_reachable s'"

text \<open>The ledger moves by at most one of its operations.\<close>

definition lab_moves :: "lab_state \<Rightarrow> lab_state \<Rightarrow> bool" where
  "lab_moves l l' \<longleftrightarrow> l' = l \<or> (\<exists>op. l' = run_op op l)"

definition server_moves :: "server \<Rightarrow> server \<Rightarrow> bool" where
  "server_moves s s' \<longleftrightarrow> lab_moves (sv_lab s) (sv_lab s') \<and>
     (sv_operators s' = sv_operators s \<or> registry_step (sv_operators s) (sv_operators s')) \<and>
     sv_metrics s' = sv_metrics s"

lemma moves_refl [simp]: "server_moves s s" "lab_moves l l"
  by (simp_all add: server_moves_def lab_moves_def)

lemma moves_tick: "lab_moves l (tick l)"
proof -
  have "tick l = run_op (Sync (JInt 0) (JInt 0) (JInt 1)) l"
    by (simp add: sync_lab_def validate_sync_cursor_def validate_sync_limit_def int_between_def
        MAX_SYNC_CURSOR_def MAX_SYNC_PAGE_SIZE_def)
  then show ?thesis unfolding lab_moves_def by blast
qed

text \<open>One fact per ledger operation, in the form \<open>on_lab\<close> leaves it.\<close>

lemma op_moves:
  "lab_moves l (snd (enroll_node e now l))" "lab_moves l (snd (poll_node a b now l))"
  "lab_moves l (snd (disconnect_node a b l))" "lab_moves l (snd (submit_result a b c d f now l))"
  "lab_moves l (snd (queue_task a b c ttl key act now l))" "lab_moves l (snd (queue_operation a b ttl key act now l))"
  "lab_moves l (snd (cancel_task a act l))" "lab_moves l (snd (start_exercise a b act key now l))"
  "lab_moves l (snd (contain_exercise a b act l))" "lab_moves l (snd (post_operator_note a act key l))"
  "lab_moves l (snd (reset_lab act l))" "lab_moves l (snd (sync_lab a b c l))" "lab_moves l (expire_locked now l)"
  unfolding lab_moves_def by (metis run_op.simps)+

definition lab_only :: "server \<Rightarrow> server \<Rightarrow> bool" where
  "lab_only s s' \<longleftrightarrow> lab_moves (sv_lab s) (sv_lab s') \<and> s' = s\<lparr>sv_lab := sv_lab s'\<rparr>"

lemma lab_only_refl [simp]: "lab_only s s"
  by (simp add: lab_only_def)

lemma lab_only_moves: "lab_only s s' \<Longrightarrow> server_moves s s'"
  by (auto simp: lab_only_def server_moves_def) (metis server.select_convs server.surjective server.update_convs(1))+

lemma on_lab_only: "lab_moves (sv_lab s) (snd (f (sv_lab s))) \<Longrightarrow> lab_only s (snd (on_lab st g f s))"
  by (auto simp: on_lab_def lab_only_def split: prod.split)

lemma with_key_only: "(\<And>key. lab_only s (snd (f key s))) \<Longrightarrow> lab_only s (snd (with_key q f s))"
  by (auto simp: with_key_def split: sum.split)

lemma checked_body_only: "lab_only s (snd (f s)) \<Longrightarrow> lab_only s (snd (checked_body b r ks f s))"
  by (auto simp: checked_body_def split: sum.split)

lemma checked_body_moves: "server_moves s (snd (f s)) \<Longrightarrow> server_moves s (snd (checked_body b r ks f s))"
  by (auto simp: checked_body_def split: sum.split)

lemmas only_intros = checked_body_only with_key_only on_lab_only op_moves

lemma finish_enroll_only: "lab_only s (snd (finish_enroll body now s))"
  by (auto simp: finish_enroll_def intro!: on_lab_only op_moves split: sum.split)

lemma finish_node_only: "lab_only s (snd (finish_node nid tok path body now s))"
  by (auto simp: finish_node_def Let_def intro!: on_lab_only op_moves split: sum.split)

lemma finish_operator_only:
  "(\<And>sid. op \<noteq> RevokeRoute sid) \<Longrightarrow> lab_only s (snd (finish_operator op session q body now s))"
  by (cases op) (simp_all only: finish_operator.simps, (intro only_intros)+, blast)

lemma finish_operator_moves: "server_moves s (snd (finish_operator op session q body now s))"
proof (cases "\<exists>sid. op = RevokeRoute sid")
  case True
  then obtain sid where op: "op = RevokeRoute sid" by blast
  obtain res g where r: "revoke_session (JStr sid) (Some (JStr (ps_id session))) None now (sv_operators s) = (res, g)"
    by (cases "revoke_session (JStr sid) (Some (JStr (ps_id session))) None now (sv_operators s)")
  then have "registry_step (sv_operators s) g" by (rule registry_step.revoke)
  with r show ?thesis unfolding op finish_operator.simps
    by (intro checked_body_moves) (auto simp: server_moves_def split: sum.split)
next
  case False
  then show ?thesis by (intro lab_only_moves finish_operator_only) blast
qed

lemma post_finish_moves: "post_finish route actor q clock now s = (r, actor', s') \<Longrightarrow> server_moves s s'"
proof -
  assume "post_finish route actor q clock now s = (r, actor', s')"
  then have s': "s' = snd (snd (post_finish route actor q clock now s))" by simp
  have e: "server_moves s (snd (finish_enroll body now s))" "server_moves s (snd (finish_node nid tok path body now s))"
    for body nid tok path by (intro lab_only_moves finish_enroll_only finish_node_only)+
  show ?thesis
    unfolding s' post_finish_def using e finish_operator_moves [of s]
    by (simp split: sum.split post_route.split prod.split) (metis snd_conv)
qed

lemma get_moves: "do_GET ok q a clock now s = (r, actor, s') \<Longrightarrow> lab_only s s'"
proof -
  have sync: "lab_only s (snd (get_sync query s))" for query
    using op_moves(12) by (auto simp: get_sync_def lab_only_def split: sum.split prod.split) (metis snd_conv)
  have "lab_only s (snd (get_authorized path query a now session s))" for path query session
    using sync moves_tick by (auto simp: get_authorized_def read_lab_def lab_only_def split: sum.split)
  then show "do_GET ok q a clock now s = (r, actor, s') \<Longrightarrow> lab_only s s'"
    by (auto simp: do_GET_def split: if_splits option.splits prod.splits sum.splits) (metis snd_conv)+
qed

section \<open>Sessions behind a write\<close>

lemma authenticate_any:
  assumes "registry_ok g" "0 \<le> clock" "authenticate (JStr t) None None clock g = Inr (Some ps)"
  shows "\<exists>x. map_of (rg_sessions g) (ss_id x) = Some x \<and> ss_digest x = token_digest t \<and> session_active clock x \<and>
    ps = public_session_of clock x"
  using assms(2,3) matching_session_iff [OF assms(1)]
  by (auto simp: authenticate_def resolve_now_def Let_def split: option.splits if_splits)

definition live_session :: "server \<Rightarrow> http_message \<Rightarrow> rat \<Rightarrow> permission \<Rightarrow> session \<Rightarrow> bool" where
  "live_session s q clock perm x \<longleftrightarrow> map_of (rg_sessions (sv_operators s)) (ss_id x) = Some x \<and>
     ss_digest x = token_digest (supplied_token ''Bearer '' q) \<and> ss_revoked x = None \<and> clock < ss_expires x \<and>
     perm \<in> set (ROLE_PERMISSIONS (ss_role x))"

lemma authorized_session:
  assumes "registry_ok (sv_operators s)" "0 \<le> clock"
    and "authorize_operator perm q clock (sv_operators s) = Inr (Inr session)"
  shows "\<exists>x. live_session s q clock perm x \<and> session = public_session_of clock x"
proof -
  from assms(3) have a: "authenticate (JStr (supplied_token ''Bearer '' q)) None None clock (sv_operators s) = Inr (Some session)"
    and p: "permission_str perm \<in> set (ps_permissions session)"
    by (auto simp: authorize_operator_def rbind_eq_Inr split: option.splits if_splits)
  from authenticate_any [OF assms(1,2) a] obtain x where x: "map_of (rg_sessions (sv_operators s)) (ss_id x) = Some x"
    "ss_digest x = token_digest (supplied_token ''Bearer '' q)" "session_active clock x"
    "session = public_session_of clock x" by blast
  from p x(4) have "perm \<in> set (ROLE_PERMISSIONS (ss_role x))"
    by (auto simp: public_session_of_def permission_str_inject)
  with x show ?thesis by (auto simp: live_session_def session_active_def)
qed

text \<open>C21: The second half of an operator request changes anything only if, at that moment, its token
  belongs to a session that is registered, unrevoked and unexpired, and whose role carries the
  permission of the route, and then it does exactly what that session asks for: a session revoked, expired or replaced while the body was on its way has no
  effect, whatever was authorized before.  In particular no viewer ever writes.\<close>

theorem write_needs_live_session:
  assumes "registry_reachable (sv_operators s)" and "0 \<le> clock"
    and "post_finish (OperatorRoute op) actor q clock now s = (r, actor', s')" and "s' \<noteq> s"
  shows "\<exists>x body. live_session s q clock (route_permission (Some op)) x \<and> ss_role x \<noteq> Viewer \<and>
    read_json_object q = Inr body \<and> s' = snd (finish_operator op (public_session_of clock x) q body now s)"
proof -
  have "registry_ok (sv_operators s)" by (rule registry_ok_reachable [OF assms(1)])
  moreover obtain session body where "authorize_operator (route_permission (Some op)) q clock (sv_operators s) = Inr (Inr session)"
    "read_json_object q = Inr body" "s' = snd (finish_operator op session q body now s)"
    using assms(3,4) by (auto simp: post_finish_def split: sum.splits prod.splits)
  ultimately obtain x where x: "live_session s q clock (route_permission (Some op)) x" "read_json_object q = Inr body"
    "s' = snd (finish_operator op (public_session_of clock x) q body now s)"
    using authorized_session assms(2) by blast
  moreover from this have "ss_role x \<noteq> Viewer" by (cases op) (auto simp: live_session_def)
  ultimately show ?thesis by blast
qed

definition demo_server :: server where
  "demo_server = \<lparr>sv_lab = demo_start, sv_operators = demo_registry, sv_enroll_digest = [],
     sv_metrics = new_metrics 0, sv_port = 8765, sv_static = \<lambda>_. None\<rparr>"

definition demo_reset :: http_message where
  "demo_reset = \<lparr>hm_method = ''POST'', hm_peer_loopback = True, hm_target = ''/lab/reset'',
     hm_headers = [(''Host'', ''localhost''), (''authorization'', ''Bearer '' @ demo_secret),
       (''Content-Type'', ''application/json''), (''Content-Length'', ''2'')],
     hm_body = \<lambda>_. Some (JObj [])\<rparr>"

lemma demo_reset_headers:
  "supplied_token ''Bearer '' demo_reset = demo_secret" "read_json_object demo_reset = Inr []"
  by code_simp+

lemma demo_authorized: "authorize_operator perm demo_reset 6 demo_registry = Inr (Inr (public_session_of 6 demo_session))"
proof -
  have "permission_str perm \<in> set (ps_permissions (public_session_of 6 demo_session))"
    by (cases perm) (simp_all add: public_session_of_def demo_session_def)
  moreover have "authenticate (JStr demo_secret) None None 6 demo_registry = Inr (Some (public_session_of 6 demo_session))"
    using demo_secret_ok
    by (simp add: authenticate_def resolve_now_def Let_def matching_session_def demo_registry_def demo_session_def
        session_active_def)
  ultimately show ?thesis by (simp add: authorize_operator_def demo_reset_headers)
qed

lemma demo_actor_ok: "validate_operator_actor (JStr ''local-admin'') = Inr ''local-admin''"
  by code_simp

lemma demo_reset_changes:
  "post_finish (OperatorRoute ResetRoute) None demo_reset 6 6 demo_server =
     (Reply 200 ResetContent, Some ''local-admin'', demo_server\<lparr>sv_lab := snd (reset_lab (JStr ''local-admin'') demo_start)\<rparr>)"
  "s_event_seq (snd (reset_lab (JStr ''local-admin'') demo_start)) = Suc (s_event_seq demo_start)"
proof -
  show "s_event_seq (snd (reset_lab (JStr ''local-admin'') demo_start)) = Suc (s_event_seq demo_start)"
    by (simp add: reset_lab_def demo_actor_ok Let_def)
  show "post_finish (OperatorRoute ResetRoute) None demo_reset 6 6 demo_server =
     (Reply 200 ResetContent, Some ''local-admin'', demo_server\<lparr>sv_lab := snd (reset_lab (JStr ''local-admin'') demo_start)\<rparr>)"
    using demo_authorized [of ResetPermission]
    by (simp add: post_finish_def demo_reset_headers demo_server_def checked_body_def require_body_keys_def on_lab_def
        lab_reply_def reset_lab_def demo_actor_ok public_session_of_def demo_session_def Let_def)
qed

theorem write_needs_live_session_witness:
  "\<exists>x. live_session demo_server demo_reset 6 ResetPermission x \<and> ss_role x \<noteq> Viewer"
proof -
  have "registry_reachable (sv_operators demo_server)" using demo_registry_reachable by (simp add: demo_server_def)
  moreover have "demo_server\<lparr>sv_lab := snd (reset_lab (JStr ''local-admin'') demo_start)\<rparr> \<noteq> demo_server"
    using demo_reset_changes(2) by (metis demo_server_def n_not_Suc_n server.select_convs(1) server.update_convs(1))
  ultimately have "\<exists>x body. live_session demo_server demo_reset 6 (route_permission (Some ResetRoute)) x \<and> ss_role x \<noteq> Viewer \<and>
      read_json_object demo_reset = Inr body \<and> demo_server\<lparr>sv_lab := snd (reset_lab (JStr ''local-admin'') demo_start)\<rparr> =
        snd (finish_operator ResetRoute (public_session_of 6 x) demo_reset body 6 demo_server)"
    using write_needs_live_session [OF _ _ demo_reset_changes(1)] by simp
  then show ?thesis by auto
qed

section \<open>The server drives its components only through their operations\<close>

lemma server_components:
  "server_reachable s \<Longrightarrow> reachable (sv_lab s) \<and> registry_reachable (sv_operators s) \<and> metrics_reachable (sv_metrics s)"
proof (induction rule: server_reachable.induct)
  case (start l g d clock port files)
  then show ?case by (simp add: metrics_reachable.start)
next
  case (step s s')
  have lab: "reachable l'" if "lab_moves (sv_lab s) l'" for l'
    using that step.IH reachable.step lab_step_run_op unfolding lab_moves_def by blast
  have moves: "reachable (sv_lab s') \<and> registry_reachable (sv_operators s') \<and> metrics_reachable (sv_metrics s')"
    if "server_moves s s'"
    using that step.IH lab registry_reachable.step unfolding server_moves_def by metis
  from step.hyps(2) show ?case
  proof cases
    case (get ok q a clock now r actor)
    then show ?thesis by (intro moves lab_only_moves get_moves)
  next
    case (post route actor q clock now r actor')
    then show ?thesis by (intro moves post_finish_moves)
  next
    case (recorded path q duration r)
    have "metrics_reachable m" if "record_request (hm_method q) (JStr path) (int st) (FloatValue duration) (sv_metrics s) = Inr m" for m st
      using step.IH metrics_step.request [OF that] metrics_reachable.step by blast
    with recorded step.IH show ?thesis by (auto simp: record_reply_def split: reply.split sum.split)
  next
    case rejected
    with step.IH show ?thesis by (auto intro: metrics_reachable.step metrics_step.rejection)
  next
    case dropped
    with step.IH show ?thesis by (auto intro: metrics_reachable.step metrics_step.drop)
  next
    case (monitor now)
    with step.IH lab op_moves(13) show ?thesis by simp
  next
    case (registered p rl tok ttl nv clock r g)
    then have "registry_step (sv_operators s) g" by (intro registry_step.register)
    with registered step.IH show ?thesis by (auto intro: registry_reachable.step)
  qed
qed

text \<open>C22: Whatever requests arrive and however their halves interleave with each other, with the monitor
  and with the registration of sessions, the ledger, the session registry and the metrics of the server
  are reachable by their own operations alone: every invariant proved of a component holds in the
  server.\<close>

theorem server_refines_components:
  assumes "server_reachable s"
  shows "reachable (sv_lab s) \<and> registry_reachable (sv_operators s) \<and> metrics_reachable (sv_metrics s)"
  using assms by (rule server_components)

lemma demo_server_reachable: "server_reachable demo_server"
  unfolding demo_server_def
  by (rule server_reachable.start) (simp_all add: demo_start_def reachable.start demo_registry_reachable)

theorem server_refines_components_witness:
  "reachable (snd (reset_lab (JStr ''local-admin'') demo_start))"
proof -
  have "server_step demo_server (demo_server\<lparr>sv_lab := snd (reset_lab (JStr ''local-admin'') demo_start)\<rparr>)"
    using demo_reset_changes(1) by (rule server_step.post)
  with demo_server_reachable have "server_reachable (demo_server\<lparr>sv_lab := snd (reset_lab (JStr ''local-admin'') demo_start)\<rparr>)"
    by (rule server_reachable.step)
  from server_refines_components [OF this] show ?thesis by simp
qed

lemma sync_lab_state: "snd (sync_lab a b c l) = l \<or> snd (sync_lab a b c l) = tick l"
  unfolding sync_lab_def by (simp split: sum.split prod.split)

lemma snd_if: "snd x \<in> K \<Longrightarrow> snd y \<in> K \<Longrightarrow> snd (if b then x else y) \<in> K"
  by simp


end
