(* ===== verification/Sha256_Vectors.thy ===== *)
theory Sha256_Vectors
  imports Sha256
begin

text \<open>
  Evaluations of \<open>Sha256\<close> in the kernel: the published vector for ''abc'', and the digests of two
  tokens, which differ.  The padding is evaluated by \<open>simp\<close>, the 64 rounds by \<open>code_simp\<close>.
\<close>

lemma replicate_numeral_unfold: "replicate (numeral k) x = x # replicate (pred_numeral k) x"
  by (simp add: numeral_eq_Suc)

lemmas evaluate_padding = sha_pad_def be_bytes_def upt_rec replicate_numeral_unfold

lemma sha256_one_block:
  assumes "be_words (sha_pad s) = ws" "length ws = 16" "compress initial_state ws = (a, b, c, d, e, f, g, h)"
  shows "sha256 s = map char_of (concat (map word_bytes [a, b, c, d, e, f, g, h]))"
  using assms sha_blocks.simps [of initial_state ws] sha_blocks.simps [of _ "[]"]
  by (auto simp: sha256_def)

lemma abc_words:
  "be_words (sha_pad ''abc'') =
    [1633837952, 0, 0, 0, 0, 0, 0, 0, 0, 0, 0, 0, 0, 0, 0, 24]"
  by (simp add: evaluate_padding)

lemma abc_rounds:
  "compress initial_state
    [1633837952, 0, 0, 0, 0, 0, 0, 0, 0, 0, 0, 0, 0, 0, 0, 24] =
    (3128432319, 2399260650, 1094795486, 1571693091, 2953011619, 2518121116, 3021012833,
     4060091821)"
  by code_simp

lemma sha256_abc:
  "sha256_hex ''abc'' = ''ba7816bf8f01cfea414140de5dae2223b00361a396177a9cb410ff61f20015ad''"
  unfolding sha256_hex_def sha256_one_block [OF abc_words _ abc_rounds, simplified]
  by (simp add: hex_def word_bytes_def be_bytes_def upt_rec hex_digit_def digit_char_def char_of_eq_iff)

lemma operator_words:
  "be_words (sha_pad ''local-admin-session-secret'') =
    [1819239265, 1814913380, 1835626029, 1936028531, 1768910381, 1936024434, 1702133760, 0, 0,
     0, 0, 0, 0, 0, 0, 208]"
  by (simp add: evaluate_padding)

lemma operator_rounds:
  "compress initial_state
    [1819239265, 1814913380, 1835626029, 1936028531, 1768910381, 1936024434, 1702133760, 0, 0,
     0, 0, 0, 0, 0, 0, 208] =
    (3727195918, 1823355924, 2807322457, 3589379298, 3897570804, 3337522060, 2232527457,
     699844921)"
  by code_simp

lemma enrollment_words:
  "be_words (sha_pad ''enrollment-token-0123'') =
    [1701737071, 1819045221, 1853107572, 1869309294, 758133042, 864026624, 0, 0, 0, 0, 0, 0,
     0, 0, 0, 168]"
  by (simp add: evaluate_padding)

lemma enrollment_rounds:
  "compress initial_state
    [1701737071, 1819045221, 1853107572, 1869309294, 758133042, 864026624, 0, 0, 0, 0, 0, 0,
     0, 0, 0, 168] =
    (3253643156, 57958093, 916662322, 1996496981, 509729244, 811468495, 1538359623, 1972728126)"
  by code_simp

lemma demo_digests_differ: "sha256 ''local-admin-session-secret'' \<noteq> sha256 ''enrollment-token-0123''"
  using sha256_one_block [OF operator_words _ operator_rounds] sha256_one_block [OF enrollment_words _ enrollment_rounds]
  by (simp add: word_bytes_def be_bytes_def upt_rec char_of_eq_iff)

end
