(* ===== verification/Setup_Properties.thy ===== *)
theory Setup_Properties
  imports Command_Line Node_Properties Server_Properties Sha256_Vectors
begin

text \<open>
  Properties of the setup: the token domains are disjoint, every response is accounted for by the
  access log, and the arguments the command line accepts are arguments the node accepts.
\<close>

section \<open>Tokens\<close>

lemma fold_exists: "fold (\<lambda>s m. if P s then True else m) ss b \<longleftrightarrow> b \<or> (\<exists>s\<in>set ss. P s)"
  by (induction ss arbitrary: b) auto

lemma fold_none: "\<forall>s\<in>set ss. \<not> P s \<Longrightarrow> fold (\<lambda>s m. if P s then Some s else m) ss m = m"
  by (induction ss arbitrary: m) auto

lemma unregistered_never_matches:
  assumes "\<not> has_registered_token (JStr t) g" "token_ok t"
  shows "matching_session (token_digest t) g = None"
proof -
  have "\<forall>s\<in>set (vals (rg_sessions g)). ss_digest s \<noteq> token_digest t"
    using assms unfolding has_registered_token_def fold_exists by simp
  then show ?thesis unfolding matching_session_def by (rule fold_none)
qed

lemma unregistered_not_authenticated:
  assumes "\<not> has_registered_token v g"
  shows "authenticate v perm now clock g \<noteq> Inr (Some ps)"
proof (cases "\<exists>t. v = JStr t \<and> token_ok t")
  case True
  then obtain t where t: "v = JStr t" "token_ok t" by blast
  with assms have "matching_session (token_digest t) g = None" by (intro unregistered_never_matches) simp_all
  with t show ?thesis by (simp add: authenticate_def rbind_eq_Inr)
next
  case False
  then show ?thesis by (cases v) (simp_all add: authenticate_def)
qed

text \<open>C31: A server that \<open>create_server\<close> returns keeps the two kinds of secrets apart: its enrollment
  token is not an operator token, no session knows it, and no operator authentication with it ever
  succeeds, for any permission and at any time.\<close>

theorem enrollment_token_separate:
  assumes "create_server state op enr opts reg clock h files = Some (Inr s)"
  shows "op \<noteq> enr \<and> \<not> has_registered_token enr (sv_operators s) \<and>
    (\<forall>perm now clock' ps. authenticate enr perm now clock' (sv_operators s) \<noteq> Inr (Some ps))"
proof -
  from assms have "op \<noteq> enr" by (auto simp: create_server_def tokens_differ_def split: if_splits)
  moreover have "\<not> has_registered_token enr (sv_operators s)"
    using assms by (auto simp: create_server_def rbind_eq_Inr split: if_splits sum.splits)
  ultimately show ?thesis using unregistered_not_authenticated by blast
qed

definition demo_options :: server_options where
  "demo_options = \<lparr>so_port = JInt 8765, so_runtime_ok = True, so_access_log = JBool True, so_stream_ok = True\<rparr>"

definition demo_created :: "(setup_error + server) option" where
  "demo_created = create_server demo_start (JStr demo_secret) (JStr ''enrollment-token-0123'') demo_options
     (Some demo_registry) 6 demo_hex (\<lambda>_. None)"

lemma demo_created_Inr: "\<exists>s. demo_created = Some (Inr s)"
proof -
  have "server_token_ok 24 (JStr demo_secret)" "server_token_ok 16 (JStr ''enrollment-token-0123'')"
    by code_simp+
  moreover have "\<not> has_registered_token (JStr ''enrollment-token-0123'') demo_registry"
    using demo_digests_differ
    by (simp add: has_registered_token_def demo_registry_def demo_session_def token_digest_def demo_secret_def)
  moreover have "authenticate (JStr demo_secret) None None 6 demo_registry = Inr (Some (public_session_of 6 demo_session))"
    using demo_secret_ok
    by (simp add: authenticate_def resolve_now_def Let_def matching_session_def demo_registry_def demo_session_def
        session_active_def)
  moreover have "demo_secret \<noteq> ''enrollment-token-0123''" by (simp add: demo_secret_def)
  ultimately show ?thesis
    by (simp add: demo_created_def create_server_def demo_options_def check_options_def setup_registry_def int_between_def)
qed

theorem enrollment_token_separate_witness:
  "\<exists>s. demo_created = Some (Inr s) \<and> \<not> has_registered_token (JStr ''enrollment-token-0123'') (sv_operators s)"
proof -
  obtain s where s: "demo_created = Some (Inr s)" using demo_created_Inr by blast
  from enrollment_token_separate [OF s [unfolded demo_created_def]] s show ?thesis by blast
qed

section \<open>The access log\<close>

inductive log_step :: "access_log \<times> metrics \<Rightarrow> access_log \<times> metrics \<Rightarrow> bool" where
  response: "log_step lm (record_response verb path st duration actor lm)"
| written: "log_step lm (write_log_line ok lm)"
| close: "log_step lm (close_access_log lm)"

inductive log_reachable :: "access_log \<times> metrics \<Rightarrow> bool" where
  start: "log_reachable (new_access_log True, new_metrics clock)"
| step: "log_reachable lm \<Longrightarrow> log_step lm lm' \<Longrightarrow> log_reachable lm'"

definition waiting_lines :: "access_log \<Rightarrow> nat" where
  "waiting_lines l = count_if (\<lambda>x. x \<noteq> None) (al_queue l)"

definition log_ok :: "access_log \<times> metrics \<Rightarrow> bool" where
  "log_ok lm \<longleftrightarrow> (case lm of (l, m) \<Rightarrow> al_enabled l \<and> length (al_queue l) \<le> ACCESS_LOG_QUEUE_SIZE \<and>
     (\<not> al_closed l \<longrightarrow> None \<notin> set (al_queue l)) \<and>
     m_requests m = length (al_written l) + waiting_lines l + m_log_drops m)"

lemma record_request_counts:
  "record_request verb route st d m = Inr m' \<Longrightarrow> m_requests m' = Suc (m_requests m) \<and> m_log_drops m' = m_log_drops m"
  by (auto simp: record_request_def rbind_eq_Inr)

lemma log_step_ok: "log_step lm lm' \<Longrightarrow> log_ok lm \<Longrightarrow> log_ok lm'"
proof (induction rule: log_step.induct)
  case (response lm verb path st duration actor)
  then show ?case
    by (cases lm) (auto simp: record_response_def log_ok_def waiting_lines_def record_access_log_drop_def
        split: sum.split dest!: record_request_counts)
next
  case (written lm ok)
  then show ?case
    by (cases lm) (auto simp: write_log_line_def log_ok_def waiting_lines_def record_access_log_drop_def
        split: list.split option.split)
next
  case (close lm)
  obtain l m where lm: "lm = (l, m)" by (cases lm)
  have "ACCESS_LOG_QUEUE_SIZE > 0" by (simp add: ACCESS_LOG_QUEUE_SIZE_def)
  with close show ?case
    by (cases "al_queue l") (auto simp: lm close_access_log_def log_ok_def waiting_lines_def record_access_log_drop_def)
qed

lemma log_reachable_ok: "log_reachable lm \<Longrightarrow> log_ok lm"
  by (induction rule: log_reachable.induct)
    (auto simp: log_ok_def new_access_log_def new_metrics_def waiting_lines_def dest: log_step_ok [unfolded log_ok_def])


definition demo_log :: "access_log \<times> metrics" where
  "demo_log = close_access_log (new_access_log True, new_metrics 0)"


section \<open>Worker slots\<close>

inductive workers_reachable :: "workers \<times> metrics \<Rightarrow> bool" where
  start: "workers_reachable (new_workers, m)"
| accept: "workers_reachable wm \<Longrightarrow> workers_reachable (accept_connection ok wm)"
| finish: "workers_reachable (w, m) \<Longrightarrow> workers_reachable (finish_connection w, m)"

lemma workers_bounded: "workers_reachable wm \<Longrightarrow> wk_free (fst wm) + wk_running (fst wm) = MAX_HTTP_WORKERS"
  by (induction rule: workers_reachable.induct)
    (auto simp: new_workers_def accept_connection_def finish_connection_def split: prod.splits)

section \<open>The command line\<close>

lemma version_clean: "clean_text (JStr VERSION) ''version'' 1 32 = Inr VERSION"
  by code_simp

lemma poll_interval_argument_Inr:
  "poll_interval_argument v = Inr i \<Longrightarrow> validate_poll_interval (JInt i) = Inr i"
  by (auto simp: poll_interval_argument_def validate_poll_interval_Inr split: option.splits)

lemma jitter_argument_Inr: "jitter_argument v = Inr j \<Longrightarrow> validate_jitter_percent (JInt j) = Inr j"
  by (auto simp: jitter_argument_def validate_jitter_percent_Inr split: option.splits)

lemma validate_profile_str: "validate_profile (JStr (profile_str p)) = Inr p"
  by (simp add: validate_profile_Inr)

lemma node_command_Inr:
  assumes "node_command ok a = Inr u"
  shows "poll_interval_argument (na_poll_ms a) = Inr (nu_poll_interval_ms u) \<and>
    jitter_argument (na_jitter a) = Inr (nu_jitter_percent u) \<and>
    validate_controller_url ok (JStr (na_controller a)) = Inr (nu_controller u) \<and> \<not> length (nu_token u) < 16"
proof -
  obtain p i j n url where "poll_interval_argument (na_poll_ms a) = Inr i" "jitter_argument (na_jitter a) = Inr j"
    "validate_controller_url ok (JStr (na_controller a)) = Inr url" "\<not> length (na_token a) < 16"
    "u = \<lparr>nu_controller = url, nu_token = na_token a, nu_name = n, nu_profile = p, nu_poll_interval_ms = i,
          nu_jitter_percent = j\<rparr>"
    using assms unfolding node_command_def
    by (cases "profile_of_str (na_profile a)")
      (simp_all only: option.case rbind_eq_Inr map_error_eq_Inr sum.distinct if_split_eq1 sum.inject, blast)
  then show ?thesis by simp
qed


definition demo_arguments :: node_arguments where
  "demo_arguments = \<lparr>na_name = ''node-a'', na_controller = ''http://127.0.0.1:'' @ int_str 8765,
     na_profile = ''training'', na_poll_ms = nat_str 1000, na_jitter = nat_str 0, na_token = ''0123456789abcdef''\<rparr>"

lemma demo_command: "\<exists>u. node_command (\<lambda>_. True) demo_arguments = Inr u \<and> nu_profile u = Training"
proof -
  have "length (nat_str n) \<le> MAX_INT_DIGITS" if "n < 10 ^ 4" for n
    using length_nat_str [OF that] by (simp add: MAX_INT_DIGITS_def)
  then have "py_int (nat_str 1000) = Some 1000" "py_int (nat_str 0) = Some 0"
    using py_int_nat_str [of 1000] py_int_nat_str [of 0] by simp_all
  then have "poll_interval_argument (nat_str 1000) = Inr 1000" "jitter_argument (nat_str 0) = Inr 0"
    by (simp_all add: poll_interval_argument_def jitter_argument_def validate_poll_interval_Inr
        validate_jitter_percent_Inr protocol_bounds del: nat_str.simps)
  moreover have "clean_text (JStr ''node-a'') ''name'' 1 48 = Inr ''node-a''" "profile_of_str ''training'' = Some Training"
    by code_simp+
  ultimately show ?thesis
    using loopback_accepted [of 8765 "\<lambda>_. True"] by (simp add: node_command_def demo_arguments_def del: nat_str.simps)
qed


text \<open>A flush is over with the first reading that is idle or past its deadline, and only then.\<close>

lemma flush_wait_answers:
  "(\<exists>answer. flush_wait deadline seen = Some answer) \<longleftrightarrow> (\<exists>(k, now)\<in>set seen. k = 0 \<or> deadline \<le> now)"
  by (induction deadline seen rule: flush_wait.induct) auto

lemma flush_wait_truthful:
  "flush_wait deadline seen = Some True \<Longrightarrow> \<exists>now. (0, now) \<in> set seen"
  "flush_wait deadline seen = Some False \<Longrightarrow> \<exists>(k, now)\<in>set seen. 0 < k \<and> deadline \<le> now"
  by (induction deadline seen rule: flush_wait.induct) (auto split: if_splits)

lemma flush_access_log_truthful:
  "flush_access_log l timeout now seen = Inr (Some True) \<Longrightarrow> al_enabled l \<Longrightarrow> \<exists>later. (0, later) \<in> set seen"
  by (auto simp: flush_access_log_def intro: flush_wait_truthful(1) split: sum.splits auth_error.splits if_splits)

end
