(* ===== verification/Runtime_Properties.thy ===== *)
theory Runtime_Properties
  imports Lab_Runtime
begin

text \<open>Properties of the monitor and of the readiness answer, for every interleaving of its steps.\<close>

definition runtime_ok :: "lab_runtime \<Rightarrow> bool" where
  "runtime_ok r \<longleftrightarrow>
     (lr_ready r \<longrightarrow> lr_status r = RuntimeRunning \<and> lr_last_tick r \<noteq> None) \<and>
     (lr_status r = RuntimeRunning \<longrightarrow> \<not> lr_stop r \<and>
        (\<exists>m. lr_thread r = Some m \<and> m \<notin> {MonitorFailed, MonitorFinishing, MonitorDead})) \<and>
     (\<forall>n. lr_last_error r = Some n \<longrightarrow> safe_name n)"

lemma safe_error_type_safe [simp]: "safe_name (safe_error_type n)"
proof -
  have "safe_name ''Exception''" by code_simp
  then show ?thesis by (simp add: safe_error_type_def)
qed

lemma safe_error_type_id: "safe_name n \<Longrightarrow> safe_error_type n = n"
  by (simp add: safe_error_type_def)

lemma runtime_step_ok: "runtime_step c c' \<Longrightarrow> runtime_ok (fst c) \<Longrightarrow> runtime_ok (fst c')"
proof (induction rule: runtime_step.induct)
  case (finishes r s)
  then show ?case by (auto simp: runtime_ok_def finish_monitor_def)
next
  case (leaves r s)
  then show ?case by (auto simp: runtime_ok_def)
qed (auto simp: runtime_ok_def start_runtime_def Let_def stop_runtime_def commit_tick_def record_failure_def
    split: if_splits option.splits)

lemma runtime_reachable_ok:
  "runtime_reachable c \<Longrightarrow> runtime_ok (fst c) \<and> reachable (snd c)"
proof (induction rule: runtime_reachable.induct)
  case (begin_run tick_seconds h e)
  show ?case by (auto simp: runtime_ok_def new_runtime_def intro: reachable.start)
next
  case (run c c')
  have "reachable (snd c')"
    using run.hyps(2) run.IH
  proof (cases rule: runtime_step.cases)
    case (expires r s t now)
    have "lab_step s (Expire now) (expire_locked now s)" by (simp add: lab_step.expire)
    with expires run.IH show ?thesis by (auto intro: reachable.step)
  qed (auto intro: reachable.step)
  with runtime_step_ok [OF run.hyps(2)] run.IH show ?case by blast
qed

text \<open>The condition under which a runtime is ready at a reading of the clock.\<close>

definition runtime_up :: "rat \<Rightarrow> lab_runtime \<Rightarrow> bool" where
  "runtime_up clock r \<longleftrightarrow> lr_status r = RuntimeRunning \<and> lr_ready r \<and>
     (\<exists>t. lr_last_tick r = Some t \<and> round3 (max 0 (clock - t)) \<le> max 1 (lr_tick_seconds r * 4))"

lemma round3_nonneg: "0 \<le> x \<Longrightarrow> 0 \<le> round3 x"
  by (auto simp: round3_def round_half_even_def Let_def)

lemma readiness_of_runtime:
  assumes "runtime_ok r"
  shows "\<exists>h. readiness_of (answer_of (runtime_health clock r)) =
      Some (if runtime_up clock r then (200, ''ready'', h) else (503, ''not_ready'', h)) \<and>
    rd_error h = lr_last_error r \<and> rd_status h = runtime_status_str (lr_status r)"
proof -
  have err: "clean_error (case lr_last_error r of None \<Rightarrow> JNull | Some n \<Rightarrow> JStr n) = lr_last_error r"
    using assms by (auto simp: runtime_ok_def clean_error_def safe_error_type_id split: option.split)
  obtain a where age:
    "clean_age (map_option FloatValue (map_option (\<lambda>t. round3 (max 0 (clock - t))) (lr_last_tick r))) = Some a"
    by (cases "lr_last_tick r") (auto simp: clean_age_def)
  define h where "h = \<lparr>rd_status = runtime_status_str (lr_status r), rd_ready = runtime_up clock r, rd_age = a,
    rd_error = lr_last_error r\<rparr>"
  obtain raw where raw: "answer_of (runtime_health clock r) = Answers raw" by (simp add: answer_of_def)
  have "monitor_projection raw = Some h"
    using err age raw
    by (cases "lr_status r"; cases "lr_last_tick r")
      (auto simp: answer_of_def runtime_health_def monitor_projection_def hashable_def Let_def runtime_up_def h_def)
  then have "readiness_of (answer_of (runtime_health clock r)) =
      Some (if runtime_up clock r then (200, ''ready'', h) else (503, ''not_ready'', h))"
    unfolding readiness_of_def raw by (simp add: h_def)
  moreover have "rd_error h = lr_last_error r" "rd_status h = runtime_status_str (lr_status r)" by (simp_all add: h_def)
  ultimately show ?thesis by blast
qed

section \<open>Properties\<close>

text \<open>C36: For every interleaving of starts, stops, ticks and failures, \<open>/readyz\<close> answers 200 only while the
  runtime is running, its monitor thread is alive and outside its exit path, and the last completed
  expiry pass is at most a second or four ticks old; it then always does, and the error it shows is the
  one recorded.\<close>

theorem readiness_exact:
  assumes "runtime_reachable (r, s)"
  shows "\<exists>h. readiness_of (answer_of (runtime_health clock r)) =
      Some (if runtime_up clock r then (200, ''ready'', h) else (503, ''not_ready'', h)) \<and>
    rd_error h = lr_last_error r \<and> (runtime_up clock r \<longrightarrow> thread_alive r \<and> \<not> lr_stop r)"
proof -
  have ok: "runtime_ok r" using runtime_reachable_ok [OF assms] by simp
  then have "runtime_up clock r \<Longrightarrow> thread_alive r \<and> \<not> lr_stop r"
    by (auto simp: runtime_ok_def runtime_up_def thread_alive_def)
  with readiness_of_runtime [OF ok, of clock] show ?thesis by blast
qed

definition demo_runtime :: lab_runtime where
  "demo_runtime = commit_tick 5 ((snd (start_runtime None (new_runtime (1 / 4))))\<lparr>lr_thread := Some (MonitorTicked 5)\<rparr>)"

lemma demo_runtime_reachable: "\<exists>s. runtime_reachable (demo_runtime, s)"
proof -
  define r where "r = snd (start_runtime None (new_runtime (1 / 4)))"
  have w: "lr_thread r = Some MonitorWaiting" "\<not> lr_stop r"
    by (simp_all add: r_def start_runtime_def new_runtime_def thread_alive_def)
  have "runtime_step (new_runtime (1 / 4), init_state [] e) (r, init_state [] e)" for e
    unfolding r_def by (rule runtime_step.starts [where b = False and failure = None]) (simp add: start_runtime_def new_runtime_def thread_alive_def)
  then have "runtime_reachable (r, init_state [] e)" for e by (blast intro: runtime_reachable.intros)
  then have "runtime_reachable (r\<lparr>lr_thread := Some (MonitorTicked 5)\<rparr>, expire_locked 5 (init_state [] e))" for e
    by (blast intro: runtime_reachable.run runtime_step.expires [OF w])
  moreover have "runtime_step (r\<lparr>lr_thread := Some (MonitorTicked 5)\<rparr>, s)
      (commit_tick 5 (r\<lparr>lr_thread := Some (MonitorTicked 5)\<rparr>), s)" for s
    by (simp add: runtime_step.commits)
  ultimately have "runtime_reachable (commit_tick 5 (r\<lparr>lr_thread := Some (MonitorTicked 5)\<rparr>),
      expire_locked 5 (init_state [] e))" for e
    by (blast intro: runtime_reachable.run)
  then show ?thesis unfolding demo_runtime_def r_def [symmetric] by blast
qed

theorem readiness_exact_witness:
  "\<exists>h. readiness_of (answer_of (runtime_health (11 / 2) demo_runtime)) = Some (200, ''ready'', h)"
proof -
  obtain s where "runtime_reachable (demo_runtime, s)" using demo_runtime_reachable by blast
  from readiness_exact [OF this, of "11 / 2"] have "\<exists>h. readiness_of (answer_of (runtime_health (11 / 2) demo_runtime)) =
      Some (if runtime_up (11 / 2) demo_runtime then (200, ''ready'', h) else (503, ''not_ready'', h))" by blast
  moreover have "runtime_up (11 / 2) demo_runtime"
    by (simp add: runtime_up_def demo_runtime_def commit_tick_def start_runtime_def new_runtime_def thread_alive_def
        round3_def round_half_even_def)
  ultimately show ?thesis by simp
qed

end
