(* ===== verification/Sync_Query.thy ===== *)
theory Sync_Query
  imports Http_Request Url_Facts Playbook_Complete
begin

text \<open>The parser of the sync query: what it accepts is in range, and it reads back every query a
  dashboard writes.\<close>

section \<open>Values\<close>

lemma digits_value_codes: "digits_value (code_points s) = dec_value s"
proof -
  have "foldl (\<lambda>n d. 10 * n + (d - 48)) m (map code s) = foldl (\<lambda>n c. 10 * n + (code c - 48)) m s" for m
    by (induction s arbitrary: m) auto
  then show ?thesis by (simp add: digits_value_def dec_value_def code_points_def)
qed

lemma dropWhile_nat_str: "dropWhile (\<lambda>d. d = 48) (code_points (nat_str n)) = (if n = 0 then [] else code_points (nat_str n))"
proof (cases "n = 0")
  case True
  then show ?thesis by (subst nat_str.simps) (simp add: code_points_def code_digit)
next
  case False
  with nat_str_first [of n] digits_nat_str [of n] show ?thesis
    by (cases "nat_str n") (auto simp: code_points_def)
qed

lemma sync_maximum_length: "length (int_str (sync_maximum f)) = (if f = ''limit'' then 3 else 19)"
proof -
  have "length (int_str MAX_SYNC_PAGE_SIZE) = 3" "length (int_str MAX_SYNC_CURSOR) = 19"
    by (simp_all add: MAX_SYNC_PAGE_SIZE_def MAX_SYNC_CURSOR_def int_str_def nat_str.simps)
  then show ?thesis by (simp add: sync_maximum_def)
qed

lemma sync_value_printed:
  assumes "int n \<le> sync_maximum f" "f = ''limit'' \<Longrightarrow> 0 < n"
  shows "sync_value f (code_points (nat_str n)) = Inr (int n)"
proof -
  have digits: "list_all (\<lambda>d. 48 \<le> d \<and> d \<le> 57) (code_points (nat_str n))" "code_points (nat_str n) \<noteq> []"
    using digits_nat_str [of n] by (auto simp: code_points_def list_all_iff is_digit_def)
  define sig where "sig = (if dropWhile (\<lambda>d. d = 48) (code_points (nat_str n)) = [] then [48]
      else dropWhile (\<lambda>d. d = 48) (code_points (nat_str n)))"
  have sig: "sig = (if n = 0 then [48] else code_points (nat_str n))"
    unfolding sig_def dropWhile_nat_str using digits(2) by simp
  have v: "digits_value sig = n"
    using digits_value_codes [of "nat_str n"] dec_value_nat_str [of n] by (simp add: sig digits_value_def)
  have l: "length sig \<le> length (nat_str n)"
    using digits_nat_str [of n] by (cases "nat_str n") (auto simp: sig code_points_def)
  have "length (nat_str n) \<le> (if f = ''limit'' then 3 else 19)"
  proof (cases "f = ''limit''")
    case True
    then have "n < 10 ^ 3" using assms(1) by (simp add: sync_maximum_def MAX_SYNC_PAGE_SIZE_def)
    with length_nat_str [of n 3] True show ?thesis by simp
  next
    case False
    then have "n < 10 ^ 19" using assms(1) by (simp add: sync_maximum_def MAX_SYNC_CURSOR_def)
    with length_nat_str [of n 19] False show ?thesis by simp
  qed
  with l have "length sig \<le> length (int_str (sync_maximum f))" by (simp add: sync_maximum_length)
  then show ?thesis
    using digits assms v unfolding sync_value_def Let_def sig_def by auto
qed

lemma sync_value_range:
  "sync_value f raw = Inr n \<Longrightarrow> (if f = ''limit'' then 1 else 0) \<le> n \<and> n \<le> sync_maximum f"
  by (auto simp: sync_value_def Let_def split: if_splits)

section \<open>The whole query\<close>

definition sync_text :: "int \<Rightarrow> int \<Rightarrow> int \<Rightarrow> string" where
  "sync_text ea aa l = ''events_after='' @ int_str ea @ ''&audit_after='' @ int_str aa @ ''&limit='' @ int_str l"

lemma py_split_append: "c \<notin> set s \<Longrightarrow> py_split c (s @ c # t) = s # py_split c t"
  by (induction s) auto

text \<open>A field of letters, underscores and digits is read as it stands.\<close>

definition field_char :: "char \<Rightarrow> bool" where
  "field_char c \<longleftrightarrow> is_digit c \<or> 97 \<le> code c \<and> code c \<le> 122 \<or> c = CHR ''_''"

lemma field_char_not: "field_char c \<Longrightarrow> c \<noteq> CHR ''&'' \<and> c \<noteq> CHR ''='' \<and> c \<noteq> CHR ''%'' \<and> c \<noteq> CHR ''+''"
  by (auto simp: field_char_def is_digit_def)

lemma unquote_plus_field: "list_all field_char s \<Longrightarrow> unquote_plus s = Some (code_points s)"
proof -
  assume f: "list_all field_char s"
  then have "map (\<lambda>c. if c = CHR ''+'' then CHR '' '' else c) s = s"
    using field_char_not by (intro map_idI) (auto simp: list_all_iff)
  moreover have "CHR ''%'' \<notin> set s" using f field_char_not by (auto simp: list_all_iff)
  ultimately show ?thesis by (simp add: unquote_plus_def unquote_def code_points_def)
qed

lemma query_pair_field:
  assumes "list_all field_char n" "list_all field_char v"
  shows "query_pairs ((n @ CHR ''='' # v) # fs) = map_option ((#) (code_points n, code_points v)) (query_pairs fs)"
proof -
  have "CHR ''='' \<notin> set n" using assms(1) field_char_not by (auto simp: list_all_iff)
  then show ?thesis
    using unquote_plus_field assms by (simp add: py_partition_found split: option.split)
qed

lemma field_digits: "0 \<le> i \<Longrightarrow> list_all field_char (int_str i)"
  using digits_nat_str by (auto simp: int_str_def field_char_def list_all_iff)

lemma field_text: "list_all field_char s \<Longrightarrow> CHR ''&'' \<notin> set s"
  using field_char_not by (auto simp: list_all_iff)

lemma sync_names: "list_all (list_all field_char) SYNC_QUERY_FIELDS"
  by (simp add: SYNC_QUERY_FIELDS_def field_char_def)

lemma parse_sync_text:
  assumes "0 \<le> ea" "0 \<le> aa" "0 \<le> l"
  shows "parse_qsl (length SYNC_QUERY_FIELDS) (sync_text ea aa l) =
    Some [(code_points ''events_after'', code_points (int_str ea)), (code_points ''audit_after'', code_points (int_str aa)),
          (code_points ''limit'', code_points (int_str l))]"
proof -
  define e where "e = ''events_after'' @ CHR ''='' # int_str ea"
  define a where "a = ''audit_after'' @ CHR ''='' # int_str aa"
  define m where "m = ''limit'' @ CHR ''='' # int_str l"
  have "CHR ''&'' \<notin> set e" "CHR ''&'' \<notin> set a" "CHR ''&'' \<notin> set m"
    using assms field_text field_digits by (simp_all add: e_def a_def m_def)
  moreover have "sync_text ea aa l = e @ CHR ''&'' # a @ CHR ''&'' # m"
    by (simp add: sync_text_def e_def a_def m_def)
  ultimately have "py_split (CHR ''&'') (sync_text ea aa l) = [e, a, m]"
    by (simp add: py_split_append py_split_single)
  moreover have "query_pairs [e, a, m] =
      Some [(code_points ''events_after'', code_points (int_str ea)), (code_points ''audit_after'', code_points (int_str aa)),
            (code_points ''limit'', code_points (int_str l))]"
  proof -
    have "list_all field_char ''events_after''" "list_all field_char ''audit_after''" "list_all field_char ''limit''"
      using sync_names by (simp_all only: SYNC_QUERY_FIELDS_def list.pred_inject)
    note f = query_pair_field [OF this(1) field_digits [OF assms(1)]] query_pair_field [OF this(2) field_digits [OF assms(2)]]
      query_pair_field [OF this(3) field_digits [OF assms(3)]]
    show ?thesis unfolding e_def a_def m_def f by simp
  qed
  moreover have "sync_text ea aa l \<noteq> []" by (simp add: sync_text_def)
  moreover have "length SYNC_QUERY_FIELDS = 3" by (simp add: SYNC_QUERY_FIELDS_def)
  ultimately show ?thesis unfolding parse_qsl_def by (simp del: query_pairs.simps(2))
qed

lemma sync_field_known: "f \<in> set SYNC_QUERY_FIELDS \<Longrightarrow> sync_field (code_points f) = Some f"
  by (auto simp: sync_field_def SYNC_QUERY_FIELDS_def code_points_def)

lemma sync_printed:
  assumes "0 \<le> i" "i \<le> sync_maximum f" "f = ''limit'' \<Longrightarrow> 0 < i"
  shows "sync_value f (code_points (int_str i)) = Inr i"
  using sync_value_printed [of "nat i" f] assms by (simp add: int_str_def)

definition sync_bounds :: "int \<Rightarrow> int \<Rightarrow> int \<Rightarrow> bool" where
  "sync_bounds ea aa l \<longleftrightarrow> 0 \<le> ea \<and> ea \<le> MAX_SYNC_CURSOR \<and> 0 \<le> aa \<and> aa \<le> MAX_SYNC_CURSOR \<and>
     1 \<le> l \<and> l \<le> MAX_SYNC_PAGE_SIZE"

definition sync_dict :: "int \<Rightarrow> int \<Rightarrow> int \<Rightarrow> int dict" where
  "sync_dict ea aa l = [(''events_after'', ea), (''audit_after'', aa), (''limit'', l)]"

lemma sync_text_length: "sync_bounds ea aa l \<Longrightarrow> length (sync_text ea aa l) \<le> MAX_SYNC_QUERY_LENGTH"
  using length_int_str [of ea 19] length_int_str [of aa 19] length_int_str [of l 3]
  by (simp add: sync_bounds_def sync_text_def MAX_SYNC_CURSOR_def MAX_SYNC_PAGE_SIZE_def MAX_SYNC_QUERY_LENGTH_def)

lemma read_sync_text:
  assumes "sync_bounds ea aa l"
  shows "read_sync_query (sync_text ea aa l) = Inr (sync_dict ea aa l)"
proof -
  have f: "sync_field (code_points ''events_after'') = Some ''events_after''"
    "sync_field (code_points ''audit_after'') = Some ''audit_after''" "sync_field (code_points ''limit'') = Some ''limit''"
    by (rule sync_field_known, simp add: SYNC_QUERY_FIELDS_def)+
  have v: "sync_value ''events_after'' (code_points (int_str ea)) = Inr ea"
    "sync_value ''audit_after'' (code_points (int_str aa)) = Inr aa" "sync_value ''limit'' (code_points (int_str l)) = Inr l"
    by (rule sync_printed; use assms in \<open>simp add: sync_bounds_def sync_maximum_def\<close>)+
  have "parse_qsl (length SYNC_QUERY_FIELDS) (sync_text ea aa l) =
      Some [(code_points ''events_after'', code_points (int_str ea)), (code_points ''audit_after'', code_points (int_str aa)),
            (code_points ''limit'', code_points (int_str l))]"
    using assms by (intro parse_sync_text) (simp_all add: sync_bounds_def)
  moreover have "sync_text ea aa l \<noteq> []" by (simp add: sync_text_def)
  moreover have "sync_pairs [(code_points ''events_after'', code_points (int_str ea)),
      (code_points ''audit_after'', code_points (int_str aa)), (code_points ''limit'', code_points (int_str l))] [] sync_defaults =
    Inr (sync_dict ea aa l)"
    by (simp add: f v sync_defaults_def sync_dict_def)
  ultimately show ?thesis using sync_text_length [OF assms] unfolding read_sync_query_def by simp
qed

text \<open>Whatever is accepted has the three fields, each in its range.\<close>

lemma sync_pairs_range:
  "sync_pairs ps seen (sync_dict ea aa l) = Inr d \<Longrightarrow> sync_bounds ea aa l \<Longrightarrow>
   \<exists>ea' aa' l'. d = sync_dict ea' aa' l' \<and> sync_bounds ea' aa' l'"
proof (induction ps arbitrary: seen ea aa l)
  case (Cons p ps)
  obtain name raw where p: "p = (name, raw)" by (cases p)
  from Cons.prems(1) p obtain f n where f: "sync_field name = Some f" and n: "sync_value f raw = Inr n"
    and rest: "sync_pairs ps (f # seen) (AList.update f n (sync_dict ea aa l)) = Inr d"
    by (auto simp: rbind_eq_Inr split: option.splits if_splits)
  note r = sync_value_range [OF n]
  have "f \<in> set SYNC_QUERY_FIELDS" using f by (auto simp: sync_field_def dest: find_SomeD)
  then consider "f = ''events_after''" | "f = ''audit_after''" | "f = ''limit''" by (auto simp: SYNC_QUERY_FIELDS_def)
  then show ?case
  proof cases
    case 1
    with rest have "sync_pairs ps (f # seen) (sync_dict n aa l) = Inr d" by (simp add: sync_dict_def)
    moreover have "sync_bounds n aa l" using r 1 Cons.prems(2) by (simp add: sync_bounds_def sync_maximum_def)
    ultimately show ?thesis by (rule Cons.IH)
  next
    case 2
    with rest have "sync_pairs ps (f # seen) (sync_dict ea n l) = Inr d" by (simp add: sync_dict_def)
    moreover have "sync_bounds ea n l" using r 2 Cons.prems(2) by (simp add: sync_bounds_def sync_maximum_def)
    ultimately show ?thesis by (rule Cons.IH)
  next
    case 3
    with rest have "sync_pairs ps (f # seen) (sync_dict ea aa n) = Inr d" by (simp add: sync_dict_def)
    moreover have "sync_bounds ea aa n" using r 3 Cons.prems(2) by (simp add: sync_bounds_def sync_maximum_def)
    ultimately show ?thesis by (rule Cons.IH)
  qed
qed (simp, blast)

lemma read_sync_range:
  assumes "read_sync_query raw = Inr d"
  shows "\<exists>ea aa l. d = sync_dict ea aa l \<and> sync_bounds ea aa l"
proof -
  have start: "sync_defaults = sync_dict 0 0 MAX_SYNC_PAGE_SIZE" "sync_bounds 0 0 MAX_SYNC_PAGE_SIZE"
    by (simp_all add: sync_defaults_def sync_dict_def sync_bounds_def MAX_SYNC_CURSOR_def MAX_SYNC_PAGE_SIZE_def)
  with assms show ?thesis
    using sync_pairs_range [of _ "[]" 0 0 MAX_SYNC_PAGE_SIZE d]
    by (auto simp: read_sync_query_def split: if_splits option.splits)
qed

section \<open>Properties\<close>

text \<open>C38: The sync query reads back exactly the cursors and the page size a client writes, over their
  whole ranges up to the 64-bit cursor limit.\<close>

theorem sync_query_roundtrip:
  assumes "0 \<le> ea" "ea \<le> MAX_SYNC_CURSOR" "0 \<le> aa" "aa \<le> MAX_SYNC_CURSOR" "1 \<le> l" "l \<le> MAX_SYNC_PAGE_SIZE"
  shows "read_sync_query (''events_after='' @ int_str ea @ ''&audit_after='' @ int_str aa @ ''&limit='' @ int_str l) =
    Inr [(''events_after'', ea), (''audit_after'', aa), (''limit'', l)]"
  using read_sync_text [of ea aa l] assms by (simp add: sync_bounds_def sync_text_def sync_dict_def)

theorem sync_query_roundtrip_witness:
  "read_sync_query (''events_after='' @ int_str MAX_SYNC_CURSOR @ ''&audit_after='' @ int_str 0 @ ''&limit='' @ int_str 100) =
    Inr [(''events_after'', MAX_SYNC_CURSOR), (''audit_after'', 0), (''limit'', 100)]"
  by (rule sync_query_roundtrip) (simp_all add: MAX_SYNC_CURSOR_def MAX_SYNC_PAGE_SIZE_def)

text \<open>A sync query that the server accepts, however it is written, never makes the ledger refuse the
  cursors: the only errors of \<open>/lab/sync\<close> are those of the query itself.\<close>

theorem sync_query_sound:
  assumes "read_sync_query raw = Inr d"
  shows "\<exists>y. sync_lab (JInt (the (map_of d ''events_after''))) (JInt (the (map_of d ''audit_after'')))
    (JInt (the (map_of d ''limit''))) s = (Inr y, tick s)"
proof -
  obtain ea aa l where d: "d = sync_dict ea aa l" "sync_bounds ea aa l" using read_sync_range [OF assms] by blast
  then have "sync_lab (JInt ea) (JInt aa) (JInt l) s = (Inr (sync_snapshot (nat ea) (nat aa) (nat l) s), tick s)"
    by (simp add: sync_lab_def validate_sync_cursor_def validate_sync_limit_def int_between_def sync_bounds_def)
  then show ?thesis by (simp add: d(1) sync_dict_def)
qed

theorem sync_query_sound_witness:
  "\<forall>s. \<exists>y. sync_lab (JInt 7) (JInt 0) (JInt 100) s = (Inr y, tick s)"
proof -
  have "sync_bounds 7 0 100" by (simp add: sync_bounds_def MAX_SYNC_CURSOR_def MAX_SYNC_PAGE_SIZE_def)
  from sync_query_sound [OF read_sync_text [OF this]] show ?thesis by (simp add: sync_dict_def)
qed

end
