(* ===== verification/Ledger_Behaviour.thy ===== *)
theory Ledger_Behaviour
  imports Core_Expiry Core_Logs Report_Retry Core_Demo Core_Queue
begin

text \<open>
  What single operations of the ledger do: refused operator requests change nothing, a poll hands out
  the right task, the expiry pass is complete, a sync page has no gap, requests can be repeated, and a
  paused node stays idle.
\<close>

section \<open>Refused requests\<close>

text \<open>A request leaves the state alone when it is refused.\<close>

definition refusal_clean :: "'a op_result \<Rightarrow> lab_state \<Rightarrow> bool" where
  "refusal_clean r s \<longleftrightarrow> (case fst r of Inl _ \<Rightarrow> snd r = s | Inr _ \<Rightarrow> True)"

named_theorems refusal_intros

lemma refusal_Inl [refusal_intros]: "refusal_clean (Inl e, s) s"
  by (simp add: refusal_clean_def)

lemma refusal_Inr [refusal_intros]: "refusal_clean (Inr x, s') s"
  by (simp add: refusal_clean_def)

lemma refusal_if [refusal_intros]: "refusal_clean a s \<Longrightarrow> refusal_clean b s \<Longrightarrow> refusal_clean (if c then a else b) s"
  by simp

lemma queue_refusal: "refusal_clean (queue_task nid ty p ttl key act now s) s"
  unfolding queue_task_def queue_locked_def
  by (auto split: json.split sum.split option.split intro!: refusal_intros)

lemma operation_refusal: "refusal_clean (queue_operation nid steps ttl key act now s) s"
  unfolding queue_operation_def operation_locked_def
  by (auto split: json.split sum.split option.split prod.split intro!: refusal_intros)

lemma cancel_refusal: "refusal_clean (cancel_task tid act s) s"
  unfolding cancel_task_def Let_def
  by (auto split: json.split sum.split option.split intro!: refusal_intros)

lemma exercise_refusal: "refusal_clean (start_exercise nid sid act key now s) s"
  unfolding start_exercise_def exercise_locked_def Let_def
  by (auto split: json.split sum.split option.split prod.split intro!: refusal_intros)

lemma contain_refusal: "refusal_clean (contain_exercise xid action act s) s"
  unfolding contain_exercise_def
  by (auto split: json.split sum.split option.split prod.split intro!: refusal_intros)

text \<open>The one exception: a note refused for the retention limit has already dropped its key, when the
  event recorded for that key has left the history.\<close>

definition stale_note_key :: "string \<Rightarrow> lab_state \<Rightarrow> bool" where
  "stale_note_key k s \<longleftrightarrow> (case map_of (s_note_idem s) k of
      None \<Rightarrow> False | Some (act, msg, eid) \<Rightarrow> find (\<lambda>e. e_id e = eid) (s_events s) = None)"

lemma note_refusal:
  "refusal_clean (post_operator_note msg act key s) s \<or>
   (\<exists>k. key = JStr k \<and> stale_note_key k s \<and>
     refusal_clean (post_operator_note msg act key s) (s\<lparr>s_note_idem := AList.delete k (s_note_idem s)\<rparr>))"
proof (cases "rbind (validate_operator_actor act) (\<lambda>a. rbind (protocol_call (clean_text msg ''message'' 1 MAX_OPERATOR_NOTE_LENGTH))
    (\<lambda>m. rbind (validate_idempotency_key key) (\<lambda>k. Inr (a, m, k))))")
  case (Inr r)
  obtain a m k where r: "r = (a, m, k)" by (cases r)
  have key: "k = Some j \<Longrightarrow> key = JStr j" for j
    using Inr by (auto simp: r rbind_eq_Inr validate_idempotency_key_def split: json.splits if_splits)
  have app: "refusal_clean (append_note a m k s') s'" for s'
    unfolding append_note_def Let_def by (intro refusal_intros)
  show ?thesis
    using Inr key app
    by (auto simp: post_operator_note_def r stale_note_key_def split: option.split intro!: refusal_intros)
qed (simp add: post_operator_note_def refusal_Inl)

lemma reset_refusal: "refusal_clean (reset_lab act s) s"
  unfolding reset_lab_def Let_def by (auto split: sum.split intro!: refusal_intros)

text \<open>C15: An operator request that is refused, for whatever reason and at whatever point of its checks,
  leaves the whole ledger as it was: no task, no evicted record, no consumed identifier, no event.  A
  refused note may at most drop its own idempotency key, and only when the note of that key is gone.\<close>

theorem refused_request_changes_nothing:
  "refusal_clean (queue_task nid ty p ttl key act now s) s \<and>
   refusal_clean (queue_operation nid steps ttl key act now s) s \<and>
   refusal_clean (cancel_task tid act s) s \<and>
   refusal_clean (start_exercise nid sid act key now s) s \<and>
   refusal_clean (contain_exercise xid action act s) s \<and>
   refusal_clean (reset_lab act s) s \<and>
   (refusal_clean (post_operator_note msg act key s) s \<or>
    (\<exists>k. key = JStr k \<and> stale_note_key k s \<and>
      refusal_clean (post_operator_note msg act key s) (s\<lparr>s_note_idem := AList.delete k (s_note_idem s)\<rparr>)))"
  by (intro conjI queue_refusal operation_refusal cancel_refusal exercise_refusal contain_refusal note_refusal reset_refusal)

section \<open>Deadlines\<close>

definition lacks_task :: "string \<Rightarrow> lab_state \<Rightarrow> bool" where
  "lacks_task tid s \<longleftrightarrow> records_ok s \<and> map_of (s_tasks s) tid = None"

interpretation absent_tasks: expiry_closed "lacks_task tid" for tid
  by unfold_locales
    (auto simp: lacks_task_def map_of_dmod records.tick records.event records.audit records.node records.close
      records.exercise records.finish)

definition has_task :: "string \<Rightarrow> lab_state \<Rightarrow> bool" where
  "has_task tid s \<longleftrightarrow> records_ok s \<and> map_of (s_tasks s) tid \<noteq> None"

interpretation present_tasks: expiry_closed "has_task tid" for tid
  by unfold_locales
    (auto simp: has_task_def map_of_dmod records.tick records.event records.audit records.node records.close
      records.exercise records.finish)



section \<open>Polling\<close>

text \<open>What a poll may hand out, in the state after the expiry pass.\<close>

definition delivery :: "string \<Rightarrow> lab_state \<Rightarrow> task \<Rightarrow> bool" where
  "delivery nid s t \<longleftrightarrow> map_of (s_tasks s) (t_id t) = Some t \<and> t_node_id t = nid \<and>
     (t_status t = Dispatched \<or> t_status t = Queued \<and>
       (\<forall>u\<in>set (vals (s_tasks s)). t_node_id u = nid \<longrightarrow> t_status u \<noteq> Dispatched \<and>
         (t_status u = Queued \<longrightarrow> t_sequence t \<le> t_sequence u)))"

text \<open>The record of a task that has just been handed out.\<close>

definition delivered :: "rat \<Rightarrow> task \<Rightarrow> node_task \<Rightarrow> bool" where
  "delivered now t u \<longleftrightarrow> t_id u = t_id t \<and> t_node_id u = t_node_id t \<and> t_type u = t_type t \<and>
     t_payload u = t_payload t \<and> t_status u = Dispatched \<and> t_correlation_id u = t_correlation_id t \<and>
     t_delivery_attempts u = (if t_status t = Dispatched then Suc (t_delivery_attempts t) else 1)"

lemma note_poll_frame [simp]:
  "s_tasks (note_poll now nid n s) = s_tasks s"
  by (simp add: note_poll_def Let_def)

lemma note_poll_node:
  "map_of (s_nodes s) nid = Some n0 \<Longrightarrow> \<exists>n'. map_of (s_nodes (note_poll now nid n s)) nid = Some n'"
  by (simp add: note_poll_def Let_def)

lemma next_queued_Some:
  "next_queued nid s = Some t \<Longrightarrow> t \<in> set (vals (s_tasks s)) \<and> t_node_id t = nid \<and> t_status t = Queued \<and>
    (\<forall>u\<in>set (vals (s_tasks s)). t_node_id u = nid \<longrightarrow> t_status u = Queued \<longrightarrow> t_sequence t \<le> t_sequence u)"
proof -
  let ?c = "filter (\<lambda>t. t_node_id t = nid \<and> t_status t = Queued) (vals (s_tasks s))"
  assume a: "next_queued nid s = Some t"
  then have ne: "?c \<noteq> []" and t: "t = arg_min_list t_sequence ?c" by (auto simp: next_queued_def Let_def split: if_splits)
  have "t \<in> set ?c" unfolding t by (rule arg_min_list_in [OF ne])
  moreover have "t_sequence t = Min (t_sequence ` set ?c)" unfolding t by (rule f_arg_min_list_f [OF ne])
  then have "t_sequence t \<le> t_sequence u" if "u \<in> set ?c" for u using that by simp
  ultimately show ?thesis by auto
qed

lemma next_queued_None:
  "next_queued nid s = None \<longleftrightarrow> (\<forall>u\<in>set (vals (s_tasks s)). t_node_id u = nid \<longrightarrow> t_status u \<noteq> Queued)"
  by (auto simp: next_queued_def Let_def filter_empty_conv)

lemma poll_response_Some:
  assumes "map_of (s_nodes s) nid = Some n" "map_of (s_tasks s) tid = Some t"
  shows "\<exists>resp. poll_response_for nid (Some tid) s = (Inr resp, tick s) \<and> pr_task resp = Some (project_node_task t)"
  using assms by (simp add: poll_response_for_def)

lemma redeliver_lookup:
  "map_of (s_tasks (redeliver nid t s)) (t_id t) =
     map_option (\<lambda>t. t\<lparr>t_delivery_attempts := Suc (t_delivery_attempts t)\<rparr>) (map_of (s_tasks s) (t_id t))"
  "s_nodes (redeliver nid t s) = s_nodes s"
  by (simp_all add: redeliver_def Let_def)

lemma dispatch_lookup:
  "map_of (s_tasks (dispatch now nid t s)) (t_id t) =
     map_option (\<lambda>t. t\<lparr>t_status := Dispatched, t_dispatched_at := Some (utc_now s),
       t_deadline := Some (now + TASK_TIMEOUT_SECONDS), t_queue_deadline := None, t_delivery_attempts := 1\<rparr>)
       (map_of (s_tasks s) (t_id t))"
  "s_nodes (dispatch now nid t s) = s_nodes s"
  by (simp_all add: dispatch_def Let_def)

definition hands :: "rat \<Rightarrow> task \<Rightarrow> poll_response op_result \<Rightarrow> bool" where
  "hands now t r \<longleftrightarrow> (\<exists>resp s' u. r = (Inr resp, s') \<and> pr_task resp = Some u \<and>
     map_option project_node_task (map_of (s_tasks s') (t_id u)) = Some u \<and> delivered now t u)"

lemma handed_again:
  "map_of (s_nodes s) nid = Some n \<Longrightarrow> map_of (s_tasks s) (t_id t) = Some t \<Longrightarrow> t_status t = Dispatched \<Longrightarrow>
   hands now t (poll_response_for nid (Some (t_id t)) (redeliver nid t s))"
  by (auto simp: hands_def poll_response_for_def redeliver_lookup delivered_def project_node_task_def node_task.defs)

lemma handed_first:
  "map_of (s_nodes s) nid = Some n \<Longrightarrow> map_of (s_tasks s) (t_id t) = Some t \<Longrightarrow> t_status t = Queued \<Longrightarrow>
   hands now t (poll_response_for nid (Some (t_id t)) (dispatch now nid t s))"
  by (auto simp: hands_def poll_response_for_def dispatch_lookup delivered_def project_node_task_def node_task.defs)

text \<open>The choice a poll makes for a node that is not paused.\<close>

definition hand_out :: "rat \<Rightarrow> string \<Rightarrow> lab_state \<Rightarrow> poll_response op_result" where
  "hand_out now nid s = (case active_task nid s of
      Some active \<Rightarrow> poll_response_for nid (Some (t_id active)) (redeliver nid active s)
    | None \<Rightarrow> (case next_queued nid s of
        Some task \<Rightarrow> poll_response_for nid (Some (t_id task)) (dispatch now nid task s)
      | None \<Rightarrow> poll_response_for nid None s))"

lemma hand_out_choice:
  assumes "records_ok s" and "map_of (s_nodes s) nid = Some n"
  shows "(\<exists>t. delivery nid s t \<and> hands now t (hand_out now nid s)) \<or> hand_out now nid s = poll_response_for nid None s \<and>
    (\<forall>u\<in>set (vals (s_tasks s)). t_node_id u = nid \<longrightarrow> t_status u \<noteq> Queued \<and> t_status u \<noteq> Dispatched)"
proof (cases "active_task nid s")
  case (Some t)
  then have t: "t \<in> set (vals (s_tasks s))" "t_node_id t = nid" "t_status t = Dispatched"
    using active_task_SomeD [OF Some] by simp_all
  with records_task_in [OF assms(1)] have "delivery nid s t" by (simp add: delivery_def)
  with handed_again [OF assms(2) _ t(3)] show ?thesis by (auto simp: hand_out_def Some delivery_def)
next
  case idle: None
  then have none: "\<forall>u\<in>set (vals (s_tasks s)). t_node_id u = nid \<longrightarrow> t_status u \<noteq> Dispatched"
    by (auto simp: active_task_def find_None_iff)
  show ?thesis
  proof (cases "next_queued nid s")
    case None
    with none idle next_queued_None [of nid s] show ?thesis by (simp add: hand_out_def)
  next
    case (Some t)
    then have t: "t_status t = Queued" "delivery nid s t"
      using next_queued_Some [OF Some] records_task_in [OF assms(1)] none by (auto simp: delivery_def)
    with handed_first [OF assms(2) _ t(1)] show ?thesis by (auto simp: hand_out_def idle Some delivery_def)
  qed
qed

text \<open>C6: A poll of a node with a valid session always answers.  It hands out a task exactly when the node
  is not paused and has a queued or running one: the running task again, one delivery attempt later, or
  else the queued task that was queued first.  The task it hands out is the ledger's own record, now
  dispatched.\<close>

theorem poll_delivers:
  assumes "reachable s" and "require_node_session nj tok (expire_locked now s) = Inr (nid, n)"
  shows "\<exists>resp s'. poll_node nj tok now s = (Inr resp, s') \<and>
    (case pr_task resp of
      None \<Rightarrow> n_tasking_paused n \<or> (\<forall>u\<in>set (vals (s_tasks (expire_locked now s))). t_node_id u = nid \<longrightarrow>
        t_status u \<noteq> Queued \<and> t_status u \<noteq> Dispatched)
    | Some u \<Rightarrow> \<not> n_tasking_paused n \<and>
        map_option project_node_task (map_of (s_tasks s') (t_id u)) = Some u \<and>
        (\<exists>t. delivery nid (expire_locked now s) t \<and> delivered now t u))"
proof -
  let ?s1 = "expire_locked now s"
  let ?s2 = "note_poll now nid n ?s1"
  have r: "records_ok ?s1" by (rule records.expire [OF records_reachable [OF assms(1)]])
  have n: "map_of (s_nodes ?s1) nid = Some n" using require_node_session_Inr [OF assms(2)] by simp
  obtain n' where n': "map_of (s_nodes ?s2) nid = Some n'" using note_poll_node [OF n] by blast
  show ?thesis
  proof (cases "n_tasking_paused n")
    case True
    then show ?thesis using assms(2) n' by (simp add: poll_node_def Let_def poll_response_for_def)
  next
    case False
    have "delivery nid ?s2 t = delivery nid ?s1 t" for t by (simp add: delivery_def)
    moreover have "poll_node nj tok now s = hand_out now nid ?s2"
      using assms(2) False by (simp add: poll_node_def hand_out_def Let_def)
    ultimately show ?thesis
      using hand_out_choice [OF records.note_poll [OF r] n', of now] False n'
      by (auto simp: hands_def poll_response_for_def [of nid None])
  qed
qed

theorem poll_delivers_witness:
  "\<exists>resp s'. poll_node (JStr demo_node) (JStr demo_token) 2 demo_two_queued = (Inr resp, s')"
proof -
  have "case require_node_session (JStr demo_node) (JStr demo_token) (expire_locked 2 demo_two_queued) of
      Inl _ \<Rightarrow> False | Inr (nid, _) \<Rightarrow> nid = demo_node"
    by code_simp
  then obtain n where "require_node_session (JStr demo_node) (JStr demo_token) (expire_locked 2 demo_two_queued) = Inr (demo_node, n)"
    by (auto split: sum.splits)
  from poll_delivers [OF demo_two_reachable this] show ?thesis by blast
qed

section \<open>Pages of the history\<close>

text \<open>A page of a log: the entries right after the cursor, in order and without a gap, or, when the
  cursor can no longer be served, the oldest retained entries.\<close>

definition page_exact ::
  "('e \<Rightarrow> nat) \<Rightarrow> 'e list \<Rightarrow> nat \<Rightarrow> nat option \<Rightarrow> nat \<Rightarrow> nat \<Rightarrow> 'e delta \<Rightarrow> bool" where
  "page_exact pos es latest fl after limit d \<longleftrightarrow>
    (d_reset_required d \<longleftrightarrow> after > latest \<or> after < latest - length es \<or> (\<exists>f. fl = Some f \<and> after < f)) \<and>
    (if d_reset_required d then d_selected d = take limit es
     else map pos (d_selected d) = [Suc after..<Suc (d_next_cursor d)] \<and>
       d_next_cursor d = min latest (after + limit) \<and> (d_has_more d \<longleftrightarrow> d_next_cursor d < latest))"

lemma delta_selected:
  "d_reset_required (history_delta pos limit es after latest fl) \<Longrightarrow>
    d_selected (history_delta pos limit es after latest fl) = take limit es"
  "length (d_selected (history_delta pos limit es after latest fl)) \<le> limit"
  by (simp_all add: history_delta_def Let_def)

lemma page_exact_delta:
  assumes "numbered pos latest es" "0 < limit"
  shows "page_exact pos es latest fl after limit (history_delta pos limit es after latest fl)"
proof (cases "d_reset_required (history_delta pos limit es after latest fl)")
  case True
  with history_resets [OF assms(1), of limit after fl] delta_selected(1) show ?thesis by (simp add: page_exact_def)
next
  case False
  with history_resets [OF assms(1), of limit after fl] history_page [OF assms False] show ?thesis
    by (simp add: page_exact_def)
qed

text \<open>C19: Whatever the ledger has been through, both pages of a synchronisation are exact: a client that
  follows the cursors sees every event and every audit entry exactly once and in order, and is told to
  start over precisely when its cursor is ahead of the log, older than what is retained, or from before
  the last reset.\<close>

theorem sync_pages_exact:
  assumes "reachable s" and "sync_lab (JInt ea) (JInt aa) (JInt l) s = (Inr y, s')"
  shows "page_exact e_sequence (s_events s) (s_event_seq s) (reset_floor s) (nat ea) (nat l) (y_events y) \<and>
    page_exact a_sequence (s_audit s) (s_audit_seq s) None (nat aa) (nat l) (y_audit y) \<and>
    length (d_selected (y_events y)) \<le> nat l \<and> length (d_selected (y_audit y)) \<le> nat l"
proof -
  have n: "numbered e_sequence (s_event_seq s) (s_events s)" "numbered a_sequence (s_audit_seq s) (s_audit s)"
    using logs.always [OF assms(1)] by (simp_all add: logs_numbered_def)
  have l: "1 \<le> l" and y: "y = sync_snapshot (nat ea) (nat aa) (nat l) s"
    using assms(2) by (auto simp: sync_lab_def rbind_eq_Inr validate_sync_cursor_def validate_sync_limit_def
        int_between_Some split: sum.splits option.splits)
  from l have pos: "0 < nat l" by simp
  from page_exact_delta [OF n(1) pos] page_exact_delta [OF n(2) pos] show ?thesis
    by (simp add: y sync_snapshot_def delta_selected(2))
qed

theorem sync_pages_exact_witness:
  "\<exists>y s'. sync_lab (JInt 1) (JInt 0) (JInt 2) demo_completed = (Inr y, s') \<and> length (d_selected (y_events y)) \<le> 2"
proof -
  have "sync_lab (JInt 1) (JInt 0) (JInt 2) demo_completed = (Inr (sync_snapshot 1 0 2 demo_completed), tick demo_completed)"
    by (simp add: sync_lab_def validate_sync_cursor_def validate_sync_limit_def int_between_def
        MAX_SYNC_CURSOR_def MAX_SYNC_PAGE_SIZE_def)
  from sync_pages_exact [OF demo_reachable(5) this] this show ?thesis by auto
qed

section \<open>Repeated requests\<close>

lemma task_with_key_iff:
  assumes "records_ok s" "tasks_identified s"
  shows "task_with_key k s = Some t \<longleftrightarrow> map_of (s_tasks s) (t_id t) = Some t \<and> t_idempotency_key t = Some k"
proof
  assume "task_with_key k s = Some t"
  then show "map_of (s_tasks s) (t_id t) = Some t \<and> t_idempotency_key t = Some k"
    using records_task_in [OF assms(1)] by (auto simp: task_with_key_def dest!: find_SomeD)
next
  assume t: "map_of (s_tasks s) (t_id t) = Some t \<and> t_idempotency_key t = Some k"
  then have "t \<in> set (vals (s_tasks s))" using map_of_in_vals by fast
  with t have "task_with_key k s \<noteq> None" by (auto simp: task_with_key_def find_None_iff)
  then obtain u where u: "task_with_key k s = Some u" by blast
  then have "map_of (s_tasks s) (t_id u) = Some u" "t_idempotency_key u = Some k"
    using records_task_in [OF assms(1)] by (auto simp: task_with_key_def dest!: find_SomeD)
  moreover have "count_if (\<lambda>t. t_idempotency_key t = Some k) (vals (s_tasks s)) \<le> 1"
    using assms(2) by (simp add: tasks_identified_def)
  ultimately have "t_id u = t_id t" using one_holder t by fast
  with t u \<open>map_of (s_tasks s) (t_id u) = Some u\<close> show "task_with_key k s = Some t" by simp
qed

lemma queued_record:
  assumes "reachable s" and "queue_locked q now s = (Inr v, s1)" and "rq_idempotency_key q = Some k"
  shows "\<exists>t. map_of (s_tasks s1) (t_id v) = Some t \<and> t_idempotency_key t = Some k \<and> same_task_request t q"
proof (cases "task_with_key k s")
  case (Some t)
  then have "map_of (s_tasks s) (t_id t) = Some t" "t_idempotency_key t = Some k"
    using task_with_key_iff records_reachable [OF assms(1)] identified.always [OF assms(1)] by auto
  with Some assms show ?thesis
    by (auto simp: queue_locked_def project_task_def public_task.defs split: if_splits)
next
  case None
  with assms obtain s0 where "v = project_task (new_task q now s0)" "s1 = enqueue q now None s0"
    by (auto simp: queue_locked_def split: sum.splits)
  then show ?thesis
    using assms(3)
    by (simp add: enqueue_def Let_def log_queued_def add_task_def project_task_def public_task.defs new_task_def
        same_task_request_def update_conv')
qed

text \<open>C8: Queueing is idempotent under its key: however the ledger moves on after a request was accepted
  (short of a reset), the same request under the same key answers with the task it created, in its
  current state, and changes nothing, as long as that task is retained.  The identifier of the task must
  not be drawn again by \<open>uuid4\<close>.\<close>

theorem queueing_is_idempotent:
  assumes "reachable s" and "queue_task nid ty p ttl (JStr k) act now s = (Inr v, s1)"
    and "task_id_settled (t_id v) s1" and "no_reset ops"
    and "map_of (s_tasks (run_ops ops s1)) (t_id v) = Some t"
  shows "queue_task nid ty p ttl (JStr k) act now' (run_ops ops s1) = (Inr (project_task t), run_ops ops s1)"
proof -
  let ?s2 = "run_ops ops s1"
  obtain q where q: "queue_locked q now s = (Inr v, s1)" "rq_idempotency_key q = Some k"
    and again: "queue_task nid ty p ttl (JStr k) act now' ?s2 = queue_locked q now' ?s2"
    using assms(2)
    by (auto simp: queue_task_def rbind_eq_Inr validate_idempotency_key_def split: json.splits sum.splits if_splits)
  have r1: "reachable s1" using assms(1,2) reachable_run_op [OF assms(1), of "QueueTask nid ty p ttl (JStr k) act now"] by simp
  have r2: "reachable ?s2" by (rule reachable_run [OF r1])
  obtain t1 where t1: "map_of (s_tasks s1) (t_id v) = Some t1" "t_idempotency_key t1 = Some k" "same_task_request t1 q"
    using queued_record [OF assms(1) q] by blast
  have same: "same_identity t1 t"
    using life_star_identity run_task [OF r1 t1(1) assms(3,4,5)] by blast
  then have "same_task_request t q" "t_idempotency_key t = Some k" "t_id t = t_id v"
    using t1 records_task [OF records_reachable [OF r2] assms(5)] by (auto simp: same_identity_def same_task_request_def)
  moreover from this have "task_with_key k ?s2 = Some t"
    using assms(5) task_with_key_iff records_reachable [OF r2] identified.always [OF r2] by simp
  ultimately show ?thesis unfolding again by (simp add: queue_locked_def q(2))
qed

abbreviation queue_demo :: "rat \<Rightarrow> lab_state \<Rightarrow> public_task op_result" where
  "queue_demo now s \<equiv> queue_task (JStr demo_node) (JStr ''PING'') (JObj []) None (JStr ''demo-key-1'') (JStr ''operator'') now s"

lemma queue_demo_result: "\<exists>v. queue_demo 1 demo_enrolled = (Inr v, demo_queued) \<and> t_id v = demo_task"
proof -
  have "case fst (queue_demo 1 demo_enrolled) of Inl _ \<Rightarrow> False | Inr v \<Rightarrow> t_id v = demo_task"
    by code_simp
  moreover have "snd (queue_demo 1 demo_enrolled) = demo_queued"
    by (simp add: demo_queued_def demo_queue_def)
  ultimately show ?thesis by (cases "queue_demo 1 demo_enrolled") (auto split: sum.splits)
qed

theorem queueing_is_idempotent_witness:
  "\<exists>t. queue_demo 9 demo_completed = (Inr (project_task t), demo_completed) \<and> t_status t = Completed"
proof -
  obtain v where v: "queue_demo 1 demo_enrolled = (Inr v, demo_queued)" "t_id v = demo_task"
    using queue_demo_result by blast
  obtain t where t: "map_of (s_tasks demo_completed) demo_task = Some t" "t_status t = Completed"
    using demo_tasks(3) by auto
  have run: "run_ops [demo_poll, demo_submit] demo_queued = demo_completed"
    by (simp add: demo_dispatched_def demo_completed_def)
  have "no_reset [demo_poll, demo_submit]" by (simp add: no_reset_def demo_poll_def demo_submit_def)
  from queueing_is_idempotent [OF demo_reachable(2) v(1) _ this, of t 9] demo_task_settled(1) run t v(2)
  show ?thesis by auto
qed

section \<open>Repeated reports\<close>

lemma accept_lookup:
  "map_of (s_tasks (accept_result now nid task st r s)) (t_id task) =
     map_option (\<lambda>t. t\<lparr>t_status := st, t_result := Some r, t_result_accepted := True,
       t_completed_at := Some (utc_now s), t_deadline := None\<rparr>) (map_of (s_tasks s) (t_id task))"
  by (simp add: accept_result_def Let_def refresh_same_ledger generated_event_def split: payload.split)

text \<open>An acknowledged report is the stored result.\<close>

definition stored_report :: "task \<Rightarrow> task_status \<Rightarrow> (string \<times> json) list \<Rightarrow> bool" where
  "stored_report t st r \<longleftrightarrow> (t_status t = Completed \<or> t_status t = Failed) \<and> same_result t st r"

lemma acknowledged_report:
  assumes "reachable s" and "map_of (s_tasks s) tid \<noteq> None"
    and "submit_result nj tok (JStr tid) st (JObj r) now s = (Inr out, s1)"
    and "wf_json (JObj r)" and "version_unpadded r"
  shows "\<exists>t x nid. map_of (s_tasks s1) tid = Some t \<and> out = project_node_task t \<and> nj = JStr nid \<and> t_node_id t = nid \<and>
    validate_result st (JObj r) = Inr (x, r) \<and> stored_report t x r"
proof -
  let ?s = "expire_locked now s"
  have rec: "records_ok ?s" by (rule records.expire [OF records_reachable [OF assms(1)]])
  obtain nid n where sess: "require_node_session nj tok ?s = Inr (nid, n)"
    and sub: "submit_locked now nid n tid st (JObj r) ?s = (Inr out, s1)"
    using assms(3) by (auto simp: submit_result_def Let_def split: sum.splits prod.splits)
  have nj: "nj = JStr nid" using require_node_session_Inr [OF sess] by blast
  obtain t where t: "map_of (s_tasks ?s) tid = Some t"
  proof -
    have "map_of (s_tasks ?s) tid \<noteq> None"
      using present_tasks.expire [of tid s now] records_reachable [OF assms(1)] assms(2) by (simp add: has_task_def)
    then show ?thesis using that by blast
  qed
  have id: "t_id t = tid" and ok: "payload_ok (t_type t) (t_payload t)"
    using records_task [OF rec t] by (auto simp: task_wf_def)
  obtain x where v: "validate_result st (JObj r) = Inr (x, r)" and nid: "t_node_id t = nid"
    and sub': "submit_to_task now nid n t st (JObj r) x r ?s = (Inr out, s1)"
    using sub t by (auto simp: submit_locked_def result_record_def project_node_task_def node_task.defs validate_result_Inr
        split: if_splits sum.splits prod.splits)
  show ?thesis
  proof (cases "t_status t = Completed \<or> t_status t = Failed")
    case True
    with sub' t v nid nj show ?thesis by (auto simp: submit_to_task_def stored_report_def split: if_splits)
  next
    case False
    with sub' obtain x' r' where vt: "validate_task_result (t_type t) (t_payload t) st (JObj r) (Some (identity_of n)) = Inr (x', r')"
      and s1: "s1 = accept_result now nid t x' r' ?s" and out: "map_option project_node_task (map_of (s_tasks s1) tid) = Some out"
      by (auto simp: submit_to_task_def Let_def id split: if_splits sum.splits prod.splits option.splits)
    have x': "x' = x" using vt v by (auto simp: validate_task_result_Inr)
    have "type_strict_equal (JObj r') (JObj r)" by (rule stored_equals_report [OF vt ok assms(4)]) (rule assms(5))
    moreover have "x = Completed \<or> x = Failed" using validate_result_status [OF v] .
    moreover have "map_of (s_tasks s1) tid = Some (t\<lparr>t_status := x', t_result := Some r', t_result_accepted := True,
       t_completed_at := Some (utc_now ?s), t_deadline := None\<rparr>)"
      using accept_lookup [of now nid t x' r' ?s] t by (simp add: s1 id)
    ultimately show ?thesis
      using out nj nid v x' by (simp add: stored_report_def same_result_def result_json_def)
  qed
qed

lemma stored_report_frozen: "stored_report t x r \<Longrightarrow> life\<^sup>*\<^sup>* t u \<Longrightarrow> u = t"
  by (metis converse_rtranclpE life_unfinished stored_report_def task_status.distinct unfinished_def)

lemma stored_unfinished: "stored_report t x r \<Longrightarrow> \<not> unfinished t"
  by (auto simp: stored_report_def unfinished_def)

lemma submit_stored:
  assumes "require_node_session nj tok (expire_locked now s) = Inr (nid, n)"
    and "map_of (s_tasks (expire_locked now s)) tid = Some t" and "t_node_id t = nid" and "stored_report t x r"
    and "validate_result st' rj = Inr (x', r')"
  shows "submit_result nj tok (JStr tid) st' rj now s =
    (if same_result (project_node_task t) x' r' then Inr (project_node_task t) else Inl result_conflict, expire_locked now s)"
  using assms
  by (auto simp: submit_result_def submit_locked_def submit_to_task_def result_record_def stored_report_def
      project_node_task_def node_task.defs same_result_def)



section \<open>Paused nodes\<close>

lemma run_paused:
  assumes "records_ok s" "map_of (s_nodes s) nid = Some n" "n_tasking_paused n" "node_id_settled nid s" "no_reset ops"
    and "map_of (s_nodes (run_ops ops s)) nid = Some n'"
  shows "n_tasking_paused n'"
proof -
  have "records_ok s \<and> node_history s nid n s"
    using assms(1,2) by (simp add: node_history_def later_def)
  from nodes_over_time.run_preserves [OF this assms(5)] assms(3,4,6) show ?thesis
    by (auto simp: node_history_def)
qed

text \<open>Requests for a node that is paused or gone, without a key that could name an older request.\<close>

definition refuses_tasking :: "string \<Rightarrow> lab_state \<Rightarrow> bool" where
  "refuses_tasking nid s \<longleftrightarrow> (\<forall>n. map_of (s_nodes s) nid = Some n \<longrightarrow> n_tasking_paused n)"

lemma refused_case:
  "(\<And>q. m = Inr q \<Longrightarrow> \<exists>e. f q = (Inl e, s)) \<Longrightarrow> \<exists>e. (case m of Inl e \<Rightarrow> (Inl e, s) | Inr q \<Rightarrow> f q) = (Inl e, s)"
  by (cases m) auto

lemma refused_rbind:
  "(\<exists>e. m = Inl e) \<Longrightarrow> \<exists>e. (case rbind m g of Inl e \<Rightarrow> (Inl e, s) | Inr q \<Rightarrow> f q) = (Inl e, s)"
  by auto

lemma no_key: "validate_idempotency_key JNull = Inr None"
  by (simp add: validate_idempotency_key_def)

lemma paused_queue: "refuses_tasking nid s \<Longrightarrow> \<exists>e. queue_task (JStr nid) ty p ttl JNull act now s = (Inl e, s)"
proof -
  assume a: "refuses_tasking nid s"
  have "\<exists>e. queue_locked q now s = (Inl e, s)" if "rq_node_id q = nid" "rq_idempotency_key q = None" for q
    using a that by (auto simp: refuses_tasking_def queue_locked_def admit_task_def split: option.split)
  then show ?thesis
    unfolding queue_task_def json.case by (intro refused_case) (auto simp: rbind_eq_Inr no_key)
qed

lemma paused_operation: "refuses_tasking nid s \<Longrightarrow> \<exists>e. queue_operation (JStr nid) steps ttl JNull act now s = (Inl e, s)"
proof -
  assume a: "refuses_tasking nid s"
  have "\<exists>e. operation_locked nid ps ttl None act now s = (Inl e, s)" for ps ttl act
  proof -
    have "\<exists>e. admit_operation nid m s = Inl e" for m
      using a by (auto simp: refuses_tasking_def admit_operation_def split: option.split)
    from this [of "length ps"] show ?thesis unfolding operation_locked_def option.case by (rule refused_rbind)
  qed
  then show ?thesis
    unfolding queue_operation_def json.case by (intro refused_case) (auto simp: rbind_eq_Inr no_key)
qed

lemma paused_exercise: "refuses_tasking nid s \<Longrightarrow> \<exists>e. start_exercise (JStr nid) sid act JNull now s = (Inl e, s)"
proof -
  assume a: "refuses_tasking nid s"
  have "\<exists>e. exercise_locked nid d act None now s = (Inl e, s)" for d act
  proof -
    have "\<exists>e. admit_exercise nid m s = Inl e" for m
      using a by (auto simp: refuses_tasking_def admit_exercise_def split: option.split)
    from this [of "length (sc_playbooks d)"] show ?thesis unfolding exercise_locked_def option.case by (rule refused_rbind)
  qed
  then have "\<exists>e. (case rbind (validate_operator_actor act) (\<lambda>act. rbind (validate_idempotency_key JNull) (\<lambda>key. Inr (act, key))) of
      Inl e \<Rightarrow> (Inl e, s) | Inr (act, key) \<Rightarrow> exercise_locked nid d act key now s) = (Inl e, s)" for d
    by (intro refused_case) (auto simp: rbind_eq_Inr no_key)
  then show ?thesis unfolding start_exercise_def json.case by (auto split: option.split)
qed

lemma paused_poll:
  assumes "refuses_tasking nid (expire_locked now s)" and "poll_node (JStr nid) tok now s = (Inr resp, s')"
  shows "pr_task resp = None"
proof -
  obtain n where n: "require_node_session (JStr nid) tok (expire_locked now s) = Inr (nid, n)"
    using assms(2) require_node_session_Inr by (fastforce simp: poll_node_def Let_def split: sum.splits prod.splits)
  then have "n_tasking_paused n" using require_node_session_Inr [OF n] assms(1) by (simp add: refuses_tasking_def)
  with n assms(2) show ?thesis
    by (auto simp: poll_node_def Let_def poll_response_for_def split: option.splits)
qed


definition demo_paused :: lab_state where
  "demo_paused = modify_node demo_node (\<lambda>n. n\<lparr>n_tasking_paused := True\<rparr>) demo_queued"

lemma demo_paused_facts:
  "records_ok demo_paused" "node_id_settled demo_node demo_paused"
  "\<exists>n. map_of (s_nodes demo_paused) demo_node = Some n \<and> n_tasking_paused n"
proof -
  show "records_ok demo_paused"
    unfolding demo_paused_def by (rule records.node [OF records_reachable [OF demo_reachable(3)]]) (simp add: node_keep_def settings_ok_def)
  have "s_draws demo_queued = 7 \<and> map_of (s_nodes demo_queued) demo_node \<noteq> None" by code_simp
  then have d: "s_draws demo_queued = 7" and "map_of (s_nodes demo_queued) demo_node \<noteq> None" by auto
  then show "\<exists>n. map_of (s_nodes demo_paused) demo_node = Some n \<and> n_tasking_paused n"
    by (auto simp: demo_paused_def)
  have "list_all (\<lambda>n. ''node-'' @ take 10 (demo_uuid n) \<noteq> demo_node) [7..<100]" by code_simp
  then have few: "''node-'' @ take 10 (demo_uuid n) \<noteq> demo_node" if "7 \<le> n" "n < 100" for n
    using that by (simp only: list_all_iff set_upt atLeastLessThan_iff simp_thms)
  have "''node-'' @ take 10 (demo_uuid n) \<noteq> demo_node" if "7 \<le> n" for n
    using few [OF that] by (cases "n < 100") (simp_all add: demo_uuid_def [of n] demo_node_def)
  then show "node_id_settled demo_node demo_paused"
    by (simp add: node_id_settled_def demo_paused_def d demo_env_kept demo_env_def)
qed


end
