(* ===== verification/Http_Reply.thy ===== *)
theory Http_Reply
  imports Server_Post
begin

text \<open>
  The answering side of \<open>LabRequestHandler\<close> in \<open>c2lab/server.py\<close>: the JSON object of every reply, its
  text (\<open>_send_json\<close>, \<open>_send_error\<close>) and the response with its headers (\<open>_send_bytes\<close>).  A dictionary of
  the source keeps the order of its keys.  \<open>fr\<close> is \<open>float.__repr__\<close>, as in \<open>env_float_repr\<close>.
\<close>

section \<open>Values\<close>

definition json_text :: "string option \<Rightarrow> json" where
  "json_text v = (case v of None \<Rightarrow> JNull | Some s \<Rightarrow> JStr s)"

abbreviation json_nat :: "nat \<Rightarrow> json" where
  "json_nat n \<equiv> JInt (int n)"

abbreviation json_strings :: "string list \<Rightarrow> json" where
  "json_strings xs \<equiv> JList (map JStr xs)"

definition json_float :: "(rat \<Rightarrow> string) \<Rightarrow> rat \<Rightarrow> json" where
  "json_float fr x = JFloat (FRepr (fr x))"

fun json_number :: "(rat \<Rightarrow> string) \<Rightarrow> number \<Rightarrow> json" where
  "json_number fr (IntValue i) = JInt i"
| "json_number fr (FloatValue x) = json_float fr x"
| "json_number fr NaNValue = JFloat FNaN"
| "json_number fr InfValue = JFloat (FInf True)"
| "json_number fr OtherValue = JNull"

definition json_option :: "('a \<Rightarrow> json) \<Rightarrow> 'a option \<Rightarrow> json" where
  "json_option f v = (case v of None \<Rightarrow> JNull | Some x \<Rightarrow> f x)"

section \<open>Objects of the ledger\<close>

definition node_json :: "public_node \<Rightarrow> json" where
  "node_json n = JObj
    [(''id'', JStr (n_id n)), (''name'', JStr (n_name n)), (''status'', JStr (node_status_str (n_status n))),
     (''session_active'', JBool (n_session_active n)), (''version'', JStr (n_version n)),
     (''profile'', JStr (profile_str (n_profile n))), (''transport'', JStr (n_transport n)),
     (''capabilities'', json_strings (map task_type_str (n_capabilities n))),
     (''poll_interval_ms'', JInt (n_poll_interval_ms n)), (''jitter_percent'', JInt (n_jitter_percent n)),
     (''created_at'', JStr (n_created_at n)), (''last_seen'', JStr (n_last_seen n)),
     (''tasks_completed'', json_nat (n_tasks_completed n)), (''tasks_failed'', json_nat (n_tasks_failed n)),
     (''tasking_paused'', JBool (n_tasking_paused n)), (''tasking_paused_at'', json_text (n_tasking_paused_at n)),
     (''tasking_paused_by'', json_text (n_tasking_paused_by n))]"

text \<open>\<open>_node_task\<close>: the task without what only operators see.\<close>

definition node_task_json :: "node_task \<Rightarrow> (string \<times> json) list" where
  "node_task_json u =
    [(''id'', JStr (t_id u)), (''correlation_id'', JStr (t_correlation_id u)), (''node_id'', JStr (t_node_id u)),
     (''type'', JStr (task_type_str (t_type u))), (''payload'', JObj (payload_json (t_payload u))),
     (''status'', JStr (status_str (t_status u))), (''result'', result_json (t_result u)),
     (''created_at'', JStr (t_created_at u)), (''queue_ttl_seconds'', JInt (t_queue_ttl_seconds u)),
     (''dispatched_at'', json_text (t_dispatched_at u)), (''completed_at'', json_text (t_completed_at u)),
     (''delivery_attempts'', json_nat (t_delivery_attempts u))]"

definition public_task_json :: "public_task \<Rightarrow> json" where
  "public_task_json u = JObj (
    [(''id'', JStr (t_id u)), (''correlation_id'', JStr (t_correlation_id u)), (''node_id'', JStr (t_node_id u)),
     (''type'', JStr (task_type_str (t_type u))), (''created_by'', JStr (t_created_by u)),
     (''payload'', JObj (payload_json (t_payload u))), (''status'', JStr (status_str (t_status u))),
     (''result'', result_json (t_result u)), (''created_at'', JStr (t_created_at u)),
     (''queue_ttl_seconds'', JInt (t_queue_ttl_seconds u)), (''dispatched_at'', json_text (t_dispatched_at u)),
     (''completed_at'', json_text (t_completed_at u)), (''delivery_attempts'', json_nat (t_delivery_attempts u))] @
    (case t_operation u of None \<Rightarrow> []
     | Some (oid, n) \<Rightarrow> [(''operation_id'', JStr oid), (''operation_step'', json_nat n)]))"

definition event_json :: "event \<Rightarrow> json" where
  "event_json e = JObj
    [(''id'', JStr (e_id e)), (''sequence'', json_nat (e_sequence e)), (''time'', JStr (e_time e)),
     (''kind'', JStr (e_kind e)), (''level'', JStr (e_level e)), (''node_id'', json_text (e_node_id e)),
     (''task_id'', json_text (e_task_id e)), (''correlation_id'', json_text (e_correlation_id e)),
     (''actor'', JStr (e_actor e)), (''data'', JObj (e_data e))]"

definition audit_json :: "audit_entry \<Rightarrow> json" where
  "audit_json a = JObj
    [(''id'', JStr (a_id a)), (''sequence'', json_nat (a_sequence a)), (''time'', JStr (a_time a)),
     (''actor'', JStr (a_actor a)), (''action'', JStr (a_action a)), (''node_id'', json_text (a_node_id a)),
     (''task_id'', json_text (a_task_id a)), (''correlation_id'', json_text (a_correlation_id a)),
     (''task_type'', json_text (a_task_type a)), (''from_state'', json_text (a_from_state a)),
     (''to_state'', json_text (a_to_state a)), (''outcome'', JStr (a_outcome a)), (''reason'', json_text (a_reason a))]"

definition technique_json :: "technique \<Rightarrow> json" where
  "technique_json t = JObj [(''id'', JStr (tq_id t)), (''name'', JStr (tq_name t)), (''url'', JStr (tq_url t))]"

definition detection_json :: "detection_rule \<Rightarrow> json" where
  "detection_json r = JObj
    [(''id'', JStr (dr_id r)), (''source_id'', JStr (dr_source_id r)), (''name'', JStr (dr_name r)),
     (''playbook'', JStr (playbook_str (dr_playbook r))), (''technique_id'', JStr (dr_technique_id r)),
     (''signal'', JStr (dr_signal r)), (''severity'', JStr (dr_severity r))]"

definition scenario_json :: "scenario \<Rightarrow> json" where
  "scenario_json c = JObj
    [(''id'', JStr (sc_id c)), (''title'', JStr (sc_title c)), (''description'', JStr (sc_description c)),
     (''scope'', sc_scope c), (''playbooks'', json_strings (map playbook_str (sc_playbooks c))),
     (''techniques'', JList (map technique_json (sc_techniques c))),
     (''detections'', JList (map detection_json (sc_detections c))),
     (''containment_actions'', json_strings (map action_str (sc_containment_actions c)))]"

fun detection_status_str :: "detection_status \<Rightarrow> string" where
  "detection_status_str Pending = ''pending''"
| "detection_status_str Detected = ''detected''"

fun alert_status_str :: "alert_status \<Rightarrow> string" where
  "alert_status_str AlertOpen = ''open''"
| "alert_status_str AlertContained = ''contained''"

definition alert_json :: "alert \<Rightarrow> json" where
  "alert_json a = JObj
    [(''id'', JStr (al_id a)), (''rule_id'', JStr (al_rule_id a)), (''source_id'', JStr (al_source_id a)),
     (''name'', JStr (al_name a)), (''technique_id'', JStr (al_technique_id a)), (''severity'', JStr (al_severity a)),
     (''signal'', JStr (al_signal a)), (''status'', JStr (alert_status_str (al_status a))),
     (''detected_at'', JStr (al_detected_at a)), (''contained_at'', json_text (al_contained_at a)),
     (''task_id'', JStr (al_task_id a))]"

definition timeline_json :: "timeline_item \<Rightarrow> json" where
  "timeline_json i = JObj
    [(''sequence'', json_nat (tl_sequence i)), (''time'', JStr (tl_time i)), (''phase'', JStr (tl_phase i)),
     (''kind'', JStr (tl_kind i)), (''summary'', JStr (tl_summary i)), (''task_id'', json_text (tl_task_id i)),
     (''rule_id'', json_text (tl_rule_id i)), (''technique_id'', json_text (tl_technique_id i)),
     (''action'', json_text (tl_action i))]"

definition containment_json :: "containment \<Rightarrow> json" where
  "containment_json c = JObj
    [(''status'', JStr (if ct_applied c then ''applied'' else ''not_started'')),
     (''action'', json_text (map_option action_str (ct_action c))), (''actor'', json_text (ct_actor c)),
     (''time'', json_text (ct_time c))]"

definition exercise_json :: "public_exercise \<Rightarrow> json" where
  "exercise_json x = JObj
    [(''id'', JStr (x_id x)), (''scenario_id'', JStr (x_scenario_id x)), (''title'', JStr (x_title x)),
     (''description'', JStr (x_description x)), (''scope'', x_scope x),
     (''status'', JStr (exercise_status_str (x_status x))),
     (''detection_status'', JStr (detection_status_str (x_detection_status x))), (''node_id'', JStr (x_node_id x)),
     (''created_by'', JStr (x_created_by x)), (''created_at'', JStr (x_created_at x)),
     (''completed_at'', json_text (x_completed_at x)), (''task_ids'', json_strings (x_task_ids x)),
     (''techniques'', JList (map technique_json (x_techniques x))), (''alerts'', JList (map alert_json (x_alerts x))),
     (''timeline'', JList (map timeline_json (x_timeline x))), (''containment'', containment_json (x_containment x))]"

definition operation_json :: "operation_summary \<Rightarrow> json" where
  "operation_json c = JObj
    [(''id'', JStr (op_id c)), (''node_id'', JStr (op_node_id c)), (''created_by'', JStr (op_created_by c)),
     (''steps'', JList (map (\<lambda>p. JObj [(''playbook'', JStr (playbook_str p))]) (op_steps c))),
     (''tasks'', JList (map public_task_json (op_tasks c)))]"

definition enrolled_json :: "public_node \<Rightarrow> string \<Rightarrow> json" where
  "enrolled_json n tok = JObj [(''node'', node_json n), (''session_token'', JStr tok)]"

definition poll_json :: "poll_response \<Rightarrow> (string \<times> json) list" where
  "poll_json r =
    [(''node'', node_json (pr_node r)), (''task'', json_option (\<lambda>u. JObj (node_task_json u)) (pr_task r)),
     (''server_time'', JStr (pr_server_time r))]"

section \<open>Views of the ledger\<close>

definition counts_json :: "counts \<Rightarrow> (string \<times> json) list" where
  "counts_json c =
    [(''nodes_online'', json_nat (c_nodes_online c)), (''nodes_total'', json_nat (c_nodes_total c)),
     (''tasks_queued'', json_nat (c_tasks_queued c)), (''tasks_active'', json_nat (c_tasks_active c)),
     (''tasks_completed'', json_nat (c_tasks_completed c)), (''tasks_failed'', json_nat (c_tasks_failed c)),
     (''tasks_timeout'', json_nat (c_tasks_timeout c)), (''tasks_cancelled'', json_nat (c_tasks_cancelled c)),
     (''tasks_expired'', json_nat (c_tasks_expired c)), (''exercises_total'', json_nat (c_exercises_total c)),
     (''exercises_running'', json_nat (c_exercises_running c)),
     (''exercises_detected'', json_nat (c_exercises_detected c)),
     (''exercises_contained'', json_nat (c_exercises_contained c)), (''alerts_open'', json_nat (c_alerts_open c))]"

abbreviation json_nodes :: "public_node list \<Rightarrow> json" where
  "json_nodes ns \<equiv> JList (map node_json ns)"

abbreviation json_tasks :: "public_task list \<Rightarrow> json" where
  "json_tasks ts \<equiv> JList (map public_task_json ts)"

abbreviation json_scenarios :: "scenario list \<Rightarrow> json" where
  "json_scenarios cs \<equiv> JList (map scenario_json cs)"

abbreviation json_exercises :: "public_exercise list \<Rightarrow> json" where
  "json_exercises xs \<equiv> JList (map exercise_json xs)"

abbreviation json_events :: "event list \<Rightarrow> json" where
  "json_events es \<equiv> JList (map event_json es)"

abbreviation json_audit :: "audit_entry list \<Rightarrow> json" where
  "json_audit es \<equiv> JList (map audit_json es)"

definition events_audit :: "json \<Rightarrow> json \<Rightarrow> json" where
  "events_audit e a = JObj [(''events'', e), (''audit'', a)]"

definition sync_json :: "sync_response \<Rightarrow> json" where
  "sync_json y = JObj
    [(''generated_at'', JStr (y_generated_at y)), (''stream_id'', JStr (y_stream_id y)),
     (''lab_mode'', JBool (y_lab_mode y)), (''protocol'', JStr (y_protocol y)),
     (''counts'', JObj (counts_json (y_counts y))), (''nodes'', json_nodes (y_nodes y)),
     (''tasks'', json_tasks (y_tasks y)), (''scenario_catalog'', json_scenarios (y_scenario_catalog y)),
     (''exercises'', json_exercises (y_exercises y)), (''events'', json_events (d_selected (y_events y))),
     (''audit'', json_audit (d_selected (y_audit y))),
     (''cursors'', events_audit (json_nat (d_next_cursor (y_events y))) (json_nat (d_next_cursor (y_audit y)))),
     (''high_watermarks'', events_audit (json_nat (y_high_events y)) (json_nat (y_high_audit y))),
     (''oldest_available'', events_audit (json_nat (d_earliest (y_events y))) (json_nat (d_earliest (y_audit y)))),
     (''cursor_reset'', events_audit (JBool (d_reset_required (y_events y))) (JBool (d_reset_required (y_audit y)))),
     (''has_more'', events_audit (JBool (d_has_more (y_events y))) (JBool (d_has_more (y_audit y))))]"

definition overview_json :: "overview \<Rightarrow> json" where
  "overview_json v = JObj
    [(''lab_mode'', JBool (ov_lab_mode v)), (''protocol'', JStr (ov_protocol v)),
     (''counts'', JObj (counts_json (ov_counts v))), (''nodes'', json_nodes (ov_nodes v)),
     (''tasks'', json_tasks (ov_tasks v)), (''scenario_catalog'', json_scenarios (ov_scenario_catalog v)),
     (''exercises'', json_exercises (ov_exercises v)), (''events'', json_events (ov_events v))]"

text \<open>\<open>safe_nodes\<close> and \<open>safe_tasks\<close> of the report.\<close>

definition report_node_json :: "report_node \<Rightarrow> json" where
  "report_node_json n = JObj
    [(''id'', JStr (rn_id n)), (''name'', JStr (rn_name n)), (''status'', JStr (node_status_str (rn_status n))),
     (''session_active'', JBool (rn_session_active n)), (''profile'', JStr (profile_str (rn_profile n))),
     (''transport'', JStr (rn_transport n)), (''created_at'', JStr (rn_created_at n)),
     (''last_seen'', JStr (rn_last_seen n)), (''tasks_completed'', json_nat (rn_tasks_completed n)),
     (''tasks_failed'', json_nat (rn_tasks_failed n)), (''tasking_paused'', JBool (rn_tasking_paused n)),
     (''tasking_paused_at'', json_text (rn_tasking_paused_at n)),
     (''tasking_paused_by'', json_text (rn_tasking_paused_by n))]"

definition report_task_json :: "report_task \<Rightarrow> json" where
  "report_task_json u = JObj
    [(''id'', JStr (rt_id u)), (''correlation_id'', JStr (rt_correlation_id u)), (''node_id'', JStr (rt_node_id u)),
     (''type'', JStr (task_type_str (rt_type u))), (''created_by'', JStr (rt_created_by u)),
     (''status'', JStr (status_str (rt_status u))), (''created_at'', JStr (rt_created_at u)),
     (''queue_ttl_seconds'', JInt (rt_queue_ttl_seconds u)), (''dispatched_at'', json_text (rt_dispatched_at u)),
     (''completed_at'', json_text (rt_completed_at u)), (''delivery_attempts'', json_nat (rt_delivery_attempts u))]"

text \<open>All retention bounds are integers but the last one.\<close>

definition retention_json :: "(rat \<Rightarrow> string) \<Rightarrow> (string \<times> rat) list \<Rightarrow> json" where
  "retention_json fr bounds = JObj (map (\<lambda>(k, v).
     (k, if k = ''stale_session_ttl_seconds'' then json_float fr v else JInt \<lfloor>v\<rfloor>)) bounds)"

definition report_json :: "(rat \<Rightarrow> string) \<Rightarrow> report \<Rightarrow> json" where
  "report_json fr r = JObj
    [(''generated_at'', JStr (rp_generated_at r)), (''lab_mode'', JBool (rp_lab_mode r)),
     (''protocol'', JStr (rp_protocol r)),
     (''counts'', JObj (counts_json (rp_counts r) @
        [(''events_retained'', json_nat (rp_events_retained r)), (''audit_retained'', json_nat (rp_audit_retained r)),
         (''operator_notes_retained'', json_nat (rp_notes_retained r))])),
     (''retention'', retention_json fr (rp_retention r)),
     (''sequences'', events_audit (json_nat (rp_event_seq r)) (json_nat (rp_audit_seq r))),
     (''nodes'', JList (map report_node_json (rp_nodes r))), (''tasks'', JList (map report_task_json (rp_tasks r))),
     (''scenario_catalog'', json_scenarios (rp_scenario_catalog r)), (''exercises'', json_exercises (rp_exercises r)),
     (''audit'', json_audit (rp_audit r))]"

section \<open>Sessions, readiness and metrics\<close>

fun session_status_str :: "session_status \<Rightarrow> string" where
  "session_status_str ActiveSession = ''active''"
| "session_status_str ExpiredSession = ''expired''"
| "session_status_str RevokedSession = ''revoked''"

definition public_session_json :: "(rat \<Rightarrow> string) \<Rightarrow> public_session \<Rightarrow> json" where
  "public_session_json fr p = JObj
    [(''id'', JStr (ps_id p)), (''principal_id'', JStr (ps_principal p)), (''role'', JStr (role_str (ps_role p))),
     (''permissions'', json_strings (ps_permissions p)), (''created_monotonic'', json_float fr (ps_created p)),
     (''expires_monotonic'', json_float fr (ps_expires p)), (''expires_in_seconds'', json_float fr (ps_expires_in p)),
     (''revoked_monotonic'', json_option (json_float fr) (ps_revoked p)),
     (''status'', JStr (session_status_str (ps_status p))), (''active'', JBool (ps_active p))]"

definition monitor_json :: "(rat \<Rightarrow> string) \<Rightarrow> readiness \<Rightarrow> json" where
  "monitor_json fr h = JObj
    [(''status'', JStr (rd_status h)), (''ready'', JBool (rd_ready h)),
     (''last_tick_age_seconds'', json_option (json_number fr) (rd_age h)), (''last_error'', json_text (rd_error h))]"

definition readiness_json :: "(rat \<Rightarrow> string) \<Rightarrow> string \<Rightarrow> readiness \<Rightarrow> json" where
  "readiness_json fr text h = JObj [(''status'', JStr text), (''monitor'', monitor_json fr h)]"

definition counter_json :: "counter \<Rightarrow> json" where
  "counter_json c = JObj (map (\<lambda>(k, n). (k, json_nat n)) c)"

definition snapshot_json :: "(rat \<Rightarrow> string) \<Rightarrow> metrics_snapshot \<Rightarrow> json" where
  "snapshot_json fr m = JObj
    [(''uptime_seconds'', json_float fr (ms_uptime m)), (''requests_total'', json_nat (ms_requests m)),
     (''worker_rejections'', json_nat (ms_rejections m)), (''access_log_drops'', json_nat (ms_log_drops m)),
     (''methods'', counter_json (ms_methods m)), (''routes'', counter_json (ms_routes m)),
     (''status_classes'', counter_json (ms_statuses m)),
     (''duration_ms'', JObj [(''average'', json_float fr (ms_average m)), (''maximum'', json_float fr (ms_maximum m))])]"

definition metrics_json :: "(rat \<Rightarrow> string) \<Rightarrow> metrics_snapshot \<Rightarrow> counts \<Rightarrow> readiness \<Rightarrow> json" where
  "metrics_json fr m c h = JObj
    [(''http'', snapshot_json fr m), (''lab'', JObj (counts_json c)),
     (''readiness'', readiness_json fr (if rd_ready h then ''ready'' else ''not_ready'') h)]"

definition health_json :: json where
  "health_json = JObj
    [(''status'', JStr ''ok''), (''mode'', JStr ''localhost-lab''), (''protocol'', JStr ''loopback-http-poll/v1'')]"

definition error_json :: "string \<Rightarrow> string \<Rightarrow> json" where
  "error_json c m = JObj [(''error'', JObj [(''code'', JStr c), (''message'', JStr m)])]"

definition reset_json :: json where
  "reset_json = JObj [(''reset'', JBool True), (''sessions_invalidated'', JBool True)]"

section \<open>Responses\<close>

text \<open>The JSON value of a reply; a file has none, it is sent as it is.\<close>

fun content_json :: "(rat \<Rightarrow> string) \<Rightarrow> content \<Rightarrow> json" where
  "content_json fr (ErrorContent c m) = error_json c m"
| "content_json fr (FileContent ctype file) = JNull"
| "content_json fr HealthContent = health_json"
| "content_json fr (ReadyContent text h) = readiness_json fr text h"
| "content_json fr (SessionContent p) = public_session_json fr p"
| "content_json fr (SessionsContent ps) = JList (map (public_session_json fr) ps)"
| "content_json fr (MetricsContent m c h) = metrics_json fr m c h"
| "content_json fr (SyncContent y) = sync_json y"
| "content_json fr (OverviewContent v) = overview_json v"
| "content_json fr (NodesContent ns) = json_nodes ns"
| "content_json fr (TasksContent ts) = json_tasks ts"
| "content_json fr (ScenariosContent cs) = json_scenarios cs"
| "content_json fr (ExercisesContent xs) = json_exercises xs"
| "content_json fr (EventsContent es) = json_events es"
| "content_json fr (AuditContent es) = json_audit es"
| "content_json fr (ReportContent r) = report_json fr r"
| "content_json fr (EnrolledContent n tok) = enrolled_json n tok"
| "content_json fr (PollContent r) = JObj (poll_json r)"
| "content_json fr (NodeContent n) = node_json n"
| "content_json fr (ResultContent u) = JObj (node_task_json u)"
| "content_json fr (TaskContent u) = public_task_json u"
| "content_json fr (OperationContent c) = operation_json c"
| "content_json fr (NoteContent e) = event_json e"
| "content_json fr (ExerciseContent x) = exercise_json x"
| "content_json fr ResetContent = reset_json"

text \<open>Without \<open>allow_nan=False\<close>, \<open>json.dumps\<close> spells the floats JSON does not have.\<close>

fun spell_float :: "pyfloat \<Rightarrow> pyfloat" where
  "spell_float FNaN = FRepr ''NaN''"
| "spell_float (FInf positive) = FRepr (if positive then ''Infinity'' else ''-Infinity'')"
| "spell_float (FRepr r) = FRepr r"

fun spell_floats :: "json \<Rightarrow> json" where
  "spell_floats (JFloat f) = JFloat (spell_float f)"
| "spell_floats (JList xs) = JList (map spell_floats xs)"
| "spell_floats (JObj kvs) = JObj (map (\<lambda>(k, v). (k, spell_floats v)) kvs)"
| "spell_floats j = j"

text \<open>\<open>json.dumps(payload, ensure_ascii=False, separators=(",", ":")).encode("utf-8")\<close>; \<open>None\<close> is the
  \<open>ValueError\<close> of an integer with too many digits.\<close>

definition compact_json :: "json \<Rightarrow> string option" where
  "compact_json j = map_option utf8_encode (dumps (spell_floats j))"

record http_response =
  hp_status :: nat
  hp_headers :: "(string \<times> string) list"
  hp_body :: string

definition CONTENT_SECURITY_POLICY :: string where
  "CONTENT_SECURITY_POLICY =
     ''default-src 'self'; script-src 'self'; style-src 'self'; connect-src 'self'; '' @
     ''img-src 'self' data:; base-uri 'none'; frame-ancestors 'none'; form-action 'self'' @ [CHR 0x27]"

text \<open>\<open>_send_bytes\<close>: the headers in their order, after those \<open>http.server\<close> adds itself.\<close>

definition send_bytes :: "nat \<Rightarrow> string \<Rightarrow> string \<Rightarrow> http_response" where
  "send_bytes st body ctype =
    \<lparr>hp_status = st,
     hp_headers =
      [(''Content-Type'', ctype), (''Content-Length'', nat_str (length body)), (''Cache-Control'', ''no-store''),
       (''Content-Security-Policy'', CONTENT_SECURITY_POLICY), (''Referrer-Policy'', ''no-referrer''),
       (''X-Content-Type-Options'', ''nosniff''), (''X-Frame-Options'', ''DENY''), (''Connection'', ''close'')],
     hp_body = body\<rparr>"

definition send_json :: "nat \<Rightarrow> json \<Rightarrow> http_response option" where
  "send_json st payload =
     map_option (\<lambda>body. send_bytes st body ''application/json; charset=utf-8'') (compact_json payload)"

text \<open>The response to a reply; \<open>None\<close>: an exception ends the handler and the connection closes without
  an answer.\<close>

definition respond :: "(rat \<Rightarrow> string) \<Rightarrow> reply \<Rightarrow> http_response option" where
  "respond fr r = (case r of
      Dropped \<Rightarrow> None
    | Reply st (FileContent ctype file) \<Rightarrow> Some (send_bytes st file ctype)
    | Reply st c \<Rightarrow> send_json st (content_json fr c))"

end
