(* ===== verification/Task_Round_Trip.thy ===== *)
theory Task_Round_Trip
  imports Ledger_Behaviour Node_Properties Http_Reply
begin

text \<open>
  The ledger and the node together: a task that a poll hands out passes the checks of the node, its
  execution gives a report, and the ledger accepts that report.  The JSON values in between travel
  unchanged.
\<close>

section \<open>Identifiers\<close>

text \<open>\<open>uuid4().hex\<close>: lower-case hexadecimal digits, more than the program takes.\<close>

definition hex_uuids :: "env \<Rightarrow> bool" where
  "hex_uuids e \<longleftrightarrow> (\<forall>n. 12 \<le> length (env_uuid e n) \<and> list_all (\<lambda>c. c \<in> set lower_hex) (env_uuid e n))"

definition hex_task_ids :: "lab_state \<Rightarrow> bool" where
  "hex_task_ids s \<longleftrightarrow> (hex_uuids (s_env s) \<longrightarrow> (\<forall>t\<in>set (vals (s_tasks s)).
     is_hex_identifier (JStr (t_id t)) ''task-'' 12 \<and> is_hex_identifier (JStr (t_correlation_id t)) ''corr-'' 12))"

lemma hex_identifier_append:
  "is_hex_identifier (JStr (p @ h)) p n \<longleftrightarrow> length h = n \<and> list_all (\<lambda>c. c \<in> set lower_hex) h"
  by (simp add: is_hex_identifier_def starts_with_def)

lemma hex_new_task:
  "hex_uuids (s_env s) \<Longrightarrow> is_hex_identifier (JStr (t_id (new_task q now s))) ''task-'' 12 \<and>
    is_hex_identifier (JStr (t_correlation_id (new_task q now s))) ''corr-'' 12"
  unfolding new_task_def node_task.select_convs hex_identifier_append uuid_hex_def
  by (auto simp: hex_uuids_def list_all_iff dest: in_set_takeD)

interpretation hex_ids: ledger_extra hex_task_ids
proof unfold_locales
  fix s tid t t'
  assume r: "records_ok s" and q: "hex_task_ids s" and t: "map_of (s_tasks s) tid = Some t" and l: "life_step s t t'"
  have "t \<in> set (vals (s_tasks s))" by (rule map_of_in_vals [OF t])
  moreover have "t_id t' = t_id t" "t_correlation_id t' = t_correlation_id t"
    using l life_identityD [of t t'] by (simp_all add: life_step_def)
  ultimately show "hex_task_ids (modify_task tid (\<lambda>_. t') s)"
    using q vals_dmod_some_subset [OF records_distinct_tasks [OF r] t, of t']
    unfolding hex_task_ids_def by (auto simp del: set_map)
next
  fix s q now assume "hex_task_ids s"
  then show "hex_task_ids (add_task (new_task q now s) s)"
    using vals_update_subset [of "t_id (new_task q now s)" "new_task q now s" "s_tasks s"] hex_new_task [of s q now]
    by (fastforce simp: hex_task_ids_def add_task_def simp del: set_map)
next
  fix s t assume "hex_task_ids s"
  then show "hex_task_ids ((remember_tombstone t s)\<lparr>s_tasks := AList.delete (t_id t) (s_tasks s)\<rparr>)"
    using vals_delete_subset [of "t_id t" "s_tasks s"]
    by (auto simp: hex_task_ids_def simp del: set_map)
qed (auto simp: hex_task_ids_def init_state_def cleared_def simp del: set_map)

section \<open>A running task survives the expiry pass\<close>

text \<open>The node may meanwhile be charged with other tasks that failed.\<close>

definition uncharged :: "node \<Rightarrow> node" where
  "uncharged n = n\<lparr>n_tasks_failed := 0\<rparr>"

lemma uncharged_failed [simp]: "uncharged (n\<lparr>n_tasks_failed := k\<rparr>) = uncharged n"
  by (simp add: uncharged_def)

lemma uncharged_fields:
  "uncharged n = uncharged m \<Longrightarrow> n_status n = n_status m \<and> n_last_seen_monotonic n = n_last_seen_monotonic m \<and>
    stale_after n = stale_after m \<and> identity_of n = identity_of m \<and>
    n_session_token n = n_session_token m"
  by (cases n; cases m) (simp add: uncharged_def stale_after_def identity_of_def)

definition awaited :: "rat \<Rightarrow> string \<Rightarrow> task \<Rightarrow> node \<Rightarrow> lab_state \<Rightarrow> bool" where
  "awaited now tid t n s \<longleftrightarrow> map_of (s_tasks s) tid = Some t \<and>
     (\<exists>m. map_of (s_nodes s) (t_node_id t) = Some m \<and> uncharged m = uncharged n) \<and>
     t_status t = Dispatched \<and> \<not> overdue now t \<and> n_status n = Online \<and>
     now - n_last_seen_monotonic n < stale_after n"

lemma awaited_node: "awaited now tid t n s \<Longrightarrow> map_of (s_nodes s) (t_node_id t) = Some m \<Longrightarrow>
    n_status m = Online \<and> now - n_last_seen_monotonic m < stale_after m"
  by (auto simp: awaited_def dest!: uncharged_fields)

lemma fail_other_node:
  "k \<noteq> t_node_id t \<Longrightarrow> awaited now tid t n s \<Longrightarrow> awaited now tid t n (fail_unfinished_task k r m j s)"
  by (auto simp: awaited_def fail_unfinished_task_def Let_def map_of_dmod split: option.split)

lemma awaited_fold: "awaited now tid t n s \<Longrightarrow> (\<And>j s. awaited now tid t n s \<Longrightarrow> awaited now tid t n (f j s)) \<Longrightarrow>
    awaited now tid t n (fold f js s)"
  by (induction js arbitrary: s) auto

lemma awaited_refresh: "awaited now tid t n s \<Longrightarrow> awaited now tid t n (refresh_exercises s)"
  by (simp add: awaited_def refresh_same_ledger)

lemma awaited_expire_node: "awaited now tid t n s \<Longrightarrow> awaited now tid t n (expire_node now k s)"
proof -
  assume a: "awaited now tid t n s"
  show ?thesis
  proof (cases "k = t_node_id t")
    case True
    then have m: "mark_stale now k s = s"
      using awaited_node [OF a] by (auto simp: mark_stale_def split: option.split)
    then have "expire_session now k s = s"
      using awaited_node [OF a] True by (auto simp: expire_session_def session_expired_def split: option.split)
    with a m show ?thesis by (simp add: expire_node_def)
  next
    case False
    have m: "awaited now tid t n (mark_stale now k s)"
      using a False by (auto simp: awaited_def mark_stale_def Let_def map_of_dmod split: option.split)
    have "awaited now tid t n (fail_unfinished_tasks k r e (mark_stale now k s))" for r e
      unfolding fail_unfinished_tasks_def by (intro awaited_refresh awaited_fold m fail_other_node [OF False])
    with m False show ?thesis
      by (auto simp: expire_node_def expire_session_def Let_def awaited_def map_of_dmod split: option.split)
  qed
qed

lemma expire_task_nodes:
  "map_option uncharged (map_of (s_nodes (expire_queued_task now j s)) k) = map_option uncharged (map_of (s_nodes s) k)"
  "map_option uncharged (map_of (s_nodes (expire_dispatched_task now j s)) k) = map_option uncharged (map_of (s_nodes s) k)"
  by (simp_all add: expire_queued_task_def expire_dispatched_task_def Let_def map_of_dmod option.map_comp comp_def
      split: option.split)

lemma awaited_expire: "awaited now tid t n s \<Longrightarrow> awaited now tid t n (expire_locked now s)"
proof -
  have kept: "awaited now tid t n s'" if "awaited now tid t n s" "map_of (s_tasks s') tid = Some t"
    "map_option uncharged (map_of (s_nodes s') (t_node_id t)) = map_option uncharged (map_of (s_nodes s) (t_node_id t))" for s s'
    using that by (auto simp: awaited_def)
  have "awaited now tid t n (expire_queued_task now j s)" if a: "awaited now tid t n s" for j s
    by (rule kept [OF a _ expire_task_nodes(1)]) (use a in \<open>simp add: awaited_def expire_queued_task_lookup\<close>)
  moreover have "awaited now tid t n (expire_dispatched_task now j s)" if a: "awaited now tid t n s" for j s
    by (rule kept [OF a _ expire_task_nodes(2)])
      (use a in \<open>auto simp: awaited_def expire_dispatched_task_lookup overdue_def\<close>)
  ultimately show "awaited now tid t n s \<Longrightarrow> ?thesis"
    unfolding expire_locked_def Let_def by (intro awaited_refresh awaited_fold awaited_expire_node)
qed

section \<open>From the poll to the accepted report\<close>

lemma note_poll_fields:
  "map_of (s_nodes s) nid = Some n0 \<Longrightarrow> \<exists>n. map_of (s_nodes (note_poll now nid n0 s)) nid = Some n \<and>
    n_status n = Online \<and> n_last_seen_monotonic n = now \<and> n_session_token n = n_session_token n0"
  by (simp add: note_poll_def Let_def)

definition handed :: "string \<Rightarrow> json \<Rightarrow> rat \<Rightarrow> node_task \<Rightarrow> lab_state \<Rightarrow> bool" where
  "handed nid tok now u s \<longleftrightarrow>
     (\<exists>t n. map_of (s_tasks s) (t_id u) = Some t \<and> u = project_node_task t \<and> t_status t = Dispatched \<and>
        t_node_id t = nid \<and> map_of (s_nodes s) nid = Some n \<and> n_status n = Online \<and>
        n_last_seen_monotonic n = now) \<and> authenticate_node (JStr nid) tok s"

lemma authenticate_cong:
  "map_option n_session_token (map_of (s_nodes s') nid) = map_option n_session_token (map_of (s_nodes s) nid) \<Longrightarrow>
   authenticate_node nj tok s \<Longrightarrow> nj = JStr nid \<Longrightarrow> authenticate_node nj tok s'"
  by (auto simp: authenticate_node_def split: option.splits json.splits)

lemma handed_tick: "handed nid tok now u s \<Longrightarrow> handed nid tok now u (tick s)"
  using authenticate_cong [of "tick s" nid s] by (auto simp: handed_def)

lemma handed_response:
  assumes "poll_response_for nid tid s = (Inr resp, s1)" and "pr_task resp = Some u"
    and "\<And>k t. tid = Some k \<Longrightarrow> map_of (s_tasks s) k = Some t \<Longrightarrow> handed nid tok now (project_node_task t) s"
  shows "handed nid tok now u s1"
  using assms by (fastforce simp: poll_response_for_def intro: handed_tick split: option.splits)

lemma redeliver_handed:
  assumes "map_of (s_tasks s) (t_id t) = Some t" and "t_status t = Dispatched" and "t_node_id t = nid"
    and "map_of (s_nodes s) nid = Some n" and "n_status n = Online" and "n_last_seen_monotonic n = now"
    and "authenticate_node (JStr nid) tok s" and "map_of (s_tasks (redeliver nid t s)) (t_id t) = Some t'"
  shows "handed nid tok now (project_node_task t') (redeliver nid t s)"
  using assms authenticate_cong [of "redeliver nid t s" nid s "JStr nid" tok]
  by (auto simp: handed_def redeliver_lookup project_node_task_def node_task.defs)

lemma dispatch_handed:
  assumes "map_of (s_tasks s) (t_id t) = Some t" and "t_node_id t = nid"
    and "map_of (s_nodes s) nid = Some n" and "n_status n = Online" and "n_last_seen_monotonic n = now"
    and "authenticate_node (JStr nid) tok s" and "map_of (s_tasks (dispatch now nid t s)) (t_id t) = Some t'"
  shows "handed nid tok now (project_node_task t') (dispatch now nid t s)"
  using assms authenticate_cong [of "dispatch now nid t s" nid s "JStr nid" tok]
  by (auto simp: handed_def dispatch_lookup project_node_task_def node_task.defs)

lemma poll_handed:
  assumes "records_ok s" and "poll_node (JStr nid) tok now s = (Inr resp, s1)" and "pr_task resp = Some u"
  shows "handed nid tok now u s1"
proof -
  let ?s = "expire_locked now s"
  obtain n where sess: "require_node_session (JStr nid) tok ?s = Inr (nid, n)"
    using assms(2) require_node_session_Inr by (fastforce simp: poll_node_def Let_def split: sum.splits prod.splits)
  have n: "map_of (s_nodes ?s) nid = Some n" using require_node_session_Inr [OF sess] by simp
  have auth: "authenticate_node (JStr nid) tok ?s"
    using sess by (simp add: require_node_session_def split: if_splits)
  let ?q = "note_poll now nid n ?s"
  obtain m where m: "map_of (s_nodes ?q) nid = Some m" "n_status m = Online" "n_last_seen_monotonic m = now"
    and tok: "n_session_token m = n_session_token n" using note_poll_fields [OF n] by blast
  have auth': "authenticate_node (JStr nid) tok ?q"
    by (rule authenticate_cong [OF _ auth]) (simp_all add: m n tok)
  have own: "map_of (s_tasks ?q) (t_id t) = Some t" if "t \<in> set (vals (s_tasks ?q))" for t
    using records_task_in [OF records.expire [OF assms(1)]] that by auto
  have none: "poll_response_for nid None r \<noteq> (Inr resp, s1)" for r
    using assms(3) by (auto simp: poll_response_for_def split: option.splits)
  have "\<not> n_tasking_paused n"
    using assms(2) none by (auto simp: poll_node_def Let_def sess)
  then have poll: "(case active_task nid ?q of
      Some active \<Rightarrow> poll_response_for nid (Some (t_id active)) (redeliver nid active ?q)
    | None \<Rightarrow> (case next_queued nid ?q of
        Some task \<Rightarrow> poll_response_for nid (Some (t_id task)) (dispatch now nid task ?q)
      | None \<Rightarrow> poll_response_for nid None ?q)) = (Inr resp, s1)"
    using assms(2) by (simp add: poll_node_def Let_def sess)
  show ?thesis
  proof (cases "active_task nid ?q")
    case (Some t)
    have "poll_response_for nid (Some (t_id t)) (redeliver nid t ?q) = (Inr resp, s1)" using poll Some by simp
    then show ?thesis
      by (rule handed_response [OF _ assms(3)])
        (use active_task_SomeD [OF Some] own redeliver_handed [OF _ _ _ m auth'] in auto)
  next
    case idle: None
    with poll none obtain t where t: "next_queued nid ?q = Some t"
      and "poll_response_for nid (Some (t_id t)) (dispatch now nid t ?q) = (Inr resp, s1)"
      by (cases "next_queued nid ?q") auto
    from this(2) show ?thesis
      by (rule handed_response [OF _ assms(3)])
        (use next_queued_Some [OF t] own dispatch_handed [OF _ _ m auth'] in auto)
  qed
qed

lemma awaited_submit:
  assumes "records_ok s" and "awaited now tid t n s" and "authenticate_node (JStr (t_node_id t)) tok s"
    and "validate_task_result (t_type t) (t_payload t) (JStr ''completed'') (JObj r) (Some (identity_of n)) = Inr (Completed, r)"
  shows "\<exists>out s'. submit_result (JStr (t_node_id t)) tok (JStr tid) (JStr ''completed'') (JObj r) now s = (Inr out, s') \<and>
    t_status out = Completed \<and> t_result out = Some r \<and>
    (\<exists>t'. map_of (s_tasks s') tid = Some t' \<and> out = project_node_task t')"
proof -
  let ?s = "expire_locked now s"
  have a: "awaited now tid t n ?s" by (rule awaited_expire [OF assms(2)])
  obtain m0 where m0: "map_of (s_nodes s) (t_node_id t) = Some m0" "uncharged m0 = uncharged n"
    using assms(2) by (auto simp: awaited_def)
  obtain m where t: "map_of (s_tasks ?s) tid = Some t" and st: "t_status t = Dispatched"
    and m: "map_of (s_nodes ?s) (t_node_id t) = Some m" "uncharged m = uncharged n"
    using a by (auto simp: awaited_def)
  have id: "t_id t = tid" using records_task [OF records.expire [OF assms(1)] t] by simp
  have "n_session_token m = n_session_token m0" "identity_of m = identity_of n"
    using uncharged_fields m(2) m0(2) by metis+
  then have sess: "require_node_session (JStr (t_node_id t)) tok ?s = Inr (t_node_id t, m)"
    and ident: "identity_of m = identity_of n"
    using authenticate_cong [OF _ assms(3) refl, of ?s] m(1) m0(1) by (simp_all add: require_node_session_def)
  obtain r0 where v: "validate_result (JStr ''completed'') (JObj r) = Inr (Completed, r0)"
    using assms(4) by (auto simp: validate_task_result_Inr)
  have "result_record tid ?s = Some (project_node_task t)" by (simp add: result_record_def t)
  then have "submit_result (JStr (t_node_id t)) tok (JStr tid) (JStr ''completed'') (JObj r) now s =
      submit_to_task now (t_node_id t) m t (JStr ''completed'') (JObj r) Completed r0 ?s"
    by (simp add: submit_result_def Let_def sess submit_locked_def v t project_node_task_def node_task.defs)
  also have "\<dots> = (Inr (project_node_task (t\<lparr>t_status := Completed, t_result := Some r, t_result_accepted := True,
      t_completed_at := Some (utc_now ?s), t_deadline := None\<rparr>)), accept_result now (t_node_id t) t Completed r ?s)"
    using accept_lookup [of now "t_node_id t" t Completed r ?s] t
    by (simp add: submit_to_task_def st ident assms(4) Let_def id)
  finally show ?thesis using accept_lookup [of now "t_node_id t" t Completed r ?s] t
    by (simp add: project_node_task_def node_task.defs id)
qed

lemma task_completes:
  assumes "reachable s" and "hex_uuids (s_env s)"
    and "poll_node (JStr nid) tok now s = (Inr resp, s1)" and "pr_task resp = Some u"
    and "map_of (s_tasks s1) (t_id u) = Some t" and "\<not> overdue now3 t"
    and "map_of (s_nodes s1) nid = Some n" and "now3 < now + NODE_STALE_SECONDS"
    and "cl_node_id c = Some nid" and "executor_fit ex" and "within_counters now2 ex"
    and "executor_identity ex = identity_of n" and "t_type t \<in> set (NODE_PROFILES (ex_profile ex))"
  shows "check_envelope c (JObj (node_task_json u)) = Inr () \<and>
    (\<exists>r ex' out s2. execute_task (JObj (node_task_json u)) now2 ex = ((''completed'', JObj r), ex') \<and> executor_fit ex' \<and>
      submit_result (JStr nid) tok (JStr (t_id u)) (JStr ''completed'') (JObj r) now3 s1 = (Inr out, s2) \<and>
      t_status out = Completed \<and> t_result out = Some r \<and>
      (\<exists>t'. map_of (s_tasks s2) (t_id u) = Some t' \<and> out = project_node_task t') \<and>
      validate_result (JStr ''completed'') (JObj r) = Inr (Completed, r)) \<and>
    is_hex_identifier (JStr (t_id u)) ''task-'' 12 \<and> t_result u = None \<and> authenticate_node (JStr nid) tok s1 \<and>
    t_type u = t_type t \<and> (\<exists>p. validate_task_payload (get_key (node_task_json u) ''type'') (get_key (node_task_json u) ''payload'') =
      Inr (t_type t, p))"
proof -
  have rec: "records_ok s" by (rule records_reachable [OF assms(1)])
  have s1: "s1 = run_op (Poll (JStr nid) tok now) s" by (simp add: assms(3))
  have reach: "reachable s1" unfolding s1 by (rule reachable_run_op [OF assms(1)])
  have rec1: "records_ok s1" by (rule records_reachable [OF reach])
  have h: "u = project_node_task t" "t_status t = Dispatched" "t_node_id t = nid" "n_status n = Online"
    "n_last_seen_monotonic n = now" and auth: "authenticate_node (JStr nid) tok s1"
    using poll_handed [OF rec assms(3,4)] assms(5,7) by (auto simp: handed_def)
  have u: "t_id u = t_id t" "t_correlation_id u = t_correlation_id t" "t_node_id u = nid" "t_type u = t_type t"
    "t_payload u = t_payload t" "t_status u = Dispatched"
    by (simp_all add: h project_node_task_def node_task.defs)
  have ok: "payload_ok (t_type t) (t_payload t)" using records_task [OF rec1 assms(5)] by (simp add: task_wf_def)
  have keys: "get_key (node_task_json u) ''type'' = JStr (task_type_str (t_type t))"
    "get_key (node_task_json u) ''payload'' = JObj (payload_json (t_payload t))"
    "get_key (node_task_json u) ''id'' = JStr (t_id t)" "get_key (node_task_json u) ''correlation_id'' = JStr (t_correlation_id t)"
    "get_key (node_task_json u) ''node_id'' = JStr nid" "get_key (node_task_json u) ''status'' = JStr ''dispatched''"
    by (simp_all add: get_key_def node_task_json_def u)
  have valid: "validate_task_payload (get_key (node_task_json u) ''type'') (get_key (node_task_json u) ''payload'') =
      Inr (t_type t, t_payload t)"
    unfolding keys by (rule validate_task_payload_json [OF ok])
  have "s_env s1 = s_env s" unfolding s1 by (rule run_op_env [OF assms(1)]) simp
  then have hex: "is_hex_identifier (JStr (t_id t)) ''task-'' 12 \<and> is_hex_identifier (JStr (t_correlation_id t)) ''corr-'' 12"
    using hex_ids.always [OF reach] assms(2) map_of_in_vals [OF assms(5)] by (simp add: hex_task_ids_def del: set_map)
  then have env: "check_envelope c (JObj (node_task_json u)) = Inr ()"
    using valid hex by (simp add: check_envelope_def keys assms(9))
  have none: "t_result u = None"
    using records_task [OF rec1 assms(5)] h(2) by (simp add: h(1) project_node_task_def node_task.defs task_wf_def unfinished_def)
  have aw: "awaited now3 (t_id u) t n s1"
    using assms(5-8) h by (auto simp: awaited_def stale_after_def)
  obtain r ex' where e: "execute_task (JObj (node_task_json u)) now2 ex = ((''completed'', JObj r), ex')" "executor_fit ex'"
    "validate_task_result (t_type t) (t_payload t) (JStr ''completed'') (JObj r) (Some (identity_of n)) = Inr (Completed, r)"
    using execute_accepted [OF assms(10,11) valid assms(13)] assms(12) by auto
  obtain out s2 t' where "submit_result (JStr nid) tok (JStr (t_id u)) (JStr ''completed'') (JObj r) now3 s1 = (Inr out, s2)"
    "t_status out = Completed" "t_result out = Some r" "map_of (s_tasks s2) (t_id u) = Some t'" "out = project_node_task t'"
    using awaited_submit [OF rec1 aw _ e(3), of tok] auth h(3) by auto
  moreover have "validate_result (JStr ''completed'') (JObj r) = Inr (Completed, r)"
    using e(3) by (auto simp: validate_task_result_Inr validate_result_Inr)
  ultimately show ?thesis using env e(1,2) none auth hex u(1,4) valid by auto
qed

text \<open>A task that a poll hands out goes all the way.  The envelope passes the checks of the node,
  the node answers it with \<open>completed\<close>, and the ledger accepts that report as the result of the task,
  unless the deadline of the task or the silence of the node came first.\<close>

theorem task_completes_end_to_end:
  assumes "reachable s" and "hex_uuids (s_env s)"
    and "poll_node (JStr nid) tok now s = (Inr resp, s1)" and "pr_task resp = Some u"
    and "map_of (s_tasks s1) (t_id u) = Some t" and "\<not> overdue now3 t"
    and "map_of (s_nodes s1) nid = Some n" and "now3 < now + NODE_STALE_SECONDS"
    and "cl_node_id c = Some nid" and "executor_fit ex" and "within_counters now2 ex"
    and "executor_identity ex = identity_of n" and "t_type t \<in> set (NODE_PROFILES (ex_profile ex))"
  shows "check_envelope c (JObj (node_task_json u)) = Inr () \<and>
    (\<exists>r ex' out s2. execute_task (JObj (node_task_json u)) now2 ex = ((''completed'', JObj r), ex') \<and> executor_fit ex' \<and>
      submit_result (JStr nid) tok (JStr (t_id u)) (JStr ''completed'') (JObj r) now3 s1 = (Inr out, s2) \<and>
      t_status out = Completed \<and> t_result out = Some r)"
  using task_completes [OF assms] by blast

lemma digit_hex: "is_digit c \<Longrightarrow> c \<in> set lower_hex"
proof -
  assume "is_digit c"
  then have "code c = 48 \<or> code c = 49 \<or> code c = 50 \<or> code c = 51 \<or> code c = 52 \<or>
      code c = 53 \<or> code c = 54 \<or> code c = 55 \<or> code c = 56 \<or> code c = 57"
    unfolding is_digit_def by arith
  moreover have "c = char_of (code c)" by simp
  ultimately show ?thesis by (elim disjE) (simp_all add: lower_hex_def char_of_def bit_0)
qed

lemma hex_demo: "hex_uuids demo_env"
proof -
  have "list_all (\<lambda>c. c \<in> set lower_hex) (nat_str n)" for n
    using digits_nat_str [of n] digit_hex by (auto simp: list_all_iff simp del: nat_str.simps)
  moreover have "list_all (\<lambda>c. c \<in> set lower_hex) (replicate k (CHR ''0''))" for k
    by (simp add: list_all_iff lower_hex_def)
  moreover have "list_all (\<lambda>c. c \<in> set lower_hex) ''ab''" "list_all (\<lambda>c. c \<in> set lower_hex) ''ffffffffffff''"
    by (simp_all add: lower_hex_def)
  ultimately have "list_all (\<lambda>c. c \<in> set lower_hex) (demo_uuid n)" for n
    unfolding demo_uuid_def pad_nat_def by (simp only: list_all_append simp_thms split: if_split)
  moreover have "12 \<le> length (demo_uuid n)" for n
    by (auto simp: demo_uuid_def pad_nat_def simp del: nat_str.simps)
  ultimately have "12 \<le> length (demo_uuid n) \<and> list_all (\<lambda>c. c \<in> set lower_hex) (demo_uuid n)" for n by blast
  then show ?thesis by (simp add: hex_uuids_def demo_env_def del: nat_str.simps)
qed

definition demo_serving :: "workspace \<Rightarrow> executor" where
  "demo_serving w = \<lparr>ex_version = ''1.0'', ex_profile = Purple_lab, ex_poll_interval_ms = 1000, ex_jitter_percent = 10,
     ex_started = 0, ex_tasks_completed = 0, ex_workspace = Some w\<rparr>"

lemma demo_serving_fit:
  "ws_holds w (False, False) \<Longrightarrow> executor_fit (demo_serving w) \<and> within_counters 2 (demo_serving w) \<and>
     executor_identity (demo_serving w) =
       \<lparr>ri_version = ''1.0'', ri_profile = Purple_lab, ri_poll_interval_ms = 1000, ri_jitter_percent = 10\<rparr>"
proof -
  have "clean_text (JStr ''1.0'') ''version'' 1 32 = Inr ''1.0''" by code_simp
  then show "ws_holds w (False, False) \<Longrightarrow> ?thesis"
    by (auto simp: executor_fit_def within_counters_def executor_identity_def demo_serving_def protocol_bounds
        MAX_SAFE_INTEGER_def MAX_TASKS_COMPLETED_def)
qed

definition demo_client_enrolled :: client where
  "demo_client_enrolled = \<lparr>cl_controller_url = ''http://127.0.0.1:8765'', cl_enrollment_token = ''0123456789abcdef'',
     cl_node_id = Some demo_node, cl_session_token = Some demo_token\<rparr>"

lemma demo_polled:
  "\<exists>resp s1 u t n. poll_node (JStr demo_node) (JStr demo_token) 2 demo_queued = (Inr resp, s1) \<and> pr_task resp = Some u \<and>
     map_of (s_tasks s1) (t_id u) = Some t \<and> \<not> overdue 3 t \<and> t_type t = PING \<and> map_of (s_nodes s1) demo_node = Some n \<and>
     identity_of n = \<lparr>ri_version = ''1.0'', ri_profile = Purple_lab, ri_poll_interval_ms = 1000, ri_jitter_percent = 10\<rparr>"
proof -
  have "case poll_node (JStr demo_node) (JStr demo_token) 2 demo_queued of (Inl _, _) \<Rightarrow> False | (Inr resp, s1) \<Rightarrow>
      (case pr_task resp of None \<Rightarrow> False | Some u \<Rightarrow>
      (case map_of (s_tasks s1) (t_id u) of None \<Rightarrow> False | Some t \<Rightarrow>
      (case map_of (s_nodes s1) demo_node of None \<Rightarrow> False | Some n \<Rightarrow>
        t_status t = Dispatched \<and> t_type t = PING \<and> (case t_deadline t of None \<Rightarrow> False | Some d \<Rightarrow> 3 < d) \<and>
        n_version n = ''1.0'' \<and> n_profile n = Purple_lab \<and> n_poll_interval_ms n = 1000 \<and> n_jitter_percent n = 10)))"
    by code_simp
  then show ?thesis by (auto simp: overdue_def identity_of_def split: prod.splits sum.splits option.splits)
qed

theorem task_completes_end_to_end_witness:
  "\<exists>u s1 r out s2. check_envelope demo_client_enrolled (JObj (node_task_json u)) = Inr () \<and>
     submit_result (JStr demo_node) (JStr demo_token) (JStr (t_id u)) (JStr ''completed'') (JObj r) 3 s1 = (Inr out, s2) \<and>
     t_status out = Completed"
proof -
  obtain w where w: "ws_holds w (False, False)" using open_holds [OF demo_names_ok] by blast
  note fit = demo_serving_fit [OF w]
  obtain resp s1 u t n where d: "poll_node (JStr demo_node) (JStr demo_token) 2 demo_queued = (Inr resp, s1)"
    "pr_task resp = Some u" "map_of (s_tasks s1) (t_id u) = Some t" "\<not> overdue 3 t" "t_type t = PING"
    "map_of (s_nodes s1) demo_node = Some n"
    "identity_of n = \<lparr>ri_version = ''1.0'', ri_profile = Purple_lab, ri_poll_interval_ms = 1000, ri_jitter_percent = 10\<rparr>"
    using demo_polled by blast
  have "hex_uuids (s_env demo_queued)" by (simp add: demo_env_kept hex_demo)
  moreover have "t_type t \<in> set (NODE_PROFILES (ex_profile (demo_serving w)))"
    by (simp add: d(5) demo_serving_def TASK_TYPES_def TRAINING_TASK_TYPES_def)
  moreover have "cl_node_id demo_client_enrolled = Some demo_node" "3 < 2 + NODE_STALE_SECONDS"
    by (simp_all add: NODE_STALE_SECONDS_def demo_client_enrolled_def)
  ultimately have "check_envelope demo_client_enrolled (JObj (node_task_json u)) = Inr () \<and>
    (\<exists>r ex' out s2. execute_task (JObj (node_task_json u)) 2 (demo_serving w) = ((''completed'', JObj r), ex') \<and> executor_fit ex' \<and>
      submit_result (JStr demo_node) (JStr demo_token) (JStr (t_id u)) (JStr ''completed'') (JObj r) 3 s1 = (Inr out, s2) \<and>
      t_status out = Completed \<and> t_result out = Some r)"
    using fit d(7) by (intro task_completes_end_to_end [OF demo_reachable(3) _ d(1-4,6)]) simp_all
  then show ?thesis by blast
qed

end
