(* ===== verification/Exercise_Properties.thy ===== *)
theory Exercise_Properties
  imports Core_Demo
begin

text \<open>
  Exercises: what holds of every exercise record in every reachable state, how a record moves, what a
  refresh detects, and what containment does to the ledger.
\<close>

section \<open>A started exercise\<close>

lemma queue_scenario_step_keeps:
  "x_id (fst (queue_scenario_step nid act now p xs)) = x_id (fst xs) \<and>
   x_status (fst (queue_scenario_step nid act now p xs)) = x_status (fst xs) \<and>
   s_draws (snd xs) \<le> s_draws (snd (queue_scenario_step nid act now p xs))"
  by (cases xs) (simp add: queue_scenario_step_def append_exercise_timeline_def Let_def add_task_def log_queued_def
      record_event_def record_audit_def tick_def)

lemma queue_scenario_steps_keep:
  "x_id (fst (fold (queue_scenario_step nid act now) ps xs)) = x_id (fst xs) \<and>
   x_status (fst (fold (queue_scenario_step nid act now) ps xs)) = x_status (fst xs) \<and>
   s_draws (snd xs) \<le> s_draws (snd (fold (queue_scenario_step nid act now) ps xs))"
proof (induction ps arbitrary: xs)
  case (Cons p ps)
  from Cons [of "queue_scenario_step nid act now p xs"] queue_scenario_step_keeps [of nid act now p xs]
  show ?case by simp
qed simp

lemma create_exercise_stored:
  assumes "create_exercise d nid act key now s = (x, s')"
  shows "map_of (s_exercises s') (''exercise-'' @ uuid_hex 12 s) = Some x \<and> x_status x = XRunning \<and> s_draws s < s_draws s'"
proof -
  let ?xs = "append_exercise_timeline (timeline_of ''prepare'' ''exercise.started'' (sc_title d))
    (new_exercise d nid act s, tick s)"
  obtain y t where y: "fold (queue_scenario_step nid act now) (sc_playbooks d) ?xs = (y, t)" by fastforce
  have "x_id (fst ?xs) = ''exercise-'' @ uuid_hex 12 s \<and> x_status (fst ?xs) = XRunning \<and> s_draws s < s_draws (snd ?xs)"
    by (simp add: append_exercise_timeline_def new_exercise_def tick_def)
  with queue_scenario_steps_keep [of nid act now "sc_playbooks d" ?xs] y
  have "x_id y = ''exercise-'' @ uuid_hex 12 s" "x_status y = XRunning" "s_draws s < s_draws t" by simp_all
  with assms y show ?thesis
    by (auto simp: create_exercise_def Let_def log_started_def record_event_def record_audit_def tick_def update_conv'
        split: option.splits)
qed

lemma demo_ready:
  "admit_exercise demo_node 2 demo_enrolled = Inr ()" "length (s_tasks demo_enrolled) = 0"
  "map_of (s_exercise_idem demo_enrolled) ''exercise-key-1'' = None" "s_draws demo_enrolled = 3"
  by code_simp+

lemma demo_exercise:
  "\<exists>x. map_of (s_exercises demo_started) demo_xid = Some x \<and> x_status x = XRunning" "exercise_id_settled demo_xid demo_started"
proof -
  obtain x s' where c: "create_exercise DISCOVERY_COLLECTION demo_node ''operator'' (Some ''exercise-key-1'') 1 demo_enrolled = (x, s')"
    by fastforce
  have "scenario_definition ''DISCOVERY_COLLECTION'' = Some DISCOVERY_COLLECTION"
    by (simp add: scenario_definition_def SCENARIOS_def)
  moreover have "validate_operator_actor (JStr ''operator'') = Inr ''operator''"
    "validate_idempotency_key (JStr ''exercise-key-1'') = Inr (Some ''exercise-key-1'')" by code_simp+
  moreover have "length (sc_playbooks DISCOVERY_COLLECTION) = 2" by (simp add: DISCOVERY_COLLECTION_def)
  moreover have "make_task_slots 2 demo_enrolled = Inr demo_enrolled"
    using demo_ready(2) by (simp add: make_task_slots_def MAX_TASKS_def)
  ultimately have "demo_started = s'"
    using demo_ready c by (simp add: demo_started_def demo_start_exercise_def start_exercise_def exercise_locked_def)
  moreover have "''exercise-'' @ uuid_hex 12 demo_enrolled = demo_xid"
  proof -
    have "''exercise-'' @ take 12 (demo_uuid 3) = demo_xid" by code_simp
    then show ?thesis by (simp add: uuid_hex_def demo_ready(4) demo_env_kept demo_env_def)
  qed
  ultimately have d: "map_of (s_exercises demo_started) demo_xid = Some x" "x_status x = XRunning" "4 \<le> s_draws demo_started"
    using create_exercise_stored [OF c] demo_ready(4) by auto
  then show "\<exists>x. map_of (s_exercises demo_started) demo_xid = Some x \<and> x_status x = XRunning" by blast
  have "list_all (\<lambda>n. ''exercise-'' @ take 12 (demo_uuid n) \<noteq> demo_xid) [4..<100]" by code_simp
  then have few: "''exercise-'' @ take 12 (demo_uuid n) \<noteq> demo_xid" if "4 \<le> n" "n < 100" for n
    using that by (simp only: list_all_iff set_upt atLeastLessThan_iff simp_thms)
  have "''exercise-'' @ take 12 (demo_uuid n) \<noteq> demo_xid" if "4 \<le> n" for n
    using few [OF that] by (cases "n < 100") (simp_all add: demo_uuid_def [of n] demo_xid_def)
  moreover have "s_env demo_started = demo_env"
    unfolding demo_started_def by (subst run_op_env) (simp_all add: demo_reachable demo_env_kept demo_start_exercise_def)
  ultimately show "exercise_id_settled demo_xid demo_started"
    using d(3) by (simp add: exercise_id_settled_def demo_env_def)
qed

section \<open>Invariant and history\<close>

text \<open>C13: In every reachable state the record of an exercise is consistent.  Its timeline is bounded and
  numbered without gap.  Every alert is one of the detection rules of its own scenario, raised once, for
  one of its own tasks; the exercise counts as detected exactly when it has an alert.  It has a completion
  time exactly when it no longer runs; containment is applied exactly when its status says so, and then
  every alert is contained, and otherwise every alert is open.\<close>

theorem reachable_exercise_ok:
  assumes "reachable s" and "map_of (s_exercises s) xid = Some x"
  shows "x_id x = xid \<and> length (x_timeline x) \<le> MAX_EXERCISE_TIMELINE \<and>
    map tl_sequence (x_timeline x) = [1..<Suc (length (x_timeline x))] \<and>
    distinct (map al_rule_id (x_alerts x)) \<and>
    (\<forall>al\<in>set (x_alerts x). al_task_id al \<in> set (x_task_ids x) \<and> rule_of_scenario (x_scenario_id x) al \<and>
       al_status al = (if x_status x = XContained then AlertContained else AlertOpen)) \<and>
    (x_detection_status x = Detected \<longleftrightarrow> x_alerts x \<noteq> []) \<and>
    (x_completed_at x = None \<longleftrightarrow> x_status x = XRunning) \<and>
    (ct_applied (x_containment x) \<longleftrightarrow> x_status x = XContained) \<and>
    (x_status x = XContained \<longrightarrow> x_alerts x \<noteq> [] \<and> ct_action (x_containment x) \<noteq> None)"
proof -
  have "x_id x = xid" and "exercise_ok x"
    using records_exercise [OF records_reachable [OF assms(1)] assms(2)] by simp_all
  then show ?thesis by (auto simp: exercise_ok_defs)
qed

theorem reachable_exercise_ok_witness:
  "\<exists>x. map_of (s_exercises demo_started) demo_xid = Some x \<and> x_id x = demo_xid \<and>
     map tl_sequence (x_timeline x) = [1..<Suc (length (x_timeline x))] \<and> x_completed_at x = None"
proof -
  obtain x where x: "map_of (s_exercises demo_started) demo_xid = Some x" "x_status x = XRunning"
    using demo_exercise(1) by blast
  from reachable_exercise_ok [OF demo_exercise_reachable(1) x(1)] x show ?thesis by blast
qed

text \<open>C14: Whatever follows (short of a reset), the record of an exercise stays and only moves forward: its
  identity, scenario and tasks do not change, its timeline and its alerts are only extended, a completion
  time once set stays, and a contained exercise stays contained, by the same action, with the same alerts.
  The identifier of the exercise must not be drawn again by \<open>uuid4\<close>.\<close>

theorem exercise_moves_forward:
  assumes "reachable s" and "map_of (s_exercises s) xid = Some x" and "exercise_id_settled xid s" and "no_reset ops"
  shows "\<exists>y. map_of (s_exercises (run_ops ops s)) xid = Some y \<and> same_exercise x y \<and>
    prefix (x_timeline x) (x_timeline y) \<and> prefix (map al_rule_id (x_alerts x)) (map al_rule_id (x_alerts y)) \<and>
    (x_completed_at x \<noteq> None \<longrightarrow> x_completed_at y = x_completed_at x) \<and>
    (x_status y = XRunning \<longrightarrow> x_status x = XRunning) \<and>
    (x_status x = XContained \<longrightarrow> x_status y = XContained \<and> x_containment y = x_containment x \<and> x_alerts y = x_alerts x)"
proof -
  have "records_ok s \<and> exercise_history s xid x s"
    using records_reachable [OF assms(1)] assms(2) by (simp add: exercise_history_def)
  from exercises_over_time.run_preserves [OF this assms(4)] assms(3) obtain y where
    "map_of (s_exercises (run_ops ops s)) xid = Some y" "exercise_rel x y" by (auto simp: exercise_history_def)
  then show ?thesis using exercise_relD [of x y] by blast
qed

theorem exercise_moves_forward_witness:
  "\<exists>x y. map_of (s_exercises demo_started) demo_xid = Some x \<and>
     map_of (s_exercises (run_ops [demo_poll, demo_report] demo_started)) demo_xid = Some y \<and>
     same_exercise x y \<and> prefix (x_timeline x) (x_timeline y)"
proof -
  obtain x where x: "map_of (s_exercises demo_started) demo_xid = Some x" using demo_exercise(1) by blast
  have "no_reset [demo_poll, demo_report]" by (simp add: no_reset_def demo_poll_def demo_report_def)
  from exercise_moves_forward [OF demo_exercise_reachable(1) x demo_exercise(2) this] x show ?thesis by blast
qed

section \<open>Detection\<close>

lemma append_timeline_keeps:
  "append_exercise_timeline a (x, s) = (y, t) \<Longrightarrow> x_alerts y = x_alerts x \<and> x_observed_task_ids y = x_observed_task_ids x \<and>
     x_scenario_id y = x_scenario_id x \<and> x_task_ids y = x_task_ids x \<and> x_status y = x_status x \<and>
     x_completion_recorded y = x_completion_recorded x \<and> x_node_id y = x_node_id x \<and>
     s_tasks t = s_tasks s \<and> s_nodes t = s_nodes s \<and> s_exercises t = s_exercises s"
  by (auto simp: append_exercise_timeline_def split: if_splits)

text \<open>A step that raises alerts for the rules \<open>R\<close> and leaves alone the rest of what is found.\<close>

definition raises :: "string set \<Rightarrow> exercise \<times> lab_state \<Rightarrow> exercise \<times> lab_state \<Rightarrow> bool" where
  "raises R xs ys \<longleftrightarrow> al_rule_id ` set (x_alerts (fst ys)) = al_rule_id ` set (x_alerts (fst xs)) \<union> R \<and>
     x_observed_task_ids (fst ys) = x_observed_task_ids (fst xs) \<and> x_scenario_id (fst ys) = x_scenario_id (fst xs) \<and>
     x_task_ids (fst ys) = x_task_ids (fst xs) \<and> x_status (fst ys) = x_status (fst xs) \<and>
     x_completion_recorded (fst ys) = x_completion_recorded (fst xs) \<and> s_tasks (snd ys) = s_tasks (snd xs)"

lemma raises_none [simp]: "raises {} xs xs"
  by (simp add: raises_def)

lemma raises_trans: "raises R xs ys \<Longrightarrow> raises Q ys zs \<Longrightarrow> raises (R \<union> Q) xs zs"
  by (simp add: raises_def Un_assoc)

lemma raises_timeline: "raises {} xs (append_exercise_timeline a xs)"
  by (cases xs) (auto simp: raises_def append_exercise_timeline_def)

lemma raises_evidence: "raises {} xs (append_exercise_task_evidence t xs)"
proof -
  have "raises {} ys (observe_technique t i ys)" for i ys
    by (simp add: observe_technique_def raises_timeline)
  then have h: "raises {} ys (fold (observe_technique t) is ys)" for "is" ys
  proof (induction "is" arbitrary: ys)
    case (Cons i "is")
    have "raises {} ys (observe_technique t i ys)" by fact
    from raises_trans [OF this, of "{}"] Cons.IH [OF Cons.prems] show ?case by simp
  qed simp
  have "raises {} xs (fold (observe_technique t) is (append_exercise_timeline a xs))" for a "is"
    using raises_trans [OF raises_timeline [of xs a] h] by simp
  then show ?thesis using raises_timeline by (simp add: append_exercise_task_evidence_def Let_def)
qed

lemma raises_alert: "raises {dr_id r} xs (raise_alert tid r xs)"
proof -
  obtain x s where xs: "xs = (x, s)" by (cases xs)
  show ?thesis
  proof (cases "list_ex (\<lambda>al. al_rule_id al = dr_id r) (x_alerts x)")
    case True
    then have "dr_id r \<in> al_rule_id ` set (x_alerts x)" by (force simp: list_ex_iff)
    with True show ?thesis by (auto simp: xs raises_def raise_alert_def)
  next
    case False
    let ?y = "x\<lparr>x_alerts := x_alerts x @ [new_alert r tid s], x_detection_status := Detected\<rparr>"
    let ?a = "(timeline_of ''detect'' ''detection.matched'' (dr_name r))
      \<lparr>ta_task_id := Some tid, ta_rule_id := Some (dr_id r), ta_technique_id := Some (dr_technique_id r)\<rparr>"
    obtain z u where z: "append_exercise_timeline ?a (?y, tick s) = (z, u)" by fastforce
    from append_timeline_keeps [OF z] z False show ?thesis
      by (auto simp: xs raises_def raise_alert_def Let_def new_alert_def)
  qed
qed

lemma raises_fold: "raises (dr_id ` set rs) xs (fold (raise_alert tid) rs xs)"
proof (induction rs arbitrary: xs)
  case (Cons r rs)
  from raises_trans [OF raises_alert Cons] show ?case by simp
qed simp

text \<open>What one task gives: the rules for a task that is newly found completed.\<close>

definition newly_matched :: "lab_state \<Rightarrow> exercise \<Rightarrow> string \<Rightarrow> string set" where
  "newly_matched s x tid = (case newly_terminal s x tid of
      None \<Rightarrow> {}
    | Some t \<Rightarrow> if t_status t = Completed then dr_id ` set (rules_for x t) else {})"

lemma rules_for_scenario: "x_scenario_id y = x_scenario_id x \<Longrightarrow> rules_for y t = rules_for x t"
  by (simp add: rules_for_def cong: option.case_cong)

lemma observe_task_raises:
  assumes "newly_terminal s x tid = Some t"
  shows "raises (newly_matched s x tid) (mark_observed tid x, s) (observe_task tid (x, s))"
proof -
  let ?ys = "append_exercise_task_evidence t (mark_observed tid x, s)"
  have "raises (dr_id ` set (rules_for x t)) (mark_observed tid x, s) (fold (raise_alert tid) (rules_for x t) ?ys)"
    using raises_trans [OF raises_evidence raises_fold] by simp
  with raises_evidence [of "(mark_observed tid x, s)" t] show ?thesis
    by (simp add: observe_task_def assms newly_matched_def Let_def)
qed

definition findings :: "string list \<Rightarrow> exercise \<times> lab_state \<Rightarrow> exercise \<times> lab_state \<Rightarrow> bool" where
  "findings ids xs ys \<longleftrightarrow> (case (xs, ys) of ((x, s), (y, t)) \<Rightarrow>
     al_rule_id ` set (x_alerts y) = al_rule_id ` set (x_alerts x) \<union> (\<Union>tid\<in>set ids. newly_matched s x tid) \<and>
     set (x_observed_task_ids y) = set (x_observed_task_ids x) \<union> {tid \<in> set ids. newly_terminal s x tid \<noteq> None} \<and>
     x_scenario_id y = x_scenario_id x \<and> x_task_ids y = x_task_ids x \<and> x_status y = x_status x \<and>
     x_completion_recorded y = x_completion_recorded x \<and> s_tasks t = s_tasks s)"

lemma observe_task_findings: "findings [tid] xs (observe_task tid xs)"
proof -
  obtain x s where xs: "xs = (x, s)" by (cases xs)
  obtain y t where y: "observe_task tid (x, s) = (y, t)" by fastforce
  show ?thesis
  proof (cases "newly_terminal s x tid")
    case None
    then show ?thesis by (auto simp: xs findings_def observe_task_def newly_matched_def)
  next
    case (Some u)
    from observe_task_raises [OF Some] y Some show ?thesis
      by (auto simp: xs findings_def raises_def mark_observed_def)
  qed
qed

lemma newly_terminal_later:
  "x_scenario_id y = x_scenario_id x \<Longrightarrow> s_tasks t = s_tasks s \<Longrightarrow>
   set (x_observed_task_ids y) = set (x_observed_task_ids x) \<union> M \<Longrightarrow>
   newly_terminal t y tid = (if tid \<in> M then None else newly_terminal s x tid)"
  by (auto simp: newly_terminal_def)

lemma findings_fold: "findings ids xs (fold observe_task ids xs)"
proof (induction ids arbitrary: xs)
  case Nil
  show ?case by (cases xs) (simp add: findings_def)
next
  case (Cons tid ids)
  obtain x s where xs: "xs = (x, s)" by (cases xs)
  obtain y t where y: "observe_task tid (x, s) = (y, t)" by fastforce
  obtain z u where z: "fold observe_task ids (y, t) = (z, u)" by fastforce
  have f: "findings [tid] (x, s) (y, t)" using observe_task_findings [of tid "(x, s)"] y by simp
  have g: "findings ids (y, t) (z, u)" using Cons [of "(y, t)"] z by simp
  have n: "newly_terminal t y i = (if i = tid then None else newly_terminal s x i)" for i
    using f newly_terminal_later [of y x t s "{i \<in> {tid}. newly_terminal s x i \<noteq> None}" i]
    by (auto simp: findings_def)
  then have m: "newly_matched t y i = (if i = tid then {} else newly_matched s x i)" for i
    using f rules_for_scenario [of y x] by (auto simp: newly_matched_def findings_def split: option.split)
  have "(\<Union>i\<in>set (tid # ids). newly_matched s x i) = newly_matched s x tid \<union> (\<Union>i\<in>set ids. newly_matched t y i)"
    by (auto simp: m split: if_splits)
  moreover have "{i \<in> set (tid # ids). newly_terminal s x i \<noteq> None} =
      {i \<in> {tid}. newly_terminal s x i \<noteq> None} \<union> {i \<in> set ids. newly_terminal t y i \<noteq> None}"
    by (auto simp: n)
  ultimately show ?case using f g y z by (simp add: xs findings_def Un_assoc)
qed

text \<open>The outcome of an exercise whose tasks are all known and final.\<close>

definition settled_status :: "lab_state \<Rightarrow> exercise \<Rightarrow> exercise_status" where
  "settled_status s x = (if x_task_ids x \<noteq> [] \<and> \<not> x_completion_recorded x \<and>
       (\<forall>tid\<in>set (x_task_ids x). \<exists>t. map_of (s_tasks s) tid = Some t \<and> t_status t \<in> TERMINAL_TASK_STATUSES)
     then (if \<forall>tid\<in>set (x_task_ids x). \<exists>t. map_of (s_tasks s) tid = Some t \<and> t_status t = Completed
           then XCompleted else XFailed)
     else x_status x)"

lemma finish_exercise_status:
  assumes "finish_exercise (x, s) = (y, t)"
  shows "x_status y = settled_status s x \<and> x_alerts y = x_alerts x \<and> x_observed_task_ids y = x_observed_task_ids x"
proof -
  let ?ts = "map (map_of (s_tasks s)) (x_task_ids x)"
  have fin: "list_ex (\<lambda>t. case t of None \<Rightarrow> True | Some t \<Rightarrow> t_status t \<notin> TERMINAL_TASK_STATUSES) ?ts \<longleftrightarrow>
      \<not> (\<forall>tid\<in>set (x_task_ids x). \<exists>t. map_of (s_tasks s) tid = Some t \<and> t_status t \<in> TERMINAL_TASK_STATUSES)"
    by (auto simp: list_ex_iff split: option.splits)
  have all: "list_all (\<lambda>t. case t of Some t \<Rightarrow> t_status t = Completed | None \<Rightarrow> False) ?ts \<longleftrightarrow>
      (\<forall>tid\<in>set (x_task_ids x). \<exists>t. map_of (s_tasks s) tid = Some t \<and> t_status t = Completed)"
    by (auto simp: list_all_iff split: option.splits)
  show ?thesis
    using assms unfolding finish_exercise_def Let_def prod.case fin all
    by (auto simp: settled_status_def split: if_splits prod.splits dest!: append_timeline_keeps)
qed

text \<open>C12: Detection is exact.  A refresh of an exercise that is not contained raises precisely the alerts
  of the rules that watch the playbook of one of its tasks that is newly found completed, beside those it
  already has; it marks exactly the newly final tasks as observed; and the exercise becomes completed or
  failed exactly when all its tasks are known and final.\<close>

theorem detection_exact:
  assumes "x_status x \<noteq> XContained" and "refresh_one (x, s) = (y, s')"
  shows "al_rule_id ` set (x_alerts y) = al_rule_id ` set (x_alerts x) \<union>
      {dr_id r | r tid t. tid \<in> set (x_task_ids x) \<and> newly_terminal s x tid = Some t \<and> t_status t = Completed \<and>
        r \<in> set (rules_for x t)} \<and>
    set (x_observed_task_ids y) = set (x_observed_task_ids x) \<union>
      {tid \<in> set (x_task_ids x). newly_terminal s x tid \<noteq> None} \<and>
    x_status y = settled_status s x"
proof -
  obtain z u where z: "fold observe_task (x_task_ids x) (x, s) = (z, u)" by fastforce
  have f: "findings (x_task_ids x) (x, s) (z, u)" using findings_fold [of "x_task_ids x" "(x, s)"] z by simp
  have "finish_exercise (z, u) = (y, s')" using assms z by (simp add: refresh_one_def)
  note y = finish_exercise_status [OF this]
  have same: "x_task_ids z = x_task_ids x" "x_status z = x_status x" "s_tasks u = s_tasks s"
    "x_completion_recorded z = x_completion_recorded x" using f by (simp_all add: findings_def)
  have "settled_status u z = settled_status s x" unfolding settled_status_def same ..
  moreover have "(\<Union>tid\<in>set (x_task_ids x). newly_matched s x tid) =
      {dr_id r | r tid t. tid \<in> set (x_task_ids x) \<and> newly_terminal s x tid = Some t \<and> t_status t = Completed \<and>
        r \<in> set (rules_for x t)}"
    by (auto simp: newly_matched_def split: option.splits if_splits) blast
  ultimately show ?thesis using f y by (simp add: findings_def)
qed

text \<open>A record as it is after the step \<open>demo_task\<close> was queued for it.\<close>

definition demo_record :: exercise where
  "demo_record = (new_exercise DISCOVERY_COLLECTION demo_node ''operator'' demo_completed)\<lparr>x_task_ids := [demo_task]\<rparr>"

theorem detection_exact_witness:
  "\<exists>y s'. refresh_one (demo_record, demo_completed) = (y, s') \<and> x_status y = XCompleted \<and>
     set (x_observed_task_ids y) = {demo_task}"
proof -
  obtain y s' where y: "refresh_one (demo_record, demo_completed) = (y, s')" by fastforce
  obtain t where t: "map_of (s_tasks demo_completed) demo_task = Some t" "t_status t = Completed"
    using demo_tasks(3) by auto
  have "newly_terminal demo_completed demo_record demo_task = Some t"
    using t by (simp add: newly_terminal_def demo_record_def new_exercise_def TERMINAL_TASK_STATUSES_def)
  moreover have "settled_status demo_completed demo_record = XCompleted"
    using t by (simp add: settled_status_def demo_record_def new_exercise_def TERMINAL_TASK_STATUSES_def)
  moreover have "x_status demo_record \<noteq> XContained" by (simp add: demo_record_def new_exercise_def)
  note detection_exact [OF this y]
  ultimately show ?thesis using y by (auto simp: demo_record_def new_exercise_def)
qed

section \<open>Containment\<close>

text \<open>A task before and after containment: of the exercise's own tasks (\<open>mine\<close>) those that wait in
  the queue are cancelled; every other record stays.\<close>

definition after_containment :: "bool \<Rightarrow> task option \<Rightarrow> task option \<Rightarrow> bool" where
  "after_containment mine a b \<longleftrightarrow> (case a of
      None \<Rightarrow> b = None
    | Some t \<Rightarrow> if mine \<and> t_status t = Queued then \<exists>time. b = Some (cancelled ''exercise_contained'' time t) else b = a)"

lemma after_containment_trans:
  "after_containment m a b \<Longrightarrow> after_containment n b c \<Longrightarrow> after_containment (m \<or> n) a c"
  by (auto simp: after_containment_def cancelled_def split: option.splits if_splits)

lemma after_containment_same [simp]: "after_containment False a b \<longleftrightarrow> b = a"
  by (auto simp: after_containment_def split: option.splits)

definition cancels :: "string list \<Rightarrow> lab_state \<Rightarrow> lab_state \<Rightarrow> bool" where
  "cancels ids s s' \<longleftrightarrow> s_nodes s' = s_nodes s \<and>
     (\<forall>tid. after_containment (tid \<in> set ids) (map_of (s_tasks s) tid) (map_of (s_tasks s') tid))"

lemma contain_task_cancels:
  "contain_task act tid (x, s) = (y, t) \<Longrightarrow> cancels [tid] s t \<and> x_node_id y = x_node_id x"
  by (auto simp: contain_task_def Let_def cancels_def after_containment_def log_cancelled_def mark_observed_def map_of_dmod
      split: option.splits if_splits prod.splits dest!: append_timeline_keeps)

lemma contain_fold_cancels:
  "fold (contain_task act) ids (x, s) = (y, t) \<Longrightarrow> cancels ids s t \<and> x_node_id y = x_node_id x"
proof (induction ids arbitrary: x s)
  case (Cons i ids)
  obtain z u where z: "contain_task act i (x, s) = (z, u)" by fastforce
  with Cons.prems Cons.IH [of z u] have "cancels ids u t" "x_node_id y = x_node_id z" by simp_all
  with contain_task_cancels [OF z] show ?case
    using after_containment_trans [of "tid = i" for tid] by (fastforce simp: cancels_def)
qed (simp add: cancels_def)

lemma contained_alerts: "al \<in> set (x_alerts (contained k act time x)) \<Longrightarrow> al_status al = AlertContained"
  by (auto simp: contained_def contain_alert_def) (metis alert_status.exhaust)

lemma pause_node_effect:
  "map_of (s_nodes (pause_node nid xid act s)) nid = Some m \<Longrightarrow> n_tasking_paused m"
  "s_tasks (pause_node nid xid act s) = s_tasks s" "s_exercises (pause_node nid xid act s) = s_exercises s"
  "map_of (s_nodes s) nid \<noteq> None \<Longrightarrow> map_of (s_nodes (pause_node nid xid act s)) nid \<noteq> None"
  by (auto simp: pause_node_def Let_def map_of_dmod)

text \<open>What \<open>apply_containment\<close> does to the record, the tasks and the node.\<close>

definition contained_by :: "containment_action \<Rightarrow> exercise \<Rightarrow> lab_state \<Rightarrow> exercise \<Rightarrow> lab_state \<Rightarrow> bool" where
  "contained_by k x s y s' \<longleftrightarrow> same_exercise x y \<and> x_status y = XContained \<and> ct_action (x_containment y) = Some k \<and>
     (\<forall>al\<in>set (x_alerts y). al_status al = AlertContained) \<and>
     (\<forall>tid. after_containment (tid \<in> set (x_task_ids x)) (map_of (s_tasks s) tid) (map_of (s_tasks s') tid)) \<and>
     (\<forall>n. k = PAUSE_NODE_TASKING \<longrightarrow> map_of (s_nodes s) (x_node_id x) = Some n \<longrightarrow>
        (\<exists>m. map_of (s_nodes s') (x_node_id x) = Some m \<and> n_tasking_paused m))"

lemma apply_containment_effect:
  assumes "apply_containment xid k act x s = (z, s')"
  shows "contained_by k x s z s' \<and> (map_of (s_exercises s) xid = Some x \<longrightarrow> map_of (s_exercises s') xid = Some z)"
proof -
  obtain y t where y: "fold (contain_task act) (x_task_ids x) (x, s) = (y, t)" by fastforce
  have "quiet_step (\<lambda>_ ids _. set (x_task_ids x) \<subseteq> set ids) (fold (contain_task act) (x_task_ids x))"
    by (rule quiet_fold) (auto intro: quiet_mono [OF quiet_contain_task])
  from quiet_stepD(1) [where x = x, OF this _ y] have xy: "same_exercise x y" by (simp add: exercise_rel_def)
  have c: "cancels (x_task_ids x) s t" "x_node_id y = x_node_id x" using contain_fold_cancels [OF y] by simp_all
  let ?u = "if k = PAUSE_NODE_TASKING \<and> map_of (s_nodes t) (x_node_id y) \<noteq> None
    then pause_node (x_node_id y) xid act t else t"
  let ?y = "contained k act (utc_now ?u) y"
  let ?a = "(timeline_of ''contain'' ''containment.applied'' ''Control-plane containment applied'')
    \<lparr>ta_action := Some (action_str k)\<rparr>"
  obtain v w where v: "append_exercise_timeline ?a (?y, tick ?u) = (v, w)" by fastforce
  have z: "z = v" "s' = modify_exercise xid (\<lambda>_. v) (log_contained v k act w)"
    using assms y v by (simp_all add: apply_containment_def Let_def split: if_splits)
  have "same_exercise y ?y" by (simp add: same_exercise_def contained_def)
  moreover have "same_exercise ?y v" "x_containment v = x_containment ?y"
    using v by (auto simp: append_exercise_timeline_def same_exercise_def split: if_splits)
  moreover note k = append_timeline_keeps [OF v]
  moreover have "s_tasks s' = s_tasks t" using k by (simp add: z log_contained_def pause_node_effect)
  moreover have "s_nodes s' = s_nodes ?u" using k by (simp add: z log_contained_def)
  moreover have "x_status ?y = XContained" "ct_action (x_containment ?y) = Some k" by (simp_all add: contained_def)
  moreover have "\<exists>m. map_of (s_nodes ?u) (x_node_id x) = Some m \<and> n_tasking_paused m"
    if "k = PAUSE_NODE_TASKING" "map_of (s_nodes s) (x_node_id x) = Some n" for n
  proof -
    have "map_of (s_nodes t) (x_node_id y) \<noteq> None" using that c by (simp add: cancels_def)
    with that(1) c(2) pause_node_effect(1) [of "x_node_id y" xid act t] pause_node_effect(4) [of t "x_node_id y" xid act]
    show ?thesis by auto
  qed
  ultimately have "contained_by k x s z s'"
    using xy c contained_alerts by (auto simp: contained_by_def z cancels_def intro: same_exercise_trans)
  moreover have "s_exercises w = s_exercises s"
    using k contain_fold_exercises [of act "x_task_ids x" "(x, s)"] y by (simp add: pause_node_effect)
  then have "map_of (s_exercises s) xid = Some x \<longrightarrow> map_of (s_exercises s') xid = Some z"
    by (simp add: z log_contained_def map_of_dmod)
  ultimately show ?thesis ..
qed

text \<open>C11: Containment takes effect.  It is refused unless the exercise is detected; when it is accepted for
  an exercise that was not contained yet, the stored record is contained by the requested action with every
  alert contained, exactly the tasks of the exercise that still wait in the queue are cancelled, and for
  \<open>PAUSE_NODE_TASKING\<close> the node of the exercise is paused.\<close>

theorem containment_takes_effect:
  assumes "contain_exercise (JStr xid) (JStr a) actor s = (r, s')" and "map_of (s_exercises s) xid = Some x" and "x_status x \<noteq> XContained"
  shows "(case r of
      Inl e \<Rightarrow> s' = s
    | Inr out \<Rightarrow> x_detection_status x = Detected \<and> (\<exists>k y. action_of_str a = Some k \<and>
        map_of (s_exercises s') xid = Some y \<and> out = project_exercise y \<and> same_exercise x y \<and>
        x_status y = XContained \<and> ct_action (x_containment y) = Some k \<and>
        (\<forall>al\<in>set (x_alerts y). al_status al = AlertContained) \<and>
        (\<forall>tid. after_containment (tid \<in> set (x_task_ids x)) (map_of (s_tasks s) tid) (map_of (s_tasks s') tid)) \<and>
        (\<forall>n. k = PAUSE_NODE_TASKING \<longrightarrow> map_of (s_nodes s) (x_node_id x) = Some n \<longrightarrow>
           (\<exists>m. map_of (s_nodes s') (x_node_id x) = Some m \<and> n_tasking_paused m))))"
proof (cases r)
  case (Inl e)
  then show ?thesis
    using assms by (auto simp: contain_exercise_def split: if_splits option.splits sum.splits prod.splits)
next
  case (Inr out)
  then obtain k act y where "action_of_str a = Some k" "x_detection_status x = Detected" "out = project_exercise y"
    "apply_containment xid k act x s = (y, s')"
    using assms by (auto simp: contain_exercise_def split: if_splits option.splits sum.splits prod.splits)
  with apply_containment_effect [of xid k act x s y s'] Inr assms(2) show ?thesis
    by (auto simp: contained_by_def)
qed

definition demo_found :: exercise where
  "demo_found = demo_record\<lparr>x_id := demo_xid, x_detection_status := Detected\<rparr>"

theorem containment_takes_effect_witness:
  "\<exists>out s' y. contain_exercise (JStr demo_xid) (JStr ''PAUSE_NODE_TASKING'') (JStr ''operator'')
       (demo_two_queued\<lparr>s_exercises := [(demo_xid, demo_found)]\<rparr>) = (Inr out, s') \<and>
     map_of (s_exercises s') demo_xid = Some y \<and> x_status y = XContained"
proof -
  let ?s = "demo_two_queued\<lparr>s_exercises := [(demo_xid, demo_found)]\<rparr>"
  obtain r s' where c: "contain_exercise (JStr demo_xid) (JStr ''PAUSE_NODE_TASKING'') (JStr ''operator'') ?s = (r, s')"
    by fastforce
  have x: "map_of (s_exercises ?s) demo_xid = Some demo_found" by simp
  have st: "x_status demo_found \<noteq> XContained" "x_detection_status demo_found = Detected"
    by (simp_all add: demo_found_def demo_record_def new_exercise_def)
  have "validate_operator_actor (JStr ''operator'') = Inr ''operator''"
    "action_of_str ''PAUSE_NODE_TASKING'' = Some PAUSE_NODE_TASKING" by code_simp+
  with c st obtain out where "r = Inr out" by (auto simp: contain_exercise_def split: prod.splits)
  with containment_takes_effect [OF c x st(1)] c show ?thesis by auto
qed

end
