(* ===== verification/Disclosure.thy ===== *)
theory Disclosure
  imports Http_Reply
begin

text \<open>
  What the server discloses: the answer to a \<open>GET\<close> does not depend on the secrets of the ledger, shown
  by erasing them first.
\<close>

section \<open>Erasing what is private\<close>

definition mask_node :: "node \<Rightarrow> node" where
  "mask_node n = n\<lparr>n_session_token := [], n_last_seen_monotonic := 0, n_last_heartbeat_event := 0\<rparr>"

definition mask_task :: "task \<Rightarrow> task" where
  "mask_task t = t\<lparr>t_deadline := None, t_queue_deadline := None, t_idempotency_key := None, t_exercise_id := None,
     t_result_accepted := False\<rparr>"

definition mask_exercise :: "exercise \<Rightarrow> exercise" where
  "mask_exercise x = x\<lparr>x_timeline_sequence := 0, x_observed_task_ids := [], x_completion_recorded := False\<rparr>"

definition mask_lab :: "lab_state \<Rightarrow> lab_state" where
  "mask_lab s = s\<lparr>s_nodes := map (apsnd mask_node) (s_nodes s), s_tasks := map (apsnd mask_task) (s_tasks s),
     s_exercises := map (apsnd mask_exercise) (s_exercises s), s_tombstones := [], s_note_idem := [],
     s_exercise_idem := [], s_operation_idem := []\<rparr>"

definition mask_server :: "server \<Rightarrow> server" where
  "mask_server s = s\<lparr>sv_lab := mask_lab (sv_lab s), sv_enroll_digest := []\<rparr>"

lemma project_mask [simp]:
  "project_node (mask_node n) = project_node n" "project_task (mask_task t) = project_task t"
  "project_exercise (mask_exercise x) = project_exercise x"
  by (simp_all add: project_node_def mask_node_def public_node.defs project_task_def mask_task_def public_task.defs
      project_exercise_def mask_exercise_def public_exercise.defs)

lemma vals_mask: "vals (map (apsnd f) d) = map f (vals d)"
  by simp

lemma mask_fields [simp]:
  "t_sequence (mask_task t) = t_sequence t" "x_created_at (mask_exercise x) = x_created_at x"
  by (simp_all add: mask_task_def mask_exercise_def)

lemma insort_key_map: "(\<And>x. k (f x) = k x) \<Longrightarrow> insort_key k (f x) (map f xs) = map f (insort_key k x xs)"
  by (induction xs) auto

lemma sort_key_map: "(\<And>x. k (f x) = k x) \<Longrightarrow> sort_key k (map f xs) = map f (sort_key k xs)"
  by (induction xs) (simp_all add: insort_key_map)

lemma sorted_desc_map: "(\<And>x. k (f x) = k x) \<Longrightarrow> sorted_desc k (map f xs) = map f (sorted_desc k xs)"
  by (simp add: sorted_desc_def sort_key_map rev_map)

lemma mask_lab_fields [simp]:
  "s_events (mask_lab s) = s_events s" "s_audit (mask_lab s) = s_audit s" "s_event_seq (mask_lab s) = s_event_seq s"
  "s_audit_seq (mask_lab s) = s_audit_seq s" "s_stream_id (mask_lab s) = s_stream_id s"
  "s_env (mask_lab s) = s_env s" "s_draws (mask_lab s) = s_draws s"
  by (simp_all add: mask_lab_def)

lemma mask_records:
  "vals (s_nodes (mask_lab s)) = map mask_node (vals (s_nodes s))"
  "vals (s_tasks (mask_lab s)) = map mask_task (vals (s_tasks s))"
  "vals (s_exercises (mask_lab s)) = map mask_exercise (vals (s_exercises s))"
  by (simp_all add: mask_lab_def)

lemma views_mask [simp]:
  "nodes_view (mask_lab s) = nodes_view s" "tasks_view (mask_lab s) = tasks_view s"
  "exercises_view (mask_lab s) = exercises_view s" "events_view (mask_lab s) = events_view s"
  "audit_view (mask_lab s) = audit_view s"
proof -
  show "nodes_view (mask_lab s) = nodes_view s" unfolding nodes_view_def mask_records by (simp add: o_def)
  show "tasks_view (mask_lab s) = tasks_view s"
    unfolding tasks_view_def mask_records by (subst sorted_desc_map) (simp_all add: o_def)
  show "exercises_view (mask_lab s) = exercises_view s" unfolding exercises_view_def mask_records by (simp add: o_def)
qed (simp_all add: events_view_def audit_view_def)

lemma mask_clock [simp]: "utc_now (mask_lab s) = utc_now s" "mask_lab (tick s) = tick (mask_lab s)"
  by (simp_all add: utc_now_def mask_lab_def tick_def)

lemma overview_mask [simp]: "overview_of (mask_lab s) = overview_of s"
  by (simp add: overview_of_def)

lemma report_mask [simp]: "report_of (mask_lab s) = report_of s"
  by (simp add: report_of_def retained_notes_def)

lemma sync_mask: "fst (sync_lab a b c (mask_lab s)) = fst (sync_lab a b c s)"
  by (auto simp: sync_lab_def sync_snapshot_def reset_floor_def split: sum.split)

section \<open>The answer to a GET\<close>

lemma mask_server_fields [simp]:
  "sv_lab (mask_server s) = mask_lab (sv_lab s)" "sv_operators (mask_server s) = sv_operators s"
  "sv_metrics (mask_server s) = sv_metrics s" "sv_port (mask_server s) = sv_port s"
  "sv_static (mask_server s) = sv_static s"
  by (simp_all add: mask_server_def)

lemma get_sync_mask: "fst (get_sync query (mask_server s)) = fst (get_sync query s)"
  using sync_mask by (auto simp: get_sync_def split: sum.split prod.split) (metis fst_conv)+

lemma authorized_mask:
  "fst (get_authorized path query a now session (mask_server s)) = fst (get_authorized path query a now session s)"
  by (simp add: get_authorized_def get_sync_mask read_lab_def get_metrics_def split: sum.split option.split)

text \<open>C16: The answer to a \<open>GET\<close> and the actor noted for it are the same when every session token of a node,
  the digest of the enrollment token, every idempotency key, deadline and other private entry of the
  ledger is erased beforehand: no read of the API, by any role, can tell anything about them.\<close>

theorem get_reveals_no_secret:
  "(case do_GET ok q a clock now (mask_server s) of (r, actor, _) \<Rightarrow> (r, actor)) =
   (case do_GET ok q a clock now s of (r, actor, _) \<Rightarrow> (r, actor))"
  using authorized_mask [of _ _ a now _ s]
  by (auto simp: do_GET_def serve_static_def split: option.split sum.split prod.split) (metis fst_conv)+

end
