(* ===== verification/Http_Exchange.thy ===== *)
theory Http_Exchange
  imports Http_Reply Node_Loop
begin

text \<open>
  One request of a node and its answer, through \<open>NodeClient._request\<close> of \<open>c2lab/node.py\<close> and
  \<open>do_POST\<close> of \<open>c2lab/server.py\<close>: the request as \<open>urllib\<close> sends it, the handler, the response, and what the
  node receives.  \<open>loads\<close> is \<open>json.loads\<close> on either side, \<open>bracket_ok\<close> the host check of \<open>urlsplit\<close>.
\<close>

text \<open>The request that arrives: a \<open>POST\<close> of the path, from the loopback host, with the headers of
  \<open>_request\<close> and those \<open>urllib\<close> adds.  \<open>None\<close>: the body or the URL raises.\<close>

definition request_message ::
  "(string \<Rightarrow> json option) \<Rightarrow> (string \<Rightarrow> bool) \<Rightarrow> http_request \<Rightarrow> http_message option" where
  "request_message loads bracket_ok q =
    (case (compact_json (hr_body q), urlsplit bracket_ok (hr_url q)) of
      (Some data, Some u) \<Rightarrow>
        Some \<lparr>hm_method = ''POST'', hm_peer_loopback = True, hm_target = su_path u,
          hm_headers =
            [(''Host'', su_netloc u), (''Content-Length'', nat_str (length data)),
             (''Authorization'', hr_authorization q), (''Content-Type'', ''application/json''),
             (''User-Agent'', ''C2Lab-Node/1'')] @
            (case hr_node q of None \<Rightarrow> [] | Some nid \<Rightarrow> [(''X-C2Lab-Node'', nid)]),
          hm_body = \<lambda>n. loads (take n data)\<rparr>
    | _ \<Rightarrow> None)"

text \<open>What \<open>urllib\<close> makes of a response: a status outside 200 to 299 is an \<open>HTTPError\<close>; a connection that
  closes without one is an \<open>OSError\<close> or \<open>HTTPException\<close>.\<close>

definition wire_of :: "http_response option \<Rightarrow> wire" where
  "wire_of r = (case r of
      None \<Rightarrow> NoAnswer
    | Some p \<Rightarrow> if 200 \<le> hp_status p \<and> hp_status p < 300 then Answer (hp_body p)
        else HttpFailure (int (hp_status p)) (hp_body p))"

text \<open>When the server handles a request: the readings of its clocks before and after the body, the
  reading of the clock of the ledger, and the duration it records.\<close>

record handling =
  hd_clock :: rat
  hd_clock' :: rat
  hd_now :: rat
  hd_duration :: rat

definition exchange ::
  "(string \<Rightarrow> json option) \<Rightarrow> (string \<Rightarrow> bool) \<Rightarrow> handling \<Rightarrow> server \<Rightarrow> http_request \<Rightarrow> wire \<times> server" where
  "exchange loads bracket_ok h s q =
    (case request_message loads bracket_ok q of
      None \<Rightarrow> (NoAnswer, s)
    | Some m \<Rightarrow>
        (case do_POST bracket_ok m (hd_clock h) (hd_clock' h) (hd_now h) s of
          (r, actor, s') \<Rightarrow>
            (case respond (env_float_repr (s_env (sv_lab s))) r of
              None \<Rightarrow> (NoAnswer, s')
            | Some p \<Rightarrow> (wire_of (Some p), record_reply (recorded_path bracket_ok m s) m (hd_duration h) r s'))))"

text \<open>A turn of an enrolled node against the server: the one request the turn sends, if it sends any, is
  handled by the server.\<close>

definition result_request :: "json \<Rightarrow> json \<Rightarrow> json \<Rightarrow> client \<Rightarrow> client_error + http_request" where
  "result_request task_id status result c =
    (case task_id of
      JStr tid \<Rightarrow>
        if \<not> is_hex_identifier task_id ''task-'' 12 then Inl (client_failure ''invalid task identifier'')
        else (case validate_result status result of
            Inl _ \<Rightarrow> Inl (client_failure ''invalid task result'')
          | Inr (st, kvs) \<Rightarrow>
              node_request (''/node/v1/tasks/'' @ tid @ ''/result'')
                (JObj [(''status'', JStr (status_str st)), (''result'', JObj kvs)]) c)
    | _ \<Rightarrow> Inl (client_failure ''invalid task identifier''))"

definition turn_request :: "node_state \<Rightarrow> client_error + http_request" where
  "turn_request st = (case nd_pending st of
      Some p \<Rightarrow> result_request (pd_task_id p) (JStr (pd_status p)) (pd_result p) (nd_client st)
    | None \<Rightarrow> node_request ''/node/v1/poll'' (JObj []) (nd_client st))"

definition served_turn ::
  "(string \<Rightarrow> json option) \<Rightarrow> (string \<Rightarrow> bool) \<Rightarrow> handling \<Rightarrow> surroundings \<Rightarrow> node_state \<times> server \<Rightarrow> turn \<times> server" where
  "served_turn loads bracket_ok h r c = (case c of (st, s) \<Rightarrow>
    (work_turn (r\<lparr>sr_loads := loads, sr_send := \<lambda>q. fst (exchange loads bracket_ok h s q)\<rparr>) st,
     case turn_request st of Inl _ \<Rightarrow> s | Inr q \<Rightarrow> snd (exchange loads bracket_ok h s q)))"

lemma send_result_request:
  "send_result loads send task_id status result c =
     rbind (result_request task_id status result c) (\<lambda>q. read_reply loads (send q))"
  by (simp add: send_result_def result_request_def node_call_def split: json.split sum.split)

text \<open>The enrollment, which sends one request; and the goodbye of a node that leaves: the \<open>finally\<close> block
  of \<open>run_node\<close> asks for the end of the session, if there is one, and ignores a client error.\<close>

definition served_enroll ::
  "(string \<Rightarrow> json option) \<Rightarrow> (string \<Rightarrow> bool) \<Rightarrow> handling \<Rightarrow> string \<Rightarrow> string \<Rightarrow> profile \<Rightarrow> int \<Rightarrow> int
    \<Rightarrow> client \<times> server \<Rightarrow> ((client_error + json) \<times> client) \<times> server" where
  "served_enroll loads bracket_ok h name version prof interval jitter k = (case k of (c, s) \<Rightarrow>
    (enroll loads (\<lambda>q. fst (exchange loads bracket_ok h s q)) name version prof interval jitter c,
     snd (exchange loads bracket_ok h s (enroll_request name version prof interval jitter c))))"

definition exit_request :: "node_state \<Rightarrow> http_request option" where
  "exit_request st =
    (if truthy (cl_node_id (nd_client st))
     then (case node_request ''/node/v1/disconnect'' (JObj []) (nd_client st) of Inl _ \<Rightarrow> None | Inr q \<Rightarrow> Some q)
     else None)"

definition served_exit ::
  "(string \<Rightarrow> json option) \<Rightarrow> (string \<Rightarrow> bool) \<Rightarrow> handling \<Rightarrow> node_state \<times> server \<Rightarrow> node_state \<times> server" where
  "served_exit loads bracket_ok h k = (case k of (st, s) \<Rightarrow>
    (node_exit_block st, case exit_request st of None \<Rightarrow> s | Some q \<Rightarrow> snd (exchange loads bracket_ok h s q)))"

end
