(* ===== verification/Json_Text.thy ===== *)
theory Json_Text
  imports Http_Reply Url_Facts
begin

text \<open>
  Reading JSON text back.  \<open>read_json\<close> is the part of \<open>json.loads\<close> that \<open>compact_json\<close> needs: no white
  space, no floats, code points up to U+00FF; it gives back every such value that was written.  \<open>loads\<close>
  stays a parameter elsewhere; \<open>json_channel\<close> is what the exchange of node and Teamserver relies on.
\<close>

section \<open>Values that travel\<close>

text \<open>No floats, distinct keys, and integers \<open>json.dumps\<close> can print.\<close>

fun sendable :: "json \<Rightarrow> bool" where
  "sendable (JFloat f) = False"
| "sendable (JInt i) = (length (nat_str (nat \<bar>i\<bar>)) \<le> MAX_INT_DIGITS)"
| "sendable (JList xs) = list_all sendable xs"
| "sendable (JObj kvs) = (distinct (keys kvs) \<and> list_all (\<lambda>(k, v). sendable v) kvs)"
| "sendable _ = True"

definition json_channel :: "(string \<Rightarrow> json option) \<Rightarrow> bool" where
  "json_channel loads \<longleftrightarrow> (\<forall>v b. sendable v \<longrightarrow> compact_json v = Some b \<longrightarrow> loads b = Some v)"

lemma sendable_spelled: "sendable j \<Longrightarrow> spell_floats j = j"
proof (induction j)
  case (JList xs)
  then show ?case by (simp add: list_all_iff map_idI)
next
  case (JObj kvs)
  have "(k, spell_floats v) = (k, v)" if "(k, v) \<in> set kvs" for k v
    using JObj that by (fastforce simp: list_all_iff)
  then show ?case by (auto intro!: map_idI)
qed simp_all

section \<open>UTF-8\<close>

definition utf8_text :: "string \<Rightarrow> string option" where
  "utf8_text b = (case utf8_decode (map code b) of
      None \<Rightarrow> None
    | Some ps \<Rightarrow> if list_all (\<lambda>p. p < 256) ps then Some (map char_of ps) else None)"

lemma utf8_two_bytes:
  assumes "q = 2 \<or> q = 3" and "r < 64"
  shows "utf8_decode ((192 + q) # (128 + r) # bs) = map_option ((#) (q * 64 + r)) (utf8_decode bs)"
proof -
  have "194 \<le> 192 + q" "192 + q \<le> 223" "\<not> 192 + q < 128" "utf8_cont (128 + r)"
    using assms by (auto simp: utf8_cont_def)
  then show ?thesis by simp
qed

lemma latin_parts:
  assumes "128 \<le> n" and "n < 256"
  shows "n div 64 = 2 \<or> n div 64 = (3 :: nat)"
proof -
  have "128 div 64 \<le> n div 64" using assms(1) by (rule div_le_mono)
  moreover have "n div 64 < 4" using assms(2) by (intro less_mult_imp_div_less) simp
  ultimately show ?thesis by simp linarith
qed

lemma utf8_decode_char: "utf8_decode (map code (utf8_char c) @ bs) = map_option ((#) (code c)) (utf8_decode bs)"
proof (cases "code c < 128")
  case False
  define q r where "q = (code c :: nat) div 64" and "r = (code c :: nat) mod 64"
  have c: "code c = q * 64 + r" and r: "r < 64" by (simp_all add: q_def r_def)
  have q: "q = 2 \<or> q = 3"
    using False latin_parts [of "code c"] nat_of_char_less_256 [of c] unfolding q_def by (simp only: not_less)
  have "utf8_char c = [char_of (192 + q), char_of (128 + r)]"
    unfolding utf8_char_def q_def r_def using False by (simp only: if_False)
  moreover have "code (char_of (192 + q) :: char) = 192 + q" "code (char_of (128 + r) :: char) = 128 + r"
    using q r by (auto simp: of_char_of)
  ultimately have "map code (utf8_char c) = [192 + q, 128 + r]" by simp
  then show ?thesis using utf8_two_bytes [OF q r, of bs] by (simp only: append.simps c)
qed (simp add: utf8_char_def)

lemma utf8_decode_encode: "utf8_decode (map code (utf8_encode s)) = Some (map code s)"
  by (induction s) (simp_all add: utf8_encode_def utf8_decode_char)

lemma utf8_text_encode: "utf8_text (utf8_encode s) = Some s"
  by (simp add: utf8_text_def utf8_decode_encode list_all_iff o_def)

section \<open>The reader\<close>

definition BACKSLASH :: char where "BACKSLASH = CHR 0x5C"

definition ESCAPES :: "(char \<times> char) list" where
  "ESCAPES = [(quote, quote), (BACKSLASH, BACKSLASH), (CHR ''/'', CHR ''/''), (CHR ''n'', char_of (10 :: nat)),
     (CHR ''r'', char_of (13 :: nat)), (CHR ''t'', char_of (9 :: nat)), (CHR ''f'', char_of (12 :: nat)),
     (CHR ''b'', char_of (8 :: nat))]"

definition hex4 :: "char \<Rightarrow> char \<Rightarrow> char \<Rightarrow> char \<Rightarrow> nat option" where
  "hex4 a b c d = (case (hex_value a, hex_value b, hex_value c, hex_value d) of
      (Some k, Some l, Some m, Some n) \<Rightarrow> Some (4096 * k + 256 * l + 16 * m + n) | _ \<Rightarrow> None)"

text \<open>The rest of a string literal, after its opening quote.\<close>

fun read_string :: "string \<Rightarrow> (string \<times> string) option" where
  "read_string [] = None"
| "read_string (c # cs) =
    (if c = quote then Some ([], cs)
     else if c = BACKSLASH then
       (case cs of
         [] \<Rightarrow> None
       | e # cs' \<Rightarrow>
           if e = CHR ''u'' then
             (case cs' of
               h # i # j # k # rest \<Rightarrow>
                 (case hex4 h i j k of
                   None \<Rightarrow> None
                 | Some n \<Rightarrow> if n < 256 then map_option (apfst ((#) (char_of n))) (read_string rest) else None)
             | _ \<Rightarrow> None)
           else (case map_of ESCAPES e of
               None \<Rightarrow> None
             | Some d \<Rightarrow> map_option (apfst ((#) d)) (read_string cs')))
     else if code c < 32 then None
     else map_option (apfst ((#) c)) (read_string cs))"

definition read_number :: "string \<Rightarrow> (json \<times> string) option" where
  "read_number s =
    (let negative = starts_with ''-'' s;
         body = (if negative then tl s else s);
         ds = takeWhile is_digit body; rest = dropWhile is_digit body
     in if ds = [] \<or> hd ds = CHR ''0'' \<and> 1 < length ds \<or> MAX_INT_DIGITS < length ds then None
        else if rest \<noteq> [] \<and> hd rest \<in> {CHR ''.'', CHR ''e'', CHR ''E''} then None
        else Some (JInt (if negative then - int (dec_value ds) else int (dec_value ds)), rest))"

text \<open>The nesting is bounded by the first argument; the last value of a repeated key counts.\<close>

fun read_value :: "nat \<Rightarrow> string \<Rightarrow> (json \<times> string) option"
  and read_items :: "nat \<Rightarrow> string \<Rightarrow> (json list \<times> string) option"
  and read_members :: "nat \<Rightarrow> string \<Rightarrow> ((string \<times> json) list \<times> string) option"
where
  "read_value 0 s = None"
| "read_value (Suc n) s =
    (if starts_with [quote] s then map_option (apfst JStr) (read_string (tl s))
     else if starts_with ''[]'' s then Some (JList [], drop 2 s)
     else if starts_with ''['' s then map_option (apfst JList) (read_items n (tl s))
     else if starts_with ''{}'' s then Some (JObj [], drop 2 s)
     else if starts_with ''{'' s then
       map_option (apfst (\<lambda>kvs. JObj (fold (\<lambda>(k, v). AList.update k v) kvs []))) (read_members n (tl s))
     else if starts_with ''null'' s then Some (JNull, drop 4 s)
     else if starts_with ''true'' s then Some (JBool True, drop 4 s)
     else if starts_with ''false'' s then Some (JBool False, drop 5 s)
     else read_number s)"
| "read_items 0 s = None"
| "read_items (Suc n) s =
    (case read_value n s of
      None \<Rightarrow> None
    | Some (v, rest) \<Rightarrow>
        if starts_with '','' rest then map_option (apfst ((#) v)) (read_items n (tl rest))
        else if starts_with '']'' rest then Some ([v], tl rest) else None)"
| "read_members 0 s = None"
| "read_members (Suc n) s =
    (if \<not> starts_with [quote] s then None
     else (case read_string (tl s) of
         None \<Rightarrow> None
       | Some (k, rest) \<Rightarrow>
           if \<not> starts_with '':'' rest then None
           else (case read_value n (tl rest) of
               None \<Rightarrow> None
             | Some (v, rest) \<Rightarrow>
                 if starts_with '','' rest then map_option (apfst ((#) (k, v))) (read_members n (tl rest))
                 else if starts_with ''}'' rest then Some ([(k, v)], tl rest) else None)))"

definition read_json :: "string \<Rightarrow> json option" where
  "read_json b = (case utf8_text b of
      None \<Rightarrow> None
    | Some s \<Rightarrow> (case read_value (Suc (length s)) s of Some (v, []) \<Rightarrow> Some v | _ \<Rightarrow> None))"

section \<open>Strings come back\<close>

lemma hex_digits:
  "n < 10 \<Longrightarrow> hex_value (digit_char n) = Some n"
  "10 \<le> n \<Longrightarrow> n < 16 \<Longrightarrow> hex_value (char_of (87 + n)) = Some n"
  by (simp_all add: hex_value_def is_digit_def code_digit of_char_of)

lemma control_hex:
  assumes "code c < 32"
  shows "hex4 (CHR ''0'') (CHR ''0'') (digit_char (code c div 16))
    (if code c mod 16 < 10 then digit_char (code c mod 16) else char_of (87 + code c mod 16)) = Some (code c)"
proof -
  have "code c div 16 < 2" using assms by (intro less_mult_imp_div_less) simp
  moreover have "hex_value (CHR ''0'') = Some 0" by (simp add: hex_value_def is_digit_def)
  moreover have "code c mod 16 < 16" by simp
  moreover have "16 * (code c div 16) + code c mod 16 = code c" by simp
  ultimately show ?thesis using hex_digits(1) [of "code c div 16"] hex_digits [of "code c mod 16"]
    by (simp add: hex4_def)
qed

lemma escapes_read:
  "map_of ESCAPES (CHR 0x22) = Some (CHR 0x22)" "map_of ESCAPES (CHR 0x5C) = Some (CHR 0x5C)"
  "map_of ESCAPES (CHR ''n'') = Some (char_of (10 :: nat))" "map_of ESCAPES (CHR ''r'') = Some (char_of (13 :: nat))"
  "map_of ESCAPES (CHR ''t'') = Some (char_of (9 :: nat))" "map_of ESCAPES (CHR ''f'') = Some (char_of (12 :: nat))"
  "map_of ESCAPES (CHR ''b'') = Some (char_of (8 :: nat))"
  by code_simp+

lemma short_escape:
  assumes "c = quote \<or> c = BACKSLASH \<or> code c \<in> {10, 13, 9, 12, 8}"
  shows "\<exists>d. escape_char c = [BACKSLASH, d] \<and> d \<noteq> CHR ''u'' \<and> map_of ESCAPES d = Some c"
proof -
  consider "c = quote" | "c = BACKSLASH" | n :: nat where "n \<in> {10, 13, 9, 12, 8}" "c = char_of n"
    using assms char_of_char [of c] by metis
  then show ?thesis
    by cases (auto simp: escape_char_def escapes_read BACKSLASH_def quote_def of_char_of)
qed

lemma read_escaped: "read_string (escape_char c @ t) = map_option (apfst ((#) c)) (read_string t)"
proof -
  consider (short) d where "escape_char c = [BACKSLASH, d]" "d \<noteq> CHR ''u''" "map_of ESCAPES d = Some c"
    | (control) "code c < 32" "c \<noteq> quote" "c \<noteq> BACKSLASH" "escape_char c = [BACKSLASH, CHR ''u'', CHR ''0'', CHR ''0'', digit_char (code c div 16),
        (if code c mod 16 < 10 then digit_char (code c mod 16) else char_of (87 + code c mod 16))]"
    | (plain) "escape_char c = [c]" "c \<noteq> quote" "c \<noteq> BACKSLASH" "\<not> code c < 32"
  proof (cases "c = quote \<or> c = BACKSLASH \<or> code c \<in> {10, 13, 9, 12, 8}")
    case True
    with short_escape short show ?thesis by blast
  next
    case False
    with control plain show ?thesis by (cases "code c < 32") (simp_all add: escape_char_def BACKSLASH_def)
  qed
  then show ?thesis
  proof cases
    case short
    then show ?thesis by (simp add: BACKSLASH_def quote_def)
  next
    case control
    have "char_of (code c) = c" by simp
    with control control_hex [OF control(1)] show ?thesis
      by (simp only: append.simps read_string.simps) (simp add: BACKSLASH_def quote_def)
  next
    case plain
    then show ?thesis by simp
  qed
qed

lemma read_dumped_string: "read_string (concat (map escape_char s) @ quote # rest) = Some (s, rest)"
  by (induction s) (simp_all add: read_escaped)

section \<open>Values come back\<close>

definition value_ends :: "string \<Rightarrow> bool" where
  "value_ends rest \<longleftrightarrow> rest = [] \<or> hd rest \<in> {CHR '','', CHR '']'', CHR ''}''}"

lemma digits_end:
  assumes "value_ends rest"
  shows "takeWhile is_digit (nat_str n @ rest) = nat_str n" "dropWhile is_digit (nat_str n @ rest) = rest"
proof -
  have d: "\<forall>c\<in>set (nat_str n). is_digit c" using digits_nat_str [of n] by (simp add: list_all_iff)
  have r: "takeWhile is_digit rest = []" "dropWhile is_digit rest = rest"
    using assms by (cases rest; auto simp: value_ends_def is_digit_def)+
  show "takeWhile is_digit (nat_str n @ rest) = nat_str n" "dropWhile is_digit (nat_str n @ rest) = rest"
    using d r by simp_all
qed

lemma nat_str_starts: "\<exists>c cs. nat_str n = c # cs \<and> is_digit c \<and> \<not> (c = CHR ''0'' \<and> cs \<noteq> [])"
proof (cases "n = 0")
  case True
  then show ?thesis by (subst nat_str.simps) (simp add: is_digit_def code_digit)
next
  case False
  then have "code (hd (nat_str n)) \<noteq> 48" by (intro nat_str_first) simp
  with digits_nat_str [of n] show ?thesis by (cases "nat_str n") auto
qed

lemma read_number_nat:
  assumes "length (nat_str n) \<le> MAX_INT_DIGITS" and "value_ends rest"
  shows "read_number (nat_str n @ rest) = Some (JInt (int n), rest)"
    "read_number (CHR ''-'' # nat_str n @ rest) = Some (JInt (- int n), rest)"
proof -
  obtain c cs where c: "nat_str n = c # cs" "is_digit c" "\<not> (c = CHR ''0'' \<and> cs \<noteq> [])" using nat_str_starts by blast
  have e: "rest = [] \<or> hd rest \<notin> {CHR ''.'', CHR ''e'', CHR ''E''}" using assms(2) by (auto simp: value_ends_def)
  have neg: "\<not> starts_with ''-'' (nat_str n @ rest)" using c(1,2) by (auto simp: starts_with_def is_digit_def)
  have ok: "\<not> (nat_str n = [] \<or> hd (nat_str n) = CHR ''0'' \<and> 1 < length (nat_str n) \<or> MAX_INT_DIGITS < length (nat_str n))"
    using c assms(1) by auto
  show "read_number (nat_str n @ rest) = Some (JInt (int n), rest)"
    unfolding read_number_def Let_def using neg ok e digits_end [OF assms(2)] dec_value_nat_str [of n] by (simp del: One_nat_def)
  have pos: "starts_with ''-'' (CHR ''-'' # nat_str n @ rest)" by (simp add: starts_with_def)
  show "read_number (CHR ''-'' # nat_str n @ rest) = Some (JInt (- int n), rest)"
    unfolding read_number_def Let_def using pos ok e digits_end [OF assms(2)] dec_value_nat_str [of n] by (simp del: One_nat_def)
qed

lemma read_number_int:
  "length (nat_str (nat \<bar>i\<bar>)) \<le> MAX_INT_DIGITS \<Longrightarrow> value_ends rest \<Longrightarrow> read_number (int_str i @ rest) = Some (JInt i, rest)"
  using read_number_nat [of "nat \<bar>i\<bar>" rest] by (cases "i < 0") (simp_all add: int_str_def)

lemma int_str_starts: "\<exists>c cs. int_str i = c # cs \<and> (is_digit c \<or> c = CHR ''-'')"
  using nat_str_starts [of "nat i"] by (auto simp: int_str_def)

lemma fold_updates: "distinct (keys (d @ kvs)) \<Longrightarrow> fold (\<lambda>(k, v). AList.update k v) kvs d = d @ kvs"
proof (induction kvs arbitrary: d)
  case (Cons e kvs)
  obtain k v where e: "e = (k, v)" by (cases e)
  have "AList.update k v d = d @ [(k, v)]" using Cons.prems by (intro update_fresh) (auto simp: e)
  with Cons.IH [of "d @ [(k, v)]"] Cons.prems show ?case by (simp add: e)
qed simp

text \<open>The nesting that is enough to read the text of a value.\<close>

fun read_cost :: "json \<Rightarrow> nat"
  and items_cost :: "json list \<Rightarrow> nat"
  and members_cost :: "(string \<times> json) list \<Rightarrow> nat"
where
  "read_cost (JList xs) = Suc (items_cost xs)"
| "read_cost (JObj kvs) = Suc (members_cost kvs)"
| "read_cost _ = 1"
| "items_cost [] = 0"
| "items_cost (x # xs) = Suc (max (read_cost x) (items_cost xs))"
| "members_cost [] = 0"
| "members_cost ((k, v) # kvs) = Suc (max (read_cost v) (members_cost kvs))"

lemma dumps_starts:
  "dumps j = Some t \<Longrightarrow> \<not> (\<exists>r. j = JFloat r) \<Longrightarrow> \<exists>c cs. t = c # cs \<and> c \<notin> {CHR '']'', CHR ''}'', CHR '','', CHR '':''}"
proof (cases j)
  case (JInt i)
  obtain c cs where c: "int_str i = c # cs" "is_digit c \<or> c = CHR ''-''" using int_str_starts by blast
  then have "c \<notin> {CHR '']'', CHR ''}'', CHR '','', CHR '':''}" by (auto simp: is_digit_def)
  moreover have "dumps j = Some t \<Longrightarrow> t = c # cs" using c JInt by (simp split: if_splits)
  ultimately show "dumps j = Some t \<Longrightarrow> ?thesis" by blast
qed (auto simp: dump_string_def quote_def split: option.splits)

lemma join_first: "join sep (p # ps) = p @ (if ps = [] then [] else sep @ join sep ps)"
  by (cases ps) simp_all

lemma starts_single [simp]: "starts_with [c] (d # s) \<longleftrightarrow> c = d"
  by (auto simp: starts_with_def)

lemma dump_shape:
  "dump_items xs = Some ps \<Longrightarrow> ps = [] \<longleftrightarrow> xs = []"
  "dump_members kvs = Some qs \<Longrightarrow> qs = [] \<longleftrightarrow> kvs = []"
  by (cases xs; cases kvs; auto split: option.splits)+

lemma read_int_value:
  assumes "length (nat_str (nat \<bar>i\<bar>)) \<le> MAX_INT_DIGITS" and "value_ends rest"
  shows "read_value (Suc n) (int_str i @ rest) = Some (JInt i, rest)"
proof -
  obtain c cs where c: "int_str i = c # cs" "is_digit c \<or> c = CHR ''-''" using int_str_starts by blast
  have "\<not> starts_with (d # p) (int_str i @ rest)" if "d \<in> {quote, CHR ''['', CHR ''{'', CHR ''n'', CHR ''t'', CHR ''f''}" for d p
    using c that by (auto simp: starts_with_def is_digit_def quote_def)
  then show ?thesis using read_number_int [OF assms] by simp
qed

lemma read_dumped:
  "dumps j = Some t \<Longrightarrow> sendable j \<Longrightarrow> read_cost j \<le> n \<Longrightarrow> value_ends rest \<Longrightarrow>
    read_value n (t @ rest) = Some (j, rest)"
  "dump_items xs = Some ps \<Longrightarrow> list_all sendable xs \<Longrightarrow> items_cost xs \<le> n \<Longrightarrow> xs \<noteq> [] \<Longrightarrow>
    read_items n (join '','' ps @ '']'' @ rest) = Some (xs, rest)"
  "dump_members kvs = Some qs \<Longrightarrow> list_all (\<lambda>(k, v). sendable v) kvs \<Longrightarrow> members_cost kvs \<le> n \<Longrightarrow> kvs \<noteq> [] \<Longrightarrow>
    read_members n (join '','' qs @ ''}'' @ rest) = Some (kvs, rest)"
proof (induction j and xs and kvs arbitrary: t n rest and ps n rest and qs n rest rule: dumps_dump_items_dump_members.induct)
  case (3 i)
  then obtain m where "n = Suc m" by (cases n) simp_all
  with 3 read_int_value [of i rest] show ?case by (simp del: read_value.simps split: if_splits)
next
  case (5 s)
  then obtain m where "n = Suc m" by (cases n) simp_all
  with 5 read_dumped_string [of s rest] show ?case by (auto simp: dump_string_def)
next
  case (6 xs)
  then obtain m ps where m: "n = Suc m" and ps: "dump_items xs = Some ps" "t = ''['' @ join '','' ps @ '']''"
    by (cases n) auto
  show ?case
  proof (cases xs)
    case Nil
    with ps m show ?thesis by (simp add: starts_with_def quote_def)
  next
    case (Cons x ys)
    obtain p qs where p: "dumps x = Some p" "ps = p # qs" using ps(1) Cons by (auto split: option.splits)
    have "\<not> (\<exists>r. x = JFloat r)" using "6.prems"(2) Cons by auto
    with dumps_starts [OF p(1)] obtain c cs where c: "p = c # cs" "c \<noteq> CHR '']''" by auto
    have "read_items m (join '','' ps @ '']'' @ rest) = Some (xs, rest)"
      using "6.IH" [OF ps(1)] "6.prems" m Cons by simp
    then show ?thesis using c by (simp add: m ps(2) p(2) join_first starts_with_def quote_def)
  qed
next
  case (7 kvs)
  then obtain m qs where m: "n = Suc m" and qs: "dump_members kvs = Some qs" "t = ''{'' @ join '','' qs @ ''}''"
    by (cases n) auto
  show ?case
  proof (cases kvs)
    case Nil
    with qs m show ?thesis by (simp add: starts_with_def quote_def)
  next
    case (Cons e ys)
    obtain k v where e: "e = (k, v)" by (cases e)
    obtain p rs where p: "qs = (dump_string k @ p) # rs" using qs(1) Cons e by (auto split: option.splits)
    have "read_members m (join '','' qs @ ''}'' @ rest) = Some (kvs, rest)"
      using "7.IH" [OF qs(1)] "7.prems" m Cons by simp
    moreover have "fold (\<lambda>(k, v). AList.update k v) kvs [] = kvs" using fold_updates [of "[]" kvs] "7.prems"(2) by simp
    ultimately show ?thesis by (simp add: m qs(2) p join_first starts_with_def quote_def dump_string_def)
  qed
next
  case (9 x xs)
  then obtain m p ps' where m: "n = Suc m" and p: "dumps x = Some p" "dump_items xs = Some ps'" "ps = p # ps'"
    by (cases n) (auto split: option.splits)
  have v: "read_value m (p @ r) = Some (x, r)" if "value_ends r" for r
    using "9.IH"(1) [OF p(1)] "9.prems" m that by simp
  show ?case
  proof (cases "xs = []")
    case True
    with v [of "'']'' @ rest"] p show ?thesis by (simp add: m value_ends_def)
  next
    case False
    have "read_items m (join '','' ps' @ '']'' @ rest) = Some (xs, rest)"
      using "9.IH"(2) [OF p(1,2)] "9.prems" m False by simp
    with v [of "'','' @ join '','' ps' @ '']'' @ rest"] False dump_shape(1) [OF p(2)] show ?thesis
      by (simp add: m p(3) join_first value_ends_def)
  qed
next
  case (11 k v kvs)
  then obtain m p qs' where m: "n = Suc m" and p: "dumps v = Some p" "dump_members kvs = Some qs'"
    "qs = (dump_string k @ '':'' @ p) # qs'"
    by (cases n) (auto split: option.splits)
  have v: "read_value m (p @ r) = Some (v, r)" if "value_ends r" for r
    using "11.IH"(1) [OF p(1)] "11.prems" m that by simp
  note k = read_dumped_string [of k]
  show ?case
  proof (cases "kvs = []")
    case True
    with v [of "''}'' @ rest"] p k show ?thesis by (simp add: m value_ends_def dump_string_def)
  next
    case False
    have "read_members m (join '','' qs' @ ''}'' @ rest) = Some (kvs, rest)"
      using "11.IH"(2) [OF p(1,2)] "11.prems" m False by simp
    with v [of "'','' @ join '','' qs' @ ''}'' @ rest"] k False dump_shape(2) [OF p(2)] show ?thesis
      by (simp add: m p(3) join_first value_ends_def dump_string_def)
  qed
next
  case (2 b)
  then obtain m where "n = Suc m" by (cases n) simp_all
  with 2 show ?case by (cases b) (auto simp: starts_with_def quote_def)
next
  case 1
  then obtain m where "n = Suc m" by (cases n) simp_all
  with 1 show ?case by (auto simp: starts_with_def quote_def)
qed simp_all

lemma read_cost_length:
  "dumps j = Some t \<Longrightarrow> sendable j \<Longrightarrow> read_cost j \<le> length t"
  "dump_items xs = Some ps \<Longrightarrow> list_all sendable xs \<Longrightarrow> items_cost xs \<le> length (join '','' ps) + 1"
  "dump_members kvs = Some qs \<Longrightarrow> list_all (\<lambda>(k, v). sendable v) kvs \<Longrightarrow> members_cost kvs \<le> length (join '','' qs) + 1"
proof (induction j and xs and kvs arbitrary: t and ps and qs rule: dumps_dump_items_dump_members.induct)
  case (3 i)
  then show ?case using dumps_starts [OF 3(1)] by auto
next
  case (9 x xs)
  then obtain p ps' where p: "dumps x = Some p" "dump_items xs = Some ps'" "ps = p # ps'" by (auto split: option.splits)
  have "\<not> (\<exists>r. x = JFloat r)" using "9.prems"(2) by auto
  with dumps_starts [OF p(1)] have "1 \<le> length p" by auto
  with "9.IH"(1) [OF p(1)] "9.IH"(2) [OF p(1,2)] "9.prems"(2) dump_shape(1) [OF p(2)] show ?case
    by (cases "xs = []") (auto simp: p(3) join_first)
next
  case (11 k v kvs)
  then obtain p qs' where p: "dumps v = Some p" "dump_members kvs = Some qs'" "qs = (dump_string k @ '':'' @ p) # qs'"
    by (auto split: option.splits)
  with "11.IH"(1) [OF p(1)] "11.IH"(2) [OF p(1,2)] "11.prems"(2) dump_shape(2) [OF p(2)] show ?case
    by (cases "kvs = []") (auto simp: join_first)
qed (auto simp: dump_string_def split: option.splits)

lemma sendable_dumps:
  "sendable j \<Longrightarrow> \<exists>t. dumps j = Some t"
  "list_all sendable xs \<Longrightarrow> \<exists>ps. dump_items xs = Some ps"
  "list_all (\<lambda>(k, v). sendable v) kvs \<Longrightarrow> \<exists>qs. dump_members kvs = Some qs"
  by (induction j and xs and kvs rule: dumps_dump_items_dump_members.induct) auto

lemma sendable_written: "sendable j \<Longrightarrow> \<exists>t. dumps j = Some t \<and> compact_json j = Some (utf8_encode t)"
  using sendable_dumps(1) [of j] sendable_spelled [of j] by (auto simp: compact_json_def)

lemma read_json_written:
  assumes "sendable j" and "compact_json j = Some b"
  shows "read_json b = Some j"
proof -
  obtain t where t: "dumps j = Some t" "b = utf8_encode t" using assms sendable_written [OF assms(1)] by auto
  have "read_value (Suc (length t)) (t @ []) = Some (j, [])"
    by (rule read_dumped(1) [OF t(1) assms(1)])
      (use read_cost_length(1) [OF t(1) assms(1)] in \<open>simp_all add: value_ends_def\<close>)
  then show ?thesis by (simp add: read_json_def t(2) utf8_text_encode del: read_value.simps)
qed

lemma read_json_channel: "json_channel read_json"
  by (simp add: json_channel_def read_json_written)

text \<open>JSON text that the program sends comes back as the value that was sent: every value with
  distinct keys, no floats and printable integers is written, and reading the bytes of \<open>_send_json\<close> gives
  the value again.\<close>

theorem json_text_roundtrip:
  assumes "sendable j"
  shows "\<exists>b. compact_json j = Some b \<and> read_json b = Some j"
  using sendable_written [OF assms] read_json_written [OF assms] by blast

theorem json_text_roundtrip_witness:
  "\<exists>b. compact_json (error_json ''not_found'' ''route not found'') = Some b \<and>
     read_json b = Some (error_json ''not_found'' ''route not found'')"
  by (rule json_text_roundtrip) (simp add: error_json_def)

end
