(* ===== verification/Exchange_Properties.thy ===== *)
theory Exchange_Properties
  imports Http_Exchange Json_Text Task_Round_Trip Server_Properties
begin

text \<open>
  A task over HTTP: the node asks the Teamserver for work, executes what it gets and reports it, through
  the URLs, headers, JSON texts, handlers and checks of both sides.
\<close>

section \<open>URLs and paths\<close>

definition path_char :: "char \<Rightarrow> bool" where
  "path_char c \<longleftrightarrow> is_digit c \<or> ascii_alpha c \<or> c = CHR ''/'' \<or> c = CHR ''-''"

definition plain_path :: "string \<Rightarrow> bool" where
  "plain_path p \<longleftrightarrow> (\<exists>q. p = CHR ''/'' # q \<and> q \<noteq> [] \<and> hd q \<noteq> CHR ''/'') \<and> list_all path_char p"

lemma path_char_codes: "path_char c \<Longrightarrow> 45 \<le> code c \<and> code c \<le> 122 \<and> code c \<notin> {58, 63, 91, 93, 64}"
  by (auto simp: path_char_def is_digit_def ascii_alpha_def)

lemma path_chars:
  assumes "list_all path_char p"
  shows "CHR '':'' \<notin> set p" "CHR ''#'' \<notin> set p" "CHR ''?'' \<notin> set p" "CHR ''['' \<notin> set p" "CHR '']'' \<notin> set p"
    "filter (\<lambda>c. code c \<notin> {9, 10, 13}) p = p"
proof -
  have c: "45 \<le> code c \<and> code c \<le> 122 \<and> code c \<notin> {58, 63, 91, 93, 64}" if "c \<in> set p" for c
    using that assms path_char_codes by (simp add: list_all_iff)
  from c [of "CHR '':''"] show "CHR '':'' \<notin> set p" by auto
  from c [of "CHR ''#''"] show "CHR ''#'' \<notin> set p" by auto
  from c [of "CHR ''?''"] show "CHR ''?'' \<notin> set p" by auto
  from c [of "CHR ''[''"] show "CHR ''['' \<notin> set p" by auto
  from c [of "CHR '']''"] show "CHR '']'' \<notin> set p" by auto
  show "filter (\<lambda>c. code c \<notin> {9, 10, 13}) p = p" using c by (fastforce simp: filter_id_conv)
qed

lemma urlsplit_path:
  assumes "plain_path p"
  shows "urlsplit ok p = Some \<lparr>su_scheme = [], su_netloc = [], su_path = p, su_query = [], su_fragment = []\<rparr>"
proof -
  obtain q where q: "p = CHR ''/'' # q" "q \<noteq> []" "hd q \<noteq> CHR ''/''" and l: "list_all path_char p"
    using assms by (auto simp: plain_path_def)
  note c = path_chars [OF l]
  have clean: "filter (\<lambda>c. code c \<notin> {9, 10, 13}) (dropWhile (\<lambda>c. code c \<le> 32) p) = p"
    using c(6) by (simp add: q(1))
  have scheme: "split_scheme p = ([], p)" unfolding split_scheme_def py_partition_none [OF c(1)] by simp
  have "take 2 p \<noteq> ''//''" using q by (cases q) auto
  then have netloc: "split_netloc p = ([], p)" by (simp add: split_netloc_def)
  show ?thesis
    unfolding urlsplit_def Let_def clean scheme
    by (simp add: netloc py_partition_none [OF c(2)] py_partition_none [OF c(3)])
qed

lemma urlsplit_loopback_path:
  assumes "list_all is_digit s" and "plain_path p"
  shows "urlsplit ok (''http://127.0.0.1:'' @ s @ p) = Some \<lparr>su_scheme = ''http'', su_netloc = ''127.0.0.1:'' @ s,
    su_path = p, su_query = [], su_fragment = []\<rparr>"
proof -
  obtain q where q: "p = CHR ''/'' # q" and l: "list_all path_char p" using assms(2) by (auto simp: plain_path_def)
  note c = path_chars [OF l]
  have keep: "filter (\<lambda>c. code c \<notin> {9, 10, 13}) s = s"
    using assms(1) by (auto simp: list_all_iff is_digit_def filter_id_conv)
  have clean: "filter (\<lambda>c. code c \<notin> {9, 10, 13}) (dropWhile (\<lambda>c. code c \<le> 32) (''http://127.0.0.1:'' @ s @ p)) =
      ''http'' @ CHR '':'' # ''//127.0.0.1:'' @ s @ p"
    using keep c(6) by simp
  have scheme: "split_scheme (''http'' @ CHR '':'' # t) = (''http'', t)" for t
    using py_partition_found [of "CHR '':''" "''http''" t]
    by (simp add: split_scheme_def ascii_alpha_def scheme_char_def py_lower_def py_lower_char_def)
  define n where "n = ''127.0.0.1:'' @ s"
  have chars: "list_all (\<lambda>c. is_digit c \<or> c = CHR ''.'' \<or> c = CHR '':'') n"
    using assms(1) by (simp add: n_def list_all_iff is_digit_def)
  have avoid: "CHR ''['' \<notin> set n" "CHR '']'' \<notin> set n" using chars by (auto simp: list_all_iff is_digit_def)
  have "\<not> netloc_end c" if "is_digit c \<or> c = CHR ''.'' \<or> c = CHR '':''" for c
    using that by (auto simp: netloc_end_def is_digit_def)
  then have n: "\<forall>d\<in>set n. \<not> netloc_end d" using chars by (simp add: list_all_iff)
  have "takeWhile (\<lambda>c. \<not> netloc_end c) (n @ p) = n" "dropWhile (\<lambda>c. \<not> netloc_end c) (n @ p) = p"
    using n by (simp_all add: q netloc_end_def)
  then have netloc: "split_netloc (''//'' @ n @ p) = (n, p)" by (simp add: split_netloc_def)
  show ?thesis
    unfolding urlsplit_def Let_def clean scheme
    using netloc avoid by (simp add: n_def py_partition_none [OF c(2)] py_partition_none [OF c(3)])
qed

lemma digits_lower: "list_all is_digit s \<Longrightarrow> py_lower s = s"
  by (auto simp: py_lower_def py_lower_char_def list_all_iff is_digit_def intro!: map_idI)

lemma port_digits: "0 \<le> n \<Longrightarrow> list_all is_digit (int_str n)"
  using digits_nat_str [of "nat n"] by (simp add: int_str_def)

section \<open>A request of a node arrives\<close>

definition client_message ::
  "(string \<Rightarrow> json option) \<Rightarrow> int \<Rightarrow> string \<Rightarrow> string \<Rightarrow> string \<Rightarrow> string option \<Rightarrow> http_message" where
  "client_message loads port path data auth node =
    \<lparr>hm_method = ''POST'', hm_peer_loopback = True, hm_target = path,
     hm_headers = [(''Host'', ''127.0.0.1:'' @ int_str port), (''Content-Length'', nat_str (length data)),
       (''Authorization'', auth), (''Content-Type'', ''application/json''), (''User-Agent'', ''C2Lab-Node/1'')] @
       (case node of None \<Rightarrow> [] | Some nid \<Rightarrow> [(''X-C2Lab-Node'', nid)]),
     hm_body = \<lambda>n. loads (take n data)\<rparr>"

abbreviation node_message ::
  "(string \<Rightarrow> json option) \<Rightarrow> int \<Rightarrow> string \<Rightarrow> string \<Rightarrow> string \<Rightarrow> string \<Rightarrow> http_message" where
  "node_message loads port path data nid tok \<equiv> client_message loads port path data (''Node '' @ tok) (Some nid)"

text \<open>The client talks to this server; and it has a session.\<close>

definition connects :: "server \<Rightarrow> client \<Rightarrow> bool" where
  "connects s c \<longleftrightarrow> 0 \<le> sv_port s \<and> cl_controller_url c = ''http://127.0.0.1:'' @ int_str (sv_port s)"

definition serves :: "server \<Rightarrow> client \<Rightarrow> string \<Rightarrow> string \<Rightarrow> bool" where
  "serves s c nid tok \<longleftrightarrow> connects s c \<and> cl_node_id c = Some nid \<and> cl_session_token c = Some tok \<and> nid \<noteq> [] \<and> tok \<noteq> []"

lemma client_request_message:
  assumes "connects s c" and "plain_path path" and "compact_json body = Some data"
  shows "request_message loads ok \<lparr>hr_url = cl_controller_url c @ path, hr_body = body, hr_authorization = auth, hr_node = node\<rparr> =
    Some (client_message loads (sv_port s) path data auth node)"
  using urlsplit_loopback_path [OF port_digits assms(2), of "sv_port s" ok] assms(1,3)
  by (simp add: request_message_def client_message_def connects_def)

lemma node_request_message:
  assumes "serves s c nid tok" and "plain_path path" and "compact_json body = Some data"
  shows "\<exists>q. node_request path body c = Inr q \<and>
    request_message loads ok q = Some (node_message loads (sv_port s) path data nid tok)"
  using client_request_message [OF _ assms(2,3), of s c loads ok] assms(1) by (simp add: node_request_def serves_def)

lemma message_headers:
  "header_or_empty ''Host'' (client_message loads port path data auth node) = ''127.0.0.1:'' @ int_str port"
  "header_get ''Content-Length'' (client_message loads port path data auth node) = Some (nat_str (length data))"
  "header_or_empty ''Authorization'' (client_message loads port path data auth node) = auth"
  "content_type (client_message loads port path data auth node) = ''application/json''"
  "header_or_empty ''X-C2Lab-Node'' (node_message loads port path data nid tok) = nid"
proof -
  note lower = py_lower_def py_lower_char_def
  show "header_or_empty ''Host'' (client_message loads port path data auth node) = ''127.0.0.1:'' @ int_str port"
    by (simp add: header_or_empty_def header_get_def client_message_def lower)
  show "header_get ''Content-Length'' (client_message loads port path data auth node) = Some (nat_str (length data))"
    by (simp add: header_get_def client_message_def lower)
  show "header_or_empty ''Authorization'' (client_message loads port path data auth node) = auth"
    by (simp add: header_or_empty_def header_get_def client_message_def lower)
  show "header_or_empty ''X-C2Lab-Node'' (node_message loads port path data nid tok) = nid"
    by (simp add: header_or_empty_def header_get_def client_message_def lower)
  have "header_or_empty ''Content-Type'' (client_message loads port path data auth node) = ''application/json''"
    by (simp add: header_or_empty_def header_get_def client_message_def lower)
  moreover have "py_lower (py_strip (fst (py_partition (CHR '';'') ''application/json''))) = ''application/json''"
    by code_simp
  ultimately show "content_type (client_message loads port path data auth node) = ''application/json''"
    by (simp add: content_type_def)
qed

lemma message_token: "supplied_token scheme (client_message loads port path data (scheme @ tok) node) = tok"
  by (simp add: supplied_token_def message_headers starts_with_def)

lemma message_arrives:
  assumes "connects s c" and "plain_path path"
  shows "request_is_local (sv_port s) (client_message loads (sv_port s) path data auth node)"
    "parse_request_target ok (client_message loads (sv_port s) path data auth node) = Some (path, [])"
proof -
  have "py_lower (''127.0.0.1:'' @ int_str (sv_port s)) = ''127.0.0.1:'' @ int_str (sv_port s)"
    using assms(1) digits_lower [OF port_digits] by (simp add: connects_def py_lower_def py_lower_char_def)
  then show "request_is_local (sv_port s) (client_message loads (sv_port s) path data auth node)"
    by (simp add: request_is_local_def message_headers LOOPBACK_HOST_def) (simp add: client_message_def)
  show "parse_request_target ok (client_message loads (sv_port s) path data auth node) = Some (path, [])"
    using urlsplit_path [OF assms(2)] by (simp add: parse_request_target_def client_message_def)
qed

lemma message_read:
  assumes "json_channel loads" and "sendable (JObj kvs)" and "compact_json (JObj kvs) = Some data" and "length data \<le> 16384"
  shows "read_json_object (client_message loads port path data auth node) = Inr kvs"
proof -
  have "length (nat_str (length data)) \<le> 5" by (rule length_nat_str) (use assms(4) in simp_all)
  then have "py_int (nat_str (length data)) = Some (int (length data))"
    by (intro py_int_nat_str) (simp add: MAX_INT_DIGITS_def)
  moreover have "loads data = Some (JObj kvs)" using assms(1-3) by (simp add: json_channel_def)
  moreover have "hm_body (client_message loads port path data auth node) (length data) = loads data"
    by (simp add: client_message_def)
  ultimately show ?thesis using assms(4) by (simp add: read_json_object_def message_headers MAX_BODY_BYTES_def)
qed

lemma post_node:
  assumes "serves s c nid tok" and "plain_path path" and "starts_with ''/node/v1/'' path" and "path \<noteq> ''/node/v1/enroll''"
    and "authenticate_node (JStr nid) (JStr tok) (sv_lab s)"
    and "read_json_object (node_message loads (sv_port s) path data nid tok) = Inr kvs"
  shows "do_POST ok (node_message loads (sv_port s) path data nid tok) k k' now s =
    (case finish_node nid tok path kvs now s of (r, s') \<Rightarrow> (r, Some ''node'', s'))"
proof -
  define m where "m = node_message loads (sv_port s) path data nid tok"
  have con: "connects s c" using assms(1) by (simp add: serves_def)
  have here: "request_is_local (sv_port s) m" "parse_request_target ok m = Some (path, [])"
    unfolding m_def by (rule message_arrives [OF con assms(2)])+
  have node: "authorize_node m s = Some (nid, tok)"
    by (simp only: m_def authorize_node_def Let_def message_headers(5) message_token assms(5) if_True)
  have "post_begin ok m k s = Inr (NodeRoute nid tok path, Some ''node'')"
    using here node assms(3,4) by (simp add: post_begin_def)
  then show ?thesis using assms(6) unfolding m_def [symmetric] by (simp add: do_POST_def post_finish_def)
qed

section \<open>Values without floats\<close>

fun no_floats :: "json \<Rightarrow> bool" where
  "no_floats (JFloat f) = False"
| "no_floats (JList xs) = list_all no_floats xs"
| "no_floats (JObj kvs) = list_all (\<lambda>(k, v). no_floats v) kvs"
| "no_floats _ = True"

lemma sendable_dumped:
  "dumps j = Some t \<Longrightarrow> wf_json j \<Longrightarrow> no_floats j \<Longrightarrow> sendable j"
  "dump_items xs = Some ps \<Longrightarrow> list_all wf_json xs \<Longrightarrow> list_all no_floats xs \<Longrightarrow> list_all sendable xs"
  "dump_members kvs = Some qs \<Longrightarrow> list_all (\<lambda>(k, v). wf_json v) kvs \<Longrightarrow> list_all (\<lambda>(k, v). no_floats v) kvs \<Longrightarrow>
    list_all (\<lambda>(k, v). sendable v) kvs"
  by (induction j and xs and kvs arbitrary: t and ps and qs rule: dumps_dump_items_dump_members.induct)
    (auto split: option.splits if_splits)

lemma spelled_no_floats: "no_floats j \<Longrightarrow> spell_floats j = j"
proof (induction j)
  case (JList xs)
  then show ?case by (simp add: list_all_iff map_idI)
next
  case (JObj kvs)
  have "(k, spell_floats v) = (k, v)" if "(k, v) \<in> set kvs" for k v
    using JObj that by (fastforce simp: list_all_iff)
  then show ?case by (auto intro!: map_idI)
qed simp_all

lemma sendable_compact: "compact_json j = Some b \<Longrightarrow> wf_json j \<Longrightarrow> no_floats j \<Longrightarrow> sendable j"
  using sendable_dumped(1) [of j] spelled_no_floats [of j] by (auto simp: compact_json_def)

text \<open>Values without floats and with distinct keys.\<close>

definition tidy :: "json \<Rightarrow> bool" where
  "tidy j \<longleftrightarrow> wf_json j \<and> no_floats j"

lemma tidy_simps [simp]:
  "tidy (JStr t)" "tidy (JInt i)" "tidy (JBool b)" "tidy JNull"
  "tidy (JList xs) \<longleftrightarrow> list_all tidy xs"
  "tidy (JObj kvs) \<longleftrightarrow> distinct (keys kvs) \<and> list_all (\<lambda>(k, v). tidy v) kvs"
  by (auto simp: tidy_def list_all_iff)

lemma tidy_json_text [simp]: "tidy (json_text v)"
  by (cases v) (simp_all add: json_text_def)

lemma tidy_payload: "tidy (JObj (payload_json p))"
  by (cases p) simp_all

lemma tidy_node: "tidy (node_json n)"
  by (simp add: node_json_def list_all_iff)

lemma tidy_node_task: "(case t_result u of None \<Rightarrow> True | Some r \<Rightarrow> tidy (JObj r)) \<Longrightarrow> tidy (JObj (node_task_json u))"
  using tidy_payload [of "t_payload u"]
  by (auto simp: node_task_json_def result_json_def simp del: tidy_simps(6) split: option.splits intro!: tidy_simps(6) [THEN iffD2])

lemma tidy_poll:
  assumes "\<And>u. pr_task r = Some u \<Longrightarrow> tidy (JObj (node_task_json u))"
  shows "tidy (JObj (poll_json r))"
  using assms tidy_node by (simp add: poll_json_def json_option_def split: option.split)

lemma plain_no_floats: "plain_json j \<Longrightarrow> no_floats j"
  by (induction j) (auto simp: list_all_iff)

lemma json_ok_tidy: "json_ok n j \<Longrightarrow> tidy j"
  by (simp add: json_ok_def tidy_def plain_no_floats)

lemma tidy_evidence: "ev \<in> set (allowed_evidence p) \<Longrightarrow> tidy (playbook_result p ev)"
  using json_ok_tidy [OF json_ok_fixed(1)] json_ok_tidy [OF json_ok_fixed(2)] json_ok_tidy [OF json_ok_fixed(3)]
    json_ok_tidy [OF json_ok_evidence]
  by (simp add: playbook_result_def del: tidy_simps(5))

lemma tidy_action:
  assumes "executor_fit ex" and "run_action now t p ex = (Inr r, ex')"
  shows "tidy r"
proof (cases "t = RUN_PLAYBOOK")
  case True
  then obtain b w where p: "p = PlaybookField b" and w: "ex_workspace ex = Some w"
    using assms(2) by (cases p) (auto split: option.splits)
  obtain mc where h: "ws_holds w mc" using assms(1) w by (auto simp: executor_fit_def)
  obtain ev mc' where spec: "playbook_spec b mc = (ev, mc')" by (cases "playbook_spec b mc")
  from execute_holds [OF h spec] assms(2) True p w have "r = playbook_result b ev" by auto
  moreover have "ev \<in> set (allowed_evidence b)" using playbook_spec_allowed [of b mc] spec by simp
  ultimately show ?thesis by (simp add: tidy_evidence)
next
  case False
  with assms(2) show ?thesis by (cases t; cases p) auto
qed

section \<open>A call of the node\<close>

lemma record_reply_keeps [simp]:
  "sv_lab (record_reply path m d r s) = sv_lab s" "sv_port (record_reply path m d r s) = sv_port s"
  by (auto simp: record_reply_def split: reply.split sum.split)

text \<open>The reply reaches the node, and the server is as the handler left it.\<close>

lemma reply_arrives:
  assumes "json_channel loads" and "request_message loads ok q = Some m"
    and "do_POST ok m (hd_clock h) (hd_clock' h) (hd_now h) s = (Reply st r, actor, s')" and "200 \<le> st" and "st < 300"
    and "respond (env_float_repr (s_env (sv_lab s))) (Reply st r) = send_json st (JObj out)"
    and "compact_json (JObj out) = Some b" and "length b \<le> MAX_RESPONSE_BYTES" and "tidy (JObj out)"
  shows "read_reply loads (fst (exchange loads ok h s q)) = Inr out \<and>
    sv_lab (snd (exchange loads ok h s q)) = sv_lab s' \<and> sv_port (snd (exchange loads ok h s q)) = sv_port s'"
proof -
  have x: "exchange loads ok h s q = (Answer b, record_reply (recorded_path ok m s) m (hd_duration h) (Reply st r) s')"
    using assms(3-5) by (simp add: exchange_def assms(2,6) send_json_def assms(7) wire_of_def send_bytes_def)
  have "sendable (JObj out)" using sendable_compact [OF assms(7)] assms(9) by (simp add: tidy_def)
  then have "loads b = Some (JObj out)" using assms(1,7) by (simp add: json_channel_def)
  with assms(8) have "read_reply loads (Answer b) = Inr out" by (simp add: read_reply_def)
  with x show ?thesis by simp
qed

lemma node_exchange:
  assumes "serves s c nid tok" and "plain_path path" and "starts_with ''/node/v1/'' path" and "path \<noteq> ''/node/v1/enroll''"
    and "authenticate_node (JStr nid) (JStr tok) (sv_lab s)" and "json_channel loads"
    and "sendable (JObj kvs)" and "compact_json (JObj kvs) = Some data" and "length data \<le> 16384"
    and "finish_node nid tok path kvs (hd_now h) s = (Reply 200 r, s')"
    and "respond (env_float_repr (s_env (sv_lab s))) (Reply 200 r) = send_json 200 (JObj out)"
    and "compact_json (JObj out) = Some b" and "length b \<le> MAX_RESPONSE_BYTES" and "tidy (JObj out)"
  shows "\<exists>q. node_request path (JObj kvs) c = Inr q \<and>
    read_reply loads (fst (exchange loads ok h s q)) = Inr out \<and>
    sv_lab (snd (exchange loads ok h s q)) = sv_lab s' \<and> sv_port (snd (exchange loads ok h s q)) = sv_port s'"
proof -
  let ?m = "node_message loads (sv_port s) path data nid tok"
  obtain q where q: "node_request path (JObj kvs) c = Inr q" "request_message loads ok q = Some ?m"
    using node_request_message [OF assms(1,2,8)] by blast
  have "do_POST ok ?m (hd_clock h) (hd_clock' h) (hd_now h) s = (Reply 200 r, Some ''node'', s')"
    using post_node [OF assms(1-5) message_read [OF assms(6-9)]] assms(10) by simp
  from reply_arrives [OF assms(6) q(2) this _ _ assms(11-14)] q(1) show ?thesis by auto
qed

section \<open>The result path\<close>

lemma py_split_found: "c \<notin> set s \<Longrightarrow> py_split c (s @ c # t) = s # py_split c t"
  by (induction s) auto

lemma hex_task_id:
  assumes "is_hex_identifier (JStr tid) ''task-'' 12"
  shows "plain_path (''/node/v1/tasks/'' @ tid @ ''/result'')" "CHR ''/'' \<notin> set tid"
proof -
  define h where "h = drop 5 tid"
  have t: "take 5 tid = ''task-''" and l: "list_all (\<lambda>c. c \<in> set lower_hex) h"
    using assms by (simp_all add: is_hex_identifier_def starts_with_def h_def eval_nat_numeral)
  have h: "tid = ''task-'' @ h" using append_take_drop_id [of 5 tid] unfolding t h_def by (rule sym)
  have "list_all path_char lower_hex" "CHR ''/'' \<notin> set lower_hex" by code_simp+
  then have "list_all path_char h" "CHR ''/'' \<notin> set h" using l by (auto simp: list_all_iff)
  moreover have "list_all path_char ''/node/v1/tasks/task-''" "list_all path_char ''/result''" by code_simp+
  ultimately show "plain_path (''/node/v1/tasks/'' @ tid @ ''/result'')" "CHR ''/'' \<notin> set tid"
    by (simp_all add: h plain_path_def)
qed

lemma result_path_parts:
  assumes "CHR ''/'' \<notin> set tid"
  shows "path_parts (''/node/v1/tasks/'' @ tid @ ''/result'') = [''node'', ''v1'', ''tasks'', tid, ''result'']"
proof -
  have "strip_char (CHR ''/'') (''/node/v1/tasks/'' @ tid @ ''/result'') = ''node/v1/tasks/'' @ tid @ ''/result''"
    by (simp add: strip_char_def)
  moreover have "py_split (CHR ''/'') (tid @ CHR ''/'' # ''result'') = [tid, ''result'']"
    by (subst py_split_found [OF assms]) simp
  ultimately show ?thesis by (simp add: path_parts_def)
qed

lemma finish_poll:
  "poll_node (JStr nid) (JStr tok) now (sv_lab s) = (Inr resp, l) \<Longrightarrow>
    finish_node nid tok ''/node/v1/poll'' [] now s = (Reply 200 (PollContent resp), s\<lparr>sv_lab := l\<rparr>)"
  by (simp add: finish_node_def require_body_keys_def on_lab_def lab_reply_def)

lemma finish_result:
  assumes "CHR ''/'' \<notin> set tid"
    and "submit_result (JStr nid) (JStr tok) (JStr tid) st res now (sv_lab s) = (Inr out, l)"
  shows "finish_node nid tok (''/node/v1/tasks/'' @ tid @ ''/result'') [(''status'', st), (''result'', res)] now s =
    (Reply 200 (ResultContent out), s\<lparr>sv_lab := l\<rparr>)"
proof -
  have keys: "require_body_keys [(''status'', st), (''result'', res)] [''status'', ''result''] [] = Inr ()"
    by (simp add: require_body_keys_def)
  show ?thesis
    unfolding finish_node_def result_path_parts [OF assms(1)] Let_def keys
    by (simp add: is_result_path_def on_lab_def lab_reply_def get_key_def assms(2))
qed

section \<open>The report fits into a request\<close>

lemma utf8_append: "utf8_encode (a @ b) = utf8_encode a @ utf8_encode b"
  by (simp add: utf8_encode_def)

lemma report_body:
  assumes "validate_result (JStr ''completed'') (JObj kvs) = Inr (Completed, r)" and "tidy (JObj kvs)"
  shows "\<exists>data. compact_json (JObj [(''status'', JStr ''completed''), (''result'', JObj kvs)]) = Some data \<and>
    length data \<le> 16384 \<and> sendable (JObj [(''status'', JStr ''completed''), (''result'', JObj kvs)])"
proof -
  obtain t where t: "dumps (JObj kvs) = Some t" "length (utf8_encode t) \<le> 4096"
    using assms(1) by (auto simp: validate_result_Inr encoded_size_def MAX_RESULT_BYTES_def simp del: dumps.simps)
  have s: "sendable (JObj kvs)" using sendable_dumped(1) [OF t(1)] assms(2) by (simp add: tidy_def)
  let ?pre = "[CHR ''{''] @ dump_string ''status'' @ [CHR '':''] @ dump_string ''completed'' @ [CHR '',''] @ dump_string ''result'' @ [CHR '':'']"
  have "dumps (JObj [(''status'', JStr ''completed''), (''result'', JObj kvs)]) = Some (?pre @ t @ [CHR ''}''])"
    by (subst dumps.simps(7)) (simp add: t(1) del: dumps.simps(7))
  moreover have "sendable (JObj [(''status'', JStr ''completed''), (''result'', JObj kvs)])" using s by simp
  ultimately have "compact_json (JObj [(''status'', JStr ''completed''), (''result'', JObj kvs)]) =
      Some (utf8_encode (?pre @ t @ [CHR ''}'']))"
    using sendable_spelled by (simp add: compact_json_def del: dumps.simps spell_floats.simps)
  moreover have "length (utf8_encode ?pre) \<le> 100" "length (utf8_encode [CHR ''}'']) = 1" by code_simp+
  then have "length (utf8_encode (?pre @ t @ [CHR ''}''])) \<le> 16384" using t(2) unfolding utf8_append length_append by linarith
  ultimately show ?thesis using s by auto
qed

section \<open>The two turns\<close>

definition response_fits :: "json \<Rightarrow> bool" where
  "response_fits v \<longleftrightarrow> (\<exists>b. compact_json v = Some b \<and> length b \<le> MAX_RESPONSE_BYTES)"

lemma poll_served:
  assumes "json_channel loads" and "serves s (nd_client st) nid tok" and "authenticate_node (JStr nid) (JStr tok) (sv_lab s)"
    and "poll_node (JStr nid) (JStr tok) (hd_now h) (sv_lab s) = (Inr resp, l1)" and "pr_task resp = Some u"
    and "nd_pending st = None" and "t_result u = None" and "response_fits (JObj (poll_json resp))"
    and "check_envelope (nd_client st) (JObj (node_task_json u)) = Inr ()"
    and "execute_task (JObj (node_task_json u)) (sr_now r) (nd_executor st) = ((stat, res), ex)"
  shows "\<exists>s1. served_turn loads ok h r (st, s) =
      ((Inr 0, st\<lparr>nd_executor := ex, nd_pending := Some \<lparr>pd_task_id = JStr (t_id u),
         pd_task_type = JStr (task_type_str (t_type u)), pd_status = stat, pd_result = res\<rparr>\<rparr>), s1) \<and>
    sv_lab s1 = l1 \<and> sv_port s1 = sv_port s"
proof -
  have path: "plain_path ''/node/v1/poll''" "starts_with ''/node/v1/'' ''/node/v1/poll''"
    by (simp add: plain_path_def path_char_def is_digit_def ascii_alpha_def, code_simp)
  obtain b where b: "compact_json (JObj (poll_json resp)) = Some b" "length b \<le> MAX_RESPONSE_BYTES"
    using assms(8) by (auto simp: response_fits_def)
  have body: "compact_json (JObj []) = Some ''{}''" "sendable (JObj [])" by code_simp+
  have "tidy (JObj (poll_json resp))" by (rule tidy_poll, rule tidy_node_task) (simp add: assms(5,7))
  moreover have "respond (env_float_repr (s_env (sv_lab s))) (Reply 200 (PollContent resp)) = send_json 200 (JObj (poll_json resp))"
    by (simp add: respond_def)
  ultimately obtain q where q: "node_request ''/node/v1/poll'' (JObj []) (nd_client st) = Inr q"
    "read_reply loads (fst (exchange loads ok h s q)) = Inr (poll_json resp)"
    "sv_lab (snd (exchange loads ok h s q)) = l1" "sv_port (snd (exchange loads ok h s q)) = sv_port s"
    using node_exchange [OF assms(2) path _ assms(3,1) body(2,1) _ finish_poll [OF assms(4)] _ b, of ok] by auto
  have "get_key (poll_json resp) ''task'' = JObj (node_task_json u)"
    by (simp add: get_key_def poll_json_def json_option_def assms(5))
  moreover have "map_of (node_task_json u) ''id'' = Some (JStr (t_id u))"
    "map_of (node_task_json u) ''type'' = Some (JStr (task_type_str (t_type u)))" by (simp_all add: node_task_json_def)
  ultimately have "fst (served_turn loads ok h r (st, s)) =
      (Inr 0, st\<lparr>nd_executor := ex, nd_pending := Some \<lparr>pd_task_id = JStr (t_id u),
         pd_task_type = JStr (task_type_str (t_type u)), pd_status = stat, pd_result = res\<rparr>\<rparr>)"
    using q(1,2) assms(6,9,10) by (simp add: served_turn_def work_turn_def poll_turn_def poll_controller_def node_call_def)
  moreover have "snd (served_turn loads ok h r (st, s)) = snd (exchange loads ok h s q)"
    by (simp add: served_turn_def turn_request_def assms(6) q(1))
  ultimately show ?thesis using q(3,4) by (metis prod.collapse)
qed

lemma report_served:
  assumes "json_channel loads" and "serves s (nd_client st) nid tok" and "authenticate_node (JStr nid) (JStr tok) (sv_lab s)"
    and "submit_result (JStr nid) (JStr tok) (JStr tid) (JStr ''completed'') (JObj kvs) (hd_now h) (sv_lab s) = (Inr out, l)"
    and "is_hex_identifier (JStr tid) ''task-'' 12" and "validate_result (JStr ''completed'') (JObj kvs) = Inr (Completed, kvs)"
    and "tidy (JObj kvs)" and "t_result out = Some kvs" and "response_fits (JObj (node_task_json out))"
    and "nd_pending st = Some p" and "p = \<lparr>pd_task_id = JStr tid, pd_task_type = tt, pd_status = ''completed'', pd_result = JObj kvs\<rparr>"
    and "executor_fit (nd_executor st)" and "report_fits (nd_executor st) p"
  shows "\<exists>d st2 s2. served_turn loads ok h r (st, s) = ((Inr d, st2), s2) \<and> nd_pending st2 = None \<and> sv_lab s2 = l"
proof -
  let ?path = "''/node/v1/tasks/'' @ tid @ ''/result''"
  let ?body = "[(''status'', JStr ''completed''), (''result'', JObj kvs)]"
  have path: "plain_path ?path" "starts_with ''/node/v1/'' ?path" "?path \<noteq> ''/node/v1/enroll''"
    using hex_task_id(1) [OF assms(5)] by (simp_all add: starts_with_def)
  obtain data where data: "compact_json (JObj ?body) = Some data" "length data \<le> 16384" "sendable (JObj ?body)"
    using report_body [OF assms(6,7)] by blast
  obtain b where b: "compact_json (JObj (node_task_json out)) = Some b" "length b \<le> MAX_RESPONSE_BYTES"
    using assms(9) by (auto simp: response_fits_def)
  have "tidy (JObj (node_task_json out))" by (rule tidy_node_task) (use assms(7,8) in simp)
  moreover have "respond (env_float_repr (s_env (sv_lab s))) (Reply 200 (ResultContent out)) = send_json 200 (JObj (node_task_json out))"
    by (simp add: respond_def)
  ultimately obtain q where q: "node_request ?path (JObj ?body) (nd_client st) = Inr q"
    "read_reply loads (fst (exchange loads ok h s q)) = Inr (node_task_json out)"
    "sv_lab (snd (exchange loads ok h s q)) = l"
    using node_exchange [OF assms(2) path assms(3,1) data(3,1,2) finish_result [OF hex_task_id(2) [OF assms(5)] assms(4)] _ b, of ok]
    by auto
  have rq: "result_request (pd_task_id p) (JStr (pd_status p)) (pd_result p) (nd_client st) = Inr q"
    using assms(5,6) q(1) by (simp add: result_request_def assms(11))
  obtain ex' where a: "acknowledge (pd_task_type p) (JStr (pd_status p)) (pd_result p) (nd_executor st) = (Inr (), ex')"
    using acknowledge_fit [OF assms(12,13)] by (metis prod.collapse)
  let ?r = "r\<lparr>sr_loads := loads, sr_send := \<lambda>q. fst (exchange loads ok h s q)\<rparr>"
  have "send_result loads (\<lambda>q. fst (exchange loads ok h s q)) (pd_task_id p) (JStr (pd_status p)) (pd_result p) (nd_client st) =
      Inr (node_task_json out)"
    using rq q(2) by (simp add: send_result_request)
  then obtain d st2 where "work_turn ?r st = (Inr d, st2)" "nd_pending st2 = None"
    using a by (simp add: work_turn_def assms(10) submit_turn_def waited_def)
  moreover have "turn_request st = Inr q" by (simp add: turn_request_def assms(10) rq)
  ultimately show ?thesis using q(3) by (simp add: served_turn_def)
qed

lemma tidy_execute:
  "executor_fit ex \<Longrightarrow> execute_task (JObj kvs) now ex = ((''completed'', r), ex') \<Longrightarrow> tidy r"
  by (auto simp: execute_task_def failed_report_def tidy_action split: sum.splits protocol_error.splits prod.splits if_splits)

text \<open>C1: A task completes over HTTP, in two turns of an enrolled node against the server.  In the first
  turn the node polls, the handler authorizes it and the ledger hands out the task; the JSON text of the
  answer passes the checks of the node, which executes the task.  In the second turn the report goes back
  the same way, the ledger stores the result as completed, and the node has nothing pending.  The URL,
  the headers, the body limits, both directions of JSON text and every check on either side are in
  between; what is assumed is that \<open>json.loads\<close> reads what \<open>json.dumps\<close> wrote, that the answers fit into
  what the node reads, and that neither the deadline of the task nor the silence of the node came
  first.\<close>

theorem task_completes_over_http:
  assumes "json_channel loads" and "reachable (sv_lab s)" and "hex_uuids (s_env (sv_lab s))"
    and "serves s (nd_client st) nid tok" and "authenticate_node (JStr nid) (JStr tok) (sv_lab s)"
    and "poll_node (JStr nid) (JStr tok) (hd_now h) (sv_lab s) = (Inr resp, l1)" and "pr_task resp = Some u"
    and "map_of (s_tasks l1) (t_id u) = Some t" and "\<not> overdue (hd_now h') t"
    and "map_of (s_nodes l1) nid = Some n" and "hd_now h' < hd_now h + NODE_STALE_SECONDS"
    and "nd_pending st = None" and "executor_fit (nd_executor st)" and "within_counters (sr_now r) (nd_executor st)"
    and "executor_identity (nd_executor st) = identity_of n" and "t_type t \<in> set (NODE_PROFILES (ex_profile (nd_executor st)))"
    and "response_fits (JObj (poll_json resp))"
    and "\<And>stat res ex out l2. execute_task (JObj (node_task_json u)) (sr_now r) (nd_executor st) = ((stat, res), ex) \<Longrightarrow>
      submit_result (JStr nid) (JStr tok) (JStr (t_id u)) (JStr stat) res (hd_now h') l1 = (Inr out, l2) \<Longrightarrow>
      response_fits (JObj (node_task_json out))"
  shows "\<exists>st1 s1 d st2 s2 kvs t'. served_turn loads ok h r (st, s) = ((Inr 0, st1), s1) \<and>
    nd_pending st1 = Some \<lparr>pd_task_id = JStr (t_id u), pd_task_type = JStr (task_type_str (t_type t)),
      pd_status = ''completed'', pd_result = JObj kvs\<rparr> \<and>
    served_turn loads ok h' r' (st1, s1) = ((Inr d, st2), s2) \<and> nd_pending st2 = None \<and>
    map_of (s_tasks (sv_lab s2)) (t_id u) = Some t' \<and> t_status t' = Completed \<and> t_result t' = Some kvs"
proof -
  have "cl_node_id (nd_client st) = Some nid" using assms(4) by (simp add: serves_def)
  note parts = task_completes [OF assms(2,3,6-11) this assms(13-16)]
  obtain kvs ex out l2 t' where e: "execute_task (JObj (node_task_json u)) (sr_now r) (nd_executor st) = ((''completed'', JObj kvs), ex)"
      "executor_fit ex"
    and s2: "submit_result (JStr nid) (JStr tok) (JStr (t_id u)) (JStr ''completed'') (JObj kvs) (hd_now h') l1 = (Inr out, l2)"
    and out: "t_status out = Completed" "t_result out = Some kvs" "map_of (s_tasks l2) (t_id u) = Some t'" "out = project_node_task t'"
    and v: "validate_result (JStr ''completed'') (JObj kvs) = Inr (Completed, kvs)"
    using parts by blast
  let ?p = "\<lparr>pd_task_id = JStr (t_id u), pd_task_type = JStr (task_type_str (t_type u)), pd_status = ''completed'',
    pd_result = JObj kvs\<rparr>"
  let ?st1 = "st\<lparr>nd_executor := ex, nd_pending := Some ?p\<rparr>"
  have none: "t_result u = None" and env: "check_envelope (nd_client st) (JObj (node_task_json u)) = Inr ()"
    and type: "t_type u = t_type t" using parts by blast+
  obtain s1 where s1: "served_turn loads ok h r (st, s) = ((Inr 0, ?st1), s1)" "sv_lab s1 = l1" "sv_port s1 = sv_port s"
    using poll_served [OF assms(1,4,5,6,7,12) none assms(17) env e(1), of ok] by blast
  have "serves s1 (nd_client ?st1) nid tok" using assms(4) s1(3) by (simp add: serves_def connects_def)
  moreover obtain pay where pay: "validate_task_payload (get_key (node_task_json u) ''type'') (get_key (node_task_json u) ''payload'') =
      Inr (t_type u, pay)" using parts type by auto
  have "report_fits ex ?p"
    using execute_fit [OF assms(13) e(1) _ pay, of "JStr (t_id u)"] by (simp add: node_task_json_def)
  moreover have "authenticate_node (JStr nid) (JStr tok) (sv_lab s1)" "is_hex_identifier (JStr (t_id u)) ''task-'' 12"
    using parts s1(2) by blast+
  ultimately obtain d st2 s2 where "served_turn loads ok h' r' (?st1, s1) = ((Inr d, st2), s2)" "nd_pending st2 = None" "sv_lab s2 = l2"
    using report_served [of loads s1 ?st1 nid tok "t_id u" kvs h' out l2 ?p "JStr (task_type_str (t_type u))" ok r', OF assms(1) _ _ s2 [folded s1(2)] _ v
        tidy_execute [OF assms(13) e(1)] out(2) assms(18) [OF e(1) s2]] e(2) by auto
  moreover have "t_status t' = Completed \<and> t_result t' = Some kvs"
    using out by (simp add: project_node_task_def node_task.defs)
  ultimately show ?thesis using s1(1) out(3) by (simp add: type)
qed

section \<open>How long a text can get\<close>

fun wire_bound :: "json \<Rightarrow> nat" where
  "wire_bound (JInt i) = 1 + length (nat_str (nat \<bar>i\<bar>))"
| "wire_bound (JStr s) = 6 * length s + 2"
| "wire_bound (JList xs) = 2 + sum_list (map (\<lambda>x. wire_bound x + 1) xs)"
| "wire_bound (JObj kvs) = 2 + sum_list (map (\<lambda>(k, v). 6 * length k + wire_bound v + 4) kvs)"
| "wire_bound _ = 5"

lemma escape_length: "length (escape_char c) \<le> 6"
  by (simp add: escape_char_def)

lemma dump_string_length: "length (dump_string s) \<le> 6 * length s + 2"
proof -
  have "length (concat (map escape_char s)) \<le> 6 * length s"
  proof (induction s)
    case (Cons c s)
    with escape_length [of c] show ?case by simp
  qed simp
  then show ?thesis by (simp add: dump_string_def)
qed

lemma dumps_bound:
  "dumps j = Some t \<Longrightarrow> no_floats j \<Longrightarrow> length t \<le> wire_bound j"
  "dump_items xs = Some ps \<Longrightarrow> list_all no_floats xs \<Longrightarrow>
    sum_list (map (\<lambda>p. length p + 1) ps) \<le> sum_list (map (\<lambda>x. wire_bound x + 1) xs)"
  "dump_members kvs = Some qs \<Longrightarrow> list_all (\<lambda>(k, v). no_floats v) kvs \<Longrightarrow>
    sum_list (map (\<lambda>p. length p + 1) qs) \<le> sum_list (map (\<lambda>(k, v). 6 * length k + wire_bound v + 4) kvs)"
proof (induction j and xs and kvs arbitrary: t and ps and qs rule: dumps_dump_items_dump_members.induct)
  case (3 i)
  then show ?case by (auto simp: int_str_def split: if_splits)
next
  case (5 s)
  then show ?case using dump_string_length [of s] by auto
next
  case (6 xs)
  then obtain ps where ps: "dump_items xs = Some ps" "t = ''['' @ join '','' ps @ '']''" by auto
  with 6 length_join [of ps] show ?case by fastforce
next
  case (7 kvs)
  then obtain ps where ps: "dump_members kvs = Some ps" "t = ''{'' @ join '','' ps @ ''}''" by auto
  with 7 length_join [of ps] show ?case by fastforce
next
  case (11 k v kvs)
  then show ?case using dump_string_length [of k] by (fastforce split: option.splits)
qed (fastforce split: option.splits)+

lemma compact_bound: "sendable j \<Longrightarrow> \<exists>b. compact_json j = Some b \<and> length b \<le> 2 * wire_bound j"
proof -
  assume s: "sendable j"
  obtain t where t: "dumps j = Some t" "compact_json j = Some (utf8_encode t)" using sendable_written [OF s] by blast
  have "no_floats j" using s by (induction j) (auto simp: list_all_iff)
  with dumps_bound(1) [OF t(1)] length_utf8 [of t] t(2) show ?thesis by auto
qed

lemma fits_bound: "sendable j \<Longrightarrow> wire_bound j \<le> 16384 \<Longrightarrow> response_fits j"
  using compact_bound [of j] by (auto simp: response_fits_def MAX_RESPONSE_BYTES_def)

section \<open>A session\<close>

fun ints_short :: "json \<Rightarrow> bool" where
  "ints_short (JInt i) = (length (nat_str (nat \<bar>i\<bar>)) \<le> MAX_INT_DIGITS)"
| "ints_short (JList xs) = list_all ints_short xs"
| "ints_short (JObj kvs) = list_all (\<lambda>(k, v). ints_short v) kvs"
| "ints_short _ = True"

lemma tidy_sendable: "tidy j \<Longrightarrow> ints_short j \<Longrightarrow> sendable j"
proof (induction j)
  case (JObj kvs)
  have "sendable v" if "(k, v) \<in> set kvs" for k v
  proof -
    have "tidy v" "ints_short v" using JObj.prems that by (fastforce simp: tidy_def list_all_iff)+
    then show ?thesis using JObj.IH [OF that, of v] by simp
  qed
  with JObj.prems show ?case by (auto simp: tidy_def list_all_iff)
qed (auto simp: tidy_def list_all_iff)

definition short_text :: "json \<Rightarrow> bool" where
  "short_text j \<longleftrightarrow> ints_short j \<and> wire_bound j \<le> 16384"

lemma short_fits: "tidy j \<Longrightarrow> short_text j \<Longrightarrow> response_fits j"
  by (simp add: short_text_def fits_bound tidy_sendable)

lemma demo_poll_fits:
  "case poll_node (JStr demo_node) (JStr demo_token) 2 demo_queued of (Inl _, _) \<Rightarrow> False
    | (Inr resp, s1) \<Rightarrow> short_text (JObj (poll_json resp))"
  by code_simp

lemma demo_result_fits:
  "case poll_node (JStr demo_node) (JStr demo_token) 2 demo_queued of (Inl _, _) \<Rightarrow> False | (Inr resp, s1) \<Rightarrow>
    (case pr_task resp of None \<Rightarrow> False | Some u \<Rightarrow>
    (case submit_result (JStr demo_node) (JStr demo_token) (JStr (t_id u)) (JStr ''completed'') demo_result 3 s1 of
      (Inl _, _) \<Rightarrow> False | (Inr out, s2) \<Rightarrow> short_text (JObj (node_task_json out))))"
  by code_simp

definition demo_loopback :: server where
  "demo_loopback = \<lparr>sv_lab = demo_queued, sv_operators = empty_registry (\<lambda>_. []), sv_enroll_digest = [],
     sv_metrics = new_metrics 0, sv_port = 8765, sv_static = \<lambda>_. None\<rparr>"

definition demo_local_client :: client where
  "demo_local_client = demo_client_enrolled\<lparr>cl_controller_url := ''http://127.0.0.1:'' @ int_str 8765\<rparr>"

definition demo_idle :: "workspace \<Rightarrow> node_state" where
  "demo_idle w = \<lparr>nd_client = demo_local_client, nd_executor = demo_serving w, nd_pending = None, nd_stop = False\<rparr>"

definition demo_at :: "rat \<Rightarrow> handling" where
  "demo_at now = \<lparr>hd_clock = now, hd_clock' = now, hd_now = now, hd_duration = 0\<rparr>"

definition demo_outside :: surroundings where
  "demo_outside = demo_surroundings\<lparr>sr_now := 2\<rparr>"

lemma demo_serves: "serves demo_loopback demo_local_client demo_node demo_token"
proof -
  have "demo_node \<noteq> []" "demo_token \<noteq> []" by (simp_all add: demo_node_def demo_token_def)
  then show ?thesis by (simp add: serves_def connects_def demo_loopback_def demo_local_client_def demo_client_enrolled_def)
qed

lemma demo_authenticated: "authenticate_node (JStr demo_node) (JStr demo_token) demo_queued"
  by code_simp

lemma demo_pong:
  assumes "t_type u = PING" and "payload_ok PING (t_payload u)"
    and "execute_task (JObj (node_task_json u)) 2 (demo_serving w) = ((stat, res), ex)"
  shows "stat = ''completed'' \<and> res = JObj [(''reply'', JStr ''PONG'')]"
proof -
  have "get_key (node_task_json u) ''type'' = JStr (task_type_str PING)"
    "get_key (node_task_json u) ''payload'' = JObj (payload_json (t_payload u))"
    by (simp_all add: get_key_def node_task_json_def assms(1))
  then have "validate_task_payload (get_key (node_task_json u) ''type'') (get_key (node_task_json u) ''payload'') =
      Inr (PING, t_payload u)"
    using validate_task_payload_json [OF assms(2)] by simp
  moreover have "PING \<in> set (NODE_PROFILES (ex_profile (demo_serving w)))"
    by (simp add: demo_serving_def TASK_TYPES_def TRAINING_TASK_TYPES_def)
  ultimately show ?thesis using assms(3) by (simp add: execute_task_def)
qed

theorem task_completes_over_http_witness:
  "\<exists>w st1 s1 d st2 s2 tid t'. served_turn read_json (\<lambda>_. True) (demo_at 2) demo_outside (demo_idle w, demo_loopback) =
      ((Inr 0, st1), s1) \<and>
    served_turn read_json (\<lambda>_. True) (demo_at 3) demo_outside (st1, s1) = ((Inr d, st2), s2) \<and> nd_pending st2 = None \<and>
    map_of (s_tasks (sv_lab s2)) tid = Some t' \<and> t_status t' = Completed"
proof -
  obtain w where w: "ws_holds w (False, False)" using open_holds [OF demo_names_ok] by blast
  note fit = demo_serving_fit [OF w]
  obtain resp l1 u t n where d: "poll_node (JStr demo_node) (JStr demo_token) 2 demo_queued = (Inr resp, l1)"
    "pr_task resp = Some u" "map_of (s_tasks l1) (t_id u) = Some t" "\<not> overdue 3 t" "t_type t = PING"
    "map_of (s_nodes l1) demo_node = Some n"
    "identity_of n = \<lparr>ri_version = ''1.0'', ri_profile = Purple_lab, ri_poll_interval_ms = 1000, ri_jitter_percent = 10\<rparr>"
    using demo_polled by blast
  have hex: "hex_uuids (s_env demo_queued)" by (simp add: demo_env_kept hex_demo)
  have prof: "t_type t \<in> set (NODE_PROFILES (ex_profile (demo_serving w)))"
    by (simp add: d(5) demo_serving_def TASK_TYPES_def TRAINING_TASK_TYPES_def)
  have rec: "records_ok l1" using records_reachable [OF reachable_run_op [OF demo_reachable(3), of demo_poll]] d(1)
    by (simp add: demo_poll_def)
  have u: "u = project_node_task t" using poll_handed [OF records_reachable [OF demo_reachable(3)] d(1,2)] d(3) by (auto simp: handed_def)
  have h: "u = project_node_task t" "t_status t = Dispatched"
    using poll_handed [OF records_reachable [OF demo_reachable(3)] d(1,2)] d(3) by (auto simp: handed_def)
  have "t_type u = PING" "t_payload u = t_payload t" "t_result u = t_result t"
    unfolding h(1) by (simp_all add: project_node_task_def node_task.defs d(5))
  moreover have "payload_ok PING (t_payload t)" "t_result t = None"
    using records_task [OF rec d(3)] h(2) d(5) by (simp_all add: task_wf_def unfinished_def)
  ultimately have u: "t_type u = PING" "payload_ok PING (t_payload u)" "t_result u = None" by simp_all
  note pong = demo_pong [OF u(1,2)]
  have "tidy (JObj (poll_json resp))" using u(3) by (intro tidy_poll tidy_node_task) (simp add: d(2))
  moreover have "short_text (JObj (poll_json resp))" using demo_poll_fits d(1) by simp
  ultimately have fits: "response_fits (JObj (poll_json resp))" by (rule short_fits)
  have client: "cl_node_id demo_local_client = Some demo_node"
    by (simp add: demo_local_client_def demo_client_enrolled_def)
  have late: "3 < 2 + NODE_STALE_SECONDS" by (simp add: NODE_STALE_SECONDS_def)
  obtain r ex out l2 where e: "execute_task (JObj (node_task_json u)) 2 (demo_serving w) = ((''completed'', JObj r), ex)"
    and s2: "submit_result (JStr demo_node) (JStr demo_token) (JStr (t_id u)) (JStr ''completed'') (JObj r) 3 l1 = (Inr out, l2)"
    and r: "t_result out = Some r"
    using task_completes [OF demo_reachable(3) hex d(1-4,6) late client conjunct1 [OF fit]
        conjunct1 [OF conjunct2 [OF fit]] _ prof] fit d(7) by auto
  have res: "JObj r = demo_result" using pong [OF e] by (simp add: demo_result_def)
  have "tidy (JObj (node_task_json out))" by (rule tidy_node_task) (use r res in \<open>simp add: demo_result_def\<close>)
  moreover have "short_text (JObj (node_task_json out))" using demo_result_fits s2 d(1,2) by (simp add: res)
  ultimately have "response_fits (JObj (node_task_json out))" by (rule short_fits)
  then have fits': "response_fits (JObj (node_task_json out'))"
    if "execute_task (JObj (node_task_json u)) 2 (demo_serving w) = ((stat, r'), ex')"
      "submit_result (JStr demo_node) (JStr demo_token) (JStr (t_id u)) (JStr stat) r' 3 l1 = (Inr out', l2')"
    for stat r' ex' out' l2'
    using that e s2 by auto
  have n: "executor_identity (demo_serving w) = identity_of n" using fit d(7) by simp
  have node: "sv_lab demo_loopback = demo_queued" "nd_client (demo_idle w) = demo_local_client"
    "nd_executor (demo_idle w) = demo_serving w" "nd_pending (demo_idle w) = None" "hd_now (demo_at i) = i" "sr_now demo_outside = 2" for i
    by (simp_all add: demo_loopback_def demo_idle_def demo_at_def demo_outside_def)
  obtain st1 s1 dl st2 s2 kvs t' where
    "served_turn read_json (\<lambda>_. True) (demo_at 2) demo_outside (demo_idle w, demo_loopback) = ((Inr 0, st1), s1)"
    "served_turn read_json (\<lambda>_. True) (demo_at 3) demo_outside (st1, s1) = ((Inr dl, st2), s2)"
    "nd_pending st2 = None" "map_of (s_tasks (sv_lab s2)) (t_id u) = Some t'" "t_status t' = Completed"
    using task_completes_over_http [of read_json demo_loopback "demo_idle w" demo_node demo_token "demo_at 2" resp l1 u t "demo_at 3" n
        demo_outside "\<lambda>_. True" demo_outside, unfolded node, OF read_json_channel demo_reachable(3) hex demo_serves demo_authenticated
        d(1-4,6) late refl conjunct1 [OF fit] conjunct1 [OF conjunct2 [OF fit]] n prof fits] fits' by blast
  then show ?thesis by blast
qed

end
