(* ===== verification/Node_Session.thy ===== *)
theory Node_Session
  imports Exchange_Properties
begin

text \<open>
  The session of a node over HTTP, from its enrollment to its goodbye.
\<close>

section \<open>Enrolling\<close>

text \<open>The ledger has room: fewer nodes than the limit, or the record of a node whose session is closed.\<close>

definition room_for_node :: "lab_state \<Rightarrow> bool" where
  "room_for_node s \<longleftrightarrow> length (s_nodes s) < MAX_NODES \<or> (\<exists>n\<in>set (vals (s_nodes s)). \<not> n_session_active n)"

lemma room_prunes: "room_for_node s \<Longrightarrow> \<exists>s1. prune_closed_node s = Inr s1 \<and> s_env s1 = s_env s"
  by (auto simp: room_for_node_def prune_closed_node_def Let_def filter_empty_conv simp del: set_map)

text \<open>What \<open>enroll\<close> of the client sends as its body.\<close>

abbreviation enroll_body :: "string \<Rightarrow> string \<Rightarrow> profile \<Rightarrow> int \<Rightarrow> int \<Rightarrow> (string \<times> json) list" where
  "enroll_body name version p interval jitter \<equiv>
    [(''name'', JStr name), (''version'', JStr version), (''profile'', JStr (profile_str p)),
     (''capabilities'', JList (map (\<lambda>t. JStr (task_type_str t)) (NODE_PROFILES p))),
     (''poll_interval_ms'', JInt interval), (''jitter_percent'', JInt jitter)]"

abbreviation enroll_fields :: "string \<Rightarrow> string \<Rightarrow> profile \<Rightarrow> int \<Rightarrow> int \<Rightarrow> enrollment_request" where
  "enroll_fields name version p interval jitter \<equiv>
    \<lparr>er_name = JStr name, er_version = JStr version, er_profile = JStr (profile_str p),
     er_capabilities = JList (map (\<lambda>t. JStr (task_type_str t)) (NODE_PROFILES p)),
     er_poll_interval_ms = JInt interval, er_jitter_percent = JInt jitter\<rparr>"

lemma enroll_accepted:
  assumes "clean_text (JStr name) ''name'' 1 48 = Inr name" and "clean_text (JStr version) ''version'' 1 32 = Inr version"
    and "MIN_POLL_INTERVAL_MS \<le> interval" and "interval \<le> MAX_POLL_INTERVAL_MS"
    and "0 \<le> jitter" and "jitter \<le> MAX_JITTER_PERCENT" and "room_for_node s"
  shows "\<exists>n s1 s'. enroll_node (enroll_fields name version p interval jitter) now s = (Inr (project_node n, n_session_token n), s') \<and>
    map_of (s_nodes s') (n_id n) = Some n \<and> s_env s1 = s_env s \<and>
    n = new_node name version p (NODE_PROFILES p) interval jitter now s1"
proof -
  obtain s1 where s1: "prune_closed_node s = Inr s1" "s_env s1 = s_env s" using room_prunes [OF assms(7)] by blast
  have "validate_capabilities (JStr (profile_str p)) (JList (map (\<lambda>t. JStr (task_type_str t)) (NODE_PROFILES p))) = Inr (NODE_PROFILES p)"
    by (simp add: validate_capabilities_Inr)
  moreover have "validate_poll_interval (JInt interval) = Inr interval" "validate_jitter_percent (JInt jitter) = Inr jitter"
    using assms(3-6) by (simp_all add: validate_poll_interval_def validate_jitter_percent_def bounded_int_def)
  moreover have "validate_profile (JStr (profile_str p)) = Inr p" by (simp add: validate_profile_def)
  ultimately have "\<exists>s'. enroll_node (enroll_fields name version p interval jitter) now s = (Inr (project_node n, n_session_token n), s') \<and>
      map_of (s_nodes s') (n_id n) = Some n" if "n = new_node name version p (NODE_PROFILES p) interval jitter now s1" for n
    using s1(1) unfolding that by (simp add: enroll_node_def assms(1,2) protocol_call_def Let_def update_conv' del: One_nat_def)
  with s1(2) show ?thesis by blast
qed

lemma clean_length: "clean_text (JStr s) f a b = Inr s \<Longrightarrow> length s \<le> b"
  by (auto simp: clean_text_def Let_def split: if_splits)

lemma hex_new_node:
  assumes "hex_uuids (s_env s)"
  shows "is_hex_identifier (JStr (n_id (new_node name version p cs i j now s))) ''node-'' 10"
proof -
  have "12 \<le> length (env_uuid (s_env s) k)" for k using assms by (simp add: hex_uuids_def)
  then have "10 \<le> length (env_uuid (s_env s) k)" for k by (rule order_trans [rotated]) simp
  with assms show ?thesis
    unfolding new_node_def public_node.select_convs hex_identifier_append uuid_hex_def
    by (auto simp: hex_uuids_def list_all_iff min_absorb2 dest: in_set_takeD)
qed

lemma enroll_body_fits:
  assumes "length name \<le> 48" and "length version \<le> 32" and "MIN_POLL_INTERVAL_MS \<le> i" and "i \<le> MAX_POLL_INTERVAL_MS"
    and "0 \<le> j" and "j \<le> MAX_JITTER_PERCENT"
  shows "sendable (JObj (enroll_body name version p i j)) \<and>
    (\<exists>data. compact_json (JObj (enroll_body name version p i j)) = Some data \<and> length data \<le> 16384)"
proof -
  let ?j = "JObj (enroll_body name version p i j)"
  have num: "length (nat_str (nat i)) \<le> 5" "length (nat_str (nat j)) \<le> 5"
    by (rule length_nat_str; use assms(3-6) in \<open>simp add: MIN_POLL_INTERVAL_MS_def MAX_POLL_INTERVAL_MS_def MAX_JITTER_PERCENT_def\<close>)+
  have pos: "\<bar>i\<bar> = i" "\<bar>j\<bar> = j" using assms(3,5) by (simp_all add: MIN_POLL_INTERVAL_MS_def)
  have send: "sendable ?j" using num pos by (simp add: list_all_iff MAX_INT_DIGITS_def)
  have prof: "length (profile_str p) \<le> 20" by (cases p) simp_all
  have "\<forall>p. wire_bound (JList (map (\<lambda>t. JStr (task_type_str t)) (NODE_PROFILES p))) \<le> 4000"
    by (rule allI, case_tac p) (simp_all only:, code_simp+)
  then have "wire_bound (JList (map (\<lambda>t. JStr (task_type_str t)) (NODE_PROFILES p))) \<le> 4000" by blast
  then have "wire_bound ?j \<le> 8192" using assms(1,2) num pos prof by simp
  then show ?thesis using compact_bound [OF send] send by auto
qed

lemma post_enroll:
  assumes "connects s c" and "cl_enrollment_token c \<noteq> []" and "sv_enroll_digest s = sha256 (utf8_encode (cl_enrollment_token c))"
    and "read_json_object (client_message loads (sv_port s) ''/node/v1/enroll'' data (''Enroll '' @ cl_enrollment_token c) None) = Inr kvs"
  shows "do_POST ok (client_message loads (sv_port s) ''/node/v1/enroll'' data (''Enroll '' @ cl_enrollment_token c) None) k k' now s =
    (case finish_enroll kvs now s of (r, s') \<Rightarrow> (r, Some ''enrollment'', s'))"
proof -
  define m where "m = client_message loads (sv_port s) ''/node/v1/enroll'' data (''Enroll '' @ cl_enrollment_token c) None"
  have path: "plain_path ''/node/v1/enroll''" by (simp add: plain_path_def path_char_def is_digit_def ascii_alpha_def)
  have here: "request_is_local (sv_port s) m" "parse_request_target ok m = Some (''/node/v1/enroll'', [])"
    unfolding m_def by (rule message_arrives [OF assms(1) path])+
  have "authorize_enrollment m s"
    using assms(2,3) by (simp only: m_def authorize_enrollment_def Let_def message_token) simp
  then have "post_begin ok m k s = Inr (EnrollRoute, Some ''enrollment'')" using here by (simp add: post_begin_def)
  then show ?thesis using assms(4) unfolding m_def [symmetric] by (simp add: do_POST_def post_finish_def)
qed

lemma finish_enroll_body:
  assumes "enroll_node (enroll_fields name version p i j) now (sv_lab s) = (Inr (n, tok), l)"
  shows "finish_enroll (enroll_body name version p i j) now s = (Reply 201 (EnrolledContent n tok), s\<lparr>sv_lab := l\<rparr>)"
  using assms by (simp add: finish_enroll_def require_body_keys_def get_key_def on_lab_def lab_reply_def)

text \<open>C18: A node that may enroll is enrolled.  When the client knows the enrollment token, its settings are
  ones the ledger accepts and the ledger has room, one exchange leaves the client with an identifier and a
  session token, and the ledger with the online node that they stand for and that carries exactly the
  settings of the client; requests the client signs with them are served.\<close>

theorem node_enrolls_over_http:
  assumes "json_channel loads" and "connects s c" and "cl_enrollment_token c \<noteq> []"
    and "sv_enroll_digest s = sha256 (utf8_encode (cl_enrollment_token c))"
    and "clean_text (JStr name) ''name'' 1 48 = Inr name" and "clean_text (JStr version) ''version'' 1 32 = Inr version"
    and "MIN_POLL_INTERVAL_MS \<le> i" and "i \<le> MAX_POLL_INTERVAL_MS" and "0 \<le> j" and "j \<le> MAX_JITTER_PERCENT"
    and "room_for_node (sv_lab s)" and "hex_uuids (s_env (sv_lab s))" and "\<And>k. 16 \<le> length (env_token (s_env (sv_lab s)) k)"
    and "\<And>n tok l. enroll_node (enroll_fields name version p i j) (hd_now h) (sv_lab s) = (Inr (n, tok), l) \<Longrightarrow>
      response_fits (enrolled_json n tok)"
  shows "\<exists>v c' s' nid tok n. served_enroll loads ok h name version p i j (c, s) = ((Inr v, c'), s') \<and>
    serves s' c' nid tok \<and> authenticate_node (JStr nid) (JStr tok) (sv_lab s') \<and>
    map_of (s_nodes (sv_lab s')) nid = Some n \<and> n_status n = Online \<and> n_session_active n \<and> n_name n = name \<and>
    identity_of n = \<lparr>ri_version = version, ri_profile = p, ri_poll_interval_ms = i, ri_jitter_percent = j\<rparr>"
proof -
  obtain n s1 l where e: "enroll_node (enroll_fields name version p i j) (hd_now h) (sv_lab s) = (Inr (project_node n, n_session_token n), l)"
    and m: "map_of (s_nodes l) (n_id n) = Some n"
    and n: "s_env s1 = s_env (sv_lab s)" "n = new_node name version p (NODE_PROFILES p) i j (hd_now h) s1"
    using enroll_accepted [OF assms(5-11)] by blast
  let ?kvs = "enroll_body name version p i j" and ?tok = "n_session_token n"
  obtain data where data: "sendable (JObj ?kvs)" "compact_json (JObj ?kvs) = Some data" "length data \<le> 16384"
    using enroll_body_fits [OF clean_length [OF assms(5)] clean_length [OF assms(6)] assms(7-10)] by blast
  let ?q = "enroll_request name version p i j c"
  have q: "request_message loads ok ?q = Some (client_message loads (sv_port s) ''/node/v1/enroll'' data
      (''Enroll '' @ cl_enrollment_token c) None)"
    unfolding enroll_request_def
    by (rule client_request_message [OF assms(2) _ data(2)]) (simp add: plain_path_def path_char_def is_digit_def ascii_alpha_def)
  obtain out where out: "enrolled_json (project_node n) ?tok = JObj out"
    "get_key out ''node'' = node_json (project_node n)" "get_key out ''session_token'' = JStr ?tok"
    by (simp add: enrolled_json_def get_key_def)
  obtain b where b: "compact_json (JObj out) = Some b" "length b \<le> MAX_RESPONSE_BYTES"
    using assms(14) [OF e] unfolding out(1) by (auto simp: response_fits_def)
  have "tidy (JObj out)" using tidy_node [of "project_node n"] by (simp add: out(1) [symmetric] enrolled_json_def)
  moreover have "respond (env_float_repr (s_env (sv_lab s))) (Reply 201 (EnrolledContent (project_node n) ?tok)) = send_json 201 (JObj out)"
    by (simp add: respond_def out(1))
  ultimately have reply: "read_reply loads (fst (exchange loads ok h s ?q)) = Inr out"
    "sv_lab (snd (exchange loads ok h s ?q)) = l" "sv_port (snd (exchange loads ok h s ?q)) = sv_port s"
    using reply_arrives [OF assms(1) q, where h = h and s = s] b finish_enroll_body [OF e]
      post_enroll [OF assms(2-4) message_read [OF assms(1) data], of ok "hd_clock h" "hd_clock' h" "hd_now h"] by auto
  obtain kvs where node: "node_json (project_node n) = JObj kvs" "get_key kvs ''id'' = JStr (n_id n)"
    by (simp add: node_json_def get_key_def project_node_def public_node.defs)
  have hex: "is_hex_identifier (JStr (n_id n)) ''node-'' 10" by (simp add: n hex_new_node assms(12))
  have tok: "16 \<le> length ?tok" using assms(13) by (simp add: n new_node_def fresh_token_def)
  let ?c = "c\<lparr>cl_node_id := Some (n_id n), cl_session_token := Some ?tok\<rparr>" and ?s = "snd (exchange loads ok h s ?q)"
  have "served_enroll loads ok h name version p i j (c, s) = ((Inr (JObj kvs), ?c), ?s)"
    using tok hex by (simp add: served_enroll_def enroll_def reply(1) accept_enrollment_def out(2,3) node)
  moreover have "serves ?s ?c (n_id n) ?tok"
    using assms(2) tok hex reply(3) by (auto simp: serves_def connects_def is_hex_identifier_def starts_with_def)
  moreover have "authenticate_node (JStr (n_id n)) (JStr ?tok) (sv_lab ?s)" by (simp add: authenticate_node_def reply(2) m)
  moreover have "n_status n = Online" "n_session_active n" "n_name n = name"
    "identity_of n = \<lparr>ri_version = version, ri_profile = p, ri_poll_interval_ms = i, ri_jitter_percent = j\<rparr>"
    by (simp_all add: n(2) new_node_def identity_of_def)
  ultimately show ?thesis using m reply(2) by blast
qed

definition demo_open_env :: env where
  "demo_open_env = demo_env\<lparr>env_token := (\<lambda>n. ''session-token-'' @ pad_nat 4 n)\<rparr>"

definition demo_new_client :: client where
  "demo_new_client = \<lparr>cl_controller_url = ''http://127.0.0.1:'' @ int_str 8765, cl_enrollment_token = ''enrollment-token'',
     cl_node_id = None, cl_session_token = None\<rparr>"

definition demo_open_server :: server where
  "demo_open_server = demo_loopback\<lparr>sv_lab := init_state ''demo'' demo_open_env,
     sv_enroll_digest := sha256 (utf8_encode ''enrollment-token'')\<rparr>"

lemma demo_enrolled_fits:
  "case enroll_node (enroll_fields ''alpha'' ''1.0'' Purple_lab 1000 10) 1 (init_state ''demo'' demo_open_env) of
    (Inl _, _) \<Rightarrow> False | (Inr (n, tok), l) \<Rightarrow> short_text (enrolled_json n tok)"
  by code_simp

theorem node_enrolls_over_http_witness:
  "\<exists>v c' s' nid tok n. served_enroll read_json (\<lambda>_. True) (demo_at 1) ''alpha'' ''1.0'' Purple_lab 1000 10
      (demo_new_client, demo_open_server) = ((Inr v, c'), s') \<and>
    serves s' c' nid tok \<and> authenticate_node (JStr nid) (JStr tok) (sv_lab s') \<and>
    map_of (s_nodes (sv_lab s')) nid = Some n \<and> n_status n = Online"
proof -
  have here: "sv_lab demo_open_server = init_state ''demo'' demo_open_env" "s_env (init_state ''demo'' demo_open_env) = demo_open_env"
    "hd_now (demo_at 1) = 1" by (simp_all add: demo_open_server_def init_state_def demo_at_def)
  have con: "connects demo_open_server demo_new_client"
    by (simp add: connects_def demo_open_server_def demo_loopback_def demo_new_client_def)
  have tok: "cl_enrollment_token demo_new_client \<noteq> []"
    "sv_enroll_digest demo_open_server = sha256 (utf8_encode (cl_enrollment_token demo_new_client))"
    by (simp_all add: demo_new_client_def demo_open_server_def)
  have clean: "clean_text (JStr ''alpha'') ''name'' 1 48 = Inr ''alpha''" "clean_text (JStr ''1.0'') ''version'' 1 32 = Inr ''1.0''"
    by code_simp+
  have range: "MIN_POLL_INTERVAL_MS \<le> 1000" "1000 \<le> MAX_POLL_INTERVAL_MS" "(0::int) \<le> 10" "10 \<le> MAX_JITTER_PERCENT"
    by (simp_all add: MIN_POLL_INTERVAL_MS_def MAX_POLL_INTERVAL_MS_def MAX_JITTER_PERCENT_def)
  have room: "room_for_node (init_state ''demo'' demo_open_env)" by (simp add: room_for_node_def init_state_def MAX_NODES_def)
  have env: "hex_uuids demo_open_env" "16 \<le> length (env_token demo_open_env k)" for k
    using hex_demo by (simp_all add: hex_uuids_def demo_open_env_def pad_nat_def)
  have fits: "response_fits (enrolled_json n t)"
    if "enroll_node (enroll_fields ''alpha'' ''1.0'' Purple_lab 1000 10) 1 (init_state ''demo'' demo_open_env) = (Inr (n, t), l)" for n t l
  proof -
    have "tidy (enrolled_json n t)" using tidy_node [of n] by (simp add: enrolled_json_def)
    with demo_enrolled_fits that show ?thesis by (intro short_fits) simp_all
  qed
  show ?thesis
    using node_enrolls_over_http [of read_json demo_open_server demo_new_client "''alpha''" "''1.0''" 1000 10 Purple_lab "demo_at 1" "\<lambda>_. True",
        unfolded here, OF read_json_channel con tok clean range room env] fits here(1) by blast
qed

section \<open>Leaving\<close>

lemma exchange_lab:
  assumes "request_message loads ok q = Some m" and "do_POST ok m (hd_clock h) (hd_clock' h) (hd_now h) s = (r, actor, s')"
  shows "sv_lab (snd (exchange loads ok h s q)) = sv_lab s'"
  by (simp add: exchange_def assms split: option.split)

lemma fail_others:
  "map_of (s_tasks s) tid = Some t \<Longrightarrow> t_node_id t \<noteq> nid \<Longrightarrow>
    map_of (s_tasks (fold (fail_unfinished_task nid r m) ks s)) tid = Some t"
proof (induction ks arbitrary: s)
  case (Cons k ks)
  have "map_of (s_tasks (fail_unfinished_task nid r m k s)) tid = Some t"
    using Cons.prems by (auto simp: fail_unfinished_task_def Let_def map_of_dmod split: option.split)
  with Cons.IH Cons.prems(2) show ?case by simp
qed simp

lemma fail_nodes:
  "dom (map_of (s_nodes (fold (fail_unfinished_task nid r m) ks s))) = dom (map_of (s_nodes s))"
proof (induction ks arbitrary: s)
  case (Cons k ks)
  have "dom (map_of (s_nodes (fail_unfinished_task nid r m k s))) = dom (map_of (s_nodes s))"
    by (auto simp: fail_unfinished_task_def Let_def map_of_dmod split: option.splits if_splits)
  with Cons show ?case by simp
qed simp

lemma disconnect_closes:
  assumes "authenticate_node (JStr nid) tok l"
  shows "\<exists>n. map_of (s_nodes (snd (disconnect_node (JStr nid) tok l))) nid = Some n \<and> n_status n = Offline \<and> \<not> n_session_active n"
    "map_of (s_tasks l) tid = Some t \<Longrightarrow> t_node_id t \<noteq> nid \<Longrightarrow>
      map_of (s_tasks (snd (disconnect_node (JStr nid) tok l))) tid = Some t"
proof -
  obtain n where n: "require_node_session (JStr nid) tok l = Inr (nid, n)" "map_of (s_nodes l) nid = Some n"
    using assms by (auto simp: require_node_session_def authenticate_node_def split: option.splits json.splits)
  let ?f = "fail_unfinished_tasks nid ''node_disconnected'' ''node session closed before task completion'' l"
  have "nid \<in> dom (map_of (s_nodes ?f))" using n(2) fail_nodes unfolding fail_unfinished_tasks_def by (simp add: domIff)
  then obtain k where "map_of (s_nodes ?f) nid = Some k" by blast
  then show "\<exists>n. map_of (s_nodes (snd (disconnect_node (JStr nid) tok l))) nid = Some n \<and> n_status n = Offline \<and> \<not> n_session_active n"
    by (simp add: disconnect_node_def n(1) Let_def map_of_dmod)
  assume "map_of (s_tasks l) tid = Some t" "t_node_id t \<noteq> nid"
  then have "map_of (s_tasks ?f) tid = Some t" unfolding fail_unfinished_tasks_def by (simp add: fail_others)
  then show "map_of (s_tasks (snd (disconnect_node (JStr nid) tok l))) tid = Some t"
    by (simp add: disconnect_node_def n(1) Let_def split: option.split)
qed



end
